(* ===== verification/Prelude.thy ===== *)
theory Prelude
  imports Main "HOL-Library.Char_ord" "HOL-Library.List_Lexorder"
    "HOL-Library.Signed_Division" "HOL-Library.Word"
begin

text \<open>
  What every component shares: the error values of the Go code, SQL-like operations on tables
  kept as lists of rows, decimal printing and reading of numbers (\<open>strconv.Itoa\<close>,
  \<open>strconv.Atoi\<close>), and the fact collections the component proofs use.
  Strings are Go byte strings (\<open>char list\<close>, one \<open>char\<close> per byte); Unix times and Go's
  signed \<open>int\<close>/\<open>int64\<close> are \<open>int\<close>, byte counters (\<open>uint64\<close>) are \<open>64 word\<close>.
\<close>

section \<open>Fact collections\<close>

named_theorems row_simps \<open>how the table operations change the columns of a table\<close>
named_theorems wf_intros \<open>operations keep the well-formedness of their component\<close>
named_theorems frame_simps \<open>what an operation leaves unchanged\<close>

section \<open>Errors\<close>

text \<open>
  A Go \<open>error\<close> result is a value of this type. The sentinel errors of \<open>internal/hub/store.go\<close>
  and \<open>hub.go\<close> are constructors of their own, since the callers tell them apart with
  \<open>errors.Is\<close>; a violated SQL constraint is \<open>ErrConstraint\<close>; any other error is its text.
  A run-time panic is an outcome too, never a silent default.
\<close>

datatype go_error =
    ErrNotFound
  | ErrTokenExpired
  | ErrTokenUsed
  | ErrConfTimeout
  | ErrConstraint
  | ErrMsg string
  | Panic string

type_synonym 'a result = "go_error + 'a"

abbreviation Ok :: "'a \<Rightarrow> 'a result" where "Ok \<equiv> Inr"
abbreviation Err :: "go_error \<Rightarrow> 'a result" where "Err \<equiv> Inl"

fun is_ok :: "'a result \<Rightarrow> bool" where
  "is_ok (Inl e) = False"
| "is_ok (Inr x) = True"

section \<open>Tables\<close>

text \<open>
  A table is the list of its rows in rowid order. \<open>upd_where\<close> is \<open>UPDATE ... WHERE\<close>,
  \<open>del_where\<close> is \<open>DELETE ... WHERE\<close>, \<open>List.find\<close> reads the first matching row.
\<close>

definition upd_where :: "('a \<Rightarrow> bool) \<Rightarrow> ('a \<Rightarrow> 'a) \<Rightarrow> 'a list \<Rightarrow> 'a list" where
  "upd_where P f rows = map (\<lambda>r. if P r then f r else r) rows"

definition del_where :: "('a \<Rightarrow> bool) \<Rightarrow> 'a list \<Rightarrow> 'a list" where
  "del_where P rows = filter (\<lambda>r. \<not> P r) rows"

lemma set_upd_where [simp, row_simps]:
  "set (upd_where P f rows) = (\<lambda>r. if P r then f r else r) ` set rows"
  by (simp add: upd_where_def)

lemma set_del_where [simp, row_simps]: "set (del_where P rows) = {r \<in> set rows. \<not> P r}"
  by (simp add: del_where_def)

lemma upd_where_Nil [simp]: "upd_where P f [] = []"
  and upd_where_Cons [simp]:
    "upd_where P f (r # rows) = (if P r then f r else r) # upd_where P f rows"
  by (simp_all add: upd_where_def)

lemma del_where_Nil [simp]: "del_where P [] = []"
  and del_where_Cons [simp]:
    "del_where P (r # rows) = (if P r then del_where P rows else r # del_where P rows)"
  by (simp_all add: del_where_def)

lemma map_upd_where [row_simps]:
  "(\<And>r. P r \<Longrightarrow> k (f r) = k r) \<Longrightarrow> map k (upd_where P f rows) = map k rows"
  by (induction rows) auto

lemma upd_where_none: "(\<And>r. r \<in> set rows \<Longrightarrow> \<not> P r) \<Longrightarrow> upd_where P f rows = rows"
  by (induction rows) auto

lemma distinct_del_where [row_simps, intro]:
  "distinct (map k rows) \<Longrightarrow> distinct (map k (del_where P rows))"
  by (simp add: del_where_def distinct_map_filter)

lemma distinct_snoc [row_simps]:
  "distinct (map k (rows @ [r])) \<longleftrightarrow> distinct (map k rows) \<and> k r \<notin> k ` set rows"
  by auto

text \<open>An \<open>INSERT OR REPLACE\<close> on the key column \<open>k\<close>.\<close>

definition put_row :: "('a \<Rightarrow> 'k) \<Rightarrow> 'a \<Rightarrow> 'a list \<Rightarrow> 'a list" where
  "put_row k r rows = del_where (\<lambda>q. k q = k r) rows @ [r]"

lemma set_put_row [simp, row_simps]:
  "set (put_row k r rows) = insert r {q \<in> set rows. k q \<noteq> k r}"
  by (auto simp: put_row_def)

lemma distinct_put_row [row_simps, intro]:
  "distinct (map k rows) \<Longrightarrow> distinct (map k (put_row k r rows))"
  by (auto simp: put_row_def distinct_snoc intro: distinct_del_where)

lemma find_key_Some:
  assumes "distinct (map k rows)" and "r \<in> set rows" and "k r = a"
  shows "find (\<lambda>q. k q = a) rows = Some r"
  using assms by (induction rows) (auto split: if_splits)

lemma find_SomeD: "find P rows = Some r \<Longrightarrow> r \<in> set rows \<and> P r"
  by (induction rows) (auto split: if_splits)

lemma find_NoneD: "find P rows = None \<Longrightarrow> r \<in> set rows \<Longrightarrow> \<not> P r"
  by (auto simp: find_None_iff)

lemma find_upd_where_same:
  assumes "find (\<lambda>q. k q = a) rows = Some r" and "\<And>q. k (f q) = k q"
  shows "find (\<lambda>q. k q = a) (upd_where (\<lambda>q. k q = a) f rows) = Some (f r)"
  using assms by (induction rows) (auto split: if_splits)

lemma find_upd_where_other:
  assumes "\<And>q. P q \<Longrightarrow> k q \<noteq> a" and "\<And>q. P q \<Longrightarrow> k (f q) \<noteq> a"
  shows "find (\<lambda>q. k q = a) (upd_where P f rows) = find (\<lambda>q. k q = a) rows"
  using assms by (induction rows) auto

lemma find_del_where_same: "find P (del_where P rows) = None"
  by (auto simp: find_None_iff)

lemma find_put_row_same: "find (\<lambda>q. k q = k r) (put_row k r rows) = Some r"
  by (induction rows) (auto simp: put_row_def)

section \<open>Decimal numbers\<close>

definition digit_char :: "nat \<Rightarrow> char" where
  "digit_char d = char_of (48 + d)"

definition is_digit :: "char \<Rightarrow> bool" where
  "is_digit c \<longleftrightarrow> 48 \<le> (of_char c :: nat) \<and> (of_char c :: nat) \<le> 57"

definition digit_val :: "char \<Rightarrow> nat" where
  "digit_val c = of_char c - 48"

fun itoa :: "nat \<Rightarrow> string" where
  "itoa n = (if n < 10 then [] else itoa (n div 10)) @ [digit_char (n mod 10)]"

declare itoa.simps [simp del]

definition digits_val :: "string \<Rightarrow> nat" where
  "digits_val s = foldl (\<lambda>v c. v * 10 + digit_val c) 0 s"

definition atoi_nat :: "string \<Rightarrow> nat option" where
  "atoi_nat s = (if s \<noteq> [] \<and> list_all is_digit s then Some (digits_val s) else None)"

definition itoa_int :: "int \<Rightarrow> string" where
  "itoa_int i = (if i < 0 then CHR ''-'' # itoa (nat (- i)) else itoa (nat i))"

lemma digit_char_props [simp]:
  assumes "d < 10"
  shows "is_digit (digit_char d)" and "digit_val (digit_char d) = d"
  using assms by (simp_all add: digit_char_def is_digit_def digit_val_def of_char_of)

lemma itoa_digits: "list_all is_digit (itoa n)"
proof (induction n rule: itoa.induct)
  case (1 n)
  then show ?case by (subst itoa.simps) simp
qed

lemma itoa_not_Nil [simp]: "itoa n \<noteq> []"
  by (subst itoa.simps) simp

lemma digits_val_snoc: "digits_val (s @ [c]) = digits_val s * 10 + digit_val c"
  by (simp add: digits_val_def)

lemma digits_val_itoa: "digits_val (itoa n) = n"
proof (induction n rule: itoa.induct)
  case (1 n)
  show ?case
  proof (cases "n < 10")
    case True
    then show ?thesis by (subst itoa.simps) (simp add: digits_val_def)
  next
    case False
    then have "digits_val (itoa n) = digits_val (itoa (n div 10)) * 10 + n mod 10"
      by (subst itoa.simps) (simp add: digits_val_snoc)
    with 1 False show ?thesis by simp
  qed
qed

lemma atoi_itoa [simp]: "atoi_nat (itoa n) = Some n"
  by (simp add: atoi_nat_def itoa_digits digits_val_itoa)

lemma itoa_inject [simp]: "itoa m = itoa n \<longleftrightarrow> m = n"
  by (metis digits_val_itoa)

lemma itoa_no_char: "\<not> is_digit c \<Longrightarrow> c \<notin> set (itoa n)"
  using itoa_digits [of n] by (auto simp: list_all_iff)

lemma itoa_small: "n < 10 \<Longrightarrow> itoa n = [digit_char n]"
  by (subst itoa.simps) simp

lemma itoa_step: "10 \<le> n \<Longrightarrow> itoa n = itoa (n div 10) @ [digit_char (n mod 10)]"
  by (subst itoa.simps) simp

lemma itoa_head:
  assumes "0 < n"
  shows "hd (itoa n) \<noteq> CHR ''0''"
  using assms
proof (induction n rule: itoa.induct)
  case (1 n)
  show ?case
  proof (cases "n < 10")
    case True
    have "digit_val CHR ''0'' = 0" by (simp add: digit_val_def)
    then have "digit_char n \<noteq> CHR ''0''"
      using digit_char_props(2) [OF True] 1 by auto
    with True show ?thesis by (simp add: itoa_small)
  next
    case False
    with 1 show ?thesis by (subst itoa.simps) simp
  qed
qed

section \<open>Machines with an invariant\<close>

text \<open>
  Many components are a state and a set of operations. A component that shows its invariant
  once for each operation gets it for every sequence of operations from this interface.
\<close>

fun run_ops :: "('op \<Rightarrow> 's \<Rightarrow> 's) \<Rightarrow> 'op list \<Rightarrow> 's \<Rightarrow> 's" where
  "run_ops exec [] s = s"
| "run_ops exec (c # cs) s = run_ops exec cs (exec c s)"

lemma run_ops_append: "run_ops exec (cs @ ds) s = run_ops exec ds (run_ops exec cs s)"
  by (induction cs arbitrary: s) auto

locale invariant_machine =
  fixes exec :: "'op \<Rightarrow> 's \<Rightarrow> 's"
    and allowed :: "'op \<Rightarrow> bool"
    and inv :: "'s \<Rightarrow> bool"
  assumes step_inv: "allowed c \<Longrightarrow> inv s \<Longrightarrow> inv (exec c s)"
begin

lemma run_inv: "list_all allowed cs \<Longrightarrow> inv s \<Longrightarrow> inv (run_ops exec cs s)"
  by (induction cs arbitrary: s) (auto intro: step_inv)

end

section \<open>Words\<close>

lemma unat_minus_le: "y \<le> x \<Longrightarrow> unat (x - y) = unat x - unat (y :: 'a::len word)"
  by (simp add: unat_sub word_le_nat_alt)

end
