(* ===== verification/Netip.thy ===== *)
theory Netip
  imports Prelude
begin

unbundle bit_operations_syntax

text \<open>
  What the hub uses of Go's \<open>net/netip\<close>, for IPv4: addresses as \<open>32 word\<close>, their dotted-decimal
  text (\<open>Addr.String\<close>), \<open>ParseAddr\<close>, \<open>ParsePrefix\<close>, \<open>Prefix.Masked\<close>, \<open>Prefix.Contains\<close>
  and \<open>Addr.Next\<close>; and \<open>lastAddr\<close> of \<open>internal/hub/store.go\<close>, with the proof that its byte
  loop is the usual mask. IPv6 overlays are not modelled: their texts are a parse error here.
\<close>

type_synonym ipv4 = "32 word"
type_synonym prefix = "ipv4 \<times> nat"

section \<open>Text\<close>

definition As4 :: "ipv4 \<Rightarrow> 8 word list" where
  "As4 a = [ucast (drop_bit 24 a), ucast (drop_bit 16 a), ucast (drop_bit 8 a), ucast a]"

definition AddrFrom4 :: "8 word list \<Rightarrow> ipv4" where
  "AddrFrom4 bs = push_bit 24 (ucast (bs ! 0)) OR push_bit 16 (ucast (bs ! 1))
     OR push_bit 8 (ucast (bs ! 2)) OR ucast (bs ! 3)"

definition dotted :: "nat list \<Rightarrow> string" where
  "dotted fs = itoa (fs ! 0) @ CHR ''.'' # itoa (fs ! 1) @ CHR ''.'' # itoa (fs ! 2)
     @ CHR ''.'' # itoa (fs ! 3)"

definition addr_String :: "ipv4 \<Rightarrow> string" where
  "addr_String a = dotted (map unat (As4 a))"

text \<open>
  The scanning loop of the parser: the value and the number of digits of the current field, the
  finished fields, the rest of the text. A field is empty exactly when it has no digit.
\<close>

fun v4_loop :: "nat \<Rightarrow> nat \<Rightarrow> nat list \<Rightarrow> string \<Rightarrow> nat list option" where
  "v4_loop v d fs [] = (if length fs < 3 then None else Some (fs @ [v]))"
| "v4_loop v d fs (c # s) =
     (if is_digit c then
        (if d = 1 \<and> v = 0 then None
         else let v' = v * 10 + digit_val c in
              if v' > 255 then None else v4_loop v' (Suc d) fs s)
      else if c = CHR ''.'' then
        (if d = 0 \<or> s = [] \<or> length fs = 3 then None else v4_loop 0 0 (fs @ [v]) s)
      else None)"

definition ParseAddr :: "string \<Rightarrow> ipv4 option" where
  "ParseAddr s = map_option (\<lambda>fs. AddrFrom4 (map of_nat fs)) (v4_loop 0 0 [] s)"

text \<open>The text before and after the last slash.\<close>

definition cut_last_slash :: "string \<Rightarrow> (string \<times> string) option" where
  "cut_last_slash s =
     (let r = rev s; after = takeWhile (\<lambda>c. c \<noteq> CHR ''/'') r in
      case drop (length after) r of
        [] \<Rightarrow> None
      | _ # ahead \<Rightarrow> Some (rev ahead, rev after))"

definition ParsePrefix :: "string \<Rightarrow> prefix result" where
  "ParsePrefix s =
     (case cut_last_slash s of
        None \<Rightarrow> Err (ErrMsg ''no slash'')
      | Some (ip, bits) \<Rightarrow>
          (case ParseAddr ip of
             None \<Rightarrow> Err (ErrMsg ''unable to parse IP'')
           | Some a \<Rightarrow>
               if length bits > 1 \<and> hd bits = CHR ''0'' then Err (ErrMsg ''bad bits after slash'')
               else (case atoi_nat bits of
                 None \<Rightarrow> Err (ErrMsg ''bad bits after slash'')
               | Some n \<Rightarrow> if n > 32 then Err (ErrMsg ''prefix length out of range'') else Ok (a, n))))"

section \<open>Prefixes\<close>

definition masked :: "prefix \<Rightarrow> ipv4" where
  "masked p = fst p AND NOT (mask (32 - snd p))"

definition contains :: "prefix \<Rightarrow> ipv4 \<Rightarrow> bool" where
  "contains p ip \<longleftrightarrow> drop_bit (32 - snd p) (ip XOR fst p) = 0"

definition Next :: "ipv4 \<Rightarrow> ipv4 option" where
  "Next ip = (if ip = - 1 then None else Some (ip + 1))"

text \<open>\<open>lastAddr\<close> sets the host bits one by one in the four bytes of the network address.\<close>

definition set_host_bit :: "nat \<Rightarrow> 8 word list \<Rightarrow> 8 word list" where
  "set_host_bit i a = a[i div 8 := (a ! (i div 8)) OR push_bit (7 - i mod 8) 1]"

definition lastAddr :: "prefix \<Rightarrow> ipv4" where
  "lastAddr p = AddrFrom4 (fold set_host_bit [snd p..<32] (As4 (masked p)))"

section \<open>The printed address reads back\<close>

lemma v4_loop_itoa:
  assumes "n < 256" and "rest \<noteq> [] \<longrightarrow> hd rest = CHR ''.''"
  shows "\<exists>d > 0. v4_loop 0 0 fs (itoa n @ rest) = v4_loop n d fs rest"
proof -
  consider "n < 10" | "10 \<le> n" "n < 100" | "100 \<le> n" by linarith
  then show ?thesis
  proof cases
    case 1
    then show ?thesis by (auto simp: itoa_small intro!: exI [of _ "Suc 0"])
  next
    case 2
    then have "itoa n = [digit_char (n div 10), digit_char (n mod 10)]"
      by (simp add: itoa_step itoa_small)
    moreover have "n div 10 < 10" "n div 10 \<noteq> 0" "n mod 10 < 10" using 2 by auto
    moreover have "n div 10 * 10 + n mod 10 = n" "n div 10 \<le> 255" "\<not> 255 < n"
      using 2 by auto
    ultimately have "v4_loop 0 0 fs (itoa n @ rest) = v4_loop n (Suc (Suc 0)) fs rest"
      by (simp add: Let_def)
    then show ?thesis by blast
  next
    case 3
    let ?a = "n div 10 div 10" and ?b = "n div 10 mod 10" and ?c = "n mod 10"
    have "itoa n = [digit_char ?a, digit_char ?b, digit_char ?c]"
      using 3 assms(1) itoa_step [of n] itoa_step [of "n div 10"] itoa_small [of ?a] by simp
    moreover have "?a < 10" "?a \<noteq> 0" "?b < 10" "?c < 10" using 3 assms(1) by auto
    moreover have "?a * 10 + ?b = n div 10" "n div 10 * 10 + ?c = n" by presburger+
    moreover have "n div 10 \<noteq> 0" "n div 10 \<le> 255" "?a \<le> 255" "\<not> 255 < n"
      using 3 assms(1) by auto
    ultimately have "v4_loop 0 0 fs (itoa n @ rest) = v4_loop n (Suc (Suc (Suc 0))) fs rest"
      by (simp add: Let_def)
    then show ?thesis by blast
  qed
qed

lemma is_digit_dot [simp]: "\<not> is_digit CHR ''.''"
  by (simp add: is_digit_def)

lemma v4_loop_field:
  assumes "n < 256" and "length fs < 3" and "s \<noteq> []"
  shows "v4_loop 0 0 fs (itoa n @ CHR ''.'' # s) = v4_loop 0 0 (fs @ [n]) s"
  using v4_loop_itoa [OF assms(1), of "CHR ''.'' # s" fs] assms(2,3) by auto

lemma v4_loop_last:
  assumes "n < 256" and "length fs = 3"
  shows "v4_loop 0 0 fs (itoa n) = Some (fs @ [n])"
  using v4_loop_itoa [OF assms(1), of "[]" fs] assms(2) by auto

lemma v4_loop_dotted:
  assumes "length fs = 4" and "\<forall>n \<in> set fs. n < 256"
  shows "v4_loop 0 0 [] (dotted fs) = Some fs"
proof -
  obtain a b c d where fs: "fs = [a, b, c, d]"
    using assms(1) by (auto simp: numeral_eq_Suc length_Suc_conv)
  show ?thesis using assms(2) by (simp add: fs dotted_def v4_loop_field v4_loop_last)
qed

lemma byte_less [simp]: "unat (w :: 8 word) < 256"
  using unsigned_less [of w, where 'a = nat] by simp

lemma bit_AddrFrom4:
  assumes "length bs = 4"
  shows "bit (AddrFrom4 bs) n \<longleftrightarrow> n < 32 \<and> bit (bs ! (3 - n div 8)) (n mod 8)"
proof -
  consider "n < 8" | "8 \<le> n" "n < 16" | "16 \<le> n" "n < 24" | "24 \<le> n" "n < 32" | "32 \<le> n"
    by linarith
  then show ?thesis
  proof cases
    case 1
    then show ?thesis by (simp add: AddrFrom4_def bit_simps)
  next
    case 2
    then have "n div 8 = 1" "n mod 8 = n - 8" by presburger+
    with 2 show ?thesis by (auto simp: AddrFrom4_def bit_simps dest: bit_imp_le_length)
  next
    case 3
    then have "n div 8 = 2" "n mod 8 = n - 16" by presburger+
    with 3 show ?thesis by (auto simp: AddrFrom4_def bit_simps dest: bit_imp_le_length)
  next
    case 4
    then have "n div 8 = 3" "n mod 8 = n - 24" by presburger+
    with 4 show ?thesis by (auto simp: AddrFrom4_def bit_simps dest: bit_imp_le_length)
  next
    case 5
    then show ?thesis by (auto dest: bit_imp_le_length)
  qed
qed

lemma bit_As4:
  assumes "i < 4" and "j < 8"
  shows "bit (As4 a ! i) j \<longleftrightarrow> bit a (8 * (3 - i) + j)"
proof -
  consider "i = 0" | "i = 1" | "i = 2" | "i = 3" using assms(1) by linarith
  then show ?thesis using assms(2) by cases (simp_all add: As4_def bit_simps)
qed

lemma length_As4 [simp]: "length (As4 a) = 4"
  by (simp add: As4_def)

lemma AddrFrom4_As4 [simp]: "AddrFrom4 (As4 a) = a"
proof (rule bit_word_eqI)
  fix n
  assume "n < LENGTH(32)"
  then have "3 - n div 8 < 4" "8 * (3 - (3 - n div 8)) + n mod 8 = n" "n < 32"
    by auto
  then show "bit (AddrFrom4 (As4 a)) n = bit a n"
    by (simp only: bit_AddrFrom4 bit_As4 length_As4) (simp add: bit_As4)
qed

lemma ParseAddr_String: "ParseAddr (addr_String a) = Some a"
proof -
  have "v4_loop 0 0 [] (addr_String a) = Some (map unat (As4 a))"
    unfolding addr_String_def by (rule v4_loop_dotted) auto
  then show ?thesis by (simp add: ParseAddr_def o_def)
qed

lemma addr_String_inject [simp]: "addr_String a = addr_String b \<longleftrightarrow> a = b"
  by (metis ParseAddr_String option.inject)

section \<open>Prefixes as intervals of addresses\<close>

text \<open>The host part of a prefix has \<open>host_bits\<close> bits; the addresses of the prefix are a block.\<close>

definition host_bits :: "prefix \<Rightarrow> nat" where
  "host_bits p = 32 - snd p"

definition net_num :: "prefix \<Rightarrow> nat" where
  "net_num p = unat (fst p) div 2 ^ host_bits p * 2 ^ host_bits p"

lemma unat_masked: "unat (masked p) = net_num p"
proof -
  have "fst p AND NOT (mask (host_bits p)) = push_bit (host_bits p) (drop_bit (host_bits p) (fst p))"
    by (rule bit_word_eqI) (auto simp: bit_simps)
  moreover have "unat (push_bit k (drop_bit k w)) = unat w div 2 ^ k * 2 ^ k" for k and w :: ipv4
  proof -
    have "unat w div 2 ^ k * 2 ^ k \<le> unat w" by simp
    also have "\<dots> < 2 ^ 32" using unsigned_less [of w, where 'a = nat] by simp
    finally have "take_bit 32 (unat w div 2 ^ k * 2 ^ k) = unat w div 2 ^ k * 2 ^ k"
      by (simp add: take_bit_eq_mod)
    then show ?thesis
      by (simp only: unsigned_push_bit_eq unat_drop_bit_eq)
        (simp add: push_bit_eq_mult drop_bit_eq_div)
  qed
  ultimately show ?thesis by (simp add: masked_def net_num_def host_bits_def)
qed

lemma contains_div:
  "contains p ip \<longleftrightarrow> unat ip div 2 ^ host_bits p = unat (fst p) div 2 ^ host_bits p"
proof -
  have "contains p ip \<longleftrightarrow> drop_bit (host_bits p) ip = drop_bit (host_bits p) (fst p)"
    by (auto simp: contains_def host_bits_def bit_eq_iff bit_simps)
  also have "\<dots> \<longleftrightarrow> unat (drop_bit (host_bits p) ip) = unat (drop_bit (host_bits p) (fst p))"
    by (simp add: unsigned_word_eqI word_unat_eq_iff)
  finally show ?thesis by (simp only: unat_drop_bit_eq) (simp only: drop_bit_eq_div)
qed

lemma div_block:
  assumes "0 < m"
  shows "x div m = q \<longleftrightarrow> q * m \<le> x \<and> x < q * m + (m :: nat)"
proof
  assume "x div m = q"
  then show "q * m \<le> x \<and> x < q * m + m"
    using div_times_less_eq_dividend [of x m] dividend_less_div_times [OF assms, of x] by auto
next
  assume "q * m \<le> x \<and> x < q * m + m"
  then show "x div m = q" by (intro div_nat_eqI) (auto simp: algebra_simps)
qed

lemma contains_interval:
  "contains p ip \<longleftrightarrow> net_num p \<le> unat ip \<and> unat ip < net_num p + 2 ^ host_bits p"
  by (simp add: contains_div net_num_def div_block)

lemma net_block_fits: "net_num p + 2 ^ host_bits p \<le> 2 ^ 32"
proof -
  let ?m = "2 ^ host_bits p :: nat"
  have m: "(2 :: nat) ^ 32 = 2 ^ (32 - host_bits p) * ?m"
    by (simp add: host_bits_def power_add [symmetric])
  have "unat (fst p) div ?m < 2 ^ (32 - host_bits p)"
    using unsigned_less [of "fst p", where 'a = nat] m by (simp add: less_mult_imp_div_less)
  then have "Suc (unat (fst p) div ?m) * ?m \<le> 2 ^ (32 - host_bits p) * ?m"
    by (intro mult_right_mono) simp_all
  then show ?thesis using m by (simp add: net_num_def)
qed

section \<open>The last address\<close>

lemma length_set_host_bit [simp]: "length (set_host_bit i bs) = length bs"
  by (simp add: set_host_bit_def)

lemma byte_index:
  fixes n :: nat
  assumes "n < 32"
  shows "(31 - n) div 8 = 3 - n div 8" and "(31 - n) mod 8 = 7 - n mod 8"
proof -
  have n: "8 * (n div 8) + n mod 8 = n" "n mod 8 < 8" "n div 8 < 4" using assms by auto
  have "31 - n = (7 - n mod 8) + (3 - n div 8) * 8"
    using n by (subst n(1) [symmetric]) linarith
  then show "(31 - n) div 8 = 3 - n div 8" "(31 - n) mod 8 = 7 - n mod 8"
    by (simp_all only: div_mult_self1 mod_mult_self1) simp_all
qed

lemma bit_set_host_bit:
  assumes "length bs = 4" and "i < 32" and "n < 32"
  shows "bit (AddrFrom4 (set_host_bit i bs)) n \<longleftrightarrow> bit (AddrFrom4 bs) n \<or> n = 31 - i"
proof -
  let ?m = "31 - i"
  have m: "i div 8 = 3 - ?m div 8" "7 - i mod 8 = ?m mod 8" "?m < 32"
    using byte_index [OF assms(2)] assms(2) by auto
  have q: "3 - n div 8 = 3 - ?m div 8 \<longleftrightarrow> n div 8 = ?m div 8"
  proof -
    have "n div 8 < 4" "?m div 8 < 4" using assms(3) m(3) by auto
    then show ?thesis by linarith
  qed
  have "n div 8 = ?m div 8 \<and> n mod 8 = ?m mod 8 \<longleftrightarrow> n = ?m"
    by (metis div_mult_mod_eq)
  moreover have "bit (push_bit (?m mod 8) (1 :: 8 word)) (n mod 8) \<longleftrightarrow> n mod 8 = ?m mod 8"
    by (auto simp: bit_simps)
  moreover have "3 - ?m div 8 < 4" by auto
  ultimately show ?thesis using assms(1,3) q
    by (cases "n div 8 = ?m div 8")
      (auto simp: bit_AddrFrom4 set_host_bit_def m(1,2) bit_or_iff nth_list_update)
qed

lemma bit_fold_host_bits:
  assumes "length bs = 4" and "n < 32" and "\<forall>i \<in> set is. i < 32"
  shows "bit (AddrFrom4 (fold set_host_bit is bs)) n
    \<longleftrightarrow> bit (AddrFrom4 bs) n \<or> (\<exists>i \<in> set is. n = 31 - i)"
  using assms by (induction "is" arbitrary: bs) (auto simp: bit_set_host_bit)

lemma lastAddr_mask: "lastAddr p = masked p OR mask (32 - snd p)"
proof (rule bit_word_eqI)
  fix n
  assume "n < LENGTH(32)"
  then have n: "n < 32" by simp
  have "(\<exists>i \<in> {snd p..<32}. n = 31 - i) \<longleftrightarrow> n < 32 - snd p"
    using n by (auto intro!: bexI [of _ "31 - n"])
  then show "bit (lastAddr p) n = bit (masked p OR mask (32 - snd p)) n"
    unfolding lastAddr_def using n
    by (subst bit_fold_host_bits) (auto simp: bit_simps)
qed

lemma unat_lastAddr: "unat (lastAddr p) = net_num p + 2 ^ host_bits p - 1"
proof -
  have "masked p AND mask (32 - snd p) = 0"
    by (rule bit_word_eqI) (auto simp: masked_def bit_simps)
  then have sum: "lastAddr p = masked p + mask (32 - snd p)"
    by (simp add: lastAddr_mask disjunctive_add_eq_or)
  have m: "unat (mask k :: ipv4) = 2 ^ k - 1" if "k \<le> 32" for k
  proof -
    have "(2 :: nat) ^ k \<le> 2 ^ 32" using that by (rule power_increasing) simp
    then have "take_bit 32 (2 ^ k - 1 :: nat) = 2 ^ k - 1"
      by (intro take_bit_nat_eq_self) (simp add: Suc_le_eq [symmetric])
    moreover have "mask k = (of_nat (2 ^ k - 1) :: ipv4)" by (simp add: mask_eq_exp_minus_1)
    ultimately show ?thesis by (simp only: unsigned_of_nat) simp
  qed
  have "0 < (2 :: nat) ^ host_bits p" by simp
  then have "net_num p + (2 ^ host_bits p - 1) < 2 ^ 32"
    using net_block_fits [of p] by linarith
  then show ?thesis
    using m [of "32 - snd p"] by (simp add: sum unat_masked host_bits_def unat_word_ariths)
qed

end
