(* ===== verification/Store.thy ===== *)
theory Store
  imports Prelude
begin

text \<open>
  \<open>internal/hub/store.go\<close>: the hub's SQLite database. The state is a record with one list of
  rows per table, in rowid order; every operation is the effect of its SQL statements in the
  order the method runs them. A violated \<open>PRIMARY KEY\<close>, \<open>UNIQUE\<close> or \<open>REFERENCES\<close>
  constraint is \<open>ErrConstraint\<close>; failures of the disk below SQLite are not modelled.
  Fresh ULIDs, the random bytes of a token and the SHA-256 function are arguments.
\<close>

section \<open>Tables\<close>

record node =
  node_ID :: string
  node_Name :: string
  node_OverlayIP :: string
  node_CertSerial :: string
  node_CreatedAt :: int
  node_LastSeen :: int
  node_Revoked :: bool

record link =
  link_ID :: string
  link_A :: string
  link_B :: string
  link_CreatedAt :: int
  link_ExitNode :: string

record token_row =
  tok_id :: string
  tok_hash :: string
  tok_note :: string
  tok_expires_at :: int
  tok_used_at :: "int option"

record token =
  token_ID :: string
  token_Note :: string
  token_ExpiresAt :: int
  token_UsedAt :: int
  token_Prefix :: string

record admin_row =
  adm_id :: string
  adm_username :: string
  adm_pw_hash :: string

record svc_name_row =
  sn_node_id :: string
  sn_alias :: string
  sn_display :: string

record store =
  st_nodes :: "node list"
  st_links :: "link list"
  st_tokens :: "token_row list"
  st_admins :: "admin_row list"
  st_cooldown :: "(string \<times> int) list"
  st_svc_names :: "svc_name_row list"

definition empty_store :: store where
  "empty_store = \<lparr>st_nodes = [], st_links = [], st_tokens = [], st_admins = [],
     st_cooldown = [], st_svc_names = []\<rparr>"

section \<open>Nodes\<close>

definition CreateNode :: "node \<Rightarrow> store \<Rightarrow> store \<times> unit result" where
  "CreateNode n db =
     (if \<exists>r \<in> set (st_nodes db). node_ID r = node_ID n \<or> node_OverlayIP r = node_OverlayIP n
      then (db, Err ErrConstraint)
      else (db\<lparr>st_nodes := st_nodes db @ [n\<lparr>node_Revoked := False\<rparr>]\<rparr>, Ok ()))"

definition GetNode :: "string \<Rightarrow> store \<Rightarrow> node result" where
  "GetNode nid db =
     (case find (\<lambda>n. node_ID n = nid) (st_nodes db) of
        None \<Rightarrow> Err ErrNotFound
      | Some n \<Rightarrow> Ok n)"

definition ListNodes :: "store \<Rightarrow> node list" where
  "ListNodes db = sort_key node_CreatedAt (filter (\<lambda>n. \<not> node_Revoked n) (st_nodes db))"

definition RenameNode :: "string \<Rightarrow> string \<Rightarrow> store \<Rightarrow> store \<times> unit result" where
  "RenameNode nid name db =
     (let hit = (\<lambda>n. node_ID n = nid \<and> \<not> node_Revoked n) in
      if \<exists>n \<in> set (st_nodes db). hit n
      then (db\<lparr>st_nodes := upd_where hit (\<lambda>n. n\<lparr>node_Name := name\<rparr>) (st_nodes db)\<rparr>, Ok ())
      else (db, Err ErrNotFound))"

definition TouchNode :: "string \<Rightarrow> int \<Rightarrow> store \<Rightarrow> store" where
  "TouchNode nid ts db =
     db\<lparr>st_nodes := upd_where (\<lambda>n. node_ID n = nid) (\<lambda>n. n\<lparr>node_LastSeen := ts\<rparr>) (st_nodes db)\<rparr>"

definition UpdateCertSerial :: "string \<Rightarrow> string \<Rightarrow> store \<Rightarrow> store" where
  "UpdateCertSerial nid serial db =
     db\<lparr>st_nodes :=
          upd_where (\<lambda>n. node_ID n = nid) (\<lambda>n. n\<lparr>node_CertSerial := serial\<rparr>) (st_nodes db)\<rparr>"

definition RevokedSerials :: "store \<Rightarrow> string list" where
  "RevokedSerials db = map node_CertSerial (filter node_Revoked (st_nodes db))"

definition touches :: "string \<Rightarrow> link \<Rightarrow> bool" where
  "touches nid l \<longleftrightarrow> link_A l = nid \<or> link_B l = nid"

definition LinksOfNode :: "string \<Rightarrow> store \<Rightarrow> link list" where
  "LinksOfNode nid db = filter (touches nid) (st_links db)"

definition freed_ip :: "string \<Rightarrow> string" where
  "freed_ip nid = ''freed:'' @ nid"

text \<open>
  The transaction of \<open>DeleteNode\<close>: when the \<open>UPDATE\<close> of \<open>overlay_ip\<close> would break its
  \<open>UNIQUE\<close> constraint, the deferred rollback leaves the database as it was.
\<close>

definition DeleteNode :: "string \<Rightarrow> int \<Rightarrow> store \<Rightarrow> store \<times> (node \<times> link list) result" where
  "DeleteNode nid now db =
     (case GetNode nid db of
        Inl e \<Rightarrow> (db, Err e)
      | Inr node \<Rightarrow>
          (let links = LinksOfNode nid db in
           if \<exists>n \<in> set (st_nodes db). node_ID n \<noteq> nid \<and> node_OverlayIP n = freed_ip nid
           then (db, Err ErrConstraint)
           else
             (db\<lparr>st_links := del_where (touches nid) (st_links db),
                 st_nodes := upd_where (\<lambda>n. node_ID n = nid)
                   (\<lambda>n. n\<lparr>node_Revoked := True, node_OverlayIP := freed_ip nid\<rparr>) (st_nodes db),
                 st_cooldown := put_row fst (node_OverlayIP node, now) (st_cooldown db),
                 st_svc_names := del_where (\<lambda>r. sn_node_id r = nid) (st_svc_names db)\<rparr>,
              Ok (node, links))))"

section \<open>Service display names\<close>

definition SvcNames :: "string \<Rightarrow> store \<Rightarrow> (string \<rightharpoonup> string)" where
  "SvcNames nodeID db =
     map_of (rev (map (\<lambda>r. (sn_alias r, sn_display r))
       (filter (\<lambda>r. sn_node_id r = nodeID) (st_svc_names db))))"

definition svc_name_key :: "svc_name_row \<Rightarrow> string \<times> string" where
  "svc_name_key r = (sn_node_id r, sn_alias r)"

definition SetSvcName :: "string \<Rightarrow> string \<Rightarrow> string \<Rightarrow> store \<Rightarrow> store" where
  "SetSvcName nodeID alias display db =
     (if display = []
      then db\<lparr>st_svc_names := del_where (\<lambda>r. sn_node_id r = nodeID \<and> sn_alias r = alias)
                (st_svc_names db)\<rparr>
      else db\<lparr>st_svc_names := put_row svc_name_key
                \<lparr>sn_node_id = nodeID, sn_alias = alias, sn_display = display\<rparr> (st_svc_names db)\<rparr>)"

text \<open>
  \<open>PruneSvcNames\<close> deletes the overrides of a node one by one; the loop over the Go map visits
  each alias once, in any order, here in the order of the rows.
\<close>

fun prune_loop :: "string \<Rightarrow> string list \<Rightarrow> string list \<Rightarrow> store \<Rightarrow> store \<times> nat" where
  "prune_loop nodeID keep [] db = (db, 0)"
| "prune_loop nodeID keep (alias # rest) db =
     (if alias \<in> set keep then prune_loop nodeID keep rest db
      else
        (let db' = db\<lparr>st_svc_names :=
               del_where (\<lambda>r. sn_node_id r = nodeID \<and> sn_alias r = alias) (st_svc_names db)\<rparr>;
             (db'', removed) = prune_loop nodeID keep rest db'
         in (db'', Suc removed)))"

definition PruneSvcNames :: "string \<Rightarrow> string list \<Rightarrow> store \<Rightarrow> store \<times> nat" where
  "PruneSvcNames nodeID keep db =
     prune_loop nodeID keep
       (map sn_alias (filter (\<lambda>r. sn_node_id r = nodeID) (st_svc_names db))) db"

section \<open>Links\<close>

definition Other :: "link \<Rightarrow> string \<Rightarrow> string" where
  "Other l nid = (if link_A l = nid then link_B l else link_A l)"

definition CreateLink :: "string \<Rightarrow> string \<Rightarrow> string \<Rightarrow> int \<Rightarrow> store \<Rightarrow> store \<times> link result" where
  "CreateLink ulid a b now db =
     (if a = b then (db, Err (ErrMsg ''cannot link a node to itself''))
      else
        (let lo = min a b; hi = max a b;
             l = \<lparr>link_ID = ulid, link_A = lo, link_B = hi, link_CreatedAt = now, link_ExitNode = []\<rparr>
         in
           if (\<exists>r \<in> set (st_links db). link_ID r = ulid \<or> link_A r = lo \<and> link_B r = hi)
              \<or> lo \<notin> node_ID ` set (st_nodes db) \<or> hi \<notin> node_ID ` set (st_nodes db)
           then (db, Err ErrConstraint)
           else (db\<lparr>st_links := st_links db @ [l]\<rparr>, Ok l)))"

definition GetLink :: "string \<Rightarrow> store \<Rightarrow> link result" where
  "GetLink lid db =
     (case find (\<lambda>l. link_ID l = lid) (st_links db) of
        None \<Rightarrow> Err ErrNotFound
      | Some l \<Rightarrow> Ok l)"

definition SetLinkExit :: "string \<Rightarrow> string \<Rightarrow> store \<Rightarrow> store \<times> link result" where
  "SetLinkExit lid exitNode db =
     (case GetLink lid db of
        Inl e \<Rightarrow> (db, Err e)
      | Inr l \<Rightarrow>
          if exitNode \<noteq> [] \<and> exitNode \<noteq> link_A l \<and> exitNode \<noteq> link_B l
          then (db, Err (ErrMsg ''exit node must be one of the link's endpoints''))
          else
            (db\<lparr>st_links := upd_where (\<lambda>r. link_ID r = lid) (\<lambda>r. r\<lparr>link_ExitNode := exitNode\<rparr>)
                  (st_links db)\<rparr>,
             Ok (l\<lparr>link_ExitNode := exitNode\<rparr>)))"

definition DeleteLink :: "string \<Rightarrow> store \<Rightarrow> store \<times> unit result" where
  "DeleteLink lid db =
     (if \<exists>l \<in> set (st_links db). link_ID l = lid
      then (db\<lparr>st_links := del_where (\<lambda>l. link_ID l = lid) (st_links db)\<rparr>, Ok ())
      else (db, Err ErrNotFound))"

definition ListLinks :: "store \<Rightarrow> link list" where
  "ListLinks db = sort_key link_CreatedAt (st_links db)"

section \<open>Tokens\<close>

text \<open>
  \<open>sha256\<close> is the composition \<open>hex (sha256 plaintext)\<close>; \<open>raw\<close> is the base32 text of the
  20 random bytes. \<open>ttl\<close> is in seconds.
\<close>

definition CreateToken ::
  "(string \<Rightarrow> string) \<Rightarrow> string \<Rightarrow> string \<Rightarrow> int \<Rightarrow> string \<Rightarrow> int \<Rightarrow> store
    \<Rightarrow> store \<times> (string \<times> token) result" where
  "CreateToken sha256 raw ulid ttl note now db =
     (let plaintext = ''lp_'' @ raw; expires = now + ttl in
      if \<exists>r \<in> set (st_tokens db). tok_id r = ulid then (db, Err ErrConstraint)
      else
        (db\<lparr>st_tokens := st_tokens db @
              [\<lparr>tok_id = ulid, tok_hash = sha256 plaintext, tok_note = note,
                tok_expires_at = expires, tok_used_at = None\<rparr>]\<rparr>,
         if length plaintext < 8 then Err (Panic ''slice bounds out of range'')
         else Ok (plaintext,
           \<lparr>token_ID = ulid, token_Note = note, token_ExpiresAt = expires, token_UsedAt = 0,
             token_Prefix = take 8 plaintext\<rparr>)))"

text \<open>
  \<open>ConsumeToken\<close> in its two SQL statements, so that another enrollment can run between them:
  the \<open>SELECT\<close> with its checks, which yields the row's id, and the conditional \<open>UPDATE\<close>.
\<close>

definition consume_check :: "(string \<Rightarrow> string) \<Rightarrow> string \<Rightarrow> int \<Rightarrow> store \<Rightarrow> string result" where
  "consume_check sha256 plaintext now db =
     (case find (\<lambda>r. tok_hash r = sha256 plaintext) (st_tokens db) of
        None \<Rightarrow> Err ErrNotFound
      | Some r \<Rightarrow>
          if tok_used_at r \<noteq> None then Err ErrTokenUsed
          else if now > tok_expires_at r then Err ErrTokenExpired
          else Ok (tok_id r))"

definition consume_burn :: "string \<Rightarrow> int \<Rightarrow> store \<Rightarrow> store \<times> unit result" where
  "consume_burn tid now db =
     (let hit = (\<lambda>r. tok_id r = tid \<and> tok_used_at r = None) in
      if \<exists>r \<in> set (st_tokens db). hit r
      then (db\<lparr>st_tokens := upd_where hit (\<lambda>r. r\<lparr>tok_used_at := Some now\<rparr>) (st_tokens db)\<rparr>, Ok ())
      else (db, Err ErrTokenUsed))"

definition ConsumeToken ::
  "(string \<Rightarrow> string) \<Rightarrow> string \<Rightarrow> int \<Rightarrow> store \<Rightarrow> store \<times> unit result" where
  "ConsumeToken sha256 plaintext now db =
     (case consume_check sha256 plaintext now db of
        Inl e \<Rightarrow> (db, Err e)
      | Inr tid \<Rightarrow> consume_burn tid now db)"

definition ListTokens :: "int \<Rightarrow> store \<Rightarrow> token list" where
  "ListTokens now db =
     map (\<lambda>r. \<lparr>token_ID = tok_id r, token_Note = tok_note r, token_ExpiresAt = tok_expires_at r,
               token_UsedAt = 0, token_Prefix = []\<rparr>)
       (sort_key tok_expires_at
         (filter (\<lambda>r. tok_used_at r = None \<and> tok_expires_at r > now) (st_tokens db)))"

definition DeleteToken :: "string \<Rightarrow> store \<Rightarrow> store \<times> unit result" where
  "DeleteToken tid db =
     (if \<exists>r \<in> set (st_tokens db). tok_id r = tid
      then (db\<lparr>st_tokens := del_where (\<lambda>r. tok_id r = tid) (st_tokens db)\<rparr>, Ok ())
      else (db, Err ErrNotFound))"

section \<open>Admins\<close>

definition SetAdmin :: "string \<Rightarrow> string \<Rightarrow> string \<Rightarrow> store \<Rightarrow> store \<times> unit result" where
  "SetAdmin ulid username pwHash db =
     (if \<exists>r \<in> set (st_admins db). adm_username r = username
      then (db\<lparr>st_admins := upd_where (\<lambda>r. adm_username r = username)
                 (\<lambda>r. r\<lparr>adm_pw_hash := pwHash\<rparr>) (st_admins db)\<rparr>, Ok ())
      else if \<exists>r \<in> set (st_admins db). adm_id r = ulid then (db, Err ErrConstraint)
      else (db\<lparr>st_admins := st_admins db @
              [\<lparr>adm_id = ulid, adm_username = username, adm_pw_hash = pwHash\<rparr>]\<rparr>, Ok ()))"

definition GetAdminHash :: "string \<Rightarrow> store \<Rightarrow> string result" where
  "GetAdminHash username db =
     (case find (\<lambda>r. adm_username r = username) (st_admins db) of
        None \<Rightarrow> Err ErrNotFound
      | Some r \<Rightarrow> Ok (adm_pw_hash r))"

definition HasAdmin :: "store \<Rightarrow> bool" where
  "HasAdmin db = (length (st_admins db) > 0)"

end
