(* ===== verification/StoreWf.thy ===== *)
theory StoreWf
  imports Store
begin

text \<open>
  What the SQL schema of \<open>internal/hub/store.go\<close> and the checks of its methods keep true of the
  tables: unique keys, links between two different existing nodes stored in sorted order, an
  exit node that is an end of its link. Every operation keeps \<open>store_wf\<close>.
\<close>

definition link_pair :: "link \<Rightarrow> string \<times> string" where
  "link_pair l = (link_A l, link_B l)"

definition link_ok :: "string set \<Rightarrow> link \<Rightarrow> bool" where
  "link_ok ids l \<longleftrightarrow> link_A l < link_B l \<and> link_A l \<in> ids \<and> link_B l \<in> ids
     \<and> (link_ExitNode l = [] \<or> link_ExitNode l = link_A l \<or> link_ExitNode l = link_B l)"

definition store_wf :: "store \<Rightarrow> bool" where
  "store_wf db \<longleftrightarrow>
     distinct (map node_ID (st_nodes db)) \<and> distinct (map node_OverlayIP (st_nodes db))
   \<and> distinct (map link_ID (st_links db)) \<and> distinct (map link_pair (st_links db))
   \<and> (\<forall>l \<in> set (st_links db). link_ok (node_ID ` set (st_nodes db)) l)
   \<and> distinct (map tok_id (st_tokens db))
   \<and> distinct (map adm_id (st_admins db)) \<and> distinct (map adm_username (st_admins db))
   \<and> distinct (map fst (st_cooldown db)) \<and> distinct (map svc_name_key (st_svc_names db))"

lemma store_wf_empty: "store_wf empty_store"
  by (simp add: store_wf_def empty_store_def)

section \<open>The columns after an operation\<close>

lemma map_upd_id [simp]:
  "map node_ID (upd_where P (\<lambda>n. n\<lparr>node_Name := x\<rparr>) rows) = map node_ID rows"
  "map node_ID (upd_where P (\<lambda>n. n\<lparr>node_LastSeen := t\<rparr>) rows) = map node_ID rows"
  "map node_ID (upd_where P (\<lambda>n. n\<lparr>node_CertSerial := x\<rparr>) rows) = map node_ID rows"
  "map node_ID (upd_where P (\<lambda>n. n\<lparr>node_Revoked := b, node_OverlayIP := x\<rparr>) rows)
     = map node_ID rows"
  by (simp_all add: row_simps)

lemma map_upd_ip [simp]:
  "map node_OverlayIP (upd_where P (\<lambda>n. n\<lparr>node_Name := x\<rparr>) rows) = map node_OverlayIP rows"
  "map node_OverlayIP (upd_where P (\<lambda>n. n\<lparr>node_LastSeen := t\<rparr>) rows) = map node_OverlayIP rows"
  "map node_OverlayIP (upd_where P (\<lambda>n. n\<lparr>node_CertSerial := x\<rparr>) rows)
     = map node_OverlayIP rows"
  by (simp_all add: row_simps)

lemma ids_of_map: "map node_ID xs = map node_ID ys \<Longrightarrow> node_ID ` set xs = node_ID ` set ys"
  by (metis set_map)

lemma ids_upd [simp]:
  "node_ID ` set (upd_where P (\<lambda>n. n\<lparr>node_Name := x\<rparr>) rows) = node_ID ` set rows"
  "node_ID ` set (upd_where P (\<lambda>n. n\<lparr>node_LastSeen := t\<rparr>) rows) = node_ID ` set rows"
  "node_ID ` set (upd_where P (\<lambda>n. n\<lparr>node_CertSerial := x\<rparr>) rows) = node_ID ` set rows"
  "node_ID ` set (upd_where P (\<lambda>n. n\<lparr>node_Revoked := b, node_OverlayIP := x\<rparr>) rows)
     = node_ID ` set rows"
  by (rule ids_of_map, simp)+

declare set_upd_where [simp del]

lemma distinct_ip_freed:
  assumes "distinct (map node_OverlayIP rows)" and "distinct (map node_ID rows)"
    and "\<forall>n \<in> set rows. node_ID n \<noteq> nid \<longrightarrow> node_OverlayIP n \<noteq> x"
  shows "distinct (map node_OverlayIP
    (upd_where (\<lambda>n. node_ID n = nid) (\<lambda>n. n\<lparr>node_Revoked := b, node_OverlayIP := x\<rparr>) rows))"
  using assms
proof (induction rows)
  case (Cons r rows)
  show ?case
  proof (cases "node_ID r = nid")
    case True
    with Cons.prems have "upd_where (\<lambda>n. node_ID n = nid)
        (\<lambda>n. n\<lparr>node_Revoked := b, node_OverlayIP := x\<rparr>) rows = rows"
      by (intro upd_where_none) (auto simp: image_iff)
    moreover have "x \<notin> node_OverlayIP ` set rows"
      using True Cons.prems by (simp add: image_iff) metis
    ultimately show ?thesis using True Cons.prems by simp
  next
    case False
    then show ?thesis using Cons by (auto simp: set_upd_where)
  qed
qed simp

lemma map_upd_rows [simp]:
  "map tok_id (upd_where P (\<lambda>r. r\<lparr>tok_used_at := u\<rparr>) ts) = map tok_id ts"
  "map adm_id (upd_where Q (\<lambda>r. r\<lparr>adm_pw_hash := h\<rparr>) as) = map adm_id as"
  "map adm_username (upd_where Q (\<lambda>r. r\<lparr>adm_pw_hash := h\<rparr>) as) = map adm_username as"
  "map link_ID (upd_where R (\<lambda>r. r\<lparr>link_ExitNode := x\<rparr>) ls) = map link_ID ls"
  "map link_pair (upd_where R (\<lambda>r. r\<lparr>link_ExitNode := x\<rparr>) ls) = map link_pair ls"
  by (simp_all add: row_simps link_pair_def)

section \<open>Every operation keeps the tables well formed\<close>

lemma CreateNode_wf [wf_intros]: "store_wf db \<Longrightarrow> store_wf (fst (CreateNode n db))"
  by (auto simp: CreateNode_def store_wf_def link_ok_def)

lemma RenameNode_wf [wf_intros]: "store_wf db \<Longrightarrow> store_wf (fst (RenameNode nid name db))"
  by (simp add: RenameNode_def store_wf_def Let_def)

lemma TouchNode_wf [wf_intros]: "store_wf db \<Longrightarrow> store_wf (TouchNode nid ts db)"
  by (simp add: TouchNode_def store_wf_def)

lemma UpdateCertSerial_wf [wf_intros]: "store_wf db \<Longrightarrow> store_wf (UpdateCertSerial nid s db)"
  by (simp add: UpdateCertSerial_def store_wf_def)

lemma DeleteNode_wf [wf_intros]:
  assumes "store_wf db"
  shows "store_wf (fst (DeleteNode nid now db))"
  using assms
  by (auto simp: DeleteNode_def store_wf_def Let_def distinct_put_row distinct_del_where
      intro!: distinct_ip_freed split: sum.split)

lemma SetSvcName_wf [wf_intros]: "store_wf db \<Longrightarrow> store_wf (SetSvcName nid alias display db)"
  by (auto simp: SetSvcName_def store_wf_def intro: distinct_del_where distinct_put_row)

lemma prune_loop_wf: "store_wf db \<Longrightarrow> store_wf (fst (prune_loop nid keep aliases db))"
proof (induction aliases arbitrary: db)
  case (Cons a rest)
  let ?db' = "db\<lparr>st_svc_names :=
    del_where (\<lambda>r. sn_node_id r = nid \<and> sn_alias r = a) (st_svc_names db)\<rparr>"
  have "store_wf ?db'" using Cons.prems by (auto simp: store_wf_def)
  then have "store_wf (fst (prune_loop nid keep rest ?db'))" by (rule Cons.IH)
  with Cons show ?case by (simp add: Let_def case_prod_beta)
qed simp

lemma PruneSvcNames_wf [wf_intros]: "store_wf db \<Longrightarrow> store_wf (fst (PruneSvcNames nid keep db))"
  by (simp add: PruneSvcNames_def prune_loop_wf)

lemma CreateLink_wf [wf_intros]: "store_wf db \<Longrightarrow> store_wf (fst (CreateLink ulid a b now db))"
  by (auto simp: CreateLink_def store_wf_def link_ok_def link_pair_def Let_def min_def max_def)

lemma SetLinkExit_wf [wf_intros]:
  assumes wf: "store_wf db"
  shows "store_wf (fst (SetLinkExit lid x db))"
proof (cases "GetLink lid db")
  case (Inr l)
  have l: "l \<in> set (st_links db)" "link_ID l = lid"
    using Inr by (auto simp: GetLink_def split: option.splits dest: find_SomeD)
  have same: "r = l" if "r \<in> set (st_links db)" "link_ID r = lid" for r
    using wf that l by (auto simp: store_wf_def distinct_map inj_on_def)
  with wf show ?thesis
    by (auto simp: SetLinkExit_def Inr store_wf_def link_ok_def set_upd_where dest: same)
qed (use wf in \<open>simp add: SetLinkExit_def\<close>)

lemma DeleteLink_wf [wf_intros]: "store_wf db \<Longrightarrow> store_wf (fst (DeleteLink lid db))"
  by (auto simp: DeleteLink_def store_wf_def intro: distinct_del_where)

lemma CreateToken_wf [wf_intros]:
  "store_wf db \<Longrightarrow> store_wf (fst (CreateToken sha raw ulid ttl note now db))"
  by (auto simp: CreateToken_def store_wf_def Let_def)

lemma ConsumeToken_wf [wf_intros]:
  "store_wf db \<Longrightarrow> store_wf (fst (ConsumeToken sha p now db))"
  by (simp add: ConsumeToken_def consume_burn_def store_wf_def Let_def split: sum.split)

lemma DeleteToken_wf [wf_intros]: "store_wf db \<Longrightarrow> store_wf (fst (DeleteToken tid db))"
  by (auto simp: DeleteToken_def store_wf_def intro: distinct_del_where)

lemma SetAdmin_wf [wf_intros]:
  "store_wf db \<Longrightarrow> store_wf (fst (SetAdmin ulid u h db))"
  by (auto simp: SetAdmin_def store_wf_def)

end
