(* ===== verification/Ipam.thy ===== *)
theory Ipam
  imports Netip StoreWf
begin

text \<open>
  \<open>Store.AllocateIP\<close> of \<open>internal/hub/store.go\<close>: the lowest free host address of the overlay.
  The loop walks from the first address after the network address; it ends at the broadcast
  address, outside the prefix, or at the end of the address space. The lemmas state which
  addresses it may return, that it returns the lowest, and when the overlay is exhausted.
\<close>

section \<open>The code\<close>

text \<open>\<open>int64(d.Seconds())\<close> for a \<open>time.Duration\<close> in nanoseconds: truncation towards zero.\<close>

definition duration_secs :: "int \<Rightarrow> int" where
  "duration_secs d = d sdiv 1000000000"

definition live_ips :: "store \<Rightarrow> string list" where
  "live_ips db = map node_OverlayIP (filter (\<lambda>n. \<not> node_Revoked n) (st_nodes db))"

definition expire_cooldowns :: "int \<Rightarrow> store \<Rightarrow> store" where
  "expire_cooldowns cutoff db =
     db\<lparr>st_cooldown := del_where (\<lambda>c. snd c < cutoff) (st_cooldown db)\<rparr>"

function alloc_loop ::
  "string set \<Rightarrow> prefix \<Rightarrow> ipv4 \<Rightarrow> ipv4 option \<Rightarrow> ipv4 option \<Rightarrow> string option" where
  "alloc_loop used p broadcast first None = None"
| "alloc_loop used p broadcast first (Some ip) =
     (if \<not> contains p ip then None
      else if ip = broadcast then None
      else if Some ip = first then alloc_loop used p broadcast first (Next ip)
      else if addr_String ip \<notin> used then Some (addr_String ip)
      else alloc_loop used p broadcast first (Next ip))"
  by pat_completeness auto

lemma Next_SomeD: "Next ip = Some ip' \<Longrightarrow> unat ip' = Suc (unat ip)"
  by (auto simp: Next_def add.commute add_eq_0_iff unatSuc split: if_splits)

lemma Next_NoneD: "Next ip = None \<Longrightarrow> unat ip = 2 ^ 32 - 1"
  by (auto simp: Next_def unsigned_minus_1_eq_mask mask_eq_exp_minus_1 split: if_splits)

termination alloc_loop
proof (relation "measure (\<lambda>(used, p, bc, first, ip).
    case ip of None \<Rightarrow> 0 | Some a \<Rightarrow> Suc (2 ^ 32 - unat a))", goal_cases)
  case (2 used p bc first ip)
  then show ?case using unsigned_less [of ip, where 'a = nat]
    by (auto split: option.split dest: Next_SomeD)
next
  case (3 used p bc first ip)
  then show ?case using unsigned_less [of ip, where 'a = nat]
    by (auto split: option.split dest: Next_SomeD)
qed simp

definition AllocateIP :: "string \<Rightarrow> int \<Rightarrow> int \<Rightarrow> store \<Rightarrow> store \<times> string result" where
  "AllocateIP cidr cooldown now db =
     (case ParsePrefix cidr of
        Inl e \<Rightarrow> (db, Err e)
      | Inr p \<Rightarrow>
          (let db' = expire_cooldowns (now - duration_secs cooldown) db;
               used = set (live_ips db) \<union> set (map fst (st_cooldown db'));
               network = masked p
           in (db', case alloc_loop used p (lastAddr p) (Next network) (Next network) of
                      None \<Rightarrow> Err (ErrMsg ''IPAM exhausted'')
                    | Some ip \<Rightarrow> Ok ip)))"

section \<open>The search returns the lowest free host address\<close>

definition broadcast_num :: "prefix \<Rightarrow> nat" where
  "broadcast_num p = net_num p + 2 ^ host_bits p - 1"

text \<open>
  The hosts of the overlay: neither the network address, nor the next one (reserved for the
  hub), nor the broadcast address.
\<close>

definition is_host :: "prefix \<Rightarrow> ipv4 \<Rightarrow> bool" where
  "is_host p a \<longleftrightarrow> net_num p + 1 < unat a \<and> unat a < broadcast_num p"

definition free_host :: "string set \<Rightarrow> prefix \<Rightarrow> ipv4 \<Rightarrow> bool" where
  "free_host used p a \<longleftrightarrow> is_host p a \<and> addr_String a \<notin> used"

lemma contains_upto: "net_num p \<le> unat ip \<Longrightarrow> contains p ip \<longleftrightarrow> unat ip \<le> broadcast_num p"
proof -
  have "0 < (2 :: nat) ^ host_bits p" by simp
  moreover assume "net_num p \<le> unat ip"
  ultimately show ?thesis unfolding contains_interval broadcast_num_def by linarith
qed

lemma eq_lastAddr: "ip = lastAddr p \<longleftrightarrow> unat ip = broadcast_num p"
  by (simp add: word_unat_eq_iff unat_lastAddr broadcast_num_def)

lemma eq_first: "Some ip = Next (masked p) \<Longrightarrow> unat ip = net_num p + 1"
  using Next_SomeD [of "masked p" ip] by (simp add: unat_masked)

lemma is_first:
  assumes "unat ip = net_num p + 1"
  shows "Some ip = Next (masked p)"
proof (cases "Next (masked p)")
  case None
  then have "net_num p = 2 ^ 32 - 1" using Next_NoneD unat_masked by metis
  with assms unsigned_less [of ip, where 'a = nat] show ?thesis by simp
next
  case (Some x)
  then have "unat x = unat ip" using assms Next_SomeD unat_masked by fastforce
  with Some show ?thesis by (simp add: word_unat_eq_iff)
qed

definition lowest_from :: "string set \<Rightarrow> prefix \<Rightarrow> nat \<Rightarrow> string option \<Rightarrow> bool" where
  "lowest_from used p n res \<longleftrightarrow>
     (case res of
        None \<Rightarrow> \<forall>b. n \<le> unat b \<longrightarrow> \<not> free_host used p b
      | Some s \<Rightarrow> \<exists>a. s = addr_String a \<and> n \<le> unat a \<and> free_host used p a
          \<and> (\<forall>b. n \<le> unat b \<and> unat b < unat a \<longrightarrow> \<not> free_host used p b))"

lemma lowest_from_down:
  assumes "lowest_from used p (Suc n) res" and "\<And>b. unat b = n \<Longrightarrow> \<not> free_host used p b"
  shows "lowest_from used p n res"
proof -
  have split: "n \<le> unat b \<longleftrightarrow> unat b = n \<or> Suc n \<le> unat b" for b :: ipv4 by auto
  show ?thesis
  proof (cases res)
    case None
    with assms show ?thesis by (auto simp: lowest_from_def split)
  next
    case (Some s)
    with assms(1) obtain a where a: "s = addr_String a" "Suc n \<le> unat a" "free_host used p a"
      "\<And>b. Suc n \<le> unat b \<Longrightarrow> unat b < unat a \<Longrightarrow> \<not> free_host used p b"
      by (auto simp: lowest_from_def)
    have "\<not> free_host used p b" if "n \<le> unat b" "unat b < unat a" for b
      using that a(4) assms(2) split by blast
    with a Some show ?thesis by (auto simp: lowest_from_def intro!: exI [of _ a])
  qed
qed

declare alloc_loop.simps [simp del]

lemma alloc_loop_spec:
  assumes "first = Next (masked p)" and "bc = lastAddr p" and "net_num p < unat ip"
  shows "lowest_from used p (unat ip) (alloc_loop used p bc first (Some ip))"
  using assms
proof (induction "2 ^ 32 - unat ip" arbitrary: ip rule: less_induct)
  case less
  have bound: "unat ip < 2 ^ 32" using unsigned_less [of ip, where 'a = nat] by simp
  have at_bc: "x = bc \<longleftrightarrow> unat x = broadcast_num p" for x
    unfolding less.prems(2) by (rule eq_lastAddr)
  have inside: "contains p ip \<longleftrightarrow> unat ip \<le> broadcast_num p"
    using less.prems(3) by (intro contains_upto) simp
  show ?case
  proof (cases "unat ip < broadcast_num p")
    case False
    then have "alloc_loop used p bc first (Some ip) = None"
      using inside at_bc [of ip] by (auto simp: alloc_loop.simps)
    with False show ?thesis by (auto simp: lowest_from_def free_host_def is_host_def)
  next
    case in_block: True
    then have go: "contains p ip" "ip \<noteq> bc"
      using inside at_bc by auto
    show ?thesis
    proof (cases "free_host used p ip")
      case True
      then have "Some ip \<noteq> first"
        using less.prems(1) eq_first [of ip p] by (auto simp: free_host_def is_host_def)
      with True go have "alloc_loop used p bc first (Some ip) = Some (addr_String ip)"
        by (auto simp: free_host_def alloc_loop.simps)
      with True show ?thesis by (auto simp: lowest_from_def)
    next
      case False
      have "Some ip = first \<or> addr_String ip \<in> used"
      proof (cases "unat ip = net_num p + 1")
        case True
        then show ?thesis using is_first less.prems(1) by simp
      next
        case neq: False
        with False less.prems(3) in_block show ?thesis by (auto simp: free_host_def is_host_def)
      qed
      with go have step: "alloc_loop used p bc first (Some ip) = alloc_loop used p bc first (Next ip)"
        by (auto simp: alloc_loop.simps(2) [of used p bc first ip])
      have "broadcast_num p \<le> 2 ^ 32 - 1"
        using net_block_fits [of p] by (simp add: broadcast_num_def)
      with in_block obtain ip' where ip': "Next ip = Some ip'"
        using Next_NoneD [of ip] by (cases "Next ip") auto
      have le: "unat ip' = Suc (unat ip)" by (rule Next_SomeD [OF ip'])
      have "lowest_from used p (unat ip') (alloc_loop used p bc first (Some ip'))"
        using less.hyps [of ip'] less.prems bound le by simp
      moreover have "\<not> free_host used p b" if "unat b = unat ip" for b
      proof -
        have "b = ip" using that by (simp only: word_unat_eq_iff)
        with False show ?thesis by simp
      qed
      ultimately show ?thesis unfolding step ip' le by (rule lowest_from_down)
    qed
  qed
qed

lemma alloc_from_network:
  "lowest_from used p 0 (alloc_loop used p (lastAddr p) (Next (masked p)) (Next (masked p)))"
proof (cases "Next (masked p)")
  case None
  then have net: "net_num p = 2 ^ 32 - 1" using Next_NoneD unat_masked by metis
  have "\<not> free_host used p b" for b
  proof -
    have "unat b < 2 ^ 32" using unsigned_less [of b, where 'a = nat] by simp
    with net show ?thesis unfolding free_host_def is_host_def by linarith
  qed
  with None show ?thesis by (simp add: lowest_from_def alloc_loop.simps)
next
  case (Some ip)
  then have ip: "unat ip = net_num p + 1" using Next_SomeD unat_masked by fastforce
  have "n \<le> unat ip \<Longrightarrow> lowest_from used p n
      (alloc_loop used p (lastAddr p) (Next (masked p)) (Some ip))" for n
  proof (induction n rule: inc_induct)
    case base
    show ?case using ip by (intro alloc_loop_spec) simp_all
  next
    case (step n)
    have "\<not> free_host used p b" if "unat b = n" for b
      using that step.hyps ip unfolding free_host_def is_host_def by linarith
    with step.IH show ?case by (rule lowest_from_down)
  qed
  from this [of 0] Some show ?thesis by simp
qed

lemma alloc_SomeD:
  assumes "alloc_loop used p (lastAddr p) (Next (masked p)) (Next (masked p)) = Some s"
  obtains a where "s = addr_String a" and "free_host used p a"
    and "\<And>b. unat b < unat a \<Longrightarrow> \<not> free_host used p b"
  using alloc_from_network [of used p] assms by (auto simp: lowest_from_def)

lemma AllocateIP_wf [wf_intros]: "store_wf db \<Longrightarrow> store_wf (fst (AllocateIP cidr cd now db))"
  by (auto simp: AllocateIP_def expire_cooldowns_def store_wf_def Let_def intro: distinct_del_where
      split: sum.split)

end
