(* ===== verification/StoreRun.thy ===== *)
theory StoreRun
  imports Ipam
begin

text \<open>
  The store as a machine: every method of \<open>internal/hub/store.go\<close> that writes, as an operation,
  and arbitrary sequences of them. The schema invariant, the IP quarantine and the single use of
  enrollment tokens are stated over every such sequence, so they hold however the hub's
  goroutines interleave their (serialised) database calls.
\<close>

datatype store_op =
    OpCreateNode node
  | OpRenameNode string string
  | OpTouchNode string int
  | OpUpdateCertSerial string string
  | OpDeleteNode string int
  | OpSetSvcName string string string
  | OpPruneSvcNames string "string list"
  | OpAllocateIP string int int
  | OpCreateLink string string string int
  | OpSetLinkExit string string
  | OpDeleteLink string
  | OpCreateToken string string int string int
  | OpConsumeToken string int
  | OpDeleteToken string
  | OpSetAdmin string string string

fun store_exec :: "(string \<Rightarrow> string) \<Rightarrow> store_op \<Rightarrow> store \<Rightarrow> store" where
  "store_exec sha (OpCreateNode n) db = fst (CreateNode n db)"
| "store_exec sha (OpRenameNode nid name) db = fst (RenameNode nid name db)"
| "store_exec sha (OpTouchNode nid ts) db = TouchNode nid ts db"
| "store_exec sha (OpUpdateCertSerial nid serial) db = UpdateCertSerial nid serial db"
| "store_exec sha (OpDeleteNode nid now) db = fst (DeleteNode nid now db)"
| "store_exec sha (OpSetSvcName nid alias display) db = SetSvcName nid alias display db"
| "store_exec sha (OpPruneSvcNames nid keep) db = fst (PruneSvcNames nid keep db)"
| "store_exec sha (OpAllocateIP cidr cd now) db = fst (AllocateIP cidr cd now db)"
| "store_exec sha (OpCreateLink ulid a b now) db = fst (CreateLink ulid a b now db)"
| "store_exec sha (OpSetLinkExit lid x) db = fst (SetLinkExit lid x db)"
| "store_exec sha (OpDeleteLink lid) db = fst (DeleteLink lid db)"
| "store_exec sha (OpCreateToken raw ulid ttl note now) db =
     fst (CreateToken sha raw ulid ttl note now db)"
| "store_exec sha (OpConsumeToken p now) db = fst (ConsumeToken sha p now db)"
| "store_exec sha (OpDeleteToken tid) db = fst (DeleteToken tid db)"
| "store_exec sha (OpSetAdmin ulid u h) db = fst (SetAdmin ulid u h db)"

abbreviation store_run :: "(string \<Rightarrow> string) \<Rightarrow> store_op list \<Rightarrow> store \<Rightarrow> store" where
  "store_run sha \<equiv> run_ops (store_exec sha)"

section \<open>The schema invariant\<close>

interpretation schema: invariant_machine "store_exec sha" "\<lambda>_. True" store_wf for sha
proof
  fix c :: store_op and db :: store
  assume "store_wf db"
  then show "store_wf (store_exec sha c db)"
    by (cases c) (simp_all add: wf_intros)
qed

section \<open>The quarantine of freed addresses\<close>

definition cooling :: "string \<Rightarrow> int \<Rightarrow> store \<Rightarrow> bool" where
  "cooling ip t0 db \<longleftrightarrow> (\<exists>t \<ge> t0. (ip, t) \<in> set (st_cooldown db))"

text \<open>
  Operations that can only keep an address freed at \<open>t0\<close> in quarantine: allocations whose
  cutoff has not passed \<open>t0\<close>, deletions that happen at \<open>t0\<close> or later, and everything else.
\<close>

fun keeps_quarantine :: "int \<Rightarrow> store_op \<Rightarrow> bool" where
  "keeps_quarantine t0 (OpAllocateIP cidr cd now) = (now - duration_secs cd \<le> t0)"
| "keeps_quarantine t0 (OpDeleteNode nid now) = (t0 \<le> now)"
| "keeps_quarantine t0 op = True"

lemma st_cooldown_frame [frame_simps]:
  "st_cooldown (fst (CreateNode n db)) = st_cooldown db"
  "st_cooldown (fst (RenameNode nid name db)) = st_cooldown db"
  "st_cooldown (TouchNode nid ts db) = st_cooldown db"
  "st_cooldown (UpdateCertSerial nid s db) = st_cooldown db"
  "st_cooldown (SetSvcName nid alias display db) = st_cooldown db"
  "st_cooldown (fst (CreateLink ulid a b now db)) = st_cooldown db"
  "st_cooldown (fst (SetLinkExit lid x db)) = st_cooldown db"
  "st_cooldown (fst (DeleteLink lid db)) = st_cooldown db"
  "st_cooldown (fst (CreateToken sha raw ulid ttl note now db)) = st_cooldown db"
  "st_cooldown (fst (ConsumeToken sha p now db)) = st_cooldown db"
  "st_cooldown (fst (DeleteToken tid db)) = st_cooldown db"
  "st_cooldown (fst (SetAdmin ulid u h db)) = st_cooldown db"
  by (simp_all add: CreateNode_def RenameNode_def TouchNode_def UpdateCertSerial_def
      SetSvcName_def CreateLink_def SetLinkExit_def DeleteLink_def CreateToken_def
      ConsumeToken_def consume_burn_def DeleteToken_def SetAdmin_def Let_def
      split: sum.split)

lemma prune_loop_frame [frame_simps]:
  "st_cooldown (fst (prune_loop nid keep as db)) = st_cooldown db"
  "st_tokens (fst (prune_loop nid keep as db)) = st_tokens db"
  by (induction "as" arbitrary: db) (simp_all add: Let_def case_prod_beta)

interpretation quarantine: invariant_machine "store_exec sha" "keeps_quarantine t0" "cooling ip t0"
  for sha t0 ip
proof
  fix c and db :: store
  assume ok: "keeps_quarantine t0 c" and cool: "cooling ip t0 db"
  show "cooling ip t0 (store_exec sha c db)"
  proof (cases c)
    case (OpDeleteNode nid now)
    with ok cool show ?thesis
      by (auto simp: cooling_def DeleteNode_def Let_def split: sum.split)
  next
    case (OpAllocateIP cidr cd now)
    with ok cool show ?thesis
      by (fastforce simp: cooling_def AllocateIP_def expire_cooldowns_def Let_def split: sum.split)
  qed (use cool in \<open>simp_all add: cooling_def PruneSvcNames_def frame_simps\<close>)
qed

section \<open>A burned token stays burned\<close>

definition burned :: "string \<Rightarrow> store \<Rightarrow> bool" where
  "burned tid db \<longleftrightarrow> (\<forall>r \<in> set (st_tokens db). tok_id r = tid \<longrightarrow> tok_used_at r \<noteq> None)"

fun mints_other :: "string \<Rightarrow> store_op \<Rightarrow> bool" where
  "mints_other tid (OpCreateToken raw ulid ttl note now) = (ulid \<noteq> tid)"
| "mints_other tid op = True"

lemma st_tokens_frame [frame_simps]:
  "st_tokens (fst (CreateNode n db)) = st_tokens db"
  "st_tokens (fst (RenameNode nid name db)) = st_tokens db"
  "st_tokens (TouchNode nid ts db) = st_tokens db"
  "st_tokens (UpdateCertSerial nid s db) = st_tokens db"
  "st_tokens (fst (DeleteNode nid now db)) = st_tokens db"
  "st_tokens (SetSvcName nid alias display db) = st_tokens db"
  "st_tokens (fst (AllocateIP cidr cd now db)) = st_tokens db"
  "st_tokens (fst (CreateLink ulid a b now db)) = st_tokens db"
  "st_tokens (fst (SetLinkExit lid x db)) = st_tokens db"
  "st_tokens (fst (DeleteLink lid db)) = st_tokens db"
  "st_tokens (fst (SetAdmin ulid u h db)) = st_tokens db"
  by (simp_all add: CreateNode_def RenameNode_def TouchNode_def UpdateCertSerial_def
      DeleteNode_def SetSvcName_def AllocateIP_def expire_cooldowns_def CreateLink_def
      SetLinkExit_def DeleteLink_def SetAdmin_def Let_def split: sum.split)

interpretation burn: invariant_machine "store_exec sha" "mints_other tid" "burned tid"
  for sha tid
proof
  fix c and db :: store
  assume ok: "mints_other tid c" and b: "burned tid db"
  show "burned tid (store_exec sha c db)"
  proof (cases c)
    case (OpCreateToken raw ulid ttl nt now)
    with ok b show ?thesis by (auto simp: burned_def CreateToken_def Let_def)
  next
    case (OpConsumeToken p now)
    with b show ?thesis
      by (auto simp: burned_def ConsumeToken_def consume_burn_def Let_def set_upd_where
          split: sum.split)
  next
    case (OpDeleteToken t)
    with b show ?thesis by (auto simp: burned_def DeleteToken_def)
  qed (use b in \<open>simp_all add: burned_def PruneSvcNames_def frame_simps\<close>)
qed

lemma consume_burn_burned:
  "consume_burn tid now db = (db', Ok ()) \<Longrightarrow> burned tid db'"
  by (auto simp: consume_burn_def burned_def Let_def set_upd_where split: if_splits)

lemma burned_refused: "burned tid db \<Longrightarrow> snd (consume_burn tid now db) = Err ErrTokenUsed"
  by (auto simp: burned_def consume_burn_def Let_def)

section \<open>Deleting a node\<close>

lemma GetNode_OkD: "GetNode nid db = Ok n \<Longrightarrow> n \<in> set (st_nodes db) \<and> node_ID n = nid"
  by (auto simp: GetNode_def split: option.splits dest: find_SomeD)

lemma DeleteNode_OkD:
  assumes "DeleteNode nid now db = (db', Ok (n, ls))"
  shows "GetNode nid db = Ok n" and "ls = LinksOfNode nid db"
    and "db' = db\<lparr>st_links := del_where (touches nid) (st_links db),
           st_nodes := upd_where (\<lambda>n. node_ID n = nid)
             (\<lambda>n. n\<lparr>node_Revoked := True, node_OverlayIP := freed_ip nid\<rparr>) (st_nodes db),
           st_cooldown := put_row fst (node_OverlayIP n, now) (st_cooldown db),
           st_svc_names := del_where (\<lambda>r. sn_node_id r = nid) (st_svc_names db)\<rparr>"
  using assms by (auto simp: DeleteNode_def Let_def split: sum.splits if_splits)

lemma DeleteNode_cooling:
  assumes "DeleteNode nid now db = (db', Ok (n, ls))"
  shows "cooling (node_OverlayIP n) now db'"
  unfolding DeleteNode_OkD(3) [OF assms] by (auto simp: cooling_def)

section \<open>Allocation\<close>

lemma AllocateIP_OkD:
  assumes "AllocateIP cidr cd now db = (db', Ok s)"
  obtains p a where "ParsePrefix cidr = Ok p" and "s = addr_String a" and "is_host p a"
    and "s \<notin> set (live_ips db)"
    and "\<And>t. (s, t) \<in> set (st_cooldown db) \<Longrightarrow> t < now - duration_secs cd"
    and "\<And>b. is_host p b \<Longrightarrow> unat b < unat a \<Longrightarrow> addr_String b \<in> set (live_ips db)
          \<or> (\<exists>t \<ge> now - duration_secs cd. (addr_String b, t) \<in> set (st_cooldown db))"
proof -
  obtain p where p: "ParsePrefix cidr = Ok p"
    using assms by (auto simp: AllocateIP_def split: sum.splits)
  define used where "used = set (live_ips db)
      \<union> set (map fst (st_cooldown (expire_cooldowns (now - duration_secs cd) db)))"
  have "alloc_loop used p (lastAddr p) (Next (masked p)) (Next (masked p)) = Some s"
    using assms p by (auto simp: AllocateIP_def used_def Let_def split: option.splits)
  then obtain a where a: "s = addr_String a" "free_host used p a"
    "\<forall>b. unat b < unat a \<longrightarrow> \<not> free_host used p b" by (rule alloc_SomeD) blast
  have used: "x \<in> used \<longleftrightarrow> x \<in> set (live_ips db)
      \<or> (\<exists>t \<ge> now - duration_secs cd. (x, t) \<in> set (st_cooldown db))" for x
    by (force simp: used_def expire_cooldowns_def)
  show thesis
  proof (rule that [OF p a(1)])
    show "is_host p a" using a(2) by (simp add: free_host_def)
    show "s \<notin> set (live_ips db)" using a(1,2) used by (auto simp: free_host_def)
    show "t < now - duration_secs cd" if "(s, t) \<in> set (st_cooldown db)" for t
      using that a(1,2) used [of s] by (force simp: free_host_def)
    show "addr_String b \<in> set (live_ips db)
          \<or> (\<exists>t \<ge> now - duration_secs cd. (addr_String b, t) \<in> set (st_cooldown db))"
      if "is_host p b" "unat b < unat a" for b
      using a(3) that used by (auto simp: free_host_def)
  qed
qed

end
