(* ===== verification/StoreProps.thy ===== *)
theory StoreProps
  imports StoreRun
begin

text \<open>
  The properties of the hub's database (\<open>internal/hub/store.go\<close>), each a few steps over
  the lemmas of \<open>StoreWf\<close>, \<open>Ipam\<close> and \<open>StoreRun\<close>.
\<close>

section \<open>Schema\<close>

text \<open>
  C35: whatever sequence of store methods runs on a new database, keys stay unique, every link
  joins two different existing nodes in sorted order, and its exit node is empty or one of them.
\<close>

theorem store_schema_invariant: "store_wf (store_run sha ops empty_store)"
proof -
  have "list_all (\<lambda>_. True) ops" by (simp add: list_all_iff)
  then show ?thesis by (rule schema.run_inv [OF _ store_wf_empty])
qed

section \<open>Address allocation\<close>

text \<open>
  C37: a successful \<open>AllocateIP\<close> returns the text of a host address of the overlay (never the
  network address, the hub's reserved first address or the broadcast address) that no live node
  holds and that is not in its cooldown, and every lower host address is taken or cooling.
\<close>

theorem AllocateIP_lowest_free:
  assumes "AllocateIP cidr cd now db = (db', Ok s)"
  shows "\<exists>p a. ParsePrefix cidr = Ok p \<and> s = addr_String a
     \<and> net_num p + 1 < unat a \<and> unat a < net_num p + 2 ^ host_bits p - 1
     \<and> s \<notin> set (live_ips db)
     \<and> (\<forall>t. (s, t) \<in> set (st_cooldown db) \<longrightarrow> t < now - duration_secs cd)
     \<and> (\<forall>b. net_num p + 1 < unat b \<and> unat b < unat a \<longrightarrow>
          addr_String b \<in> set (live_ips db)
          \<or> (\<exists>t \<ge> now - duration_secs cd. (addr_String b, t) \<in> set (st_cooldown db)))"
  using assms
proof (rule AllocateIP_OkD)
  fix p a
  assume "ParsePrefix cidr = Ok p" "s = addr_String a" "is_host p a" "s \<notin> set (live_ips db)"
    and "\<And>t. (s, t) \<in> set (st_cooldown db) \<Longrightarrow> t < now - duration_secs cd"
    and "\<And>b. is_host p b \<Longrightarrow> unat b < unat a \<Longrightarrow> addr_String b \<in> set (live_ips db)
          \<or> (\<exists>t \<ge> now - duration_secs cd. (addr_String b, t) \<in> set (st_cooldown db))"
  then show ?thesis by (intro exI [of _ p] exI [of _ a]) (auto simp: is_host_def broadcast_num_def)
qed

definition demo_node :: "string \<Rightarrow> string \<Rightarrow> node" where
  "demo_node nid ip = \<lparr>node_ID = nid, node_Name = nid, node_OverlayIP = ip,
     node_CertSerial = ''s-'' @ nid, node_CreatedAt = 10, node_LastSeen = 0, node_Revoked = False\<rparr>"

definition demo_store :: store where
  "demo_store = empty_store\<lparr>st_nodes := [demo_node ''A'' ''10.0.0.2'', demo_node ''B'' ''10.0.0.4''],
     st_cooldown := [(''10.0.0.3'', 900), (''10.0.0.5'', 1)],
     st_links := [\<lparr>link_ID = ''L'', link_A = ''A'', link_B = ''B'', link_CreatedAt = 11,
       link_ExitNode = []\<rparr>]\<rparr>"

lemma demo_alloc:
  "AllocateIP ''10.0.0.0/29'' 500000000000 1000 demo_store =
     (demo_store\<lparr>st_cooldown := [(''10.0.0.3'', 900)]\<rparr>, Ok ''10.0.0.5'')"
  by code_simp

theorem AllocateIP_lowest_free_witness:
  "\<exists>p a. ParsePrefix ''10.0.0.0/29'' = Ok p \<and> ''10.0.0.5'' = addr_String a
     \<and> net_num p + 1 < unat a \<and> unat a < net_num p + 2 ^ host_bits p - 1"
  using AllocateIP_lowest_free [OF demo_alloc] by blast

text \<open>
  On a valid IPv4 overlay \<open>AllocateIP\<close> fails exactly when every host address is held by a
  live node or cooling; the error is then \<open>IPAM exhausted\<close> and nothing else.
\<close>

theorem AllocateIP_exhausted_iff:
  assumes "ParsePrefix cidr = Ok p"
  shows "snd (AllocateIP cidr cd now db) = Err e \<longleftrightarrow> e = ErrMsg ''IPAM exhausted'' \<and>
     (\<forall>b. net_num p + 1 < unat b \<and> unat b < net_num p + 2 ^ host_bits p - 1 \<longrightarrow>
        addr_String b \<in> set (live_ips db)
        \<or> (\<exists>t \<ge> now - duration_secs cd. (addr_String b, t) \<in> set (st_cooldown db)))"
proof -
  define used where "used = set (live_ips db)
      \<union> set (map fst (st_cooldown (expire_cooldowns (now - duration_secs cd) db)))"
  let ?r = "alloc_loop used p (lastAddr p) (Next (masked p)) (Next (masked p))"
  have used: "x \<in> used \<longleftrightarrow> x \<in> set (live_ips db)
      \<or> (\<exists>t \<ge> now - duration_secs cd. (x, t) \<in> set (st_cooldown db))" for x
    by (force simp: used_def expire_cooldowns_def)
  have none: "?r = None \<longleftrightarrow> (\<forall>b. \<not> free_host used p b)"
    using alloc_from_network [of used p] by (cases ?r) (auto simp: lowest_from_def)
  have "snd (AllocateIP cidr cd now db) =
      (case ?r of None \<Rightarrow> Err (ErrMsg ''IPAM exhausted'') | Some ip \<Rightarrow> Ok ip)"
    by (simp add: AllocateIP_def assms used_def Let_def)
  then have "snd (AllocateIP cidr cd now db) = Err e
      \<longleftrightarrow> e = ErrMsg ''IPAM exhausted'' \<and> ?r = None"
    by (cases ?r) auto
  then show ?thesis by (auto simp: none free_host_def is_host_def broadcast_num_def used)
qed

theorem AllocateIP_exhausted_iff_witness:
  "snd (AllocateIP ''10.0.0.0/30'' 0 5 empty_store) \<noteq> Err (ErrMsg ''IPAM exhausted'')"
proof -
  have p: "ParsePrefix ''10.0.0.0/30'' = Ok (167772160, 30)" by code_simp
  have "net_num (167772160, 30) + 1 < unat (167772162 :: ipv4)"
    "unat (167772162 :: ipv4) < net_num (167772160, 30) + 2 ^ host_bits (167772160, 30) - 1"
    by (simp_all add: net_num_def host_bits_def)
  then show ?thesis
    unfolding AllocateIP_exhausted_iff [OF p]
    by (auto simp: live_ips_def empty_store_def intro!: exI [of _ "167772162 :: ipv4"])
qed

text \<open>
  C38: the address of a deleted node is not handed out again while it cools: after
  \<open>DeleteNode\<close> at \<open>t0\<close>, and any later store operations, an allocation whose cooldown window
  reaches back to \<open>t0\<close> does not return it.
\<close>

theorem freed_ip_quarantined:
  assumes "DeleteNode nid t0 db = (db1, Ok (n, ls))"
    and "list_all (keeps_quarantine t0) ops" and "now - duration_secs cd \<le> t0"
    and "AllocateIP cidr cd now (store_run sha ops db1) = (db2, Ok s)"
  shows "s \<noteq> node_OverlayIP n"
proof
  assume s: "s = node_OverlayIP n"
  have "cooling (node_OverlayIP n) t0 (store_run sha ops db1)"
    using assms(1,2) DeleteNode_cooling quarantine.run_inv by blast
  then obtain t where "t0 \<le> t" "(s, t) \<in> set (st_cooldown (store_run sha ops db1))"
    by (auto simp: cooling_def s)
  moreover obtain p a where "s = addr_String a"
    "\<And>t. (s, t) \<in> set (st_cooldown (store_run sha ops db1)) \<Longrightarrow> t < now - duration_secs cd"
    using assms(4) by (rule AllocateIP_OkD) blast
  ultimately show False using assms(3) by fastforce
qed

theorem freed_ip_quarantined_witness:
  "''10.0.0.6'' \<noteq> node_OverlayIP (demo_node ''A'' ''10.0.0.2'')"
proof -
  let ?ops = "[OpTouchNode ''B'' 1001, OpAllocateIP ''10.0.0.0/29'' 2000000000000 1002,
    OpCreateNode (demo_node ''C'' ''10.0.0.5'')]"
  obtain db1 where d: "DeleteNode ''A'' 1000 demo_store
      = (db1, Ok (demo_node ''A'' ''10.0.0.2'', LinksOfNode ''A'' demo_store))"
    by (simp add: DeleteNode_def GetNode_def demo_store_def demo_node_def empty_store_def
        freed_ip_def)
  have db1: "db1 = fst (DeleteNode ''A'' 1000 demo_store)" using d by simp
  have "AllocateIP ''10.0.0.0/29'' 500000000000 1003 (store_run (\<lambda>x. x) ?ops db1)
      = (fst (AllocateIP ''10.0.0.0/29'' 500000000000 1003 (store_run (\<lambda>x. x) ?ops db1)),
         Ok ''10.0.0.6'')"
    unfolding db1 by code_simp
  moreover have "list_all (keeps_quarantine 1000) ?ops" by code_simp
  moreover have "1003 - duration_secs 500000000000 \<le> 1000" by code_simp
  ultimately show ?thesis using freed_ip_quarantined [OF d] by blast
qed

section \<open>Enrollment tokens\<close>

text \<open>
  C16: an enrollment token is burned once. Two enrollments may both pass the \<open>SELECT\<close> of
  \<open>ConsumeToken\<close>; after one conditional \<open>UPDATE\<close> has succeeded, no later one on the same
  row does, whatever runs in between (fresh ULIDs are not reused).
\<close>

theorem token_burned_once:
  assumes "consume_burn tid now db = (db1, Ok ())" and "list_all (mints_other tid) ops"
  shows "consume_burn tid now' (store_run sha ops db1)
    = (store_run sha ops db1, Err ErrTokenUsed)"
proof -
  have "burned tid (store_run sha ops db1)"
    using burn.run_inv [OF assms(2)] consume_burn_burned [OF assms(1)] by blast
  then show ?thesis by (auto simp: consume_burn_def burned_def Let_def)
qed

definition demo_tokens :: store where
  "demo_tokens = empty_store\<lparr>st_tokens :=
     [\<lparr>tok_id = ''T'', tok_hash = ''h-lp_ABCDEFGH'', tok_note = [], tok_expires_at = 900,
       tok_used_at = None\<rparr>]\<rparr>"

theorem token_burned_once_witness:
  "snd (consume_burn ''T'' 200 (fst (consume_burn ''T'' 100 demo_tokens))) = Err ErrTokenUsed"
proof -
  have "consume_burn ''T'' 100 demo_tokens = (fst (consume_burn ''T'' 100 demo_tokens), Ok ())"
    by (simp add: consume_burn_def demo_tokens_def Let_def)
  from token_burned_once [OF this, of "[]"] show ?thesis by simp
qed

text \<open>
  The life of a token minted at \<open>t0\<close> whose hash is not yet in the table: until its expiry
  (the last second included) it is accepted once and then refused as used; after it, refused as
  expired and left as it is; a text with another hash is unknown.
\<close>

theorem token_lifecycle:
  assumes "CreateToken sha raw ulid ttl nt t0 db = (db1, Ok (p, tok))"
    and "\<forall>r \<in> set (st_tokens db). tok_hash r \<noteq> sha p"
  shows "(now \<le> t0 + ttl \<longrightarrow> (\<exists>db2. ConsumeToken sha p now db1 = (db2, Ok ())
        \<and> (\<forall>now'. ConsumeToken sha p now' db2 = (db2, Err ErrTokenUsed))))
    \<and> (t0 + ttl < now \<longrightarrow> ConsumeToken sha p now db1 = (db1, Err ErrTokenExpired))
    \<and> (\<forall>q. (\<forall>r \<in> set (st_tokens db1). tok_hash r \<noteq> sha q) \<longrightarrow>
        ConsumeToken sha q now db1 = (db1, Err ErrNotFound))"
proof -
  define row where "row = \<lparr>tok_id = ulid, tok_hash = sha p, tok_note = nt,
    tok_expires_at = t0 + ttl, tok_used_at = None\<rparr>"
  have toks: "st_tokens db1 = st_tokens db @ [row]" and fresh: "ulid \<notin> tok_id ` set (st_tokens db)"
    using assms(1) by (auto simp: CreateToken_def row_def Let_def image_iff split: if_splits)
  have none: "find (\<lambda>r. tok_hash r = sha p) (st_tokens db) = None"
    using assms(2) by (auto simp: find_None_iff)
  have app: "find P (xs @ ys) = (case find P xs of None \<Rightarrow> find P ys | Some x \<Rightarrow> Some x)"
    for P :: "token_row \<Rightarrow> bool" and xs ys by (induction xs) auto
  have row: "find (\<lambda>r. tok_hash r = sha p) (st_tokens db1) = Some row"
    by (simp add: toks app none) (simp add: row_def)
  have "ConsumeToken sha p now db1 = (db1, Err ErrTokenExpired)" if "t0 + ttl < now"
    using that by (simp add: ConsumeToken_def consume_check_def row) (simp add: row_def)
  moreover have "ConsumeToken sha q now db1 = (db1, Err ErrNotFound)"
    if "\<forall>r \<in> set (st_tokens db1). tok_hash r \<noteq> sha q" for q
  proof -
    have "find (\<lambda>r. tok_hash r = sha q) (st_tokens db1) = None"
      using that by (auto simp: find_None_iff)
    then show ?thesis by (simp add: ConsumeToken_def consume_check_def)
  qed
  moreover have "\<exists>db2. ConsumeToken sha p now db1 = (db2, Ok ())
      \<and> (\<forall>now'. ConsumeToken sha p now' db2 = (db2, Err ErrTokenUsed))" if "now \<le> t0 + ttl"
  proof -
    let ?hit = "\<lambda>r. tok_id r = ulid \<and> tok_used_at r = None"
    let ?db2 = "db1\<lparr>st_tokens := upd_where ?hit (\<lambda>r. r\<lparr>tok_used_at := Some now\<rparr>) (st_tokens db1)\<rparr>"
    have "ConsumeToken sha p now db1 = (?db2, Ok ())"
      using that by (simp add: ConsumeToken_def consume_check_def row)
        (auto simp: consume_burn_def row_def toks Let_def)
    moreover have "upd_where ?hit (\<lambda>r. r\<lparr>tok_used_at := Some now\<rparr>) (st_tokens db) = st_tokens db"
      using fresh by (intro upd_where_none) auto
    then have "st_tokens ?db2 = st_tokens db @ [row\<lparr>tok_used_at := Some now\<rparr>]"
      by (simp add: toks upd_where_def) (simp add: row_def)
    then have "find (\<lambda>r. tok_hash r = sha p) (st_tokens ?db2) = Some (row\<lparr>tok_used_at := Some now\<rparr>)"
      by (simp only: app none) (simp add: row_def)
    then have "ConsumeToken sha p now' ?db2 = (?db2, Err ErrTokenUsed)" for now'
      by (simp add: ConsumeToken_def consume_check_def)
    ultimately show ?thesis by blast
  qed
  ultimately show ?thesis by blast
qed

theorem token_lifecycle_witness:
  "snd (ConsumeToken (\<lambda>x. x) ''lp_ABCDE'' 160
     (fst (CreateToken (\<lambda>x. x) ''ABCDE'' ''T'' 60 [] 100 empty_store))) = Ok ()"
proof -
  let ?c = "CreateToken (\<lambda>x. x) ''ABCDE'' ''T'' 60 [] 100 empty_store"
  have "?c = (fst ?c, Ok (''lp_ABCDE'', \<lparr>token_ID = ''T'', token_Note = [], token_ExpiresAt = 160,
      token_UsedAt = 0, token_Prefix = ''lp_ABCDE''\<rparr>))"
    by code_simp
  from token_lifecycle [OF this, of 160] show ?thesis by (auto simp: empty_store_def)
qed

section \<open>Nodes, links and display names\<close>

text \<open>
  \<open>DeleteNode\<close> is the whole cascade: the node stays only as a revoked row, its serial is
  in the revocation list and its address in the cooldown table, no link and no display name of
  it is left, the removed links are exactly the ones it reports, and every other node, link and
  display name is untouched.
\<close>

theorem DeleteNode_cascade:
  assumes "store_wf db" and "DeleteNode nid now db = (db', Ok (n, ls))"
  shows "n \<in> set (st_nodes db) \<and> node_ID n = nid
    \<and> nid \<notin> node_ID ` set (ListNodes db') \<and> node_CertSerial n \<in> set (RevokedSerials db')
    \<and> (node_OverlayIP n, now) \<in> set (st_cooldown db')
    \<and> set ls = {l \<in> set (st_links db). link_A l = nid \<or> link_B l = nid}
    \<and> set (st_links db') = set (st_links db) - set ls
    \<and> LinksOfNode nid db' = [] \<and> SvcNames nid db' = Map.empty
    \<and> (\<forall>x. x \<noteq> nid \<longrightarrow> GetNode x db' = GetNode x db \<and> SvcNames x db' = SvcNames x db)"
proof -
  note del = DeleteNode_OkD [OF assms(2)]
  have n: "n \<in> set (st_nodes db)" "node_ID n = nid" using GetNode_OkD [OF del(1)] by auto
  have "GetNode x db' = GetNode x db" if "x \<noteq> nid" for x
    unfolding GetNode_def del(3) using that by (simp add: find_upd_where_other)
  moreover have "SvcNames x db' = SvcNames x db" if "x \<noteq> nid" for x
  proof -
    have "filter (\<lambda>r. sn_node_id r = x) (del_where (\<lambda>r. sn_node_id r = nid) rows)
        = filter (\<lambda>r. sn_node_id r = x) rows" for rows :: "svc_name_row list"
      using that by (induction rows) auto
    then show ?thesis by (simp add: SvcNames_def del(3))
  qed
  moreover have "LinksOfNode nid db' = []"
    by (auto simp: LinksOfNode_def del(3) filter_empty_conv)
  moreover have "SvcNames nid db' = Map.empty"
  proof -
    have "filter (\<lambda>r. sn_node_id r = nid) (del_where (\<lambda>r. sn_node_id r = nid) rows) = []"
      for rows :: "svc_name_row list" by (auto simp: filter_empty_conv)
    then show ?thesis by (simp add: SvcNames_def del(3))
  qed
  moreover have "node_CertSerial n \<in> set (RevokedSerials db')"
  proof -
    let ?m = "n\<lparr>node_Revoked := True, node_OverlayIP := freed_ip nid\<rparr>"
    have "?m \<in> set (filter node_Revoked (st_nodes db'))"
      using n by (simp add: del(3) set_upd_where image_iff) (rule bexI [of _ n], simp_all)
    then have "node_CertSerial ?m \<in> set (RevokedSerials db')"
      unfolding RevokedSerials_def set_map by (rule imageI)
    then show ?thesis by simp
  qed
  ultimately show ?thesis using n
    by (auto simp: del(2,3) ListNodes_def set_upd_where LinksOfNode_def touches_def)
qed

theorem DeleteNode_cascade_witness:
  "set (st_links (fst (DeleteNode ''A'' 5 demo_store))) = {}"
proof -
  have wf: "store_wf demo_store"
    by (simp add: store_wf_def demo_store_def empty_store_def demo_node_def link_ok_def)
  have d: "DeleteNode ''A'' 5 demo_store = (fst (DeleteNode ''A'' 5 demo_store),
      Ok (demo_node ''A'' ''10.0.0.2'', LinksOfNode ''A'' demo_store))"
    by (simp add: DeleteNode_def GetNode_def demo_store_def demo_node_def empty_store_def
        freed_ip_def)
  from DeleteNode_cascade [OF wf d] show ?thesis
    by (auto simp: demo_store_def)
qed

definition names_of :: "string \<Rightarrow> store \<Rightarrow> svc_name_row list" where
  "names_of nid db = filter (\<lambda>r. sn_node_id r = nid) (st_svc_names db)"

lemma prune_loop_rows:
  "st_svc_names (fst (prune_loop nid keep as db)) =
     del_where (\<lambda>r. sn_node_id r = nid \<and> sn_alias r \<in> set as - set keep) (st_svc_names db)"
  "snd (prune_loop nid keep as db) = length (filter (\<lambda>a. a \<notin> set keep) as)"
  by (induction "as" arbitrary: db)
    (auto simp: Let_def case_prod_beta del_where_def intro!: filter_cong)

lemma map_of_rev_filter_key:
  "map_of (rev (map (\<lambda>r. (k r, v r)) (filter (\<lambda>r. k r \<in> S) rows)))
     = map_of (rev (map (\<lambda>r. (k r, v r)) rows)) |` S"
  by (induction rows rule: rev_induct) (auto simp: restrict_map_def fun_eq_iff)

text \<open>
  \<open>PruneSvcNames\<close> keeps exactly the display names whose alias is still alive, leaves the
  other nodes' names alone and reports how many it removed.
\<close>

theorem PruneSvcNames_spec:
  assumes "PruneSvcNames nid keep db = (db', removed)"
  shows "SvcNames nid db' = SvcNames nid db |` set keep
    \<and> (\<forall>x. x \<noteq> nid \<longrightarrow> SvcNames x db' = SvcNames x db)
    \<and> removed = length (filter (\<lambda>r. sn_alias r \<notin> set keep) (names_of nid db))"
proof -
  let ?as = "map sn_alias (names_of nid db)"
  have rows: "st_svc_names db' =
      del_where (\<lambda>r. sn_node_id r = nid \<and> sn_alias r \<in> set ?as - set keep) (st_svc_names db)"
    and removed: "removed = length (filter (\<lambda>a. a \<notin> set keep) ?as)"
    using assms prune_loop_rows [of nid keep ?as db]
    by (auto simp: PruneSvcNames_def names_of_def)
  have "filter (\<lambda>r. sn_node_id r = nid) (st_svc_names db')
      = filter (\<lambda>r. sn_alias r \<in> set keep) (names_of nid db)"
    unfolding rows del_where_def names_of_def filter_filter by (intro filter_cong) auto
  then have "SvcNames nid db' = SvcNames nid db |` set keep"
    by (simp add: SvcNames_def map_of_rev_filter_key flip: names_of_def)
  moreover have "filter (\<lambda>r. sn_node_id r = x) (st_svc_names db')
      = filter (\<lambda>r. sn_node_id r = x) (st_svc_names db)" if "x \<noteq> nid" for x
    unfolding rows del_where_def filter_filter using that by (intro filter_cong) auto
  then have "\<forall>x. x \<noteq> nid \<longrightarrow> SvcNames x db' = SvcNames x db" by (simp add: SvcNames_def)
  moreover have "length (filter (\<lambda>a. a \<notin> set keep) ?as)
      = length (filter (\<lambda>r. sn_alias r \<notin> set keep) (names_of nid db))"
    by (simp add: filter_map o_def)
  ultimately show ?thesis using removed by simp
qed

definition demo_names :: store where
  "demo_names = SetSvcName ''A'' ''web'' ''Web'' (SetSvcName ''A'' ''old'' ''Old''
     (SetSvcName ''B'' ''old'' ''Keep'' empty_store))"

theorem PruneSvcNames_spec_witness:
  "SvcNames ''A'' (fst (PruneSvcNames ''A'' [''web''] demo_names))
     = SvcNames ''A'' demo_names |` {''web''}"
  using PruneSvcNames_spec [of "''A''" "[''web'']" demo_names
      "fst (PruneSvcNames ''A'' [''web''] demo_names)" "snd (PruneSvcNames ''A'' [''web''] demo_names)"]
  by simp

text \<open>
  A link is stored once per pair of nodes, whichever end is named first: after \<open>CreateLink a b\<close>
  neither \<open>CreateLink a b\<close> nor \<open>CreateLink b a\<close> succeeds, and both ends list the link and see
  each other through it.
\<close>

theorem CreateLink_once:
  assumes "CreateLink ulid a b now db = (db', Ok l)"
  shows "CreateLink u2 a b t db' = (db', Err ErrConstraint)
    \<and> CreateLink u2 b a t db' = (db', Err ErrConstraint)
    \<and> l \<in> set (LinksOfNode a db') \<and> l \<in> set (LinksOfNode b db')
    \<and> Other l a = b \<and> Other l b = a"
proof -
  have "a \<noteq> b" and l: "l = \<lparr>link_ID = ulid, link_A = min a b, link_B = max a b,
      link_CreatedAt = now, link_ExitNode = []\<rparr>"
    and db': "db' = db\<lparr>st_links := st_links db @ [l]\<rparr>"
    using assms by (auto simp: CreateLink_def Let_def split: if_splits)
  moreover have "min b a = min a b" "max b a = max a b" by (auto simp: min_def max_def)
  ultimately show ?thesis
    by (auto simp: CreateLink_def LinksOfNode_def touches_def Other_def Let_def)
      (auto simp: min_def max_def split: if_splits)
qed

theorem CreateLink_once_witness:
  "snd (CreateLink ''L2'' ''B'' ''A'' 9
     (fst (CreateLink ''L1'' ''A'' ''B'' 8 (demo_store\<lparr>st_links := []\<rparr>)))) = Err ErrConstraint"
proof -
  let ?c = "CreateLink ''L1'' ''A'' ''B'' 8 (demo_store\<lparr>st_links := []\<rparr>)"
  have "?c = (fst ?c, Ok \<lparr>link_ID = ''L1'', link_A = ''A'', link_B = ''B'', link_CreatedAt = 8,
      link_ExitNode = []\<rparr>)"
    by code_simp
  from CreateLink_once [OF this] show ?thesis by simp
qed

section \<open>Deleting a node twice\<close>

text \<open>
  \<open>GetNode\<close> also finds revoked rows, so deleting an already deleted node succeeds again and
  parks the placeholder text of its freed address in the cooldown table.
\<close>

lemma DeleteNode_twice:
  assumes "store_wf db" and "DeleteNode nid t0 db = (db1, Ok (n, ls))"
  shows "\<exists>db2 n2. DeleteNode nid t1 db1 = (db2, Ok (n2, []))
    \<and> (freed_ip nid, t1) \<in> set (st_cooldown db2)"
proof -
  note del = DeleteNode_OkD [OF assms(2)]
  let ?n = "n\<lparr>node_Revoked := True, node_OverlayIP := freed_ip nid\<rparr>"
  have "find (\<lambda>n. node_ID n = nid) (st_nodes db) = Some n"
    using del(1) by (simp add: GetNode_def split: option.splits)
  then have g: "GetNode nid db1 = Ok ?n"
    by (simp add: GetNode_def del(3) find_upd_where_same)
  have "LinksOfNode nid db1 = []" by (auto simp: LinksOfNode_def del(3) filter_empty_conv)
  moreover have "\<not> (\<exists>x \<in> set (st_nodes db1). node_ID x \<noteq> nid \<and> node_OverlayIP x = freed_ip nid)"
  proof -
    have "\<not> (\<exists>x \<in> set (st_nodes db). node_ID x \<noteq> nid \<and> node_OverlayIP x = freed_ip nid)"
      using assms(2) by (auto simp: DeleteNode_def Let_def split: sum.splits if_splits)
    then show ?thesis by (auto simp: del(3) set_upd_where)
  qed
  ultimately show ?thesis by (auto simp: DeleteNode_def g)
qed

end
