(* ===== verification/Json.thy ===== *)
theory Json
  imports Prelude Complex_Main
begin

text \<open>
  What the program uses of \<open>encoding/json\<close>, at the level of JSON values: decoding into a Go
  struct. Keys are matched exactly first and then without regard to (ASCII) case, unknown keys are
  skipped, absent keys leave the zero value, \<open>null\<close> leaves a scalar field as it is, a value of
  the wrong type or a number outside the field's range is an error, and a repeated key overwrites.
  \<open>JInt\<close> is a number literal without fraction or exponent, \<open>JReal\<close> any other; float64 values
  are exact rationals.
\<close>

datatype json =
    JNull
  | JBool bool
  | JInt int
  | JReal rat
  | JStr string
  | JArr "json list"
  | JObj "(string \<times> json) list"

section \<open>Scalar fields\<close>

definition dec_string :: "string \<Rightarrow> json \<Rightarrow> string option" where
  "dec_string cur j = (case j of JStr s \<Rightarrow> Some s | JNull \<Rightarrow> Some cur | _ \<Rightarrow> None)"

definition dec_bool :: "bool \<Rightarrow> json \<Rightarrow> bool option" where
  "dec_bool cur j = (case j of JBool b \<Rightarrow> Some b | JNull \<Rightarrow> Some cur | _ \<Rightarrow> None)"

definition in_int64 :: "int \<Rightarrow> bool" where
  "in_int64 n \<longleftrightarrow> - (2 ^ 63) \<le> n \<and> n < 2 ^ 63"

definition dec_int :: "int \<Rightarrow> json \<Rightarrow> int option" where
  "dec_int cur j = (case j of JInt n \<Rightarrow> if in_int64 n then Some n else None
     | JNull \<Rightarrow> Some cur | _ \<Rightarrow> None)"

definition dec_u64 :: "64 word \<Rightarrow> json \<Rightarrow> 64 word option" where
  "dec_u64 cur j = (case j of
       JInt n \<Rightarrow> if 0 \<le> n \<and> n < 2 ^ 64 then Some (word_of_int n) else None
     | JNull \<Rightarrow> Some cur | _ \<Rightarrow> None)"

definition dec_f64 :: "rat \<Rightarrow> json \<Rightarrow> rat option" where
  "dec_f64 cur j = (case j of JInt n \<Rightarrow> Some (of_int n) | JReal r \<Rightarrow> Some r
     | JNull \<Rightarrow> Some cur | _ \<Rightarrow> None)"

fun dec_elems :: "('a \<Rightarrow> json \<Rightarrow> 'a option) \<Rightarrow> 'a \<Rightarrow> json list \<Rightarrow> 'a list option" where
  "dec_elems d zero [] = Some []"
| "dec_elems d zero (j # js) =
     (case d zero j of None \<Rightarrow> None
      | Some x \<Rightarrow> (case dec_elems d zero js of None \<Rightarrow> None | Some xs \<Rightarrow> Some (x # xs)))"

definition dec_list :: "('a \<Rightarrow> json \<Rightarrow> 'a option) \<Rightarrow> 'a \<Rightarrow> 'a list \<Rightarrow> json \<Rightarrow> 'a list option" where
  "dec_list d zero cur j = (case j of JArr js \<Rightarrow> dec_elems d zero js | JNull \<Rightarrow> Some [] | _ \<Rightarrow> None)"

text \<open>A nil slice is written as \<open>null\<close>; the model has one empty list for nil and empty.\<close>

definition enc_list :: "('a \<Rightarrow> json) \<Rightarrow> 'a list \<Rightarrow> json" where
  "enc_list e xs = (if xs = [] then JNull else JArr (map e xs))"

definition enc_u64 :: "64 word \<Rightarrow> json" where
  "enc_u64 w = JInt (uint w)"

section \<open>Structs\<close>

type_synonym 'r fields = "(string \<times> ('r \<Rightarrow> json \<Rightarrow> 'r option)) list"

definition lower :: "char \<Rightarrow> char" where
  "lower c = (if 65 \<le> (of_char c :: nat) \<and> (of_char c :: nat) \<le> 90
              then char_of (of_char c + 32 :: nat) else c)"

definition field_for :: "'r fields \<Rightarrow> string \<Rightarrow> ('r \<Rightarrow> json \<Rightarrow> 'r option) option" where
  "field_for fs k =
     (case map_of fs k of
        Some f \<Rightarrow> Some f
      | None \<Rightarrow> map_option snd (find (\<lambda>f. map lower (fst f) = map lower k) fs))"

fun dec_kvs :: "'r fields \<Rightarrow> 'r \<Rightarrow> (string \<times> json) list \<Rightarrow> 'r option" where
  "dec_kvs fs r [] = Some r"
| "dec_kvs fs r (kv # kvs) =
     (case field_for fs (fst kv) of
        None \<Rightarrow> dec_kvs fs r kvs
      | Some f \<Rightarrow> (case f r (snd kv) of None \<Rightarrow> None | Some r' \<Rightarrow> dec_kvs fs r' kvs))"

definition dec_struct :: "'r fields \<Rightarrow> 'r \<Rightarrow> json \<Rightarrow> 'r option" where
  "dec_struct fs cur j = (case j of JObj kvs \<Rightarrow> dec_kvs fs cur kvs | JNull \<Rightarrow> Some cur | _ \<Rightarrow> None)"

text \<open>A field: its JSON name, its decoder, and how it is read from and written to the record.\<close>

definition fld ::
  "string \<Rightarrow> ('v \<Rightarrow> json \<Rightarrow> 'v option) \<Rightarrow> ('r \<Rightarrow> 'v) \<Rightarrow> ('v \<Rightarrow> 'r \<Rightarrow> 'r)
    \<Rightarrow> string \<times> ('r \<Rightarrow> json \<Rightarrow> 'r option)" where
  "fld name d get put = (name, \<lambda>r j. map_option (\<lambda>v. put v r) (d (get r) j))"

section \<open>Decoding what was encoded\<close>

named_theorems codec_simps \<open>a decoder applied to the matching encoder\<close>

lemma dec_string_JStr [simp, codec_simps]: "dec_string cur (JStr s) = Some s"
  and dec_bool_JBool [simp, codec_simps]: "dec_bool cb (JBool b) = Some b"
  and dec_int_JInt [simp, codec_simps]: "in_int64 n \<Longrightarrow> dec_int ci (JInt n) = Some n"
  and dec_f64_JReal [simp, codec_simps]: "dec_f64 q (JReal r) = Some r"
  by (simp_all add: dec_string_def dec_bool_def dec_int_def dec_f64_def)

lemma dec_u64_enc [simp, codec_simps]: "dec_u64 cur (enc_u64 w) = Some w"
  using uint_lt2p [of w] by (simp add: dec_u64_def enc_u64_def)

lemma dec_elems_enc:
  "(\<And>x. x \<in> set xs \<Longrightarrow> d zero (e x) = Some x) \<Longrightarrow> dec_elems d zero (map e xs) = Some xs"
  by (induction xs) auto

lemma dec_list_enc [codec_simps]:
  "(\<And>x. x \<in> set xs \<Longrightarrow> d zero (e x) = Some x) \<Longrightarrow> dec_list d zero cur (enc_list e xs) = Some xs"
  by (simp add: dec_list_def enc_list_def dec_elems_enc)

lemma field_for_exact [codec_simps]: "field_for ((k, f) # fs) k = Some f"
  by (simp add: field_for_def)

lemma field_for_skip [codec_simps]:
  "map_of fs k = Some f \<Longrightarrow> k' \<noteq> k \<Longrightarrow> field_for ((k', g) # fs) k = Some f"
  by (simp add: field_for_def)

end
