(* ===== verification/Proto.thy ===== *)
theory Proto
  imports Json
begin

text \<open>
  \<open>internal/proto/proto.go\<close>: the wire protocol. Constants, the envelope, one record per payload
  struct with its JSON tags (\<open>enc_\<close> and \<open>dec_\<close> functions, \<open>omitempty\<close> included), and the
  4-byte big-endian framing on byte strings.
\<close>

section \<open>Constants\<close>

definition Version :: int where "Version = 1"
definition MaxFrame :: nat where "MaxFrame = 1048576"

definition TypeEnroll :: string where "TypeEnroll = ''enroll''"
definition TypeEnrollAck :: string where "TypeEnrollAck = ''enroll_ack''"
definition TypeRegister :: string where "TypeRegister = ''register''"
definition TypeRegisterAck :: string where "TypeRegisterAck = ''register_ack''"
definition TypeHeartbeat :: string where "TypeHeartbeat = ''heartbeat''"
definition TypePeerAdd :: string where "TypePeerAdd = ''peer_add''"
definition TypePeerRemove :: string where "TypePeerRemove = ''peer_remove''"
definition TypePeerUpdate :: string where "TypePeerUpdate = ''peer_update''"
definition TypeAck :: string where "TypeAck = ''ack''"
definition TypeKick :: string where "TypeKick = ''kick''"
definition TypeRotateWG :: string where "TypeRotateWG = ''rotate_wg''"
definition TypeRotateCert :: string where "TypeRotateCert = ''rotate_cert''"
definition TypeConfGet :: string where "TypeConfGet = ''conf_get''"
definition TypeConfResult :: string where "TypeConfResult = ''conf_result''"
definition TypeSvcAction :: string where "TypeSvcAction = ''svc_action''"
definition TypeSvcResult :: string where "TypeSvcResult = ''svc_result''"
definition TypeError :: string where "TypeError = ''error''"

lemmas type_defs = TypeEnroll_def TypeEnrollAck_def TypeRegister_def TypeRegisterAck_def
  TypeHeartbeat_def TypePeerAdd_def TypePeerRemove_def TypePeerUpdate_def TypeAck_def
  TypeKick_def TypeRotateWG_def TypeRotateCert_def TypeConfGet_def TypeConfResult_def
  TypeSvcAction_def TypeSvcResult_def TypeError_def

section \<open>Envelope\<close>

record envelope =
  env_V :: int
  env_Type :: string
  env_ID :: string
  env_Data :: json

definition NewEnvelope :: "string \<Rightarrow> string \<Rightarrow> json \<Rightarrow> envelope" where
  "NewEnvelope typ eid data = \<lparr>env_V = Version, env_Type = typ, env_ID = eid, env_Data = data\<rparr>"

lemma NewEnvelope_sel [simp]:
  "env_V (NewEnvelope t i d) = Version" "env_Type (NewEnvelope t i d) = t"
  "env_ID (NewEnvelope t i d) = i" "env_Data (NewEnvelope t i d) = d"
  by (simp_all add: NewEnvelope_def)

definition enc_envelope :: "envelope \<Rightarrow> json" where
  "enc_envelope e = JObj [(''v'', JInt (env_V e)), (''type'', JStr (env_Type e)),
     (''id'', JStr (env_ID e)), (''data'', env_Data e)]"

text \<open>
  \<open>Data\<close> is a \<open>json.RawMessage\<close>: any value is kept as it is. A frame without the key leaves it empty, which
  no payload can be decoded from; \<open>no_data\<close> stands for it, a value that every payload decoder refuses.
\<close>

definition no_data :: json where
  "no_data = JBool False"

lemma no_data_refused: "dec_struct fs r no_data = None"
  by (simp add: dec_struct_def no_data_def)

definition dec_envelope :: "json \<Rightarrow> envelope option" where
  "dec_envelope = dec_struct
     [fld ''v'' dec_int env_V (\<lambda>x r. r\<lparr>env_V := x\<rparr>),
      fld ''type'' dec_string env_Type (\<lambda>x r. r\<lparr>env_Type := x\<rparr>),
      fld ''id'' dec_string env_ID (\<lambda>x r. r\<lparr>env_ID := x\<rparr>),
      fld ''data'' (\<lambda>cur j. Some j) env_Data (\<lambda>x r. r\<lparr>env_Data := x\<rparr>)]
     \<lparr>env_V = 0, env_Type = [], env_ID = [], env_Data = no_data\<rparr>"

section \<open>Payloads\<close>

record enroll_data =
  ed_Token :: string
  ed_Hostname :: string
  ed_CSRPEM :: string

definition enc_enroll :: "enroll_data \<Rightarrow> json" where
  "enc_enroll d = JObj [(''token'', JStr (ed_Token d)), (''hostname'', JStr (ed_Hostname d)),
     (''csr_pem'', JStr (ed_CSRPEM d))]"

definition dec_enroll :: "json \<Rightarrow> enroll_data option" where
  "dec_enroll = dec_struct
     [fld ''token'' dec_string ed_Token (\<lambda>x r. r\<lparr>ed_Token := x\<rparr>),
      fld ''hostname'' dec_string ed_Hostname (\<lambda>x r. r\<lparr>ed_Hostname := x\<rparr>),
      fld ''csr_pem'' dec_string ed_CSRPEM (\<lambda>x r. r\<lparr>ed_CSRPEM := x\<rparr>)]
     \<lparr>ed_Token = [], ed_Hostname = [], ed_CSRPEM = []\<rparr>"

record enroll_ack_data =
  ea_NodeID :: string
  ea_CertPEM :: string
  ea_CAPEM :: string
  ea_OverlayIP :: string
  ea_OverlayCIDR :: string
  ea_ControlAddr :: string

definition enc_enroll_ack :: "enroll_ack_data \<Rightarrow> json" where
  "enc_enroll_ack d = JObj [(''node_id'', JStr (ea_NodeID d)), (''cert_pem'', JStr (ea_CertPEM d)),
     (''ca_pem'', JStr (ea_CAPEM d)), (''overlay_ip'', JStr (ea_OverlayIP d)),
     (''overlay_cidr'', JStr (ea_OverlayCIDR d)), (''control_addr'', JStr (ea_ControlAddr d))]"

definition dec_enroll_ack :: "json \<Rightarrow> enroll_ack_data option" where
  "dec_enroll_ack = dec_struct
     [fld ''node_id'' dec_string ea_NodeID (\<lambda>x r. r\<lparr>ea_NodeID := x\<rparr>),
      fld ''cert_pem'' dec_string ea_CertPEM (\<lambda>x r. r\<lparr>ea_CertPEM := x\<rparr>),
      fld ''ca_pem'' dec_string ea_CAPEM (\<lambda>x r. r\<lparr>ea_CAPEM := x\<rparr>),
      fld ''overlay_ip'' dec_string ea_OverlayIP (\<lambda>x r. r\<lparr>ea_OverlayIP := x\<rparr>),
      fld ''overlay_cidr'' dec_string ea_OverlayCIDR (\<lambda>x r. r\<lparr>ea_OverlayCIDR := x\<rparr>),
      fld ''control_addr'' dec_string ea_ControlAddr (\<lambda>x r. r\<lparr>ea_ControlAddr := x\<rparr>)]
     \<lparr>ea_NodeID = [], ea_CertPEM = [], ea_CAPEM = [], ea_OverlayIP = [], ea_OverlayCIDR = [],
      ea_ControlAddr = []\<rparr>"

record register_data =
  rd_WGPubkey :: string
  rd_WGPort :: int
  rd_AgentVersion :: string
  rd_OS :: string
  rd_SocksPort :: int

definition enc_register :: "register_data \<Rightarrow> json" where
  "enc_register d = JObj ([(''wg_pubkey'', JStr (rd_WGPubkey d)), (''wg_port'', JInt (rd_WGPort d)),
     (''agent_version'', JStr (rd_AgentVersion d)), (''os'', JStr (rd_OS d))]
     @ (if rd_SocksPort d = 0 then [] else [(''socks_port'', JInt (rd_SocksPort d))]))"

definition dec_register :: "json \<Rightarrow> register_data option" where
  "dec_register = dec_struct
     [fld ''wg_pubkey'' dec_string rd_WGPubkey (\<lambda>x r. r\<lparr>rd_WGPubkey := x\<rparr>),
      fld ''wg_port'' dec_int rd_WGPort (\<lambda>x r. r\<lparr>rd_WGPort := x\<rparr>),
      fld ''agent_version'' dec_string rd_AgentVersion (\<lambda>x r. r\<lparr>rd_AgentVersion := x\<rparr>),
      fld ''os'' dec_string rd_OS (\<lambda>x r. r\<lparr>rd_OS := x\<rparr>),
      fld ''socks_port'' dec_int rd_SocksPort (\<lambda>x r. r\<lparr>rd_SocksPort := x\<rparr>)]
     \<lparr>rd_WGPubkey = [], rd_WGPort = 0, rd_AgentVersion = [], rd_OS = [], rd_SocksPort = 0\<rparr>"

record peer_spec =
  ps_LinkID :: string
  ps_PeerNodeID :: string
  ps_PeerName :: string
  ps_WGPubkey :: string
  ps_Endpoint :: string
  ps_AllowedIPs :: "string list"
  ps_KeepaliveS :: int
  ps_Exit :: bool
  ps_ExitAddr :: string

definition zero_spec :: peer_spec where
  "zero_spec = \<lparr>ps_LinkID = [], ps_PeerNodeID = [], ps_PeerName = [], ps_WGPubkey = [],
     ps_Endpoint = [], ps_AllowedIPs = [], ps_KeepaliveS = 0, ps_Exit = False, ps_ExitAddr = []\<rparr>"

definition enc_spec :: "peer_spec \<Rightarrow> json" where
  "enc_spec s = JObj ([(''link_id'', JStr (ps_LinkID s)), (''peer_node_id'', JStr (ps_PeerNodeID s)),
     (''peer_name'', JStr (ps_PeerName s)), (''wg_pubkey'', JStr (ps_WGPubkey s)),
     (''endpoint'', JStr (ps_Endpoint s)), (''allowed_ips'', enc_list JStr (ps_AllowedIPs s)),
     (''keepalive_s'', JInt (ps_KeepaliveS s))]
     @ (if ps_Exit s then [(''exit'', JBool True)] else [])
     @ (if ps_ExitAddr s = [] then [] else [(''exit_addr'', JStr (ps_ExitAddr s))]))"

definition dec_spec_onto :: "peer_spec \<Rightarrow> json \<Rightarrow> peer_spec option" where
  "dec_spec_onto = dec_struct
     [fld ''link_id'' dec_string ps_LinkID (\<lambda>x r. r\<lparr>ps_LinkID := x\<rparr>),
      fld ''peer_node_id'' dec_string ps_PeerNodeID (\<lambda>x r. r\<lparr>ps_PeerNodeID := x\<rparr>),
      fld ''peer_name'' dec_string ps_PeerName (\<lambda>x r. r\<lparr>ps_PeerName := x\<rparr>),
      fld ''wg_pubkey'' dec_string ps_WGPubkey (\<lambda>x r. r\<lparr>ps_WGPubkey := x\<rparr>),
      fld ''endpoint'' dec_string ps_Endpoint (\<lambda>x r. r\<lparr>ps_Endpoint := x\<rparr>),
      fld ''allowed_ips'' (dec_list dec_string []) ps_AllowedIPs (\<lambda>x r. r\<lparr>ps_AllowedIPs := x\<rparr>),
      fld ''keepalive_s'' dec_int ps_KeepaliveS (\<lambda>x r. r\<lparr>ps_KeepaliveS := x\<rparr>),
      fld ''exit'' dec_bool ps_Exit (\<lambda>x r. r\<lparr>ps_Exit := x\<rparr>),
      fld ''exit_addr'' dec_string ps_ExitAddr (\<lambda>x r. r\<lparr>ps_ExitAddr := x\<rparr>)]"

definition dec_spec :: "json \<Rightarrow> peer_spec option" where
  "dec_spec = dec_spec_onto zero_spec"

record register_ack_data =
  ra_NodeID :: string
  ra_OverlayIP :: string
  ra_PeersExpected :: "peer_spec list"

definition enc_register_ack :: "register_ack_data \<Rightarrow> json" where
  "enc_register_ack d = JObj [(''node_id'', JStr (ra_NodeID d)),
     (''overlay_ip'', JStr (ra_OverlayIP d)),
     (''peers_expected'', enc_list enc_spec (ra_PeersExpected d))]"

definition dec_register_ack :: "json \<Rightarrow> register_ack_data option" where
  "dec_register_ack = dec_struct
     [fld ''node_id'' dec_string ra_NodeID (\<lambda>x r. r\<lparr>ra_NodeID := x\<rparr>),
      fld ''overlay_ip'' dec_string ra_OverlayIP (\<lambda>x r. r\<lparr>ra_OverlayIP := x\<rparr>),
      fld ''peers_expected'' (dec_list dec_spec_onto zero_spec) ra_PeersExpected
        (\<lambda>x r. r\<lparr>ra_PeersExpected := x\<rparr>)]
     \<lparr>ra_NodeID = [], ra_OverlayIP = [], ra_PeersExpected = []\<rparr>"

record peer_remove_data =
  pr_LinkID :: string
  pr_WGPubkey :: string

definition zero_peer_remove :: peer_remove_data where
  "zero_peer_remove = \<lparr>pr_LinkID = [], pr_WGPubkey = []\<rparr>"

definition enc_peer_remove :: "peer_remove_data \<Rightarrow> json" where
  "enc_peer_remove d = JObj [(''link_id'', JStr (pr_LinkID d)),
     (''wg_pubkey'', JStr (pr_WGPubkey d))]"

definition dec_peer_remove_onto :: "peer_remove_data \<Rightarrow> json \<Rightarrow> peer_remove_data option" where
  "dec_peer_remove_onto = dec_struct
     [fld ''link_id'' dec_string pr_LinkID (\<lambda>x r. r\<lparr>pr_LinkID := x\<rparr>),
      fld ''wg_pubkey'' dec_string pr_WGPubkey (\<lambda>x r. r\<lparr>pr_WGPubkey := x\<rparr>)]"

definition dec_peer_remove :: "json \<Rightarrow> peer_remove_data option" where
  "dec_peer_remove = dec_peer_remove_onto zero_peer_remove"

record sys_metrics =
  sm_CPUPct :: rat
  sm_Load1 :: rat
  sm_MemUsed :: "64 word"
  sm_MemTotal :: "64 word"
  sm_DiskUsed :: "64 word"
  sm_DiskTotal :: "64 word"
  sm_NetRx :: "64 word"
  sm_NetTx :: "64 word"
  sm_UptimeS :: "64 word"

definition zero_sys :: sys_metrics where
  "zero_sys = \<lparr>sm_CPUPct = 0, sm_Load1 = 0, sm_MemUsed = 0, sm_MemTotal = 0, sm_DiskUsed = 0, sm_DiskTotal = 0, sm_NetRx = 0, sm_NetTx = 0, sm_UptimeS = 0\<rparr>"

definition enc_sys :: "sys_metrics \<Rightarrow> json" where
  "enc_sys d = JObj [(''cpu_pct'', JReal (sm_CPUPct d)),
     (''load1'', JReal (sm_Load1 d)),
     (''mem_used'', enc_u64 (sm_MemUsed d)),
     (''mem_total'', enc_u64 (sm_MemTotal d)),
     (''disk_used'', enc_u64 (sm_DiskUsed d)),
     (''disk_total'', enc_u64 (sm_DiskTotal d)),
     (''net_rx_bytes'', enc_u64 (sm_NetRx d)),
     (''net_tx_bytes'', enc_u64 (sm_NetTx d)),
     (''uptime_s'', enc_u64 (sm_UptimeS d))]"

definition dec_sys_onto :: "sys_metrics \<Rightarrow> json \<Rightarrow> sys_metrics option" where
  "dec_sys_onto = dec_struct
     [fld ''cpu_pct'' dec_f64 sm_CPUPct (\<lambda>x r. r\<lparr>sm_CPUPct := x\<rparr>),
      fld ''load1'' dec_f64 sm_Load1 (\<lambda>x r. r\<lparr>sm_Load1 := x\<rparr>),
      fld ''mem_used'' dec_u64 sm_MemUsed (\<lambda>x r. r\<lparr>sm_MemUsed := x\<rparr>),
      fld ''mem_total'' dec_u64 sm_MemTotal (\<lambda>x r. r\<lparr>sm_MemTotal := x\<rparr>),
      fld ''disk_used'' dec_u64 sm_DiskUsed (\<lambda>x r. r\<lparr>sm_DiskUsed := x\<rparr>),
      fld ''disk_total'' dec_u64 sm_DiskTotal (\<lambda>x r. r\<lparr>sm_DiskTotal := x\<rparr>),
      fld ''net_rx_bytes'' dec_u64 sm_NetRx (\<lambda>x r. r\<lparr>sm_NetRx := x\<rparr>),
      fld ''net_tx_bytes'' dec_u64 sm_NetTx (\<lambda>x r. r\<lparr>sm_NetTx := x\<rparr>),
      fld ''uptime_s'' dec_u64 sm_UptimeS (\<lambda>x r. r\<lparr>sm_UptimeS := x\<rparr>)]"

definition dec_sys :: "json \<Rightarrow> sys_metrics option" where
  "dec_sys = dec_sys_onto zero_sys"

record wg_peer_status =
  wp_PeerNodeID :: string
  wp_LastHandshakeTS :: int
  wp_RxBytes :: "64 word"
  wp_TxBytes :: "64 word"
  wp_Endpoint :: string

definition zero_wg_status :: wg_peer_status where
  "zero_wg_status = \<lparr>wp_PeerNodeID = [], wp_LastHandshakeTS = 0, wp_RxBytes = 0, wp_TxBytes = 0, wp_Endpoint = []\<rparr>"

definition enc_wg_status :: "wg_peer_status \<Rightarrow> json" where
  "enc_wg_status d = JObj [(''peer_node_id'', JStr (wp_PeerNodeID d)),
     (''last_handshake_ts'', JInt (wp_LastHandshakeTS d)),
     (''rx_bytes'', enc_u64 (wp_RxBytes d)),
     (''tx_bytes'', enc_u64 (wp_TxBytes d)),
     (''endpoint'', JStr (wp_Endpoint d))]"

definition dec_wg_status_onto :: "wg_peer_status \<Rightarrow> json \<Rightarrow> wg_peer_status option" where
  "dec_wg_status_onto = dec_struct
     [fld ''peer_node_id'' dec_string wp_PeerNodeID (\<lambda>x r. r\<lparr>wp_PeerNodeID := x\<rparr>),
      fld ''last_handshake_ts'' dec_int wp_LastHandshakeTS (\<lambda>x r. r\<lparr>wp_LastHandshakeTS := x\<rparr>),
      fld ''rx_bytes'' dec_u64 wp_RxBytes (\<lambda>x r. r\<lparr>wp_RxBytes := x\<rparr>),
      fld ''tx_bytes'' dec_u64 wp_TxBytes (\<lambda>x r. r\<lparr>wp_TxBytes := x\<rparr>),
      fld ''endpoint'' dec_string wp_Endpoint (\<lambda>x r. r\<lparr>wp_Endpoint := x\<rparr>)]"

definition dec_wg_status :: "json \<Rightarrow> wg_peer_status option" where
  "dec_wg_status = dec_wg_status_onto zero_wg_status"

record heartbeat_data =
  hd_TS :: int
  hd_Sys :: sys_metrics
  hd_WG :: "wg_peer_status list"

definition zero_heartbeat :: heartbeat_data where
  "zero_heartbeat = \<lparr>hd_TS = 0, hd_Sys = zero_sys, hd_WG = []\<rparr>"

definition enc_heartbeat :: "heartbeat_data \<Rightarrow> json" where
  "enc_heartbeat d = JObj [(''ts'', JInt (hd_TS d)),
     (''sys'', enc_sys (hd_Sys d)),
     (''wg'', enc_list enc_wg_status (hd_WG d))]"

definition dec_heartbeat_onto :: "heartbeat_data \<Rightarrow> json \<Rightarrow> heartbeat_data option" where
  "dec_heartbeat_onto = dec_struct
     [fld ''ts'' dec_int hd_TS (\<lambda>x r. r\<lparr>hd_TS := x\<rparr>),
      fld ''sys'' dec_sys_onto hd_Sys (\<lambda>x r. r\<lparr>hd_Sys := x\<rparr>),
      fld ''wg'' (dec_list dec_wg_status_onto zero_wg_status) hd_WG (\<lambda>x r. r\<lparr>hd_WG := x\<rparr>)]"

definition dec_heartbeat :: "json \<Rightarrow> heartbeat_data option" where
  "dec_heartbeat = dec_heartbeat_onto zero_heartbeat"

record ack_data =
  ad_OK :: bool
  ad_Err :: string

definition zero_ack :: ack_data where
  "zero_ack = \<lparr>ad_OK = False, ad_Err = []\<rparr>"

definition enc_ack :: "ack_data \<Rightarrow> json" where
  "enc_ack d = JObj [(''ok'', JBool (ad_OK d)),
     (''err'', JStr (ad_Err d))]"

definition dec_ack_onto :: "ack_data \<Rightarrow> json \<Rightarrow> ack_data option" where
  "dec_ack_onto = dec_struct
     [fld ''ok'' dec_bool ad_OK (\<lambda>x r. r\<lparr>ad_OK := x\<rparr>),
      fld ''err'' dec_string ad_Err (\<lambda>x r. r\<lparr>ad_Err := x\<rparr>)]"

definition dec_ack :: "json \<Rightarrow> ack_data option" where
  "dec_ack = dec_ack_onto zero_ack"

record kick_data =
  kd_Reason :: string

definition zero_kick :: kick_data where
  "zero_kick = \<lparr>kd_Reason = []\<rparr>"

definition enc_kick :: "kick_data \<Rightarrow> json" where
  "enc_kick d = JObj [(''reason'', JStr (kd_Reason d))]"

definition dec_kick_onto :: "kick_data \<Rightarrow> json \<Rightarrow> kick_data option" where
  "dec_kick_onto = dec_struct
     [fld ''reason'' dec_string kd_Reason (\<lambda>x r. r\<lparr>kd_Reason := x\<rparr>)]"

definition dec_kick :: "json \<Rightarrow> kick_data option" where
  "dec_kick = dec_kick_onto zero_kick"

record rotate_cert_data =
  rc_CertPEM :: string

definition zero_rotate_cert :: rotate_cert_data where
  "zero_rotate_cert = \<lparr>rc_CertPEM = []\<rparr>"

definition enc_rotate_cert :: "rotate_cert_data \<Rightarrow> json" where
  "enc_rotate_cert d = JObj [(''cert_pem'', JStr (rc_CertPEM d))]"

definition dec_rotate_cert_onto :: "rotate_cert_data \<Rightarrow> json \<Rightarrow> rotate_cert_data option" where
  "dec_rotate_cert_onto = dec_struct
     [fld ''cert_pem'' dec_string rc_CertPEM (\<lambda>x r. r\<lparr>rc_CertPEM := x\<rparr>)]"

definition dec_rotate_cert :: "json \<Rightarrow> rotate_cert_data option" where
  "dec_rotate_cert = dec_rotate_cert_onto zero_rotate_cert"

record error_data =
  er_Code :: string
  er_Msg :: string

definition zero_error :: error_data where
  "zero_error = \<lparr>er_Code = [], er_Msg = []\<rparr>"

definition enc_error :: "error_data \<Rightarrow> json" where
  "enc_error d = JObj [(''code'', JStr (er_Code d)),
     (''msg'', JStr (er_Msg d))]"

definition dec_error_onto :: "error_data \<Rightarrow> json \<Rightarrow> error_data option" where
  "dec_error_onto = dec_struct
     [fld ''code'' dec_string er_Code (\<lambda>x r. r\<lparr>er_Code := x\<rparr>),
      fld ''msg'' dec_string er_Msg (\<lambda>x r. r\<lparr>er_Msg := x\<rparr>)]"

definition dec_error :: "json \<Rightarrow> error_data option" where
  "dec_error = dec_error_onto zero_error"

record svc_action_data =
  sa_Nonce :: string
  sa_CT :: string

definition zero_svc_action :: svc_action_data where
  "zero_svc_action = \<lparr>sa_Nonce = [], sa_CT = []\<rparr>"

definition enc_svc_action :: "svc_action_data \<Rightarrow> json" where
  "enc_svc_action d = JObj [(''n'', JStr (sa_Nonce d)),
     (''ct'', JStr (sa_CT d))]"

definition dec_svc_action_onto :: "svc_action_data \<Rightarrow> json \<Rightarrow> svc_action_data option" where
  "dec_svc_action_onto = dec_struct
     [fld ''n'' dec_string sa_Nonce (\<lambda>x r. r\<lparr>sa_Nonce := x\<rparr>),
      fld ''ct'' dec_string sa_CT (\<lambda>x r. r\<lparr>sa_CT := x\<rparr>)]"

definition dec_svc_action :: "json \<Rightarrow> svc_action_data option" where
  "dec_svc_action = dec_svc_action_onto zero_svc_action"

section \<open>What the decoders return on encoded payloads\<close>

lemmas dec_defs = dec_struct_def fld_def

lemma dec_envelope_enc [simp, codec_simps]:
  "in_int64 (env_V e) \<Longrightarrow> dec_envelope (enc_envelope e) = Some e"
  by (simp add: dec_envelope_def enc_envelope_def dec_defs codec_simps)

lemma dec_enroll_enc [simp, codec_simps]: "dec_enroll (enc_enroll d) = Some d"
  by (simp add: dec_enroll_def enc_enroll_def dec_defs codec_simps)

lemma dec_enroll_ack_enc [simp, codec_simps]: "dec_enroll_ack (enc_enroll_ack d) = Some d"
  by (simp add: dec_enroll_ack_def enc_enroll_ack_def dec_defs codec_simps)

lemma dec_register_enc [simp, codec_simps]:
  "in_int64 (rd_WGPort d) \<Longrightarrow> in_int64 (rd_SocksPort d) \<Longrightarrow> dec_register (enc_register d) = Some d"
  by (simp add: dec_register_def enc_register_def dec_defs codec_simps)

lemma dec_strings_enc [simp, codec_simps]:
  "dec_list dec_string [] cur (enc_list JStr xs) = Some xs"
  by (rule dec_list_enc) simp

lemma dec_spec_onto_enc [codec_simps]:
  assumes "in_int64 (ps_KeepaliveS s)" and "\<not> ps_Exit z" and "ps_ExitAddr z = []"
  shows "dec_spec_onto z (enc_spec s) = Some s"
  using assms by (simp add: dec_spec_onto_def enc_spec_def dec_defs codec_simps)

lemma dec_spec_enc [simp, codec_simps]: "in_int64 (ps_KeepaliveS s) \<Longrightarrow> dec_spec (enc_spec s) = Some s"
  by (simp add: dec_spec_def dec_spec_onto_enc zero_spec_def)

lemma dec_register_ack_enc [simp, codec_simps]:
  assumes "\<forall>s \<in> set (ra_PeersExpected d). in_int64 (ps_KeepaliveS s)"
  shows "dec_register_ack (enc_register_ack d) = Some d"
proof -
  have "dec_list dec_spec_onto zero_spec cur (enc_list enc_spec (ra_PeersExpected d))
      = Some (ra_PeersExpected d)" for cur
    using assms by (intro dec_list_enc dec_spec_onto_enc) (auto simp: zero_spec_def)
  then show ?thesis by (simp add: dec_register_ack_def enc_register_ack_def dec_defs codec_simps)
qed

lemma dec_peer_remove_enc [simp, codec_simps]: "dec_peer_remove (enc_peer_remove d) = Some d"
  by (simp add: dec_peer_remove_def dec_peer_remove_onto_def enc_peer_remove_def dec_defs codec_simps)

lemma dec_sys_onto_enc [simp, codec_simps]: "dec_sys_onto z (enc_sys d) = Some d"
  by (simp add: dec_sys_onto_def enc_sys_def dec_defs codec_simps)

lemma dec_wg_status_onto_enc [codec_simps]:
  "in_int64 (wp_LastHandshakeTS d) \<Longrightarrow> dec_wg_status_onto z (enc_wg_status d) = Some d"
  by (simp add: dec_wg_status_onto_def enc_wg_status_def dec_defs codec_simps)

lemma dec_heartbeat_enc [simp, codec_simps]:
  assumes "in_int64 (hd_TS d)" and "\<forall>w \<in> set (hd_WG d). in_int64 (wp_LastHandshakeTS w)"
  shows "dec_heartbeat (enc_heartbeat d) = Some d"
proof -
  have "dec_list dec_wg_status_onto zero_wg_status cur (enc_list enc_wg_status (hd_WG d))
      = Some (hd_WG d)" for cur
    using assms(2) by (intro dec_list_enc dec_wg_status_onto_enc) auto
  then show ?thesis using assms(1)
    by (simp add: dec_heartbeat_def dec_heartbeat_onto_def enc_heartbeat_def dec_defs codec_simps)
qed

lemma dec_ack_enc [simp, codec_simps]: "dec_ack (enc_ack d) = Some d"
  and dec_kick_enc [simp, codec_simps]: "dec_kick (enc_kick k) = Some k"
  and dec_rotate_cert_enc [simp, codec_simps]: "dec_rotate_cert (enc_rotate_cert c) = Some c"
  and dec_error_enc [simp, codec_simps]: "dec_error (enc_error e) = Some e"
  and dec_svc_action_enc [simp, codec_simps]: "dec_svc_action (enc_svc_action a) = Some a"
  by (simp_all add: dec_ack_def dec_ack_onto_def enc_ack_def dec_kick_def dec_kick_onto_def
      enc_kick_def dec_rotate_cert_def dec_rotate_cert_onto_def enc_rotate_cert_def dec_error_def
      dec_error_onto_def enc_error_def dec_svc_action_def dec_svc_action_onto_def
      enc_svc_action_def dec_defs codec_simps)

section \<open>Framing\<close>

text \<open>
  A byte stream is a string of bytes. \<open>PutUint32\<close> writes the length of the body, \<open>uint32\<close> wide;
  \<open>frame_bytes\<close> is what the two writes of \<open>WriteFrame\<close> put on the wire for a marshalled body.
  \<open>read_frame\<close> takes one frame off a stream: the body with the rest of the stream, or the error
  \<open>ReadFrame\<close> returns (the end of the stream inside header or body is \<open>io.ReadFull\<close>'s error).
\<close>

definition PutUint32 :: "32 word \<Rightarrow> string" where
  "PutUint32 w = [char_of (unat w div 2 ^ 24), char_of (unat w div 2 ^ 16 mod 256),
     char_of (unat w div 2 ^ 8 mod 256), char_of (unat w mod 256)]"

definition Uint32 :: "string \<Rightarrow> nat" where
  "Uint32 h = of_char (h ! 0) * 2 ^ 24 + of_char (h ! 1) * 2 ^ 16 + of_char (h ! 2) * 2 ^ 8
     + of_char (h ! 3)"

definition frame_bytes :: "string \<Rightarrow> string result" where
  "frame_bytes body =
     (if length body > MaxFrame then Err (ErrMsg ''frame too large'')
      else Ok (PutUint32 (of_nat (length body)) @ body))"

definition read_frame :: "string \<Rightarrow> (string \<times> string) result" where
  "read_frame stream =
     (if length stream < 4 then Err (ErrMsg ''unexpected EOF'')
      else
        (let n = Uint32 (take 4 stream); rest = drop 4 stream in
         if n = 0 \<or> n > MaxFrame then Err (ErrMsg ''invalid frame length'')
         else if length rest < n then Err (ErrMsg ''unexpected EOF'')
         else Ok (take n rest, drop n rest)))"

text \<open>
  \<open>WriteFrame\<close> and \<open>ReadFrame\<close> around the text form of JSON, the arguments \<open>marshal\<close> and
  \<open>unmarshal\<close> (\<open>json.Marshal\<close> and \<open>json.Unmarshal\<close> between a JSON value and its bytes).
\<close>

definition WriteFrame :: "(json \<Rightarrow> string) \<Rightarrow> envelope \<Rightarrow> string result" where
  "WriteFrame marshal env = frame_bytes (marshal (enc_envelope env))"

definition ReadFrame :: "(string \<Rightarrow> json option) \<Rightarrow> string \<Rightarrow> (envelope \<times> string) result" where
  "ReadFrame unmarshal stream =
     (case read_frame stream of
        Inl e \<Rightarrow> Err e
      | Inr (body, rest) \<Rightarrow>
          (case Option.bind (unmarshal body) dec_envelope of
             None \<Rightarrow> Err (ErrMsg ''json'')
           | Some env \<Rightarrow> Ok (env, rest)))"

lemma length_PutUint32 [simp]: "length (PutUint32 w) = 4"
  by (simp add: PutUint32_def)

lemma base256_sum:
  "a * 256 + r0 = n \<Longrightarrow> b * 256 + r1 = a \<Longrightarrow> c * 256 + r2 = b \<Longrightarrow>
    c * 16777216 + r2 * 65536 + r1 * 256 + r0 = (n :: nat)"
  by auto

lemma base256:
  assumes "n < (2 :: nat) ^ 32"
  shows "n div 2 ^ 24 * 2 ^ 24 + n div 2 ^ 16 mod 256 * 2 ^ 16 + n div 2 ^ 8 mod 256 * 2 ^ 8
    + n mod 256 = n" and "n div 2 ^ 24 < 256"
proof -
  have d: "n div 16777216 = n div 256 div 256 div 256" "n div 65536 = n div 256 div 256"
    by (simp_all add: div_mult2_eq [symmetric])
  have "n div 16777216 * 16777216 + n div 65536 mod 256 * 65536 + n div 256 mod 256 * 256
      + n mod 256 = n"
    unfolding d by (rule base256_sum) (rule div_mult_mod_eq)+
  then show "n div 2 ^ 24 * 2 ^ 24 + n div 2 ^ 16 mod 256 * 2 ^ 16 + n div 2 ^ 8 mod 256 * 2 ^ 8
      + n mod 256 = n" by simp
  show "n div 2 ^ 24 < 256" using assms by simp
qed

lemma Uint32_PutUint32 [simp]: "Uint32 (PutUint32 w) = unat w"
proof -
  have "unat w < 2 ^ 32" using unsigned_less [of w, where 'a = nat] by simp
  from base256 [OF this] show ?thesis by (simp add: PutUint32_def Uint32_def)
qed

lemma read_frame_bytes:
  assumes "frame_bytes body = Ok bs" and "body \<noteq> []"
  shows "read_frame (bs @ rest) = Ok (body, rest)"
proof -
  have len: "length body \<le> 1048576" and bs: "bs = PutUint32 (of_nat (length body)) @ body"
    using assms(1) by (auto simp: frame_bytes_def MaxFrame_def split: if_splits)
  then have "unat (of_nat (length body) :: 32 word) = length body"
    by (simp only: unsigned_of_nat) (simp add: take_bit_nat_eq_self)
  then show ?thesis using len assms(2) by (simp add: read_frame_def bs MaxFrame_def Let_def)
qed

end
