(* ===== verification/Ring.thy ===== *)
theory Ring
  imports Proto "HOL-Library.Multiset"
begin

text \<open>
  \<open>internal/hub/ring.go\<close>: 24 hours of metrics per node in a ring of 2880 slots of 30 seconds.
  Go's \<open>/\<close> and \<open>%\<close> on \<open>int64\<close> truncate towards zero (\<open>sdiv\<close>, \<open>smod\<close>); an index below
  zero is a run-time panic. float64 arithmetic is exact rational arithmetic here (rounding is not
  modelled); the counter differences are taken on \<open>64 word\<close>, where the code's guard keeps them
  from wrapping.
\<close>

definition ringStep :: int where "ringStep = 30"
definition ringSlots :: int where "ringSlots = 24 * 3600 sdiv ringStep"

record sample =
  sa_TS :: int
  sa_CPUPct :: rat
  sa_MemPct :: rat
  sa_DiskPct :: rat
  sa_RxRate :: rat
  sa_TxRate :: rat
  sa_Load1 :: rat
  sa_MemUsed :: "64 word"
  sa_MemTotal :: "64 word"

definition zero_sample :: sample where
  "zero_sample = \<lparr>sa_TS = 0, sa_CPUPct = 0, sa_MemPct = 0, sa_DiskPct = 0, sa_RxRate = 0,
     sa_TxRate = 0, sa_Load1 = 0, sa_MemUsed = 0, sa_MemTotal = 0\<rparr>"

record node_ring =
  nr_slots :: "sample list"
  nr_lastTS :: int
  nr_prevRx :: "64 word"
  nr_prevTx :: "64 word"
  nr_prevTS :: int

definition zero_ring :: node_ring where
  "zero_ring = \<lparr>nr_slots = replicate (nat ringSlots) zero_sample, nr_lastTS = 0, nr_prevRx = 0,
     nr_prevTx = 0, nr_prevTS = 0\<rparr>"

type_synonym metrics = "string \<rightharpoonup> node_ring"

definition NewMetrics :: metrics where
  "NewMetrics = Map.empty"

definition slot_of :: "int \<Rightarrow> int" where
  "slot_of ts = (ts sdiv ringStep) smod ringSlots"

definition u64_rat :: "64 word \<Rightarrow> rat" where
  "u64_rat w = of_nat (unat w)"

definition counter_rate :: "64 word \<Rightarrow> 64 word \<Rightarrow> int \<Rightarrow> rat" where
  "counter_rate cur prev dt = u64_rat (cur - prev) / of_int dt"

definition ingest_sample :: "node_ring \<Rightarrow> int \<Rightarrow> sys_metrics \<Rightarrow> sample" where
  "ingest_sample r ts sys =
     (let s0 = zero_sample\<lparr>sa_TS := ts - ts smod ringStep, sa_CPUPct := sm_CPUPct sys,
            sa_Load1 := sm_Load1 sys, sa_MemUsed := sm_MemUsed sys, sa_MemTotal := sm_MemTotal sys\<rparr>;
          s1 = (if sm_MemTotal sys > 0
                then s0\<lparr>sa_MemPct := u64_rat (sm_MemUsed sys) / u64_rat (sm_MemTotal sys) * 100\<rparr>
                else s0);
          s2 = (if sm_DiskTotal sys > 0
                then s1\<lparr>sa_DiskPct := u64_rat (sm_DiskUsed sys) / u64_rat (sm_DiskTotal sys) * 100\<rparr>
                else s1)
      in if nr_prevTS r > 0 \<and> ts > nr_prevTS r \<and> sm_NetRx sys \<ge> nr_prevRx r \<and> sm_NetTx sys \<ge> nr_prevTx r
         then (let dt = ts - nr_prevTS r in
               s2\<lparr>sa_RxRate := counter_rate (sm_NetRx sys) (nr_prevRx r) dt,
                  sa_TxRate := counter_rate (sm_NetTx sys) (nr_prevTx r) dt\<rparr>)
         else s2)"

definition Ingest :: "string \<Rightarrow> int \<Rightarrow> sys_metrics \<Rightarrow> metrics \<Rightarrow> metrics \<times> unit result" where
  "Ingest nid ts sys m =
     (let r = (case m nid of None \<Rightarrow> zero_ring | Some r \<Rightarrow> r);
          s = ingest_sample r ts sys;
          r' = r\<lparr>nr_prevRx := sm_NetRx sys, nr_prevTx := sm_NetTx sys, nr_prevTS := ts,
                nr_lastTS := ts\<rparr>;
          i = slot_of ts
      in if i < 0 then (m(nid \<mapsto> r'), Err (Panic ''index out of range''))
         else (m(nid \<mapsto> r'\<lparr>nr_slots := (nr_slots r')[nat i := s]\<rparr>), Ok ()))"

text \<open>The insertion sort of \<open>sortSamples\<close>, loop by loop.\<close>

fun sift_down :: "nat \<Rightarrow> sample list \<Rightarrow> sample list" where
  "sift_down 0 s = s"
| "sift_down (Suc j) s =
     (if sa_TS (s ! j) > sa_TS (s ! Suc j)
      then sift_down j (s[j := s ! Suc j, Suc j := s ! j])
      else s)"

definition sortSamples :: "sample list \<Rightarrow> sample list" where
  "sortSamples s = fold sift_down [1..<length s] s"

definition Range :: "string \<Rightarrow> int \<Rightarrow> int \<Rightarrow> metrics \<Rightarrow> sample list" where
  "Range nid lo hi m =
     (case m nid of
        None \<Rightarrow> []
      | Some r \<Rightarrow> sortSamples (filter (\<lambda>s. lo \<le> sa_TS s \<and> sa_TS s \<le> hi) (nr_slots r)))"

definition Latest :: "string \<Rightarrow> metrics \<Rightarrow> sample option result" where
  "Latest nid m =
     (case m nid of
        None \<Rightarrow> Ok None
      | Some r \<Rightarrow>
          if nr_lastTS r = 0 then Ok None
          else if slot_of (nr_lastTS r) < 0 then Err (Panic ''index out of range'')
          else Ok (Some (nr_slots r ! nat (slot_of (nr_lastTS r)))))"

definition Drop :: "string \<Rightarrow> metrics \<Rightarrow> metrics" where
  "Drop nid m = m(nid := None)"

section \<open>Slots\<close>

lemma ringSlots_num [simp]: "ringSlots = 2880"
  by (simp add: ringSlots_def ringStep_def signed_divide_int_def)

lemma slot_of_nonneg: "0 \<le> ts \<Longrightarrow> slot_of ts = ts div 30 mod 2880"
  by (simp add: slot_of_def ringStep_def signed_divide_int_def signed_modulo_int_def sgn_if)

lemma slot_of_range: "0 \<le> ts \<Longrightarrow> 0 \<le> slot_of ts \<and> slot_of ts < 2880"
  by (simp add: slot_of_nonneg)

definition sample_at :: "nat \<Rightarrow> sample \<Rightarrow> bool" where
  "sample_at i s \<longleftrightarrow> sa_TS s = 0 \<or> (0 < sa_TS s \<and> 30 dvd sa_TS s \<and> slot_of (sa_TS s) = int i)"

definition ring_ok :: "node_ring \<Rightarrow> bool" where
  "ring_ok r \<longleftrightarrow> length (nr_slots r) = 2880 \<and> (\<forall>i < 2880. sample_at i (nr_slots r ! i))"

definition metrics_ok :: "metrics \<Rightarrow> bool" where
  "metrics_ok m \<longleftrightarrow> (\<forall>nid r. m nid = Some r \<longrightarrow> ring_ok r)"

lemma ring_ok_zero: "ring_ok zero_ring"
  by (simp add: ring_ok_def sample_at_def zero_ring_def zero_sample_def)

lemma ingest_sample_TS [simp]: "sa_TS (ingest_sample r ts sys) = ts - ts smod 30"
  by (simp add: ingest_sample_def ringStep_def Let_def)

lemma ingest_TS_mod: "0 \<le> (ts :: int) \<Longrightarrow> ts - ts smod 30 = ts - ts mod 30"
  by (simp add: signed_modulo_int_def sgn_if)

lemma slot_of_step: "0 \<le> ts \<Longrightarrow> slot_of (ts - ts mod 30) = slot_of ts"
  by (simp add: slot_of_nonneg minus_mod_eq_mult_div)

lemma Ingest_ok:
  assumes "0 \<le> ts"
  shows "Ingest nid ts sys m =
    (let r = (case m nid of None \<Rightarrow> zero_ring | Some r \<Rightarrow> r) in
     (m(nid \<mapsto> r\<lparr>nr_prevRx := sm_NetRx sys, nr_prevTx := sm_NetTx sys, nr_prevTS := ts,
         nr_lastTS := ts, nr_slots := (nr_slots r)[nat (slot_of ts) := ingest_sample r ts sys]\<rparr>),
      Ok ()))"
  using slot_of_range [OF assms] by (simp add: Ingest_def Let_def)

definition ring_of :: "string \<Rightarrow> metrics \<Rightarrow> node_ring" where
  "ring_of nid m = (case m nid of None \<Rightarrow> zero_ring | Some r \<Rightarrow> r)"

lemma ring_of_ok: "metrics_ok m \<Longrightarrow> ring_ok (ring_of nid m)"
  using ring_ok_zero by (auto simp: metrics_ok_def ring_of_def split: option.split)

lemma sample_at_ingest:
  assumes "0 \<le> ts"
  shows "sample_at (nat (slot_of ts)) (ingest_sample r ts sys)"
proof -
  have "ts - ts mod 30 = 0 \<or> 0 < ts - ts mod 30" "30 dvd (ts - ts mod 30)"
    using assms by (auto simp: dvd_minus_mod)
  with assms show ?thesis
    using slot_of_range [OF assms] slot_of_step [OF assms]
    by (auto simp: sample_at_def ingest_TS_mod)
qed

lemma Ingest_metrics_ok [wf_intros]:
  assumes "metrics_ok m" and "0 \<le> ts"
  shows "metrics_ok (fst (Ingest nid ts sys m))"
  using assms(1) ring_of_ok [OF assms(1), of nid] slot_of_range [OF assms(2)]
    sample_at_ingest [OF assms(2), of "ring_of nid m" sys]
  by (simp add: Ingest_ok [OF assms(2)] metrics_ok_def ring_ok_def Let_def nth_list_update
      nat_less_iff flip: ring_of_def)

section \<open>The sort\<close>

fun put_right :: "sample \<Rightarrow> sample list \<Rightarrow> sample list" where
  "put_right x [] = [x]"
| "put_right x (y # ys) = (if sa_TS x < sa_TS y then x # y # ys else y # put_right x ys)"

lemma put_right_snoc:
  "put_right x (ys @ [y]) =
     (if sa_TS x < sa_TS y \<and> sorted (map sa_TS (ys @ [y])) then put_right x ys @ [y]
      else put_right x (ys @ [y]))"
  by (induction ys) auto

lemma put_right_end: "\<forall>y \<in> set ys. sa_TS y \<le> sa_TS x \<Longrightarrow> put_right x ys = ys @ [x]"
  by (induction ys) auto

lemma sift_down_put_right:
  assumes "sorted (map sa_TS ys)"
  shows "sift_down (length ys) (ys @ x # rest) = put_right x ys @ rest"
  using assms
proof (induction ys arbitrary: rest rule: rev_induct)
  case (snoc y ys)
  show ?case
  proof (cases "sa_TS x < sa_TS y")
    case True
    have "sift_down (length (ys @ [y])) ((ys @ [y]) @ x # rest) = sift_down (length ys) (ys @ x # y # rest)"
      using True by (simp add: nth_append list_update_append)
    also have "\<dots> = put_right x ys @ y # rest"
      using snoc by (intro snoc.IH) (simp add: sorted_append)
    also have "\<dots> = put_right x (ys @ [y]) @ rest"
      using True snoc.prems put_right_snoc [of x ys y] by simp
    finally show ?thesis .
  next
    case False
    then have "\<forall>z \<in> set (ys @ [y]). sa_TS z \<le> sa_TS x"
      using snoc.prems by (fastforce simp: sorted_append)
    then have "put_right x (ys @ [y]) = (ys @ [y]) @ [x]" by (rule put_right_end)
    with False show ?thesis by (simp add: nth_append)
  qed
qed simp

lemma mset_put_right [simp]: "mset (put_right x ys) = add_mset x (mset ys)"
  by (induction ys) auto

lemma length_put_right [simp]: "length (put_right x ys) = Suc (length ys)"
  by (induction ys) auto

lemma sorted_put_right: "sorted (map sa_TS ys) \<Longrightarrow> sorted (map sa_TS (put_right x ys))"
proof (induction ys)
  case (Cons y ys)
  have "set (put_right x ys) = insert x (set ys)"
    by (metis mset_put_right set_mset_add_mset_insert set_mset_mset)
  with Cons show ?case by auto
qed simp

lemma filter_put_right:
  "sorted (map sa_TS ys) \<Longrightarrow>
     filter (\<lambda>z. sa_TS z = k) (put_right x ys) = filter (\<lambda>z. sa_TS z = k) (ys @ [x])"
proof (induction ys)
  case (Cons y ys)
  show ?case
  proof (cases "sa_TS x < sa_TS y")
    case True
    have "filter (\<lambda>z. sa_TS z = sa_TS x) (y # ys) = []"
      using True Cons.prems by (auto simp: filter_empty_conv)
    with True show ?thesis by auto
  next
    case False
    then show ?thesis using Cons by auto
  qed
qed simp

definition right_sorted :: "sample list \<Rightarrow> sample list" where
  "right_sorted s = fold put_right s []"

lemma right_sorted_snoc: "right_sorted (s @ [x]) = put_right x (right_sorted s)"
  by (simp add: right_sorted_def)

lemma right_sorted_facts:
  "sorted (map sa_TS (right_sorted s))" "mset (right_sorted s) = mset s"
  "filter (\<lambda>z. sa_TS z = k) (right_sorted s) = filter (\<lambda>z. sa_TS z = k) s"
proof (induction s rule: rev_induct)
  case (snoc x s)
  {
    case 1
    show ?case using snoc(1) by (simp add: right_sorted_snoc sorted_put_right)
  next
    case 2
    show ?case using snoc(2) by (simp add: right_sorted_snoc)
  next
    case 3
    show ?case using snoc(1,3) by (simp add: right_sorted_snoc filter_put_right)
  }
qed (simp_all add: right_sorted_def)

lemma length_right_sorted [simp]: "length (right_sorted s) = length s"
  by (metis right_sorted_facts(2) size_mset)

lemma sort_prefix:
  "n \<le> length s \<Longrightarrow> 0 < n \<Longrightarrow>
    fold sift_down [1..<n] s = right_sorted (take n s) @ drop n s"
proof (induction n)
  case (Suc n)
  show ?case
  proof (cases "n = 0")
    case True
    with Suc.prems show ?thesis by (cases s) (simp_all add: right_sorted_def)
  next
    case False
    have "fold sift_down [1..<Suc n] s = sift_down n (right_sorted (take n s) @ drop n s)"
      using False Suc by simp
    also have "\<dots> = sift_down (length (right_sorted (take n s)))
        (right_sorted (take n s) @ (s ! n) # drop (Suc n) s)"
      using Suc.prems by (simp add: Cons_nth_drop_Suc min_def)
    also have "\<dots> = put_right (s ! n) (right_sorted (take n s)) @ drop (Suc n) s"
      by (rule sift_down_put_right) (rule right_sorted_facts)
    also have "\<dots> = right_sorted (take (Suc n) s) @ drop (Suc n) s"
      using Suc.prems by (simp add: take_Suc_conv_app_nth right_sorted_snoc)
    finally show ?thesis .
  qed
qed simp

lemma sortSamples_eq: "sortSamples s = sort_key sa_TS s"
proof -
  have "sort_key sa_TS s = right_sorted s"
  proof (rule properties_for_sort_key)
    show "filter (\<lambda>x. sa_TS k = sa_TS x) (right_sorted s) = filter (\<lambda>x. sa_TS k = sa_TS x) s" for k
      using right_sorted_facts(3) [of "sa_TS k" s] by (simp add: eq_commute [of "sa_TS k"])
  qed (simp_all add: right_sorted_facts)
  moreover have "sortSamples s = right_sorted s"
  proof (cases "s = []")
    case False
    then show ?thesis using sort_prefix [of "length s" s] by (simp add: sortSamples_def)
  qed (simp add: sortSamples_def right_sorted_def)
  ultimately show ?thesis by simp
qed

end
