(* ===== verification/RingProps.thy ===== *)
theory RingProps
  imports Ring
begin

text \<open>
  The properties of the metrics ring of \<open>internal/hub/ring.go\<close>: what \<open>Latest\<close> and \<open>Range\<close> return after
  any history of samples, how long a sample is kept, the rates, and when \<open>Ingest\<close> panics.
\<close>

section \<open>Histories\<close>

datatype metrics_op = MIngest string int sys_metrics | MDrop string

fun metrics_exec :: "metrics_op \<Rightarrow> metrics \<Rightarrow> metrics" where
  "metrics_exec (MIngest nid ts sys) m = fst (Ingest nid ts sys m)"
| "metrics_exec (MDrop nid) m = Drop nid m"

fun nonneg_op :: "metrics_op \<Rightarrow> bool" where
  "nonneg_op (MIngest nid ts sys) = (0 \<le> ts)"
| "nonneg_op (MDrop nid) = True"

interpretation history: invariant_machine metrics_exec nonneg_op metrics_ok
proof
  fix c m
  assume "nonneg_op c" and "metrics_ok m"
  then show "metrics_ok (metrics_exec c m)"
    by (cases c) (auto simp: wf_intros, simp add: metrics_ok_def Drop_def)
qed

lemma metrics_ok_New: "metrics_ok NewMetrics"
  by (simp add: metrics_ok_def NewMetrics_def)

lemma run_metrics_ok: "list_all nonneg_op ops \<Longrightarrow> metrics_ok (run_ops metrics_exec ops NewMetrics)"
  using history.run_inv metrics_ok_New by blast

section \<open>Reading back\<close>

text \<open>
  After a sample is ingested \<open>Latest\<close> returns exactly that sample, whatever history came before,
  and the latest sample of every other node is what it was.
\<close>

theorem Ingest_Latest:
  assumes "list_all nonneg_op ops" and "0 < ts"
  shows "Latest nid (fst (Ingest nid ts sys (run_ops metrics_exec ops NewMetrics)))
      = Ok (Some (ingest_sample (ring_of nid (run_ops metrics_exec ops NewMetrics)) ts sys))
    \<and> (\<forall>nid'. nid' \<noteq> nid \<longrightarrow> Latest nid' (fst (Ingest nid ts sys (run_ops metrics_exec ops NewMetrics)))
         = Latest nid' (run_ops metrics_exec ops NewMetrics))"
proof -
  let ?m = "run_ops metrics_exec ops NewMetrics"
  have "length (nr_slots (ring_of nid ?m)) = 2880"
    using ring_of_ok [OF run_metrics_ok [OF assms(1)]] by (simp add: ring_ok_def)
  moreover have "0 \<le> slot_of ts" "slot_of ts < 2880" using slot_of_range [of ts] assms(2) by auto
  ultimately show ?thesis using assms(2)
    by (simp add: Ingest_ok Latest_def Let_def nat_less_iff flip: ring_of_def)
qed

definition demo_sys :: "64 word \<Rightarrow> sys_metrics" where
  "demo_sys rx = zero_sys\<lparr>sm_NetRx := rx\<rparr>"

theorem Ingest_Latest_witness:
  "Latest ''A'' (fst (Ingest ''A'' 95 (demo_sys 300) (run_ops metrics_exec [MIngest ''A'' 65 (demo_sys 0)] NewMetrics)))
     = Ok (Some (ingest_sample (ring_of ''A'' (run_ops metrics_exec [MIngest ''A'' 65 (demo_sys 0)] NewMetrics))
         95 (demo_sys 300)))"
  using Ingest_Latest [of "[MIngest ''A'' 65 (demo_sys 0)]" 95 "''A''" "demo_sys 300"] by simp

lemma slots_distinct:
  assumes "ring_ok r"
  shows "distinct (map sa_TS (filter (\<lambda>s. 0 < sa_TS s \<and> P s) (nr_slots r)))"
proof -
  let ?xs = "nr_slots r"
  have len: "length ?xs = 2880" and at: "\<And>i. i < 2880 \<Longrightarrow> sample_at i (?xs ! i)"
    using assms by (simp_all add: ring_ok_def)
  have inj: "i = j" if "i < 2880" "j < 2880" "0 < sa_TS (?xs ! i)" "sa_TS (?xs ! i) = sa_TS (?xs ! j)" for i j
    using at [OF that(1)] at [OF that(2)] that(3,4) by (auto simp: sample_at_def)
  have "distinct (map sa_TS (filter (\<lambda>s. 0 < sa_TS s \<and> P s) xs))"
    if "\<forall>i < length xs. \<forall>j < length xs. 0 < sa_TS (xs ! i) \<longrightarrow> sa_TS (xs ! i) = sa_TS (xs ! j) \<longrightarrow> i = j" for xs
    using that
  proof (induction xs)
    case (Cons x xs)
    have "\<forall>i < length xs. \<forall>j < length xs. 0 < sa_TS (xs ! i) \<longrightarrow> sa_TS (xs ! i) = sa_TS (xs ! j) \<longrightarrow> i = j"
      using Cons.prems by (metis Suc_less_eq Suc_inject length_Cons nth_Cons_Suc)
    moreover have "\<forall>y \<in> set xs. 0 < sa_TS x \<longrightarrow> sa_TS x \<noteq> sa_TS y"
    proof (intro ballI impI notI)
      fix y
      assume y: "y \<in> set xs" "0 < sa_TS x" and eq: "sa_TS x = sa_TS y"
      from y(1) obtain i where "i < length xs" "xs ! i = y" by (auto simp: in_set_conv_nth)
      then show False using Cons.prems eq y(2) by (metis Suc_less_eq length_Cons nth_Cons_0 nth_Cons_Suc
          old.nat.distinct(2) zero_less_Suc)
    qed
    ultimately show ?case using Cons.IH by auto
  qed simp
  then show ?thesis using inj len by auto
qed

text \<open>
  \<open>Range\<close> is a chronological series. For a start after the epoch, after any history, its samples
  are strictly increasing in time, lie in the range asked for, are aligned to the 30 second grid and
  are at most 2880.
\<close>

theorem Range_chronological:
  assumes "list_all nonneg_op ops" and "0 < lo"
  shows "sorted_wrt (<) (map sa_TS (Range nid lo hi (run_ops metrics_exec ops NewMetrics)))
    \<and> (\<forall>s \<in> set (Range nid lo hi (run_ops metrics_exec ops NewMetrics)).
         lo \<le> sa_TS s \<and> sa_TS s \<le> hi \<and> 30 dvd sa_TS s)
    \<and> length (Range nid lo hi (run_ops metrics_exec ops NewMetrics)) \<le> 2880"
proof (cases "run_ops metrics_exec ops NewMetrics nid")
  case None
  then show ?thesis by (simp add: Range_def)
next
  case (Some r)
  let ?f = "filter (\<lambda>s. lo \<le> sa_TS s \<and> sa_TS s \<le> hi) (nr_slots r)"
  have ok: "ring_ok r" using run_metrics_ok [OF assms(1)] Some by (auto simp: metrics_ok_def)
  have range: "Range nid lo hi (run_ops metrics_exec ops NewMetrics) = sort_key sa_TS ?f"
    using Some by (simp add: Range_def sortSamples_eq)
  have "?f = filter (\<lambda>s. 0 < sa_TS s \<and> lo \<le> sa_TS s \<and> sa_TS s \<le> hi) (nr_slots r)"
    using assms(2) by (intro filter_cong) auto
  then have "distinct (map sa_TS ?f)" using slots_distinct [OF ok] by simp
  then have "distinct (map sa_TS (sort_key sa_TS ?f))"
    using mset_eq_imp_distinct_iff [of "map sa_TS (sort_key sa_TS ?f)" "map sa_TS ?f"]
    by (simp only: mset_map mset_sort)
  then have "sorted_wrt (<) (map sa_TS (sort_key sa_TS ?f))"
    by (simp add: strict_sorted_iff)
  moreover have "30 dvd sa_TS s" if "s \<in> set (nr_slots r)" for s
    using that ok by (auto simp: ring_ok_def sample_at_def in_set_conv_nth)
  moreover have "length ?f \<le> 2880"
    using ok length_filter_le [of _ "nr_slots r"] by (metis ring_ok_def)
  ultimately show ?thesis by (simp add: range)
qed

theorem Range_chronological_witness:
  "sorted_wrt (<) (map sa_TS (Range ''A'' 1 1000000
     (run_ops metrics_exec [MIngest ''A'' 86400 (demo_sys 0), MIngest ''A'' 65 (demo_sys 0)] NewMetrics)))"
  using Range_chronological [of "[MIngest ''A'' 86400 (demo_sys 0), MIngest ''A'' 65 (demo_sys 0)]" 1
      "''A''" 1000000] by simp

section \<open>Retention\<close>

text \<open>Operations that leave the slot of \<open>ts\<close> of node \<open>nid\<close> alone: no other step of the same day slot.\<close>

fun keeps_sample :: "string \<Rightarrow> int \<Rightarrow> metrics_op \<Rightarrow> bool" where
  "keeps_sample nid ts (MIngest n t sys) \<longleftrightarrow> 0 \<le> t \<and> (n = nid \<longrightarrow> ts div 30 < t div 30 \<and> t div 30 < ts div 30 + 2880)"
| "keeps_sample nid ts (MDrop n) \<longleftrightarrow> n \<noteq> nid"

definition holds_sample :: "string \<Rightarrow> int \<Rightarrow> sample \<Rightarrow> metrics \<Rightarrow> bool" where
  "holds_sample nid ts s m \<longleftrightarrow> metrics_ok m
     \<and> (\<exists>r. m nid = Some r \<and> nr_slots r ! nat (slot_of ts) = s)"

lemma slot_of_other:
  assumes "0 \<le> ts" and "ts div 30 < t div 30" and "t div 30 < ts div 30 + 2880"
  shows "slot_of t \<noteq> slot_of ts"
proof
  assume "slot_of t = slot_of ts"
  moreover have "0 \<le> t" using assms(1,2) using pos_imp_zdiv_neg_iff [of 30 t] pos_imp_zdiv_nonneg_iff [of 30 ts] by linarith
  ultimately have "(t div 30) mod 2880 = (ts div 30) mod 2880" using assms(1) by (simp add: slot_of_nonneg)
  then have "2880 dvd (t div 30 - ts div 30)" by (simp add: mod_eq_dvd_iff)
  with assms(2,3) show False using zdvd_imp_le [of 2880 "t div 30 - ts div 30"] by simp
qed

lemma keeps_sample_step:
  assumes ts: "0 \<le> ts" and keep: "keeps_sample nid ts c" and holds: "holds_sample nid ts s m"
  shows "holds_sample nid ts s (metrics_exec c m)"
proof (cases c)
  case (MIngest n t sys)
  with keep have t: "0 \<le> t" by simp
  have ok: "metrics_ok (fst (Ingest n t sys m))"
    using holds t by (simp add: holds_sample_def Ingest_metrics_ok)
  show ?thesis
  proof (cases "n = nid")
    case True
    then have "slot_of t \<noteq> slot_of ts" using slot_of_other [OF ts] keep MIngest by simp
    then have "nat (slot_of t) \<noteq> nat (slot_of ts)"
      using slot_of_range [OF t] slot_of_range [OF ts] by (simp add: eq_nat_nat_iff)
    with holds ok MIngest True t show ?thesis
      by (auto simp: holds_sample_def Ingest_ok Let_def)
  next
    case False
    with holds ok MIngest t show ?thesis by (auto simp: holds_sample_def Ingest_ok Let_def)
  qed
next
  case (MDrop n)
  with keep holds show ?thesis by (auto simp: holds_sample_def Drop_def metrics_ok_def)
qed

interpretation retention: invariant_machine metrics_exec "\<lambda>c. 0 \<le> ts \<and> keeps_sample nid ts c"
    "holds_sample nid ts s" for ts nid s
  using keeps_sample_step by unfold_locales blast

text \<open>
  A sample is kept for a day. It stays in \<open>Range\<close> through every later history in which its node
  reports steps after it and less than 24 hours (2880 steps of 30 seconds) ahead, whatever the
  other nodes report.
\<close>

theorem sample_kept_a_day:
  assumes "list_all nonneg_op ops" and "30 \<le> ts" and "list_all (keeps_sample nid ts) later"
    and "lo \<le> ts - ts mod 30" and "ts - ts mod 30 \<le> hi"
  shows "ingest_sample (ring_of nid (run_ops metrics_exec ops NewMetrics)) ts sys
    \<in> set (Range nid lo hi (run_ops metrics_exec later
         (fst (Ingest nid ts sys (run_ops metrics_exec ops NewMetrics)))))"
proof -
  let ?m = "run_ops metrics_exec ops NewMetrics" and ?s = "ingest_sample (ring_of nid (run_ops metrics_exec ops NewMetrics)) ts sys"
  have ts: "0 \<le> ts" using assms(2) by simp
  have "holds_sample nid ts ?s (fst (Ingest nid ts sys ?m))"
    using Ingest_metrics_ok [OF run_metrics_ok [OF assms(1)] ts] ring_of_ok [OF run_metrics_ok [OF assms(1)]]
      slot_of_range [OF ts] ts
    by (simp add: holds_sample_def Ingest_ok Let_def ring_ok_def nat_less_iff flip: ring_of_def)
  then have "holds_sample nid ts ?s (run_ops metrics_exec later (fst (Ingest nid ts sys ?m)))"
    by (rule retention.run_inv [rotated]) (use assms(3) ts in \<open>auto simp: list_all_iff\<close>)
  then obtain r where r: "run_ops metrics_exec later (fst (Ingest nid ts sys ?m)) nid = Some r"
      "nr_slots r ! nat (slot_of ts) = ?s" "ring_ok r"
    by (auto simp: holds_sample_def metrics_ok_def)
  have "nat (slot_of ts) < length (nr_slots r)"
    using r(3) slot_of_range [OF ts] by (simp add: ring_ok_def nat_less_iff)
  then have "?s \<in> set (nr_slots r)" using r(2) nth_mem by fastforce
  moreover have "sa_TS ?s = ts - ts mod 30" using ts by (simp add: ingest_TS_mod)
  ultimately show ?thesis using r(1) assms(4,5) by (simp add: Range_def sortSamples_eq)
qed

theorem sample_kept_a_day_witness:
  "ingest_sample zero_ring 60 (demo_sys 0) \<in> set (Range ''A'' 60 60
     (run_ops metrics_exec [MIngest ''A'' 86000 (demo_sys 5), MIngest ''B'' 60 (demo_sys 7)]
       (fst (Ingest ''A'' 60 (demo_sys 0) NewMetrics))))"
  using sample_kept_a_day [of "[]" 60 "''A''" "[MIngest ''A'' 86000 (demo_sys 5), MIngest ''B'' 60 (demo_sys 7)]"
      60 60 "demo_sys 0"]
  by (simp add: ring_of_def NewMetrics_def)

section \<open>Rates\<close>

lemma counter_rate_growth:
  assumes "prev \<le> cur" and "0 < dt"
  shows "counter_rate cur prev dt * of_int dt = of_nat (unat cur) - of_nat (unat prev)"
    and "0 \<le> counter_rate cur prev dt"
proof -
  have "of_nat (unat (cur - prev)) = (of_nat (unat cur) - of_nat (unat prev) :: rat)"
    using assms(1) by (simp only: unat_minus_le of_nat_diff word_le_nat_alt)
  then show "counter_rate cur prev dt * of_int dt = of_nat (unat cur) - of_nat (unat prev)"
    using assms(2) by (simp add: counter_rate_def u64_rat_def)
  show "0 \<le> counter_rate cur prev dt" unfolding counter_rate_def u64_rat_def
    using assms(2) by (intro divide_nonneg_pos of_nat_0_le_iff) simp
qed

text \<open>
  Rates never spike negative. The rate of a sample times the seconds since the previous one is
  exactly the growth of the counter, and it is zero when there is no earlier sample, time did not
  advance, or either counter went down (a reboot).
\<close>

theorem rates_are_growth:
  "(let s = ingest_sample r ts sys; dt = of_int (ts - nr_prevTS r) in
    if nr_prevTS r > 0 \<and> ts > nr_prevTS r \<and> sm_NetRx sys \<ge> nr_prevRx r \<and> sm_NetTx sys \<ge> nr_prevTx r
    then sa_RxRate s * dt = of_nat (unat (sm_NetRx sys)) - of_nat (unat (nr_prevRx r))
       \<and> sa_TxRate s * dt = of_nat (unat (sm_NetTx sys)) - of_nat (unat (nr_prevTx r))
       \<and> 0 \<le> sa_RxRate s \<and> 0 \<le> sa_TxRate s
    else sa_RxRate s = 0 \<and> sa_TxRate s = 0)"
proof (cases "nr_prevTS r > 0 \<and> ts > nr_prevTS r \<and> sm_NetRx sys \<ge> nr_prevRx r \<and> sm_NetTx sys \<ge> nr_prevTx r")
  case True
  then have rx: "nr_prevRx r \<le> sm_NetRx sys" and tx: "nr_prevTx r \<le> sm_NetTx sys"
    and dt: "0 < ts - nr_prevTS r" by simp_all
  show ?thesis using True counter_rate_growth [OF rx dt] counter_rate_growth [OF tx dt]
    by (simp add: ingest_sample_def Let_def)
next
  case False
  then show ?thesis unfolding Let_def if_not_P [OF False] by (auto simp: ingest_sample_def Let_def zero_sample_def)
qed

section \<open>Timestamps before the epoch\<close>

lemma slot_of_neg: "ts < 0 \<Longrightarrow> slot_of ts = - ((- ts) div 30 mod 2880)"
proof -
  assume neg: "ts < 0"
  define q where "q = (- ts) div 30"
  have "ts sdiv 30 = - q" using neg by (simp add: q_def signed_divide_int_def sgn_if)
  moreover have "(- q) smod 2880 = - (q mod 2880)" if "0 \<le> q"
    using that by (simp add: signed_modulo_int_def sgn_if)
  moreover have "0 \<le> q" using neg by (simp add: q_def)
  ultimately show ?thesis by (simp add: slot_of_def ringStep_def q_def)
qed

text \<open>
  C40: the hub trusts the agent's clock. \<open>Ingest\<close> returns on every timestamp from the epoch on and on
  every map of rings; on a timestamp before it, it panics (the hub process dies) unless the slot number
  happens to be zero.
\<close>

theorem Ingest_panics_iff:
  "(\<exists>e. snd (Ingest nid ts sys m) = Err e) \<longleftrightarrow> ts < 0 \<and> (- ts) div 30 mod 2880 \<noteq> 0"
proof (cases "0 \<le> ts")
  case True
  then show ?thesis using slot_of_range [OF True] by (simp add: Ingest_def Let_def)
next
  case False
  then have neg: "ts < 0" by simp
  have "0 \<le> (- ts) div 30 mod 2880" by simp
  then show ?thesis using neg by (auto simp: Ingest_def Let_def slot_of_neg [OF neg])
qed

end
