(* ===== verification/GoText.thy ===== *)
theory GoText
  imports Netip
begin

text \<open>
  The parts of \<open>strings\<close>, \<open>bufio\<close>, \<open>strconv\<close> and \<open>net\<close> that several components use on text: trimming,
  reading a line, signed numbers, splitting host and port, and the loopback test with the whole parser of
  IPv4 and IPv6 addresses.
\<close>

section \<open>White space\<close>

text \<open>The UTF-8 forms of the characters \<open>unicode.IsSpace\<close> accepts.\<close>

definition utf8 :: "nat list \<Rightarrow> string" where
  "utf8 ns = map char_of ns"

definition spaces :: "string list" where
  "spaces = map utf8 ([[9], [10], [11], [12], [13], [32], [194, 133], [194, 160], [225, 154, 128],
     [226, 128, 168], [226, 128, 169], [226, 128, 175], [226, 129, 159], [227, 128, 128]]
     @ map (\<lambda>n. [226, 128, 128 + n]) [0..<11])"

definition strip_prefix :: "string list \<Rightarrow> string \<Rightarrow> string option" where
  "strip_prefix ps s = map_option (\<lambda>p. drop (length p) s)
     (find (\<lambda>p. p \<noteq> [] \<and> take (length p) s = p) ps)"

function trim_with :: "string list \<Rightarrow> string \<Rightarrow> string" where
  "trim_with ps s = (case strip_prefix ps s of None \<Rightarrow> s | Some s' \<Rightarrow> trim_with ps s')"
  by auto

lemma strip_prefix_shorter: "strip_prefix ps s = Some s' \<Longrightarrow> length s' < length s"
proof -
  assume "strip_prefix ps s = Some s'"
  then obtain p where p: "find (\<lambda>p. p \<noteq> [] \<and> take (length p) s = p) ps = Some p" "s' = drop (length p) s"
    by (auto simp: strip_prefix_def)
  then have "p \<noteq> []" "take (length p) s = p" by (auto simp: find_Some_iff)
  then show "length s' < length s" unfolding p(2)
    by (metis drop_all length_drop length_greater_0_conv nat_le_linear take_all diff_less
        zero_less_iff_neq_zero length_0_conv take_Nil)
qed

termination trim_with
  by (relation "measure (\<lambda>(ps, s). length s)") (auto dest: strip_prefix_shorter)

declare trim_with.simps [simp del]

definition TrimSpace :: "string \<Rightarrow> string" where
  "TrimSpace s = rev (trim_with (map rev spaces) (rev (trim_with spaces s)))"

section \<open>Lines\<close>

text \<open>\<open>ReadString('\\n')\<close> of a buffered reader with its error ignored: the line with its end, and the rest.\<close>

definition newline :: char where
  "newline = CHR 0x0A"

definition read_line :: "string \<Rightarrow> string \<times> string" where
  "read_line s =
     (let l = takeWhile (\<lambda>c. c \<noteq> newline) s in
      (take (Suc (length l)) s, drop (Suc (length l)) s))"

section \<open>Signed numbers\<close>

text \<open>
  \<open>strconv.Atoi\<close>: the value, which is returned with a range error too, and whether there was no error.
\<close>

definition clamp64 :: "int \<Rightarrow> int" where
  "clamp64 n = (if n < - (2 ^ 63) then - (2 ^ 63) else if n \<ge> 2 ^ 63 then 2 ^ 63 - 1 else n)"

definition sign_split :: "string \<Rightarrow> bool \<times> string" where
  "sign_split s =
     (case s of [] \<Rightarrow> (False, [])
      | c # cs \<Rightarrow> if c = CHR ''-'' then (True, cs) else if c = CHR ''+'' then (False, cs) else (False, s))"

definition with_sign :: "bool \<Rightarrow> nat \<Rightarrow> int" where
  "with_sign neg n = (if neg then - int n else int n)"

definition Atoi :: "string \<Rightarrow> int \<times> bool" where
  "Atoi s =
     (let (neg, ds) = sign_split s in
      case atoi_nat ds of
        None \<Rightarrow> (0, False)
      | Some n \<Rightarrow> (clamp64 (with_sign neg n), clamp64 (with_sign neg n) = with_sign neg n))"

text \<open>
  \<open>strconv.ParseInt(s, 0, 64)\<close>: the base is read off the prefix, and underscores are allowed after the
  prefix and between digits.
\<close>

definition lower :: "char \<Rightarrow> nat" where
  "lower c = (let n = of_char c in if 65 \<le> n \<and> n \<le> 90 then n + 32 else n)"

definition digit36 :: "char \<Rightarrow> nat option" where
  "digit36 c =
     (if is_digit c then Some (digit_val c)
      else if 97 \<le> lower c \<and> lower c \<le> 122 then Some (lower c - 87) else None)"

fun digits_in :: "nat \<Rightarrow> nat \<Rightarrow> string \<Rightarrow> nat option" where
  "digits_in base v [] = Some v"
| "digits_in base v (c # cs) =
     (if c = CHR ''_'' then digits_in base v cs
      else (case digit36 c of
          None \<Rightarrow> None
        | Some d \<Rightarrow> if d < base then digits_in base (v * base + d) cs else None))"

text \<open>Base, digits, and whether the prefix counts as a digit for the rule about underscores.\<close>

definition base_prefix :: "string \<Rightarrow> nat \<times> string \<times> bool" where
  "base_prefix s =
     (case s of
        c # x # y # rest \<Rightarrow>
          if c \<noteq> CHR ''0'' then (10, s, False)
          else if lower x = 98 then (2, y # rest, True)
          else if lower x = 111 then (8, y # rest, True)
          else if lower x = 120 then (16, y # rest, True)
          else (8, x # y # rest, True)
      | [c, x] \<Rightarrow> if c = CHR ''0'' then (8, [x], True) else (10, s, False)
      | _ \<Rightarrow> (10, s, False))"

fun underscores_ok :: "bool \<Rightarrow> string \<Rightarrow> bool" where
  "underscores_ok after_digit [] = True"
| "underscores_ok after_digit (c # cs) =
     (if c = CHR ''_'' then after_digit \<and> cs \<noteq> [] \<and> hd cs \<noteq> CHR ''_'' \<and> underscores_ok False cs
      else underscores_ok True cs)"

definition ParseInt0 :: "string \<Rightarrow> int option" where
  "ParseInt0 s =
     (let (neg, u) = sign_split s; (base, ds, pre) = base_prefix u in
      if u = [] then None
      else (case digits_in base 0 ds of
          None \<Rightarrow> None
        | Some n \<Rightarrow>
            if underscores_ok pre ds \<and> clamp64 (with_sign neg n) = with_sign neg n then Some (with_sign neg n) else None))"


section \<open>Host and port\<close>

definition index_of :: "char \<Rightarrow> string \<Rightarrow> nat option" where
  "index_of c s = (if c \<in> set s then Some (length (takeWhile (\<lambda>x. x \<noteq> c) s)) else None)"

definition last_index :: "char \<Rightarrow> string \<Rightarrow> nat option" where
  "last_index c s = map_option (\<lambda>i. length s - Suc i) (index_of c (rev s))"

text \<open>\<open>j\<close> and \<open>k\<close>: from where on brackets are errors.\<close>

definition split_checked :: "string \<Rightarrow> nat \<Rightarrow> string \<Rightarrow> nat \<Rightarrow> nat \<Rightarrow> (string \<times> string) option" where
  "split_checked s i host j k =
     (if CHR ''['' \<in> set (drop j s) \<or> CHR '']'' \<in> set (drop k s) then None
      else Some (host, drop (Suc i) s))"

definition SplitHostPort :: "string \<Rightarrow> (string \<times> string) option" where
  "SplitHostPort s =
     (case last_index CHR '':'' s of
        None \<Rightarrow> None
      | Some i \<Rightarrow>
          if hd s = CHR ''['' then
            (case index_of CHR '']'' s of
               None \<Rightarrow> None
             | Some e \<Rightarrow> if Suc e = i then split_checked s i (take (e - 1) (drop 1 s)) 1 (Suc e) else None)
          else if CHR '':'' \<in> set (take i s) then None
          else split_checked s i (take i s) 0 0)"

section \<open>Addresses\<close>

text \<open>
  \<open>netip.parseIPv6\<close> without a zone: the bytes so far, the place of the ellipsis, the rest of the text.
  A group is the longest run of hexadecimal digits; it has at most four.
\<close>

definition hex_digit :: "char \<Rightarrow> nat option" where
  "hex_digit c = (case digit36 c of Some d \<Rightarrow> if d < 16 then Some d else None | None \<Rightarrow> None)"

definition v6_group :: "string \<Rightarrow> string" where
  "v6_group s = takeWhile (\<lambda>c. hex_digit c \<noteq> None) s"

definition hex_val :: "string \<Rightarrow> nat" where
  "hex_val ds = foldl (\<lambda>v c. v * 16 + (case hex_digit c of Some d \<Rightarrow> d | None \<Rightarrow> 0)) 0 ds"

text \<open>The text is used up, or there are sixteen bytes: an ellipsis stands for one or more zero groups.\<close>

definition v6_finish :: "nat list \<Rightarrow> nat option \<Rightarrow> string \<Rightarrow> nat list option" where
  "v6_finish bs ell s =
     (if s \<noteq> [] then None
      else (case ell of
          None \<Rightarrow> if length bs < 16 then None else Some bs
        | Some e \<Rightarrow> if length bs < 16 then Some (take e bs @ replicate (16 - length bs) 0 @ drop e bs) else None))"

function v6_loop :: "nat list \<Rightarrow> nat option \<Rightarrow> string \<Rightarrow> nat list option" where
  "v6_loop bs ell s =
     (if length bs \<ge> 16 then v6_finish bs ell s
      else (let g = v6_group s; rest = drop (length g) s; bs' = bs @ [hex_val g div 256, hex_val g mod 256] in
        if g = [] \<or> length g > 4 then None
        else if rest = [] then v6_finish bs' ell []
        else if hd rest = CHR ''.'' then
          (if (ell = None \<and> length bs \<noteq> 12) \<or> length bs > 12 then None
           else (case v4_loop 0 0 [] s of None \<Rightarrow> None | Some fs \<Rightarrow> v6_finish (bs @ fs) ell []))
        else if hd rest \<noteq> CHR '':'' \<or> tl rest = [] then None
        else if hd (tl rest) = CHR '':'' then
          (if ell \<noteq> None then None
           else if tl (tl rest) = [] then v6_finish bs' (Some (length bs')) []
           else v6_loop bs' (Some (length bs')) (tl (tl rest)))
        else v6_loop bs' ell (tl rest)))"
  by auto

termination v6_loop
  by (relation "measure (\<lambda>(bs, ell, s). 16 - length bs)") auto

declare v6_loop.simps [simp del]

definition parse_v6 :: "string \<Rightarrow> nat list option" where
  "parse_v6 s =
     (if take 2 s = ''::'' then (if drop 2 s = [] then Some (replicate 16 0) else v6_loop [] (Some 0) (drop 2 s))
      else v6_loop [] None s)"

text \<open>\<open>net.ParseIP\<close>: the first dot or colon decides; an address with a zone is refused.\<close>

definition ParseIP :: "string \<Rightarrow> nat list option" where
  "ParseIP s =
     (case find (\<lambda>c. c = CHR ''.'' \<or> c = CHR '':'' \<or> c = CHR ''%'') s of
        None \<Rightarrow> None
      | Some c \<Rightarrow>
          if c = CHR ''.'' then map_option (\<lambda>fs. replicate 10 0 @ [255, 255] @ fs) (v4_loop 0 0 [] s)
          else if c = CHR '':'' \<and> CHR ''%'' \<notin> set s then parse_v6 s
          else None)"

definition IsLoopback :: "nat list \<Rightarrow> bool" where
  "IsLoopback ip =
     (if take 12 ip = replicate 10 0 @ [255, 255] then ip ! 12 = 127 else ip = replicate 15 0 @ [1])"

section \<open>What the facts of the library say\<close>

lemma takeWhile_until: "c \<notin> set xs \<Longrightarrow> takeWhile (\<lambda>x. x \<noteq> c) (xs @ c # ys) = xs"
  by (induction xs) auto

lemma read_line_append: "newline \<notin> set l \<Longrightarrow> read_line (l @ newline # rest) = (l @ [newline], rest)"
  by (simp add: read_line_def takeWhile_until Let_def)

lemma last_index_split: "c \<notin> set t \<Longrightarrow> last_index c (s @ c # t) = Some (length s)"
  by (simp add: last_index_def index_of_def takeWhile_until)

lemma SplitHostPort_plain:
  assumes "CHR '':'' \<notin> set host" "CHR ''['' \<notin> set host" "CHR '']'' \<notin> set host"
    and "CHR '':'' \<notin> set port" "CHR ''['' \<notin> set port" "CHR '']'' \<notin> set port"
  shows "SplitHostPort (host @ CHR '':'' # port) = Some (host, port)"
proof -
  have "hd (host @ CHR '':'' # port) \<noteq> CHR ''[''" using assms(2) by (cases host) auto
  then show ?thesis using assms by (simp add: SplitHostPort_def last_index_split split_checked_def)
qed

text \<open>A dotted address is parsed as IPv4, and is loopback when it begins with 127.\<close>

lemma find_skip: "(\<And>x. x \<in> set xs \<Longrightarrow> \<not> P x) \<Longrightarrow> find P (xs @ ys) = find P ys"
  by (induction xs) auto

lemma itoa_plain:
  assumes "c \<in> set (itoa n)"
  shows "c \<noteq> CHR ''.'' \<and> c \<noteq> CHR '':'' \<and> c \<noteq> CHR ''%'' \<and> c \<noteq> CHR ''['' \<and> c \<noteq> CHR '']'' \<and> c \<noteq> CHR ''-'' \<and> c \<noteq> CHR ''/''"
proof -
  have "is_digit c" using assms itoa_digits [of n] by (auto simp: list_all_iff)
  then show ?thesis by (auto simp: is_digit_def)
qed

lemma dotted_plain:
  assumes "c \<in> set (dotted fs)"
  shows "c \<noteq> CHR '':'' \<and> c \<noteq> CHR ''['' \<and> c \<noteq> CHR '']'' \<and> c \<noteq> CHR ''/''"
  using assms itoa_plain by (auto simp: dotted_def)

lemma ParseIP_v4: "ParseIP (addr_String a) = Some (replicate 10 0 @ [255, 255] @ map unat (As4 a))"
proof -
  have "find (\<lambda>c. c = CHR ''.'' \<or> c = CHR '':'' \<or> c = CHR ''%'') (dotted fs) = Some CHR ''.''" for fs
    unfolding dotted_def by (subst find_skip) (auto dest: itoa_plain)
  moreover have "v4_loop 0 0 [] (addr_String a) = Some (map unat (As4 a))"
    unfolding addr_String_def by (rule v4_loop_dotted) auto
  ultimately show ?thesis by (simp add: ParseIP_def addr_String_def)
qed

end
