(* ===== verification/GoJson.thy ===== *)
theory GoJson
  imports Json GoText
begin

text \<open>
  The text form of \<open>encoding/json\<close>: \<open>Marshal\<close>, \<open>MarshalIndent\<close> with two spaces, and \<open>Unmarshal\<close> into a
  value, on byte strings. Strings are read and written rune by rune with Go's escapes, invalid UTF-8 is
  replaced, numbers follow the JSON grammar, and nesting is limited to 10000. The text of a number that
  is no integer is the argument \<open>ff\<close> (\<open>FormatFloat\<close>); such a literal is read as its exact value.
  The rest of the model takes a printer and a parser as arguments; \<open>Unmarshal_Marshal\<close> and
  \<open>Unmarshal_MarshalIndent\<close> show that these two satisfy what is asked of them.
\<close>

section \<open>Runes\<close>

definition cont :: "nat \<Rightarrow> bool" where
  "cont b \<longleftrightarrow> 128 \<le> b \<and> b < 192"

text \<open>The length of the rune at the front of a list of bytes, 0 when there is no valid one.\<close>

definition second_ok :: "nat \<Rightarrow> nat \<Rightarrow> bool" where
  "second_ok a b \<longleftrightarrow> cont b \<and> (a = 224 \<longrightarrow> 160 \<le> b) \<and> (a = 237 \<longrightarrow> b < 160) \<and> (a = 240 \<longrightarrow> 144 \<le> b) \<and> (a = 244 \<longrightarrow> b < 144)"

definition utf8_len :: "nat list \<Rightarrow> nat" where
  "utf8_len bs =
     (if bs = [] then 0
      else if bs ! 0 < 128 then 1
      else if 2 \<le> length bs \<and> 194 \<le> bs ! 0 \<and> bs ! 0 < 224 \<and> cont (bs ! 1) then 2
      else if 3 \<le> length bs \<and> 224 \<le> bs ! 0 \<and> bs ! 0 < 240 \<and> second_ok (bs ! 0) (bs ! 1) \<and> cont (bs ! 2) then 3
      else if 4 \<le> length bs \<and> 240 \<le> bs ! 0 \<and> bs ! 0 < 245 \<and> second_ok (bs ! 0) (bs ! 1) \<and> cont (bs ! 2) \<and> cont (bs ! 3)
      then 4
      else 0)"

definition rune_len :: "string \<Rightarrow> nat" where
  "rune_len s = utf8_len (map of_char (take 4 s))"

definition RuneError :: string where
  "RuneError = utf8 [239, 191, 189]"

text \<open>\<open>utf8.AppendRune\<close>.\<close>

definition encode_rune :: "nat \<Rightarrow> string" where
  "encode_rune r =
     utf8 (if r < 128 then [r]
       else if r < 2048 then [192 + r div 64, 128 + r mod 64]
       else if r < 65536 then [224 + r div 4096, 128 + r div 64 mod 64, 128 + r mod 64]
       else [240 + r div 262144, 128 + r div 4096 mod 64, 128 + r div 64 mod 64, 128 + r mod 64])"

lemma utf8_len_length: "utf8_len bs \<le> length bs" and utf8_len_le: "utf8_len bs \<le> 4"
  by (auto simp: utf8_len_def Suc_le_eq)

lemma utf8_len_prefix:
  assumes "utf8_len bs = k" and "0 < k"
  shows "utf8_len (take k bs @ cs) = k"
proof -
  have k: "k \<le> length bs" using assms utf8_len_length [of bs] by simp
  have nth: "(take k bs @ cs) ! i = bs ! i" if "i < k" for i using that k by (simp add: nth_append)
  have "k = 1 \<or> k = 2 \<or> k = 3 \<or> k = 4" using assms by (auto simp: utf8_len_def split: if_splits)
  then show ?thesis using assms k nth [of 0] nth [of 1] nth [of 2] nth [of 3]
    by (auto simp: utf8_len_def split: if_splits)
qed

lemma utf8_len_ascii: "a < 128 \<Longrightarrow> utf8_len (a # bs) = 1"
  by (simp add: utf8_len_def)

lemma rune_len_le: "rune_len s \<le> length s" "rune_len s \<le> 4"
  using utf8_len_length [of "map of_char (take 4 s)"] by (auto simp: rune_len_def utf8_len_le)

lemma rune_len_prefix: "rune_len s = k \<Longrightarrow> 0 < k \<Longrightarrow> rune_len (take k s @ t) = k"
proof -
  assume k: "rune_len s = k" "0 < k"
  then have le: "k \<le> length s" "k \<le> 4" using rune_len_le [of s] by auto
  then have "take 4 (take k s @ t) = take k s @ take (4 - k) t" by simp
  moreover have "take k (take 4 s) = take k s" using le(2) by (simp add: min_def)
  ultimately show ?thesis
    using utf8_len_prefix [of "map of_char (take 4 s)" k "map of_char (take (4 - k) t)"] k
    by (simp add: rune_len_def take_map)
qed

lemma rune_len_ascii: "(of_char c :: nat) < 128 \<Longrightarrow> rune_len (c # s) = 1"
  by (simp add: rune_len_def utf8_len_ascii)

lemma rune_len_high: "rune_len (c # s) = k \<Longrightarrow> 1 < k \<Longrightarrow> 128 \<le> (of_char c :: nat)"
  using rune_len_ascii [of c s] by (cases "(of_char c :: nat) < 128") auto

function valid_utf8 :: "string \<Rightarrow> bool" where
  "valid_utf8 s = (if s = [] then True else if rune_len s = 0 then False else valid_utf8 (drop (rune_len s) s))"
  by auto
termination by (relation "measure length") auto

declare valid_utf8.simps [simp del]

lemma valid_utf8_Nil [simp]: "valid_utf8 []"
  by (simp add: valid_utf8.simps)

lemma valid_utf8_Cons: "(of_char c :: nat) < 128 \<Longrightarrow> valid_utf8 (c # s) \<longleftrightarrow> valid_utf8 s"
  by (subst valid_utf8.simps) (simp add: rune_len_ascii)

lemma valid_utf8_ascii: "\<forall>c \<in> set s. (of_char c :: nat) < 128 \<Longrightarrow> valid_utf8 s"
  by (induction s) (simp_all add: valid_utf8_Cons)

section \<open>Strings\<close>

definition quote_char :: char where "quote_char = CHR 0x22"
definition backslash :: char where "backslash = CHR 0x5C"

definition hex_char :: "nat \<Rightarrow> char" where
  "hex_char d = ''0123456789abcdef'' ! d"

text \<open>The escapes of \<open>Marshal\<close>: short ones, \<open>\\u00XX\<close> for control characters and the three of HTML.\<close>

definition escape :: "char \<Rightarrow> string" where
  "escape c =
     (let n = of_char c in
      if c = quote_char \<or> c = backslash then [backslash, c]
      else if n = 8 then [backslash, CHR ''b'']
      else if n = 12 then [backslash, CHR ''f'']
      else if n = 10 then [backslash, CHR ''n'']
      else if n = 13 then [backslash, CHR ''r'']
      else if n = 9 then [backslash, CHR ''t'']
      else if n < 32 \<or> c \<in> set ''<>&'' then [backslash, CHR ''u'', CHR ''0'', CHR ''0'', hex_char (n div 16), hex_char (n mod 16)]
      else [c])"

definition rune_text :: "string \<Rightarrow> string" where
  "rune_text r =
     (if r = encode_rune 8232 then backslash # ''u2028''
      else if r = encode_rune 8233 then backslash # ''u2029''
      else r)"

function quote_body :: "string \<Rightarrow> string" where
  "quote_body s =
     (case s of
        [] \<Rightarrow> []
      | c # t \<Rightarrow>
          (let k = rune_len s in
           if k = 0 then backslash # ''ufffd'' @ quote_body t
           else if k = 1 then escape c @ quote_body t
           else rune_text (take k s) @ quote_body (drop k s)))"
  by auto
termination by (relation "measure length") auto

declare quote_body.simps [simp del]

definition hex4 :: "string \<Rightarrow> (nat \<times> string) option" where
  "hex4 s =
     (if length s < 4 then None
      else (case those (map hex_digit (take 4 s)) of
          None \<Rightarrow> None
        | Some ds \<Rightarrow> Some (foldl (\<lambda>v d. v * 16 + d) 0 ds, drop 4 s)))"

text \<open>After \<open>\\u\<close>: a rune, a pair of surrogates, or the replacement for half a pair.\<close>

definition unescape_u :: "string \<Rightarrow> (string \<times> string) option" where
  "unescape_u s =
     (case hex4 s of
        None \<Rightarrow> None
      | Some (r, t) \<Rightarrow>
          if r < 55296 \<or> 57344 \<le> r then Some (encode_rune r, t)
          else (case (if take 2 t = [backslash, CHR ''u''] then hex4 (drop 2 t) else None) of
              None \<Rightarrow> Some (RuneError, t)
            | Some (r2, t2) \<Rightarrow>
                if r < 56320 \<and> 56320 \<le> r2 \<and> r2 < 57344
                then Some (encode_rune ((r - 55296) * 1024 + (r2 - 56320) + 65536), t2)
                else Some (RuneError, t)))"

definition unescape :: "string \<Rightarrow> (string \<times> string) option" where
  "unescape s =
     (case s of
        [] \<Rightarrow> None
      | c # t \<Rightarrow>
          if c = quote_char \<or> c = backslash \<or> c = CHR ''/'' then Some ([c], t)
          else if c = CHR ''b'' then Some ([CHR 0x08], t)
          else if c = CHR ''f'' then Some ([CHR 0x0C], t)
          else if c = CHR ''n'' then Some ([CHR 0x0A], t)
          else if c = CHR ''r'' then Some ([CHR 0x0D], t)
          else if c = CHR ''t'' then Some ([CHR 0x09], t)
          else if c = CHR ''u'' then unescape_u t
          else None)"

lemma hex4_shorter: "hex4 s = Some (r, t) \<Longrightarrow> length t < length s"
  by (auto simp: hex4_def split: if_splits option.splits)

lemma unescape_shorter: "unescape s = Some (bs, t) \<Longrightarrow> length t < length s"
  by (auto simp: unescape_def unescape_u_def split: list.splits if_splits option.splits dest!: hex4_shorter)

text \<open>A string literal after its first quotation mark: its value and the text after the last one.\<close>

function unquote :: "string \<Rightarrow> (string \<times> string) option" where
  "unquote s =
     (case s of
        [] \<Rightarrow> None
      | c # t \<Rightarrow>
          if c = quote_char then Some ([], t)
          else if c = backslash then
            (case unescape t of None \<Rightarrow> None | Some (bs, u) \<Rightarrow> map_option (apfst ((@) bs)) (unquote u))
          else if (of_char c :: nat) < 32 then None
          else if rune_len s = 0 then map_option (apfst ((@) RuneError)) (unquote t)
          else map_option (apfst ((@) (take (rune_len s) s))) (unquote (drop (rune_len s) s)))"
  by auto
termination by (relation "measure length") (auto dest: unescape_shorter)

declare unquote.simps [simp del]

lemma quote_not_backslash [simp]: "quote_char \<noteq> backslash" "backslash \<noteq> quote_char"
  by (simp_all add: quote_char_def backslash_def)

lemma unquote_end: "unquote (quote_char # t) = Some ([], t)"
  by (subst unquote.simps) simp

lemma unquote_backslash:
  "unquote (backslash # t) = (case unescape t of None \<Rightarrow> None | Some (bs, u) \<Rightarrow> map_option (apfst ((@) bs)) (unquote u))"
  by (subst unquote.simps) simp

lemma unquote_shorter: "unquote s = Some (bs, t) \<Longrightarrow> length t < length s"
proof (induction s arbitrary: bs t rule: unquote.induct)
  case (1 s)
  show ?case
  proof (cases s)
    case Nil
    then show ?thesis using 1(4) by (simp add: unquote.simps)
  next
    case (Cons c u)
    note split = "1.prems" [unfolded unquote.simps [of s], unfolded Cons list.case]
    show ?thesis
    proof (cases "c = backslash \<and> c \<noteq> quote_char")
      case True
      then obtain cs u' bs' where "unescape u = Some (cs, u')" "unquote u' = Some (bs', t)"
        using split by (auto split: option.splits)
      with "1.IH"(1) [OF Cons] True show ?thesis using unescape_shorter Cons by fastforce
    next
      case False
      show ?thesis
      proof (cases "c = quote_char")
        case True
        then show ?thesis using split Cons by simp
      next
        case c: False
        with False have "c \<noteq> backslash" by simp
        then show ?thesis using split c "1.IH"(2,3) [OF Cons c] Cons
          by (auto split: if_splits)
      qed
    qed
  qed
qed

section \<open>Tokens\<close>

datatype token = BraceOpen | BraceClose | BracketOpen | BracketClose | Comma | Colon | Scalar json

definition is_space :: "char \<Rightarrow> bool" where
  "is_space c \<longleftrightarrow> c \<in> {CHR '' '', CHR 0x09, CHR 0x0A, CHR 0x0D}"

text \<open>The digits at the front, and what follows a dot or an exponent mark; \<open>None\<close> when digits are missing there.\<close>

definition digits :: "string \<Rightarrow> string" where
  "digits s = takeWhile is_digit s"

definition lex_frac :: "string \<Rightarrow> (string \<times> string) option" where
  "lex_frac s =
     (if s \<noteq> [] \<and> hd s = CHR ''.'' then
        (let ds = digits (tl s) in if ds = [] then None else Some (ds, drop (length ds) (tl s)))
      else Some ([], s))"

definition lex_exp :: "string \<Rightarrow> (int option \<times> string) option" where
  "lex_exp s =
     (if s \<noteq> [] \<and> (hd s = CHR ''e'' \<or> hd s = CHR ''E'') then
        (let (neg, t) = sign_split (tl s); ds = digits t in
         if ds = [] then None else Some (Some (with_sign neg (digits_val ds)), drop (length ds) t))
      else Some (None, s))"

definition scaled :: "int \<Rightarrow> int \<Rightarrow> rat" where
  "scaled m e = (if 0 \<le> e then of_int m * 10 ^ nat e else of_int m / 10 ^ nat (- e))"

text \<open>A number: a zero ends its integer part; without fraction and exponent it is an integer.\<close>

definition int_part :: "string \<Rightarrow> string" where
  "int_part s = (let ds = digits s in if ds \<noteq> [] \<and> hd ds = CHR ''0'' then take 1 ds else ds)"

definition lex_number :: "string \<Rightarrow> (json \<times> string) option" where
  "lex_number s =
     (let neg = (s \<noteq> [] \<and> hd s = CHR ''-''); s1 = (if neg then tl s else s); ip = int_part s1 in
      if ip = [] then None
      else (case lex_frac (drop (length ip) s1) of
          None \<Rightarrow> None
        | Some (fr, s2) \<Rightarrow>
            (case lex_exp s2 of
               None \<Rightarrow> None
             | Some (ex, s3) \<Rightarrow>
                 (if fr = [] \<and> ex = None then Some (JInt (with_sign neg (digits_val ip)), s3)
                  else Some (JReal (scaled (with_sign neg (digits_val (ip @ fr)))
                         ((case ex of None \<Rightarrow> 0 | Some e \<Rightarrow> e) - int (length fr))), s3)))))"

lemma int_part_le: "length (int_part s) \<le> length s"
  using length_takeWhile_le [of is_digit s] by (auto simp: int_part_def digits_def Let_def min_def)

lemma lex_frac_le: "lex_frac s = Some (fr, t) \<Longrightarrow> length t \<le> length s"
  by (auto simp: lex_frac_def Let_def split: if_splits)

lemma sign_split_le: "sign_split s = (neg, t) \<Longrightarrow> length t \<le> length s"
  by (auto simp: sign_split_def split: list.splits if_splits)

lemma lex_exp_le: "lex_exp s = Some (ex, t) \<Longrightarrow> length t \<le> length s"
  by (auto simp: lex_exp_def Let_def split: if_splits prod.splits dest!: sign_split_le)

lemma lex_number_shorter: "lex_number s = Some (j, t) \<Longrightarrow> length t < length s"
proof -
  assume a: "lex_number s = Some (j, t)"
  define s1 where "s1 = (if s \<noteq> [] \<and> hd s = CHR ''-'' then tl s else s)"
  obtain fr s2 ex where ip: "int_part s1 \<noteq> []" and f: "lex_frac (drop (length (int_part s1)) s1) = Some (fr, s2)"
    and e: "lex_exp s2 = Some (ex, t)"
    using a unfolding lex_number_def Let_def s1_def [symmetric] by (auto split: if_splits option.splits)
  have "length t \<le> length s1 - length (int_part s1)" using lex_frac_le [OF f] lex_exp_le [OF e] by simp
  moreover have "0 < length (int_part s1)" "length (int_part s1) \<le> length s1" using ip int_part_le by auto
  moreover have "length s1 \<le> length s" by (simp add: s1_def)
  ultimately show ?thesis by linarith
qed

function lex :: "string \<Rightarrow> token list option" where
  "lex s =
     (case s of
        [] \<Rightarrow> Some []
      | c # t \<Rightarrow>
          if is_space c then lex t
          else if c = CHR ''{'' then map_option ((#) BraceOpen) (lex t)
          else if c = CHR ''}'' then map_option ((#) BraceClose) (lex t)
          else if c = CHR ''['' then map_option ((#) BracketOpen) (lex t)
          else if c = CHR '']'' then map_option ((#) BracketClose) (lex t)
          else if c = CHR '','' then map_option ((#) Comma) (lex t)
          else if c = CHR '':'' then map_option ((#) Colon) (lex t)
          else if c = quote_char then
            (case unquote t of None \<Rightarrow> None | Some (v, u) \<Rightarrow> map_option ((#) (Scalar (JStr v))) (lex u))
          else if take 4 s = ''true'' then map_option ((#) (Scalar (JBool True))) (lex (drop 4 s))
          else if take 5 s = ''false'' then map_option ((#) (Scalar (JBool False))) (lex (drop 5 s))
          else if take 4 s = ''null'' then map_option ((#) (Scalar JNull)) (lex (drop 4 s))
          else (case lex_number s of None \<Rightarrow> None | Some (v, u) \<Rightarrow> map_option ((#) (Scalar v)) (lex u)))"
  by auto
termination by (relation "measure length") (auto dest: unquote_shorter lex_number_shorter less_trans_Suc)

declare lex.simps [simp del]

section \<open>Values\<close>

text \<open>
  One value, the rest of an array, the rest of an object; \<open>d\<close> is how deep arrays and objects may still
  nest. The comparisons of lengths only show that the recursion ends, they always hold.
\<close>

function parse_value :: "nat \<Rightarrow> token list \<Rightarrow> (json \<times> token list) option"
  and parse_elems :: "nat \<Rightarrow> token list \<Rightarrow> (json list \<times> token list) option"
  and parse_members :: "nat \<Rightarrow> token list \<Rightarrow> ((string \<times> json) list \<times> token list) option" where
  "parse_value d ts =
     (case ts of
        Scalar j # r \<Rightarrow> Some (j, r)
      | BracketOpen # r \<Rightarrow>
          if d = 0 then None
          else if r \<noteq> [] \<and> hd r = BracketClose then Some (JArr [], tl r)
          else map_option (apfst JArr) (parse_elems (d - 1) r)
      | BraceOpen # r \<Rightarrow>
          if d = 0 then None
          else if r \<noteq> [] \<and> hd r = BraceClose then Some (JObj [], tl r)
          else map_option (apfst JObj) (parse_members (d - 1) r)
      | _ \<Rightarrow> None)"
| "parse_elems d ts =
     (case parse_value d ts of
        Some (j, Comma # r) \<Rightarrow> if length r < length ts then map_option (apfst ((#) j)) (parse_elems d r) else None
      | Some (j, BracketClose # r) \<Rightarrow> Some ([j], r)
      | _ \<Rightarrow> None)"
| "parse_members d ts =
     (case ts of
        Scalar (JStr k) # Colon # r \<Rightarrow>
          (case parse_value d r of
             Some (j, Comma # r') \<Rightarrow> if length r' < length ts then map_option (apfst ((#) (k, j))) (parse_members d r') else None
           | Some (j, BraceClose # r') \<Rightarrow> Some ([(k, j)], r')
           | _ \<Rightarrow> None)
      | _ \<Rightarrow> None)"
  by pat_completeness auto
termination
  by (relation "measures [\<lambda>x. case x of Inl (d, ts) \<Rightarrow> length ts | Inr (Inl (d, ts)) \<Rightarrow> length ts | Inr (Inr (d, ts)) \<Rightarrow> length ts,
      \<lambda>x. case x of Inl a \<Rightarrow> 0 | _ \<Rightarrow> 1]") auto

declare parse_value.simps [simp del] parse_elems.simps [simp del] parse_members.simps [simp del]

definition maxNestingDepth :: nat where
  "maxNestingDepth = 10000"

definition Unmarshal :: "string \<Rightarrow> json option" where
  "Unmarshal s =
     (case lex s of
        None \<Rightarrow> None
      | Some ts \<Rightarrow> (case parse_value maxNestingDepth ts of Some (j, []) \<Rightarrow> Some j | _ \<Rightarrow> None))"

section \<open>Printing\<close>

text \<open>\<open>nl\<close> is what stands before an element at a depth, \<open>sp\<close> what stands after a colon.\<close>

record layout =
  ly_nl :: "nat \<Rightarrow> string"
  ly_sp :: string

definition quoted :: "string \<Rightarrow> string" where
  "quoted s = quote_char # quote_body s @ [quote_char]"

fun print_json :: "layout \<Rightarrow> (rat \<Rightarrow> string) \<Rightarrow> nat \<Rightarrow> json \<Rightarrow> string"
  and print_elems :: "layout \<Rightarrow> (rat \<Rightarrow> string) \<Rightarrow> nat \<Rightarrow> json list \<Rightarrow> string"
  and print_members :: "layout \<Rightarrow> (rat \<Rightarrow> string) \<Rightarrow> nat \<Rightarrow> (string \<times> json) list \<Rightarrow> string" where
  "print_json ly ff n JNull = ''null''"
| "print_json ly ff n (JBool b) = (if b then ''true'' else ''false'')"
| "print_json ly ff n (JInt i) = itoa_int i"
| "print_json ly ff n (JReal r) = ff r"
| "print_json ly ff n (JStr s) = quoted s"
| "print_json ly ff n (JArr []) = ''[]''"
| "print_json ly ff n (JArr (j # js)) =
     ''['' @ ly_nl ly (Suc n) @ print_json ly ff (Suc n) j @ print_elems ly ff (Suc n) js @ ly_nl ly n @ '']''"
| "print_json ly ff n (JObj []) = ''{}''"
| "print_json ly ff n (JObj ((k, j) # kvs)) =
     ''{'' @ ly_nl ly (Suc n) @ quoted k @ '':'' @ ly_sp ly @ print_json ly ff (Suc n) j
       @ print_members ly ff (Suc n) kvs @ ly_nl ly n @ ''}''"
| "print_elems ly ff n [] = []"
| "print_elems ly ff n (j # js) = '','' @ ly_nl ly n @ print_json ly ff n j @ print_elems ly ff n js"
| "print_members ly ff n [] = []"
| "print_members ly ff n ((k, j) # kvs) =
     '','' @ ly_nl ly n @ quoted k @ '':'' @ ly_sp ly @ print_json ly ff n j @ print_members ly ff n kvs"

definition Marshal :: "(rat \<Rightarrow> string) \<Rightarrow> json \<Rightarrow> string" where
  "Marshal ff j = print_json \<lparr>ly_nl = (\<lambda>n. []), ly_sp = []\<rparr> ff 0 j"

definition MarshalIndent :: "(rat \<Rightarrow> string) \<Rightarrow> json \<Rightarrow> string" where
  "MarshalIndent ff j =
     print_json \<lparr>ly_nl = (\<lambda>n. newline # replicate (2 * n) (CHR '' '')), ly_sp = '' ''\<rparr> ff 0 j"

section \<open>Reading what was written\<close>

text \<open>Values without fractions whose strings are UTF-8, how deep they nest, and their tokens.\<close>

fun plain :: "json \<Rightarrow> bool" and plain_elems :: "json list \<Rightarrow> bool" and plain_members :: "(string \<times> json) list \<Rightarrow> bool" where
  "plain JNull \<longleftrightarrow> True"
| "plain (JBool b) \<longleftrightarrow> True"
| "plain (JInt i) \<longleftrightarrow> True"
| "plain (JReal r) \<longleftrightarrow> False"
| "plain (JStr s) \<longleftrightarrow> valid_utf8 s"
| "plain (JArr js) \<longleftrightarrow> plain_elems js"
| "plain (JObj kvs) \<longleftrightarrow> plain_members kvs"
| "plain_elems [] \<longleftrightarrow> True"
| "plain_elems (j # js) \<longleftrightarrow> plain j \<and> plain_elems js"
| "plain_members [] \<longleftrightarrow> True"
| "plain_members ((k, j) # kvs) \<longleftrightarrow> valid_utf8 k \<and> plain j \<and> plain_members kvs"

fun depth :: "json \<Rightarrow> nat" and depth_elems :: "json list \<Rightarrow> nat" and depth_members :: "(string \<times> json) list \<Rightarrow> nat" where
  "depth (JArr js) = Suc (depth_elems js)"
| "depth (JObj kvs) = Suc (depth_members kvs)"
| "depth j = 0"
| "depth_elems [] = 0"
| "depth_elems (j # js) = max (depth j) (depth_elems js)"
| "depth_members [] = 0"
| "depth_members ((k, j) # kvs) = max (depth j) (depth_members kvs)"

fun toks :: "json \<Rightarrow> token list" and toks_elems :: "json list \<Rightarrow> token list" and toks_members :: "(string \<times> json) list \<Rightarrow> token list" where
  "toks (JArr []) = [BracketOpen, BracketClose]"
| "toks (JArr (j # js)) = BracketOpen # toks j @ toks_elems js @ [BracketClose]"
| "toks (JObj []) = [BraceOpen, BraceClose]"
| "toks (JObj ((k, j) # kvs)) = BraceOpen # Scalar (JStr k) # Colon # toks j @ toks_members kvs @ [BraceClose]"
| "toks j = [Scalar j]"
| "toks_elems [] = []"
| "toks_elems (j # js) = Comma # toks j @ toks_elems js"
| "toks_members [] = []"
| "toks_members ((k, j) # kvs) = Comma # Scalar (JStr k) # Colon # toks j @ toks_members kvs"

subsection \<open>Strings\<close>

lemma hex_digit_char: "d < 16 \<Longrightarrow> hex_digit (hex_char d) = Some d"
proof -
  assume "d < 16"
  moreover have "list_all (\<lambda>d. hex_digit (hex_char d) = Some d) [0..<16]" by code_simp
  ultimately show ?thesis by (simp add: list_all_iff)
qed

lemma unescape_control:
  assumes "n < 128"
  shows "unescape (CHR ''u'' # CHR ''0'' # CHR ''0'' # hex_char (n div 16) # hex_char (n mod 16) # t) = Some ([char_of n], t)"
proof -
  have "hex_digit CHR ''0'' = Some 0" by code_simp
  moreover have "n div 16 < 16" "n mod 16 < 16" using assms by auto
  ultimately have "hex4 (CHR ''0'' # CHR ''0'' # hex_char (n div 16) # hex_char (n mod 16) # t) = Some (n, t)"
    by (simp add: hex4_def hex_digit_char)
  then show ?thesis using assms
    by (simp add: unescape_def unescape_u_def encode_rune_def utf8_def quote_char_def backslash_def)
qed

lemma unescape_letter:
  "unescape (CHR ''b'' # t) = Some ([CHR 0x08], t)" "unescape (CHR ''f'' # t) = Some ([CHR 0x0C], t)"
  "unescape (CHR ''n'' # t) = Some ([CHR 0x0A], t)" "unescape (CHR ''r'' # t) = Some ([CHR 0x0D], t)"
  "unescape (CHR ''t'' # t) = Some ([CHR 0x09], t)"
  by (simp_all add: unescape_def quote_char_def backslash_def)

lemma escape_letter:
  "escape CHR 0x08 = [backslash, CHR ''b'']" "escape CHR 0x0C = [backslash, CHR ''f'']" "escape CHR 0x0A = [backslash, CHR ''n'']"
  "escape CHR 0x0D = [backslash, CHR ''r'']" "escape CHR 0x09 = [backslash, CHR ''t'']"
  by code_simp+

lemma letter_chars:
  "char_of (8 :: nat) = CHR 0x08" "char_of (12 :: nat) = CHR 0x0C" "char_of (10 :: nat) = CHR 0x0A"
  "char_of (13 :: nat) = CHR 0x0D" "char_of (9 :: nat) = CHR 0x09"
  by code_simp+

lemma append_single: "(@) [c] = (#) c"
  by (simp add: fun_eq_iff)

lemma unquote_escape:
  assumes "(of_char c :: nat) < 128"
  shows "unquote (escape c @ t) = map_option (apfst ((#) c)) (unquote t)"
proof -
  let ?n = "of_char c :: nat"
  have len: "rune_len (c # t) = 1" by (rule rune_len_ascii [OF assms])
  have c: "char_of ?n = c" by simp
  note esc = unquote_backslash
  consider "c = quote_char \<or> c = backslash" | "?n = 8" | "?n = 12" | "?n = 10" | "?n = 13" | "?n = 9"
    | "c \<noteq> quote_char" "c \<noteq> backslash" "?n \<notin> {8, 9, 10, 12, 13}" "?n < 32 \<or> c \<in> set ''<>&''"
    | "c \<noteq> quote_char" "c \<noteq> backslash" "32 \<le> ?n" "c \<notin> set ''<>&''" by fastforce
  then show ?thesis
  proof cases
    case 1
    then show ?thesis by (auto simp: escape_def esc unescape_def append_single)
  next
    case 7
    then have "escape c = [backslash, CHR ''u'', CHR ''0'', CHR ''0'', hex_char (?n div 16), hex_char (?n mod 16)]"
      by (auto simp: escape_def Let_def)
    then show ?thesis using unescape_control [OF assms, of t] by (simp add: esc append_single)
  next
    case 8
    then have "escape c = [c]" by (auto simp: escape_def Let_def)
    then show ?thesis using 8 len by (simp, subst unquote.simps) (simp add: append_single)
  next
    case 2
    then have "c = CHR 0x08" using c letter_chars by simp
    then show ?thesis by (simp add: escape_letter esc append_single unescape_letter)
  next
    case 3
    then have "c = CHR 0x0C" using c letter_chars by simp
    then show ?thesis by (simp add: escape_letter esc append_single unescape_letter)
  next
    case 4
    then have "c = CHR 0x0A" using c letter_chars by simp
    then show ?thesis by (simp add: escape_letter esc append_single unescape_letter)
  next
    case 5
    then have "c = CHR 0x0D" using c letter_chars by simp
    then show ?thesis by (simp add: escape_letter esc append_single unescape_letter)
  next
    case 6
    then have "c = CHR 0x09" using c letter_chars by simp
    then show ?thesis by (simp add: escape_letter esc append_single unescape_letter)
  qed
qed

lemma unquote_rune:
  assumes "rune_len s = k" and "1 < k"
  shows "unquote (rune_text (take k s) @ t) = map_option (apfst ((@) (take k s))) (unquote t)"
proof -
  obtain c u where s: "s = c # u" using assms by (cases s) (auto simp: rune_len_def utf8_len_def)
  let ?r = "take k s"
  have high: "128 \<le> (of_char c :: nat)" using rune_len_high assms s by blast
  have u: "unquote (backslash # CHR ''u'' # v) =
      (case unescape_u v of None \<Rightarrow> None | Some (bs, w) \<Rightarrow> map_option (apfst ((@) bs)) (unquote w))" for v
    unfolding unquote_backslash by (simp add: unescape_def) (simp add: quote_char_def backslash_def)
  have digs: "hex_digit CHR ''2'' = Some 2" "hex_digit CHR ''0'' = Some 0" "hex_digit CHR ''8'' = Some 8" "hex_digit CHR ''9'' = Some 9"
    by code_simp+
  have "?r = encode_rune 8232 \<or> ?r = encode_rune 8233 \<and> ?r \<noteq> encode_rune 8232 \<or> rune_text ?r = ?r"
    by (simp add: rune_text_def)
  then consider "?r = encode_rune 8232" | "?r = encode_rune 8233" "?r \<noteq> encode_rune 8232" | "rune_text ?r = ?r"
    by blast
  then show ?thesis
  proof cases
    case 1
    then show ?thesis by (simp add: rune_text_def u unescape_u_def hex4_def digs)
  next
    case 2
    then show ?thesis by (simp add: rune_text_def u unescape_u_def hex4_def digs)
  next
    case 3
    have len: "rune_len (?r @ t) = k" using rune_len_prefix [OF assms(1)] assms(2) by simp
    have "length ?r = k" using rune_len_le(1) [of s] assms by simp
    then have parts: "take k (?r @ t) = ?r" "drop k (?r @ t) = t" by simp_all
    obtain v where v: "?r @ t = c # v" using s assms(2) by (cases k) auto
    have "c \<noteq> quote_char" "c \<noteq> backslash" using high by (auto simp: quote_char_def backslash_def)
    then have "unquote (c # v) = map_option (apfst ((@) (take k (c # v)))) (unquote (drop k (c # v)))"
      using len [unfolded v] high assms(2) by (subst unquote.simps) simp
    then show ?thesis using parts 3 by (simp add: v)
  qed
qed

lemma unquote_body: "valid_utf8 s \<Longrightarrow> unquote (quote_body s @ quote_char # t) = Some (s, t)"
proof (induction s rule: quote_body.induct)
  case (1 s)
  show ?case
  proof (cases s)
    case Nil
    then show ?thesis by (simp add: quote_body.simps unquote_end)
  next
    case (Cons c u)
    have len: "rune_len s \<noteq> 0" and rest: "valid_utf8 (drop (rune_len s) s)"
      using "1.prems" [unfolded valid_utf8.simps [of s]] Cons by (simp_all split: if_splits)
    show ?thesis
    proof (cases "rune_len s = 1")
      case True
      have "(of_char c :: nat) < 128"
        using True Cons by (auto simp: rune_len_def utf8_len_def split: if_splits)
      moreover have "unquote (quote_body u @ quote_char # t) = Some (u, t)"
        using "1.IH"(2) [OF Cons refl] True rest Cons by simp
      moreover have "quote_body s = escape c @ quote_body u"
        using True by (subst quote_body.simps) (simp add: Cons)
      ultimately show ?thesis using Cons by (simp add: unquote_escape)
    next
      case False
      then have "1 < rune_len s" using len by simp
      moreover have "unquote (quote_body (drop (rune_len s) s) @ quote_char # t) = Some (drop (rune_len s) s, t)"
        using "1.IH"(3) [OF Cons refl len False] rest by simp
      moreover have "quote_body s = rune_text (take (rune_len s) s) @ quote_body (drop (rune_len s) s)"
        using len False by (subst quote_body.simps) (simp add: Cons Let_def)
      ultimately show ?thesis by (simp add: unquote_rune [OF refl])
    qed
  qed
qed

subsection \<open>Numbers\<close>

text \<open>A text that does not go on with a number.\<close>

definition tame :: "string \<Rightarrow> bool" where
  "tame t \<longleftrightarrow> t = [] \<or> \<not> is_digit (hd t) \<and> hd t \<notin> set ''.eE''"

lemma digits_tame: "list_all is_digit ds \<Longrightarrow> tame t \<Longrightarrow> digits (ds @ t) = ds"
  by (induction ds) (cases t; auto simp: digits_def tame_def)+

lemma lex_number_itoa:
  assumes "tame t" and "\<not> (s \<noteq> [] \<and> hd s = CHR ''-'') \<and> s = itoa n @ t \<or> s = CHR ''-'' # itoa n @ t"
  shows "lex_number s = Some (JInt (with_sign (hd s = CHR ''-'') n), t)"
proof -
  have ds: "digits (itoa n @ t) = itoa n" by (rule digits_tame [OF itoa_digits assms(1)])
  have "int_part (itoa n @ t) = itoa n"
  proof (cases "n = 0")
    case True
    then show ?thesis unfolding int_part_def ds by (simp add: itoa_small Let_def)
  next
    case False
    then have "hd (itoa n) \<noteq> CHR ''0''" using itoa_head by simp
    then show ?thesis unfolding int_part_def ds by (simp add: Let_def)
  qed
  moreover have "lex_frac t = Some ([], t)" "lex_exp t = Some (None, t)"
    using assms(1) by (auto simp: lex_frac_def lex_exp_def tame_def)
  moreover have "[] \<noteq> itoa n" using itoa_not_Nil [of n] by metis
  ultimately show ?thesis using assms(2) by (auto simp: lex_number_def Let_def digits_val_itoa)
qed

lemma lex_int:
  assumes "tame t"
  shows "lex (itoa_int i @ t) = map_option ((#) (Scalar (JInt i))) (lex t)"
proof -
  obtain c u where s: "itoa_int i @ t = c # u" by (cases "itoa_int i") (auto simp: itoa_int_def split: if_splits)
  have head: "is_digit (hd (itoa n @ t))" for n using itoa_digits [of n] by (cases "itoa n") auto
  have "hd (itoa_int i @ t) = CHR ''-'' \<or> is_digit (hd (itoa_int i @ t))" using head by (simp add: itoa_int_def)
  then have c: "is_digit c \<or> c = CHR ''-''" unfolding s by auto
  have "lex_number (itoa_int i @ t) = Some (JInt i, t)"
  proof (cases "i < 0")
    case True
    then have "itoa_int i @ t = CHR ''-'' # itoa (nat (- i)) @ t" by (simp add: itoa_int_def)
    with lex_number_itoa [OF assms, of _ "nat (- i)"] True show ?thesis by (auto simp: with_sign_def)
  next
    case False
    then have "itoa_int i @ t = itoa (nat i) @ t" by (simp add: itoa_int_def)
    moreover have "hd (itoa (nat i) @ t) \<noteq> CHR ''-''" using head [of "nat i"] by (auto simp: is_digit_def)
    ultimately show ?thesis using lex_number_itoa [OF assms, of _ "nat i"] False by (auto simp: with_sign_def)
  qed
  moreover have "\<not> is_space c \<and> c \<notin> set ''{}[],:tfn'' \<and> c \<noteq> quote_char"
    using c by (auto simp: is_space_def is_digit_def quote_char_def)
  ultimately show ?thesis unfolding s
    by (subst lex.simps) auto
qed

subsection \<open>Tokens\<close>

lemma lex_spaces: "list_all is_space w \<Longrightarrow> lex (w @ t) = lex t"
  by (induction w) (simp_all add: lex.simps)

lemma not_spaces: "\<not> is_space CHR ''{''" "\<not> is_space CHR ''}''" "\<not> is_space CHR ''[''" "\<not> is_space CHR '']''"
  "\<not> is_space CHR '',''" "\<not> is_space CHR '':''" "\<not> is_space quote_char" "\<not> is_space CHR ''t''" "\<not> is_space CHR ''f''"
  "\<not> is_space CHR ''n''"
  by (simp_all add: is_space_def quote_char_def)

lemma lex_punct:
  "lex (CHR ''{'' # t) = map_option ((#) BraceOpen) (lex t)"
  "lex (CHR ''}'' # t) = map_option ((#) BraceClose) (lex t)"
  "lex (CHR ''['' # t) = map_option ((#) BracketOpen) (lex t)"
  "lex (CHR '']'' # t) = map_option ((#) BracketClose) (lex t)"
  "lex (CHR '','' # t) = map_option ((#) Comma) (lex t)"
  "lex (CHR '':'' # t) = map_option ((#) Colon) (lex t)"
  by (subst lex.simps, simp add: not_spaces)+

lemma lex_words:
  "lex (CHR ''t'' # CHR ''r'' # CHR ''u'' # CHR ''e'' # t) = map_option ((#) (Scalar (JBool True))) (lex t)"
  "lex (CHR ''f'' # CHR ''a'' # CHR ''l'' # CHR ''s'' # CHR ''e'' # t) = map_option ((#) (Scalar (JBool False))) (lex t)"
  "lex (CHR ''n'' # CHR ''u'' # CHR ''l'' # CHR ''l'' # t) = map_option ((#) (Scalar JNull)) (lex t)"
  by (subst lex.simps, simp add: not_spaces, simp add: quote_char_def)+

lemma lex_quoted: "valid_utf8 s \<Longrightarrow> lex (quoted s @ t) = map_option ((#) (Scalar (JStr s))) (lex t)"
  unfolding quoted_def by (simp, subst lex.simps) (simp add: not_spaces unquote_body, simp add: quote_char_def)

lemma tame_cons: "\<not> is_digit c \<Longrightarrow> c \<notin> set ''.eE'' \<Longrightarrow> tame (c # t)"
  by (simp add: tame_def)

lemma tame_punct: "tame (CHR ''}'' # t)" "tame (CHR '']'' # t)" "tame (CHR '','' # t)"
  by (simp_all add: tame_def is_digit_def)

lemma tame_spaces: "list_all is_space w \<Longrightarrow> tame t \<Longrightarrow> tame (w @ t)"
  by (cases w) (auto simp: tame_def is_space_def is_digit_def)

lemma tame_rest: "tame t \<Longrightarrow> tame (print_elems ly ff n js @ t)" "tame t \<Longrightarrow> tame (print_members ly ff n kvs @ t)"
  by (cases "(ly, ff, n, js)" rule: print_elems.cases; simp add: tame_punct)
    (cases "(ly, ff, n, kvs)" rule: print_members.cases; simp add: tame_punct)

lemmas lexing = option.map_comp comp_def lex_punct lex_words lex_spaces lex_quoted tame_punct tame_spaces tame_rest

definition spaced :: "layout \<Rightarrow> bool" where
  "spaced ly \<longleftrightarrow> (\<forall>n. list_all is_space (ly_nl ly n)) \<and> list_all is_space (ly_sp ly)"

lemma append_fun: "(@) [] = (\<lambda>x. x)" "(@) (a # bs) = (\<lambda>x. a # bs @ x)"
  by (simp_all add: fun_eq_iff)

lemma lex_print:
  "spaced ly \<Longrightarrow> plain j \<Longrightarrow> tame t \<Longrightarrow> lex (print_json ly ff n j @ t) = map_option ((@) (toks j)) (lex t)"
  "spaced ly \<Longrightarrow> plain_elems js \<Longrightarrow> tame t \<Longrightarrow>
    lex (print_elems ly ff n js @ t) = map_option ((@) (toks_elems js)) (lex t)"
  "spaced ly \<Longrightarrow> plain_members kvs \<Longrightarrow> tame t \<Longrightarrow>
    lex (print_members ly ff n kvs @ t) = map_option ((@) (toks_members kvs)) (lex t)"
proof (induction ly ff n j and ly ff n js and ly ff n kvs arbitrary: t and t and t rule: print_json_print_elems_print_members.induct)
qed (auto simp: lexing spaced_def lex_int append_fun option.map_ident)

subsection \<open>Values\<close>

lemma toks_head: "\<exists>t r. toks j = t # r \<and> t \<noteq> BracketClose \<and> t \<noteq> BraceClose"
  by (cases j rule: toks.cases) auto

text \<open>What a value leaves of its tokens.\<close>

definition reads :: "nat \<Rightarrow> json \<Rightarrow> bool" where
  "reads d j \<longleftrightarrow> (\<forall>ts. parse_value d (toks j @ ts) = Some (j, ts))"

lemma parse_elems_toks:
  assumes "reads d j"
  shows "parse_elems d (toks j @ BracketClose # ts) = Some ([j], ts)"
    and "parse_elems d (toks j @ Comma # ts) = map_option (apfst ((#) j)) (parse_elems d ts)"
  using assms by (subst parse_elems.simps, simp add: reads_def)+

lemma parse_members_toks:
  assumes "reads d j"
  shows "parse_members d (Scalar (JStr k) # Colon # toks j @ BraceClose # ts) = Some ([(k, j)], ts)"
    and "parse_members d (Scalar (JStr k) # Colon # toks j @ Comma # ts) = map_option (apfst ((#) (k, j))) (parse_members d ts)"
  using assms by (subst parse_members.simps, simp add: reads_def)+

lemma reads_arr: "d \<noteq> 0 \<Longrightarrow> parse_elems (d - 1) (toks j @ ts) = Some (js, ts') \<Longrightarrow>
    parse_value d (BracketOpen # toks j @ ts) = Some (JArr js, ts')"
  using toks_head [of j] by (subst parse_value.simps) auto

lemma parse_toks:
  "depth j \<le> d \<Longrightarrow> reads d j"
  "depth_elems js \<le> d \<Longrightarrow> reads d i \<Longrightarrow> parse_elems d (toks i @ toks_elems js @ BracketClose # ts) = Some (i # js, ts)"
  "depth_members kvs \<le> d \<Longrightarrow> reads d i \<Longrightarrow>
    parse_members d (Scalar (JStr l) # Colon # toks i @ toks_members kvs @ BraceClose # ts) = Some ((l, i) # kvs, ts)"
proof (induction j and js and kvs arbitrary: d and d i ts and d l i ts rule: toks_toks_elems_toks_members.induct)
  case (2 j js)
  then have "parse_value d (BracketOpen # toks j @ toks_elems js @ BracketClose # ts) = Some (JArr (j # js), ts)" for ts
    by (intro reads_arr) auto
  then show ?case by (simp add: reads_def)
next
  case (4 k j kvs)
  then have "parse_members (d - 1) (Scalar (JStr k) # Colon # toks j @ toks_members kvs @ BraceClose # ts)
      = Some ((k, j) # kvs, ts)" for ts by auto
  moreover have "d \<noteq> 0" using 4 by auto
  ultimately show ?case unfolding reads_def by (auto simp: parse_value.simps)
qed (auto simp: reads_def parse_elems_toks parse_members_toks parse_value.simps)

text \<open>What \<open>Marshal\<close> and \<open>MarshalIndent\<close> wrote, \<open>Unmarshal\<close> reads as the same value.\<close>

lemma Unmarshal_print:
  assumes "spaced ly" and "plain j" and "depth j \<le> maxNestingDepth"
  shows "Unmarshal (print_json ly ff n j) = Some j"
proof -
  have "lex (print_json ly ff n j) = Some (toks j)"
    using lex_print(1) [OF assms(1,2), of "[]" ff n] by (simp add: tame_def lex.simps)
  moreover have "parse_value maxNestingDepth (toks j @ []) = Some (j, [])"
    using parse_toks(1) [OF assms(3)] unfolding reads_def by blast
  ultimately show ?thesis by (simp add: Unmarshal_def)
qed

lemma Unmarshal_Marshal: "plain j \<Longrightarrow> depth j \<le> maxNestingDepth \<Longrightarrow> Unmarshal (Marshal ff j) = Some j"
  unfolding Marshal_def by (rule Unmarshal_print) (simp_all add: spaced_def)

lemma Unmarshal_MarshalIndent: "plain j \<Longrightarrow> depth j \<le> maxNestingDepth \<Longrightarrow> Unmarshal (MarshalIndent ff j) = Some j"
  unfolding MarshalIndent_def by (rule Unmarshal_print) (simp_all add: spaced_def is_space_def newline_def list_all_iff)

lemma Unmarshal_Nil: "Unmarshal [] = None"
  by (simp add: Unmarshal_def lex.simps parse_value.simps)

lemma Marshal_not_Nil: "plain j \<Longrightarrow> depth j \<le> maxNestingDepth \<Longrightarrow> Marshal ff j \<noteq> []"
  using Unmarshal_Marshal [of j ff] Unmarshal_Nil by (metis option.distinct(1))

lemma plain_elems_iff: "plain_elems js \<longleftrightarrow> (\<forall>j \<in> set js. plain j)"
  by (induction js) auto

lemma depth_elems_le: "depth_elems js \<le> d \<longleftrightarrow> (\<forall>j \<in> set js. depth j \<le> d)"
  by (induction js) auto

end
