(* ===== verification/ProtoProps.thy ===== *)
theory ProtoProps
  imports Proto GoJson
begin

text \<open>
  The properties of the control protocol of \<open>internal/proto/proto.go\<close>: which byte streams hold a
  frame, a whole conversation read back, and the payloads the two programs exchange.
\<close>

section \<open>Frames\<close>

lemma digit256: "r < 256 \<Longrightarrow> (x * 256 + r) mod 256 = r" "r < 256 \<Longrightarrow> (x * 256 + r) div 256 = (x :: nat)"
  by simp_all

lemma Uint32_bytes:
  fixes a b c d :: char
  defines "n \<equiv> Uint32 [a, b, c, d]"
  shows "n < 2 ^ 32" and "char_of (n div 2 ^ 24) = a" and "char_of (n div 2 ^ 16 mod 256) = b"
    and "char_of (n div 2 ^ 8 mod 256) = c" and "char_of (n mod 256) = d"
proof -
  have lt: "of_char x < (256 :: nat)" for x by (rule nat_of_char_less_256)
  define A B C D :: nat where "A = of_char a" and "B = of_char b" and "C = of_char c" and "D = of_char d"
  have l: "A < 256" "B < 256" "C < 256" "D < 256" by (simp_all add: A_def B_def C_def D_def lt)
  have n: "n = ((A * 256 + B) * 256 + C) * 256 + D"
    by (simp add: n_def Uint32_def A_def B_def C_def D_def)
  have n0: "n mod 256 = D" "n div 256 = (A * 256 + B) * 256 + C"
    unfolding n by (rule digit256, rule l)+
  have n1: "n div 256 mod 256 = C" "n div 256 div 256 = A * 256 + B"
    unfolding n0 by (rule digit256, rule l)+
  have n2: "n div 256 div 256 mod 256 = B" "n div 256 div 256 div 256 = A"
    unfolding n1 by (rule digit256, rule l)+
  have "n div 2 ^ 24 = n div 256 div 256 div 256" "n div 2 ^ 16 = n div 256 div 256" "n div 2 ^ 8 = n div 256"
    by (simp_all add: div_mult2_eq [symmetric])
  with n0(1) n1(1) n2 show "char_of (n div 2 ^ 24) = a" "char_of (n div 2 ^ 16 mod 256) = b"
    "char_of (n div 2 ^ 8 mod 256) = c" "char_of (n mod 256) = d"
    by (simp_all add: A_def B_def C_def D_def)
  show "n < 2 ^ 32" using l by (simp add: n)
qed

lemma PutUint32_Uint32:
  assumes "length hdr = 4"
  shows "PutUint32 (of_nat (Uint32 hdr)) = hdr" and "Uint32 hdr < 2 ^ 32"
proof -
  obtain a b c d where hdr: "hdr = [a, b, c, d]"
    using assms by (auto simp: length_Suc_conv eval_nat_numeral)
  note bytes = Uint32_bytes [of a b c d]
  have "unat (of_nat (Uint32 hdr) :: 32 word) = Uint32 hdr"
    using bytes(1) unfolding hdr by (simp only: unsigned_of_nat) (simp add: take_bit_nat_eq_self)
  then show "PutUint32 (of_nat (Uint32 hdr)) = hdr" unfolding PutUint32_def using bytes(2-) by (simp add: hdr)
  show "Uint32 hdr < 2 ^ 32" using bytes(1) by (simp add: hdr)
qed

text \<open>
  \<open>ReadFrame\<close> accepts exactly the streams that begin with a big-endian length between 1 and
  \<open>MaxFrame\<close> and that many bytes; it takes those bytes and leaves the rest of the stream for the
  next frame. Everything else (empty and oversized frames, a stream cut short) is an error.
\<close>

theorem read_frame_exact:
  "read_frame stream = Ok (body, rest) \<longleftrightarrow>
     stream = PutUint32 (of_nat (length body)) @ body @ rest \<and> 0 < length body \<and> length body \<le> MaxFrame"
proof
  assume ok: "read_frame stream = Ok (body, rest)"
  let ?n = "Uint32 (take 4 stream)"
  have len: "4 \<le> length stream" and n: "?n \<noteq> 0" "?n \<le> MaxFrame" "?n \<le> length stream - 4"
    and body: "body = take ?n (drop 4 stream)" and rest: "rest = drop ?n (drop 4 stream)"
    using ok by (auto simp: read_frame_def Let_def split: if_splits)
  have "length body = ?n" using body n(3) by simp
  moreover have "PutUint32 (of_nat ?n) = take 4 stream" using len by (intro PutUint32_Uint32) simp
  moreover have "stream = take 4 stream @ body @ rest" unfolding body rest by (metis append_take_drop_id)
  ultimately show "stream = PutUint32 (of_nat (length body)) @ body @ rest
      \<and> 0 < length body \<and> length body \<le> MaxFrame"
    using n by simp
next
  assume "stream = PutUint32 (of_nat (length body)) @ body @ rest \<and> 0 < length body \<and> length body \<le> MaxFrame"
  then show "read_frame stream = Ok (body, rest)"
    using read_frame_bytes [of body "PutUint32 (of_nat (length body)) @ body" rest]
    by (auto simp: frame_bytes_def)
qed


section \<open>Conversations\<close>

text \<open>The read loop of both programs for \<open>n\<close> frames, stopping at the first error.\<close>

fun read_envs :: "(string \<Rightarrow> json option) \<Rightarrow> nat \<Rightarrow> string \<Rightarrow> (envelope list \<times> string) result" where
  "read_envs unmarshal 0 stream = Ok ([], stream)"
| "read_envs unmarshal (Suc n) stream =
     (case ReadFrame unmarshal stream of
        Inl e \<Rightarrow> Err e
      | Inr (env, rest) \<Rightarrow>
          (case read_envs unmarshal n rest of
             Inl e \<Rightarrow> Err e
           | Inr (envs, rest') \<Rightarrow> Ok (env # envs, rest')))"

fun write_envs :: "(json \<Rightarrow> string) \<Rightarrow> envelope list \<Rightarrow> string result" where
  "write_envs marshal [] = Ok []"
| "write_envs marshal (env # envs) =
     (case WriteFrame marshal env of
        Inl e \<Rightarrow> Err e
      | Inr bs \<Rightarrow> (case write_envs marshal envs of Inl e \<Rightarrow> Err e | Inr bs' \<Rightarrow> Ok (bs @ bs')))"

text \<open>
  C39: a conversation is read back as it was written. Where the JSON parser reads back what
  the printer wrote for the envelopes at hand (never the empty text), the frames one side writes, read by the
  other, are the same envelopes in the same order, and nothing of a following frame is consumed.
  (\<open>Unmarshal_Marshal\<close> in \<open>GoJson\<close> gives the condition for values in UTF-8 without fractions.)
\<close>

theorem conversation_roundtrip:
  assumes "\<forall>env \<in> set envs. unmarshal (marshal (enc_envelope env)) = Some (enc_envelope env)
      \<and> marshal (enc_envelope env) \<noteq> [] \<and> in_int64 (env_V env)"
    and "write_envs marshal envs = Ok bs"
  shows "read_envs unmarshal (length envs) (bs @ rest) = Ok (envs, rest)"
  using assms
proof (induction envs arbitrary: bs)
  case (Cons env envs)
  then obtain b bs' where b: "WriteFrame marshal env = Ok b" "write_envs marshal envs = Ok bs'" "bs = b @ bs'"
    by (auto split: sum.splits)
  have "read_frame (b @ bs' @ rest) = Ok (marshal (enc_envelope env), bs' @ rest)"
    using b(1) Cons.prems(1) by (intro read_frame_bytes) (auto simp: WriteFrame_def)
  then have "ReadFrame unmarshal (bs @ rest) = Ok (env, bs' @ rest)"
    using Cons.prems(1) b(3) by (simp add: ReadFrame_def)
  moreover have "read_envs unmarshal (length envs) (bs' @ rest) = Ok (envs, rest)"
    using Cons.prems(1) b(2) by (intro Cons.IH) auto
  ultimately show ?case by simp
qed simp

definition demo_env :: envelope where
  "demo_env = NewEnvelope TypeKick ''k1'' (enc_kick \<lparr>kd_Reason = ''bye''\<rparr>)"


lemma demo_env_text: "length (Marshal (\<lambda>r. []) (enc_envelope demo_env)) = 55"
  by code_simp

lemma demo_env_plain: "plain (enc_envelope demo_env)" "depth (enc_envelope demo_env) = 2"
  by code_simp+

theorem conversation_roundtrip_witness:
  "read_envs Unmarshal 2 (projr (write_envs (Marshal (\<lambda>r. [])) [demo_env, demo_env]) @ ''next'')
     = Ok ([demo_env, demo_env], ''next'')"
proof -
  have w: "write_envs (Marshal (\<lambda>r. [])) [demo_env, demo_env] = Ok (projr (write_envs (Marshal (\<lambda>r. [])) [demo_env, demo_env]))"
    using demo_env_text by (simp add: WriteFrame_def frame_bytes_def MaxFrame_def)
  have env: "Unmarshal (Marshal (\<lambda>r. []) (enc_envelope demo_env)) = Some (enc_envelope demo_env)"
    "Marshal (\<lambda>r. []) (enc_envelope demo_env) \<noteq> []"
    using demo_env_plain by (auto simp: Unmarshal_Marshal Marshal_not_Nil maxNestingDepth_def)
  have "in_int64 (env_V demo_env)" by (simp add: demo_env_def Version_def in_int64_def)
  moreover have two: "2 = length [demo_env, demo_env]" by simp
  ultimately show ?thesis unfolding two using env by (intro conversation_roundtrip [OF _ w]) simp
qed

section \<open>Payloads\<close>

text \<open>
  Every payload the two programs exchange is decoded to what was encoded: registrations with
  ports in the range of \<open>int64\<close>, the expected peers, pushed specs, removals, heartbeats with any
  counters, acknowledgements, kicks, errors and sealed commands.
\<close>

theorem payloads_roundtrip:
  "(in_int64 (rd_WGPort rd) \<and> in_int64 (rd_SocksPort rd) \<longrightarrow> dec_register (enc_register rd) = Some rd)
   \<and> ((\<forall>s \<in> set (ra_PeersExpected ra). in_int64 (ps_KeepaliveS s)) \<longrightarrow> dec_register_ack (enc_register_ack ra) = Some ra)
   \<and> (in_int64 (ps_KeepaliveS ps) \<longrightarrow> dec_spec (enc_spec ps) = Some ps)
   \<and> (in_int64 (hd_TS hb) \<and> (\<forall>w \<in> set (hd_WG hb). in_int64 (wp_LastHandshakeTS w))
        \<longrightarrow> dec_heartbeat (enc_heartbeat hb) = Some hb)
   \<and> dec_peer_remove (enc_peer_remove pr) = Some pr \<and> dec_ack (enc_ack ad) = Some ad
   \<and> dec_kick (enc_kick kd) = Some kd \<and> dec_error (enc_error er) = Some er
   \<and> dec_svc_action (enc_svc_action sa) = Some sa \<and> dec_enroll (enc_enroll en) = Some en
   \<and> dec_enroll_ack (enc_enroll_ack ea) = Some ea"
  by (simp add: codec_simps)

theorem payloads_roundtrip_witness:
  "dec_register (enc_register \<lparr>rd_WGPubkey = ''k'', rd_WGPort = 51820, rd_AgentVersion = ''1'', rd_OS = ''linux'',
      rd_SocksPort = 1080\<rparr>)
     = Some \<lparr>rd_WGPubkey = ''k'', rd_WGPort = 51820, rd_AgentVersion = ''1'', rd_OS = ''linux'', rd_SocksPort = 1080\<rparr>"
  using payloads_roundtrip [of "\<lparr>rd_WGPubkey = ''k'', rd_WGPort = 51820, rd_AgentVersion = ''1'', rd_OS = ''linux'',
      rd_SocksPort = 1080\<rparr>"]
  by (simp add: in_int64_def)

end
