(* ===== verification/Config.thy ===== *)
theory Config
  imports Json
begin

text \<open>
  \<open>internal/hub/config.go\<close>: the hub's configuration, its defaults and the JSON file read over
  them. \<open>time.Duration\<close> values are nanoseconds in \<open>int64\<close>, with Go's wrap-around.
\<close>

record config =
  cfg_DataDir :: string
  cfg_ControlAddr :: string
  cfg_APIAddr :: string
  cfg_OverlayCIDR :: string
  cfg_PublicAddr :: string
  cfg_SecureCookie :: bool
  cfg_HeartbeatS :: int
  cfg_DeadAfterS :: int
  cfg_PeerGCAfterS :: int
  cfg_KeepaliveS :: int
  cfg_TokenTTLs :: int
  cfg_CertTTLDays :: int
  cfg_IPCooldownS :: int

definition Defaults :: config where
  "Defaults = \<lparr>cfg_DataDir = ''/var/lib/lightpn/hub'', cfg_ControlAddr = ''0.0.0.0:7440'',
     cfg_APIAddr = ''127.0.0.1:7441'', cfg_OverlayCIDR = ''100.100.0.0/24'', cfg_PublicAddr = [],
     cfg_SecureCookie = True, cfg_HeartbeatS = 15, cfg_DeadAfterS = 45, cfg_PeerGCAfterS = 300,
     cfg_KeepaliveS = 25, cfg_TokenTTLs = 900, cfg_CertTTLDays = 365,
     cfg_IPCooldownS = 30 * 24 * 3600\<rparr>"

definition dec_config_onto :: "config \<Rightarrow> json \<Rightarrow> config option" where
  "dec_config_onto = dec_struct
     [fld ''data_dir'' dec_string cfg_DataDir (\<lambda>x r. r\<lparr>cfg_DataDir := x\<rparr>),
      fld ''control_addr'' dec_string cfg_ControlAddr (\<lambda>x r. r\<lparr>cfg_ControlAddr := x\<rparr>),
      fld ''api_addr'' dec_string cfg_APIAddr (\<lambda>x r. r\<lparr>cfg_APIAddr := x\<rparr>),
      fld ''overlay_cidr'' dec_string cfg_OverlayCIDR (\<lambda>x r. r\<lparr>cfg_OverlayCIDR := x\<rparr>),
      fld ''public_addr'' dec_string cfg_PublicAddr (\<lambda>x r. r\<lparr>cfg_PublicAddr := x\<rparr>),
      fld ''secure_cookie'' dec_bool cfg_SecureCookie (\<lambda>x r. r\<lparr>cfg_SecureCookie := x\<rparr>),
      fld ''heartbeat_s'' dec_int cfg_HeartbeatS (\<lambda>x r. r\<lparr>cfg_HeartbeatS := x\<rparr>),
      fld ''dead_after_s'' dec_int cfg_DeadAfterS (\<lambda>x r. r\<lparr>cfg_DeadAfterS := x\<rparr>),
      fld ''peer_gc_after_s'' dec_int cfg_PeerGCAfterS (\<lambda>x r. r\<lparr>cfg_PeerGCAfterS := x\<rparr>),
      fld ''keepalive_s'' dec_int cfg_KeepaliveS (\<lambda>x r. r\<lparr>cfg_KeepaliveS := x\<rparr>),
      fld ''token_ttl_s'' dec_int cfg_TokenTTLs (\<lambda>x r. r\<lparr>cfg_TokenTTLs := x\<rparr>),
      fld ''cert_ttl_days'' dec_int cfg_CertTTLDays (\<lambda>x r. r\<lparr>cfg_CertTTLDays := x\<rparr>),
      fld ''ip_cooldown_s'' dec_int cfg_IPCooldownS (\<lambda>x r. r\<lparr>cfg_IPCooldownS := x\<rparr>)]"

text \<open>What \<open>os.ReadFile\<close> of the path gives, with the JSON value of the bytes when they parse.\<close>

datatype file_read = FileMissing | FileError string | FileJson "json option"

definition LoadConfig :: "string \<Rightarrow> file_read \<Rightarrow> config result" where
  "LoadConfig path file =
     (if path = [] then Ok Defaults
      else (case file of
          FileMissing \<Rightarrow> Ok Defaults
        | FileError e \<Rightarrow> Err (ErrMsg e)
        | FileJson j \<Rightarrow>
            (case Option.bind j (dec_config_onto Defaults) of
               None \<Rightarrow> Err (ErrMsg ''json'')
             | Some cfg \<Rightarrow> Ok cfg)))"

definition wrap64 :: "int \<Rightarrow> int" where
  "wrap64 n = signed_take_bit 63 n"

definition seconds :: "int \<Rightarrow> int" where
  "seconds n = wrap64 (wrap64 n * 1000000000)"

definition HeartbeatPeriod :: "config \<Rightarrow> int" where "HeartbeatPeriod c = seconds (cfg_HeartbeatS c)"
definition DeadAfter :: "config \<Rightarrow> int" where "DeadAfter c = seconds (cfg_DeadAfterS c)"
definition PeerGCAfter :: "config \<Rightarrow> int" where "PeerGCAfter c = seconds (cfg_PeerGCAfterS c)"
definition TokenTTL :: "config \<Rightarrow> int" where "TokenTTL c = seconds (cfg_TokenTTLs c)"
definition IPCooldown :: "config \<Rightarrow> int" where "IPCooldown c = seconds (cfg_IPCooldownS c)"

lemma wrap64_id: "- (2 ^ 63) \<le> n \<Longrightarrow> n < 2 ^ 63 \<Longrightarrow> wrap64 n = n"
  by (simp add: wrap64_def signed_take_bit_int_eq_self)

lemma seconds_id: "\<bar>n\<bar> \<le> 9223372036 \<Longrightarrow> seconds n = n * 1000000000"
  by (simp add: seconds_def wrap64_id)

end
