(* ===== verification/Hub.thy ===== *)
theory Hub
  imports StoreRun Ring Config
begin

text \<open>
  \<open>internal/hub/hub.go\<close> and the session part of \<open>internal/hub/control.go\<close>: the hub's run-time
  state, matchmaking and the handlers of the control channel. One handler call is one function on
  the state; the section it runs under \<open>h.mu\<close> is a definition of its own where another
  goroutine can run between it and the rest. Sessions are pointers in Go, here numbers into a
  heap; ULIDs come from a numbered supply; \<open>now\<close> is the Unix time the handler reads.
\<close>

section \<open>State\<close>

record ack_ref =
  ar_linkID :: string
  ar_side :: string

record wg_ident =
  wi_pubkey :: string
  wi_port :: int
  wi_ip :: string
  wi_socksPort :: int

record link_rt =
  rt_ackA :: bool
  rt_ackB :: bool
  rt_lastHS :: int
  rt_rxRate :: rat
  rt_txRate :: rat
  rt_prevRx :: "64 word"
  rt_prevTx :: "64 word"
  rt_prevTS :: int

definition zero_rt :: link_rt where
  "zero_rt = \<lparr>rt_ackA = False, rt_ackB = False, rt_lastHS = 0, rt_rxRate = 0, rt_txRate = 0,
     rt_prevRx = 0, rt_prevTx = 0, rt_prevTS = 0\<rparr>"

text \<open>
  \<open>ses_remote\<close> is the IP of the connection's remote address; \<open>ses_direct\<close> are the frames written
  straight to the connection by \<open>sendError\<close>, \<open>ses_sent\<close> those written by the session writer.
\<close>

record session =
  ses_node :: node
  ses_remote :: string
  ses_out :: "envelope list"
  ses_registered :: bool
  ses_agentVersion :: string
  ses_osStr :: string
  ses_lastHB :: int
  ses_hbWG :: "wg_peer_status list"
  ses_pendingAcks :: "string \<rightharpoonup> ack_ref"
  ses_closed :: bool
  ses_direct :: "envelope list"
  ses_sent :: "envelope list"

datatype event =
    EvNodeStatus string string
  | EvLinkStatus string string
  | EvHeartbeat string sys_metrics "wg_peer_status list"
  | EvEnrolled string string

record conf_waiter =
  cw_nodeID :: string
  cw_ch :: nat

record hub =
  hb_cfg :: config
  hb_db :: store
  hb_metrics :: metrics
  hb_heap :: "nat \<rightharpoonup> session"
  hb_sessions :: "string \<rightharpoonup> nat"
  hb_links :: "string \<rightharpoonup> link_rt"
  hb_lastWG :: "string \<rightharpoonup> wg_ident"
  hb_revoked :: "string set"
  hb_gcDone :: "string set"
  hb_confWait :: "string \<rightharpoonup> conf_waiter"
  hb_chans :: "nat \<rightharpoonup> json"
  hb_subs :: "nat \<rightharpoonup> event list"
  hb_timers :: "nat list"
  hb_ulid :: "nat \<Rightarrow> string"
  hb_next :: nat

definition NewHub :: "config \<Rightarrow> store \<Rightarrow> (nat \<Rightarrow> string) \<Rightarrow> hub" where
  "NewHub cfg db ulid = \<lparr>hb_cfg = cfg, hb_db = db, hb_metrics = NewMetrics, hb_heap = Map.empty,
     hb_sessions = Map.empty, hb_links = Map.empty, hb_lastWG = Map.empty,
     hb_revoked = set (RevokedSerials db), hb_gcDone = {}, hb_confWait = Map.empty,
     hb_chans = Map.empty, hb_subs = Map.empty, hb_timers = [], hb_ulid = ulid, hb_next = 0\<rparr>"

definition NewULID :: "hub \<Rightarrow> string \<times> hub" where
  "NewULID h = (hb_ulid h (hb_next h), h\<lparr>hb_next := Suc (hb_next h)\<rparr>)"

definition live :: "string \<Rightarrow> hub \<Rightarrow> session option" where
  "live nid h = Option.bind (hb_sessions h nid) (hb_heap h)"

definition upd_session :: "nat \<Rightarrow> (session \<Rightarrow> session) \<Rightarrow> hub \<Rightarrow> hub" where
  "upd_session sid f h =
     (case hb_heap h sid of None \<Rightarrow> h | Some s \<Rightarrow> h\<lparr>hb_heap := (hb_heap h)(sid \<mapsto> f s)\<rparr>)"

definition upd_link :: "string \<Rightarrow> (link_rt \<Rightarrow> link_rt) \<Rightarrow> hub \<Rightarrow> hub" where
  "upd_link lid f h =
     (case hb_links h lid of None \<Rightarrow> h | Some rt \<Rightarrow> h\<lparr>hb_links := (hb_links h)(lid \<mapsto> f rt)\<rparr>)"

definition ensure_link :: "string \<Rightarrow> hub \<Rightarrow> hub" where
  "ensure_link lid h =
     (if hb_links h lid = None then h\<lparr>hb_links := (hb_links h)(lid \<mapsto> zero_rt)\<rparr> else h)"

section \<open>Sessions and queues\<close>

definition outCap :: nat where "outCap = 64"

definition close_session :: "nat \<Rightarrow> hub \<Rightarrow> hub" where
  "close_session sid = upd_session sid (\<lambda>s. s\<lparr>ses_closed := True\<rparr>)"

definition enqueue :: "envelope \<Rightarrow> session \<Rightarrow> session" where
  "enqueue env s = (if length (ses_out s) < outCap then s\<lparr>ses_out := ses_out s @ [env]\<rparr>
                    else s\<lparr>ses_closed := True\<rparr>)"

definition send :: "nat \<Rightarrow> envelope \<Rightarrow> hub \<Rightarrow> hub" where
  "send sid env = upd_session sid (enqueue env)"

text \<open>One turn of \<open>sessionWriter\<close>: take the oldest queued frame and write it.\<close>

definition writer_step :: "nat \<Rightarrow> hub \<Rightarrow> hub" where
  "writer_step sid = upd_session sid (\<lambda>s.
     if ses_closed s then s
     else (case ses_out s of [] \<Rightarrow> s
           | env # rest \<Rightarrow> s\<lparr>ses_out := rest, ses_sent := ses_sent s @ [env]\<rparr>))"

text \<open>\<open>sendError\<close> writes to the connection directly; a write on a closed one fails silently.\<close>

definition sendError :: "nat \<Rightarrow> string \<Rightarrow> string \<Rightarrow> hub \<Rightarrow> hub" where
  "sendError sid code msg h =
     (let (eid, h') = NewULID h;
          env = NewEnvelope TypeError eid (enc_error \<lparr>er_Code = code, er_Msg = msg\<rparr>) in
      upd_session sid (\<lambda>s. if ses_closed s then s else s\<lparr>ses_direct := ses_direct s @ [env]\<rparr>) h')"

definition publish :: "event \<Rightarrow> hub \<Rightarrow> hub" where
  "publish ev h = h\<lparr>hb_subs := (\<lambda>ch. map_option
     (\<lambda>q. if length q < 64 then q @ [ev] else q) (hb_subs h ch))\<rparr>"

definition Subscribe :: "nat \<Rightarrow> hub \<Rightarrow> hub" where
  "Subscribe ch h = h\<lparr>hb_subs := (hb_subs h)(ch \<mapsto> [])\<rparr>"

definition Unsubscribe :: "nat \<Rightarrow> hub \<Rightarrow> hub" where
  "Unsubscribe ch h = h\<lparr>hb_subs := (hb_subs h)(ch := None)\<rparr>"

section \<open>Status\<close>

definition NodeStatus :: "string \<Rightarrow> int \<Rightarrow> hub \<Rightarrow> string" where
  "NodeStatus nid now h =
     (case live nid h of
        None \<Rightarrow> ''offline''
      | Some s \<Rightarrow> if now - ses_lastHB s > cfg_DeadAfterS (hb_cfg h) then ''stale'' else ''online'')"

definition registered_on :: "string \<Rightarrow> hub \<Rightarrow> bool" where
  "registered_on nid h = (case live nid h of None \<Rightarrow> False | Some s \<Rightarrow> ses_registered s)"

definition LinkStatus :: "link \<Rightarrow> int \<Rightarrow> hub \<Rightarrow> string" where
  "LinkStatus l now h =
     (case hb_links h (link_ID l) of
        None \<Rightarrow> ''pending''
      | Some rt \<Rightarrow>
          if \<not> registered_on (link_A l) h \<or> \<not> registered_on (link_B l) h
             \<or> \<not> rt_ackA rt \<or> \<not> rt_ackB rt then ''pending''
          else if now - rt_lastHS rt < 180 then ''active''
          else ''degraded'')"

definition LinkRuntime :: "string \<Rightarrow> hub \<Rightarrow> int \<times> rat \<times> rat" where
  "LinkRuntime lid h =
     (case hb_links h lid of
        None \<Rightarrow> (0, 0, 0)
      | Some rt \<Rightarrow> (rt_lastHS rt, rt_rxRate rt, rt_txRate rt))"

definition wg_endpoint :: "wg_ident \<Rightarrow> string" where
  "wg_endpoint w = wi_ip w @ CHR '':'' # itoa_int (wi_port w)"

record session_info =
  si_Endpoint :: string
  si_AgentVersion :: string
  si_LastHB :: int
  si_WGPeers :: "wg_peer_status list"
  si_ExitCapable :: bool

definition Session :: "string \<Rightarrow> hub \<Rightarrow> session_info option" where
  "Session nid h =
     (case live nid h of
        None \<Rightarrow> None
      | Some s \<Rightarrow>
          (let info = \<lparr>si_Endpoint = [], si_AgentVersion = ses_agentVersion s,
                 si_LastHB = ses_lastHB s, si_WGPeers = ses_hbWG s, si_ExitCapable = False\<rparr> in
           case hb_lastWG h nid of
             None \<Rightarrow> Some info
           | Some w \<Rightarrow> Some (info\<lparr>si_Endpoint := wg_endpoint w,
                 si_ExitCapable := wi_socksPort w > 0\<rparr>)))"

section \<open>Matchmaking\<close>

definition peerSide :: "link \<Rightarrow> string \<Rightarrow> string" where
  "peerSide l nid = (if link_A l = nid then ''a'' else ''b'')"

definition set_ack :: "string \<Rightarrow> link_rt \<Rightarrow> link_rt" where
  "set_ack side rt = (if side = ''a'' then rt\<lparr>rt_ackA := True\<rparr> else rt\<lparr>rt_ackB := True\<rparr>)"

definition peerSpecLocked :: "link \<Rightarrow> string \<Rightarrow> wg_ident \<Rightarrow> hub \<Rightarrow> peer_spec result" where
  "peerSpecLocked l peerID w h =
     (case GetNode peerID (hb_db h) of
        Inl e \<Rightarrow> Err e
      | Inr peer \<Rightarrow>
          (let spec = \<lparr>ps_LinkID = link_ID l, ps_PeerNodeID = peerID, ps_PeerName = node_Name peer,
                 ps_WGPubkey = wi_pubkey w, ps_Endpoint = wg_endpoint w,
                 ps_AllowedIPs = [node_OverlayIP peer @ ''/32''],
                 ps_KeepaliveS = cfg_KeepaliveS (hb_cfg h), ps_Exit = False, ps_ExitAddr = []\<rparr> in
           Ok (if link_ExitNode l = peerID \<and> peerID \<noteq> Other l peerID \<and> wi_socksPort w > 0
               then spec\<lparr>ps_Exit := True,
                      ps_ExitAddr := node_OverlayIP peer @ CHR '':'' # itoa_int (wi_socksPort w)\<rparr>
               else spec)))"

definition sendPeerSpecLocked ::
  "nat \<Rightarrow> link \<Rightarrow> string \<Rightarrow> string \<Rightarrow> wg_ident \<Rightarrow> hub \<Rightarrow> hub" where
  "sendPeerSpecLocked sid l typ peerID w h =
     (case peerSpecLocked l peerID w h of
        Inl e \<Rightarrow> h
      | Inr spec \<Rightarrow>
          (let (pid, h1) = NewULID h;
               h2 = upd_session sid (\<lambda>s. s\<lparr>ses_pendingAcks := (ses_pendingAcks s)(pid \<mapsto>
                      \<lparr>ar_linkID = link_ID l, ar_side = peerSide l (node_ID (ses_node s))\<rparr>)\<rparr>) h1
           in send sid (NewEnvelope typ pid (enc_spec spec)) h2))"

definition pushPairLocked :: "link \<Rightarrow> string \<Rightarrow> hub \<Rightarrow> hub" where
  "pushPairLocked l typ h =
     (case (hb_sessions h (link_A l), hb_sessions h (link_B l),
            hb_lastWG h (link_A l), hb_lastWG h (link_B l)) of
        (Some sa, Some sb, Some wa, Some wb) \<Rightarrow>
          if \<not> registered_on (link_A l) h \<or> \<not> registered_on (link_B l) h then h
          else
            (let h1 = upd_link (link_ID l) (\<lambda>rt. rt\<lparr>rt_ackA := False, rt_ackB := False\<rparr>) h;
                 h2 = sendPeerSpecLocked sa l typ (link_B l) wb h1
             in sendPeerSpecLocked sb l typ (link_A l) wa h2)
      | _ \<Rightarrow> h)"

definition pushLink :: "link \<Rightarrow> hub \<Rightarrow> hub" where
  "pushLink l h = pushPairLocked l TypePeerAdd (ensure_link (link_ID l) h)"

definition removeSideLocked :: "link \<Rightarrow> string \<Rightarrow> string \<Rightarrow> hub \<Rightarrow> hub" where
  "removeSideLocked l dest peerID h =
     (case (hb_sessions h dest, hb_lastWG h peerID) of
        (Some sid, Some w) \<Rightarrow>
          (let (pid, h') = NewULID h in
           send sid (NewEnvelope TypePeerRemove pid
             (enc_peer_remove \<lparr>pr_LinkID = link_ID l, pr_WGPubkey = wi_pubkey w\<rparr>)) h')
      | _ \<Rightarrow> h)"

definition drop_link :: "string \<Rightarrow> hub \<Rightarrow> hub" where
  "drop_link lid h = h\<lparr>hb_links := (hb_links h)(lid := None)\<rparr>"

definition removeLinkFromPeers :: "link \<Rightarrow> hub \<Rightarrow> hub" where
  "removeLinkFromPeers l h =
     (let h1 = removeSideLocked l (link_A l) (link_B l) h;
          h2 = removeSideLocked l (link_B l) (link_A l) h1
      in drop_link (link_ID l) h2)"

end
