(* ===== verification/HubHandlers.thy ===== *)
theory HubHandlers
  imports Hub
begin

text \<open>
  The handlers of \<open>internal/hub/control.go\<close> (register, heartbeat, ack, conf and svc results, the
  life of a session) and the administrator's operations of \<open>internal/hub/hub.go\<close>.
\<close>

section \<open>Admission of a connection with a client certificate\<close>

definition isRevoked :: "string \<Rightarrow> hub \<Rightarrow> bool" where
  "isRevoked serial h \<longleftrightarrow> serial \<in> hb_revoked h"

datatype admission = Rejected string string | Admitted node

definition handleConn_cert :: "string \<Rightarrow> string \<Rightarrow> hub \<Rightarrow> admission" where
  "handleConn_cert nodeID serial h =
     (if isRevoked serial h then Rejected ''CERT_REVOKED'' ''certificate revoked''
      else (case GetNode nodeID (hb_db h) of
          Inl e \<Rightarrow> Rejected ''AUTH_FAILED'' ''unknown or revoked node''
        | Inr node \<Rightarrow>
            if node_Revoked node \<or> node_CertSerial node \<noteq> serial
            then Rejected ''AUTH_FAILED'' ''unknown or revoked node''
            else Admitted node))"

section \<open>Sessions begin and end\<close>

definition touch :: "string \<Rightarrow> int \<Rightarrow> hub \<Rightarrow> hub" where
  "touch nid ts h = h\<lparr>hb_db := TouchNode nid ts (hb_db h)\<rparr>"

definition new_session :: "node \<Rightarrow> string \<Rightarrow> int \<Rightarrow> session" where
  "new_session node remote now = \<lparr>ses_node = node, ses_remote = remote, ses_out = [],
     ses_registered = False, ses_agentVersion = [], ses_osStr = [], ses_lastHB = now, ses_hbWG = [],
     ses_pendingAcks = Map.empty, ses_closed = False, ses_direct = [], ses_sent = []\<rparr>"

text \<open>\<open>sid\<close> is the address of the new session, unused in the heap.\<close>

definition runSession_start :: "nat \<Rightarrow> node \<Rightarrow> string \<Rightarrow> int \<Rightarrow> hub \<Rightarrow> hub" where
  "runSession_start sid node remote now h =
     (let nid = node_ID node;
          h1 = (case hb_sessions h nid of None \<Rightarrow> h | Some old \<Rightarrow> close_session old h);
          h2 = h1\<lparr>hb_heap := (hb_heap h1)(sid \<mapsto> new_session node remote now),
                  hb_sessions := (hb_sessions h1)(nid \<mapsto> sid),
                  hb_gcDone := hb_gcDone h1 - {nid}\<rparr>
      in publish (EvNodeStatus nid ''online'') h2)"

definition dropSession :: "nat \<Rightarrow> int \<Rightarrow> hub \<Rightarrow> hub" where
  "dropSession sid now h =
     (case hb_heap h sid of
        None \<Rightarrow> h
      | Some s \<Rightarrow>
          (let nid = node_ID (ses_node s);
               h1 = close_session sid h;
               h2 = (if hb_sessions h1 nid = Some sid
                     then h1\<lparr>hb_sessions := (hb_sessions h1)(nid := None)\<rparr> else h1)
           in publish (EvNodeStatus nid ''offline'') (touch nid now h2)))"

section \<open>register\<close>

definition bad_register :: "register_data \<Rightarrow> bool" where
  "bad_register d \<longleftrightarrow> rd_WGPubkey d = [] \<or> rd_WGPort d \<le> 0 \<or> rd_WGPort d > 65535"

fun register_loop ::
  "string \<Rightarrow> wg_ident \<Rightarrow> link list \<Rightarrow> hub \<Rightarrow> peer_spec list \<Rightarrow> hub \<times> peer_spec list" where
  "register_loop me ident [] h expected = (h, expected)"
| "register_loop me ident (l # ls) h expected =
     (let h1 = ensure_link (link_ID l) h; other = Other l me in
      case (hb_sessions h1 other, hb_lastWG h1 other) of
        (Some os, Some w) \<Rightarrow>
          if \<not> registered_on other h1 then register_loop me ident ls h1 expected
          else (case peerSpecLocked l other w h1 of
              Inl e \<Rightarrow> register_loop me ident ls h1 expected
            | Inr spec \<Rightarrow>
                (let h2 = upd_link (link_ID l) (set_ack (peerSide l me)) h1;
                     h3 = sendPeerSpecLocked os l TypePeerUpdate me ident h2
                 in register_loop me ident ls h3 (expected @ [spec])))
      | _ \<Rightarrow> register_loop me ident ls h1 expected)"

text \<open>
  The part of \<open>handleRegister\<close> after the lookup of the links, which ran before \<open>h.mu\<close> was taken:
  the section under the lock, then the \<open>register_ack\<close> and \<open>TouchNode\<close>.
\<close>

definition register_locked ::
  "nat \<Rightarrow> session \<Rightarrow> register_data \<Rightarrow> link list \<Rightarrow> hub \<Rightarrow> hub \<times> peer_spec list" where
  "register_locked sid s d links h =
     (let me = node_ID (ses_node s);
          ident = \<lparr>wi_pubkey = rd_WGPubkey d, wi_port = rd_WGPort d, wi_ip = ses_remote s,
            wi_socksPort = rd_SocksPort d\<rparr>;
          h1 = h\<lparr>hb_lastWG := (hb_lastWG h)(me \<mapsto> ident)\<rparr>;
          h2 = upd_session sid (\<lambda>s. s\<lparr>ses_registered := True,
            ses_agentVersion := rd_AgentVersion d, ses_osStr := rd_OS d\<rparr>) h1
      in register_loop me ident links h2 [])"

definition register_rest ::
  "nat \<Rightarrow> session \<Rightarrow> register_data \<Rightarrow> link list \<Rightarrow> string \<Rightarrow> int \<Rightarrow> hub \<Rightarrow> hub" where
  "register_rest sid s d links eid now h =
     (let (h1, expected) = register_locked sid s d links h;
          me = node_ID (ses_node s);
          ack = NewEnvelope TypeRegisterAck eid (enc_register_ack
            \<lparr>ra_NodeID = me, ra_OverlayIP = node_OverlayIP (ses_node s) @ ''/32'',
             ra_PeersExpected = expected\<rparr>)
      in touch me now (send sid ack h1))"

definition handleRegister :: "nat \<Rightarrow> envelope \<Rightarrow> int \<Rightarrow> hub \<Rightarrow> hub" where
  "handleRegister sid env now h =
     (case hb_heap h sid of
        None \<Rightarrow> h
      | Some s \<Rightarrow>
          (case dec_register (env_Data env) of
             None \<Rightarrow> sendError sid ''INTERNAL'' ''bad register payload'' h
           | Some d \<Rightarrow>
               if bad_register d then sendError sid ''INTERNAL'' ''bad register payload'' h
               else register_rest sid s d (LinksOfNode (node_ID (ses_node s)) (hb_db h))
                      (env_ID env) now h))"

section \<open>heartbeat\<close>

definition hb_link_update :: "wg_peer_status \<Rightarrow> int \<Rightarrow> link_rt \<Rightarrow> link_rt" where
  "hb_link_update w now rt =
     (let rt1 = (if wp_LastHandshakeTS w > rt_lastHS rt then rt\<lparr>rt_lastHS := wp_LastHandshakeTS w\<rparr>
                 else rt);
          rt2 = (if rt_prevTS rt1 > 0 \<and> now > rt_prevTS rt1 \<and> wp_RxBytes w \<ge> rt_prevRx rt1
                    \<and> wp_TxBytes w \<ge> rt_prevTx rt1
                 then (let dt = now - rt_prevTS rt1 in
                       rt1\<lparr>rt_rxRate := counter_rate (wp_RxBytes w) (rt_prevRx rt1) dt,
                           rt_txRate := counter_rate (wp_TxBytes w) (rt_prevTx rt1) dt\<rparr>)
                 else rt1)
      in rt2\<lparr>rt_prevRx := wp_RxBytes w, rt_prevTx := wp_TxBytes w, rt_prevTS := now\<rparr>)"

fun heartbeat_links :: "string \<Rightarrow> wg_peer_status \<Rightarrow> int \<Rightarrow> link list \<Rightarrow> hub \<Rightarrow> hub" where
  "heartbeat_links me w now [] h = h"
| "heartbeat_links me w now (l # ls) h =
     (if Other l me \<noteq> wp_PeerNodeID w then heartbeat_links me w now ls h
      else heartbeat_links me w now ls
             (upd_link (link_ID l) (hb_link_update w now) (ensure_link (link_ID l) h)))"

definition handleHeartbeat :: "nat \<Rightarrow> envelope \<Rightarrow> int \<Rightarrow> hub \<Rightarrow> hub \<times> unit result" where
  "handleHeartbeat sid env now h =
     (case (hb_heap h sid, dec_heartbeat (env_Data env)) of
        (Some s, Some d) \<Rightarrow>
          (let me = node_ID (ses_node s);
               h1 = upd_session sid (\<lambda>s. s\<lparr>ses_lastHB := now, ses_hbWG := hd_WG d\<rparr>) h;
               links = LinksOfNode me (hb_db h1);
               h2 = fold (\<lambda>w. heartbeat_links me w now links) (hd_WG d) h1;
               (m, r) = Ingest me (hd_TS d) (hd_Sys d) (hb_metrics h2);
               h3 = h2\<lparr>hb_metrics := m\<rparr>
           in (case r of
                 Inl e \<Rightarrow> (h3, Err e)
               | Inr u \<Rightarrow>
                   (publish (EvHeartbeat me (hd_Sys d) (hd_WG d)) (touch me now h3), Ok ())))
      | _ \<Rightarrow> (h, Ok ()))"

section \<open>ack\<close>

definition handleAck :: "nat \<Rightarrow> envelope \<Rightarrow> int \<Rightarrow> hub \<Rightarrow> hub" where
  "handleAck sid env now h =
     (case (hb_heap h sid, dec_ack (env_Data env)) of
        (Some s, Some d) \<Rightarrow>
          (let ref = ses_pendingAcks s (env_ID env);
               h1 = upd_session sid (\<lambda>s. s\<lparr>ses_pendingAcks := (ses_pendingAcks s)(env_ID env := None)\<rparr>) h
           in (case ref of
                 None \<Rightarrow> h1
               | Some ref \<Rightarrow>
                   if \<not> ad_OK d then h1
                   else
                     (let h2 = upd_link (ar_linkID ref) (set_ack (ar_side ref)) h1 in
                      (case GetLink (ar_linkID ref) (hb_db h2) of
                         Inl e \<Rightarrow> h2
                       | Inr l \<Rightarrow> publish (EvLinkStatus (link_ID l) (LinkStatus l now h2)) h2))))
      | _ \<Rightarrow> h)"

definition offline_msg :: "string \<Rightarrow> string" where
  "offline_msg nid = ''node '' @ nid @ '' is offline''"

section \<open>Requests to an agent and their replies\<close>

text \<open>
  \<open>requestReply\<close> up to its \<open>select\<close>, which returns the request id and the channel, the arrival of
  the reply, and the end of the \<open>select\<close> (a buffered reply, else the timeout) with its cleanup.
  \<open>ch\<close> is the address of the new channel.
\<close>

definition request_start ::
  "nat \<Rightarrow> string \<Rightarrow> string \<Rightarrow> json \<Rightarrow> hub \<Rightarrow> hub \<times> string result" where
  "request_start ch nid typ payload h =
     (case hb_sessions h nid of
        None \<Rightarrow> (h, Err (ErrMsg (offline_msg nid)))
      | Some sid \<Rightarrow>
          (let (reqID, h1) = NewULID h;
               h2 = h1\<lparr>hb_confWait := (hb_confWait h1)(reqID \<mapsto> \<lparr>cw_nodeID = nid, cw_ch = ch\<rparr>),
                       hb_chans := (hb_chans h1)(ch := None)\<rparr>
           in (send sid (NewEnvelope typ reqID payload) h2, Ok reqID)))"

definition RequestToolConf :: "nat \<Rightarrow> string \<Rightarrow> hub \<Rightarrow> hub \<times> string result" where
  "RequestToolConf ch nid h = request_start ch nid TypeConfGet (JObj []) h"

definition RequestSvcAction :: "nat \<Rightarrow> string \<Rightarrow> svc_action_data \<Rightarrow> hub \<Rightarrow> hub \<times> string result" where
  "RequestSvcAction ch nid d h = request_start ch nid TypeSvcAction (enc_svc_action d) h"

definition handleConfResult :: "nat \<Rightarrow> envelope \<Rightarrow> hub \<Rightarrow> hub" where
  "handleConfResult sid env h =
     (case (hb_heap h sid, hb_confWait h (env_ID env)) of
        (Some s, Some w) \<Rightarrow>
          if cw_nodeID w = node_ID (ses_node s)
          then h\<lparr>hb_confWait := (hb_confWait h)(env_ID env := None),
                 hb_chans := (hb_chans h)(cw_ch w \<mapsto> env_Data env)\<rparr>
          else h
      | _ \<Rightarrow> h)"

definition request_finish :: "string \<Rightarrow> nat \<Rightarrow> hub \<Rightarrow> hub \<times> json result" where
  "request_finish reqID ch h =
     (let h' = h\<lparr>hb_confWait := (hb_confWait h)(reqID := None)\<rparr> in
      (case hb_chans h ch of
         Some data \<Rightarrow> (h', Ok data)
       | None \<Rightarrow> (h', Err ErrConfTimeout)))"

section \<open>One frame of the session loop\<close>

datatype loop_next = LoopOn | LoopEnd

definition session_frame :: "nat \<Rightarrow> envelope \<Rightarrow> int \<Rightarrow> hub \<Rightarrow> hub \<times> loop_next result" where
  "session_frame sid env now h =
     (if env_V env \<noteq> Version
      then (sendError sid ''VERSION_UNSUPPORTED'' ''unsupported protocol version'' h, Ok LoopEnd)
      else if env_Type env = TypeRegister then (handleRegister sid env now h, Ok LoopOn)
      else if env_Type env = TypeHeartbeat
      then (let (h', r) = handleHeartbeat sid env now h in
            (h', case r of Inl e \<Rightarrow> Err e | Inr u \<Rightarrow> Ok LoopOn))
      else if env_Type env = TypeAck then (handleAck sid env now h, Ok LoopOn)
      else if env_Type env = TypeConfResult \<or> env_Type env = TypeSvcResult
      then (handleConfResult sid env h, Ok LoopOn)
      else (sendError sid ''UNKNOWN_TYPE'' (''unknown message type '' @ env_Type env) h, Ok LoopOn))"

section \<open>Garbage collection of offline peers\<close>

definition gc_node :: "int \<Rightarrow> node \<Rightarrow> hub \<Rightarrow> hub" where
  "gc_node now n h =
     (let nid = node_ID n in
      if hb_sessions h nid \<noteq> None \<or> nid \<in> hb_gcDone h then h
      else if node_LastSeen n = 0 \<or> now - node_LastSeen n < cfg_PeerGCAfterS (hb_cfg h) then h
      else
        (let h1 = fold (\<lambda>l. removeSideLocked l (Other l nid) nid) (LinksOfNode nid (hb_db h)) h
         in h1\<lparr>hb_gcDone := insert nid (hb_gcDone h1)\<rparr>))"

definition gcOfflinePeers :: "int \<Rightarrow> hub \<Rightarrow> hub" where
  "gcOfflinePeers now h = fold (gc_node now) (ListNodes (hb_db h)) h"

section \<open>Administrator operations\<close>

definition link_event :: "link \<Rightarrow> int \<Rightarrow> hub \<Rightarrow> hub" where
  "link_event l now h = publish (EvLinkStatus (link_ID l) (LinkStatus l now h)) h"

definition hub_CreateLink :: "string \<Rightarrow> string \<Rightarrow> int \<Rightarrow> hub \<Rightarrow> hub \<times> link result" where
  "hub_CreateLink a b now h =
     (let (ulid, h1) = NewULID h; (db, r) = CreateLink ulid a b now (hb_db h1);
          h2 = h1\<lparr>hb_db := db\<rparr>
      in (case r of
            Inl e \<Rightarrow> (h2, Err e)
          | Inr l \<Rightarrow> (link_event l now (pushLink l h2), Ok l)))"

definition hub_SetLinkExit :: "string \<Rightarrow> string \<Rightarrow> int \<Rightarrow> hub \<Rightarrow> hub \<times> link result" where
  "hub_SetLinkExit lid exitNode now h =
     (let (db, r) = SetLinkExit lid exitNode (hb_db h); h1 = h\<lparr>hb_db := db\<rparr> in
      (case r of
         Inl e \<Rightarrow> (h1, Err e)
       | Inr l \<Rightarrow>
           (link_event l now (pushPairLocked l TypePeerUpdate (ensure_link (link_ID l) h1)), Ok l)))"

definition hub_DeleteLink :: "string \<Rightarrow> hub \<Rightarrow> hub \<times> unit result" where
  "hub_DeleteLink lid h =
     (case GetLink lid (hb_db h) of
        Inl e \<Rightarrow> (h, Err e)
      | Inr l \<Rightarrow>
          (let (db, r) = DeleteLink lid (hb_db h); h1 = h\<lparr>hb_db := db\<rparr> in
           (case r of
              Inl e \<Rightarrow> (h1, Err e)
            | Inr u \<Rightarrow> (publish (EvLinkStatus lid ''deleted'') (removeLinkFromPeers l h1), Ok ()))))"

text \<open>
  \<open>DeleteNode\<close>: \<open>unlink_node\<close> under the lock, then \<open>kick_node\<close>, then \<open>forget_node\<close>. The session is
  closed two seconds later, by the timer recorded in \<open>hb_timers\<close> and fired by \<open>fire_timer\<close>.
\<close>

definition unlink_node :: "string \<Rightarrow> link list \<Rightarrow> hub \<Rightarrow> hub" where
  "unlink_node nid links h =
     fold (\<lambda>l h. drop_link (link_ID l) (removeSideLocked l (Other l nid) nid h)) links h"

definition kick_node :: "string \<Rightarrow> hub \<Rightarrow> hub" where
  "kick_node nid h =
     (case hb_sessions h nid of
        None \<Rightarrow> h
      | Some sid \<Rightarrow>
          (let (kid, h1) = NewULID h;
               h2 = send sid (NewEnvelope TypeKick kid
                      (enc_kick \<lparr>kd_Reason = ''removed by admin''\<rparr>)) h1
           in h2\<lparr>hb_timers := hb_timers h2 @ [sid]\<rparr>))"

definition forget_node :: "string \<Rightarrow> hub \<Rightarrow> hub" where
  "forget_node nid h = h\<lparr>hb_metrics := Drop nid (hb_metrics h),
     hb_lastWG := (hb_lastWG h)(nid := None), hb_gcDone := hb_gcDone h - {nid}\<rparr>"

definition hub_DeleteNode :: "string \<Rightarrow> int \<Rightarrow> hub \<Rightarrow> hub \<times> unit result" where
  "hub_DeleteNode nid now h =
     (let (db, r) = DeleteNode nid now (hb_db h); h1 = h\<lparr>hb_db := db\<rparr> in
      (case r of
         Inl e \<Rightarrow> (h1, Err e)
       | Inr (node, links) \<Rightarrow>
           (let h2 = unlink_node nid links h1;
                h3 = h2\<lparr>hb_revoked := insert (node_CertSerial node) (hb_revoked h2)\<rparr>;
                h4 = forget_node nid (kick_node nid h3)
            in (publish (EvNodeStatus nid ''deleted'') h4, Ok ()))))"

definition fire_timer :: "hub \<Rightarrow> hub" where
  "fire_timer h =
     (case hb_timers h of
        [] \<Rightarrow> h
      | sid # rest \<Rightarrow> close_session sid (h\<lparr>hb_timers := rest\<rparr>))"

definition RotateWG :: "string \<Rightarrow> hub \<Rightarrow> hub \<times> unit result" where
  "RotateWG nid h =
     (case hb_sessions h nid of
        None \<Rightarrow> (h, Err (ErrMsg (offline_msg nid)))
      | Some sid \<Rightarrow>
          (let (rid, h') = NewULID h in
           (send sid (NewEnvelope TypeRotateWG rid (JObj [])) h', Ok ())))"

end
