(* ===== verification/HubRun.thy ===== *)
theory HubRun
  imports HubHandlers
begin

text \<open>
  The hub as a state machine. A world is the hub with the handler activations that are between
  two sections under \<open>h.mu\<close>: a connection that passed the checks of \<open>handleConn\<close> and has not yet
  entered \<open>runSession\<close>, a registration whose links are read and whose locked section is still to
  run. Every step is one handler or one such section, in any order; the invariants hold in every
  reachable world.
\<close>

section \<open>Worlds and steps\<close>

datatype flight =
    Starting node string
  | Registering nat register_data "link list" string

type_synonym world = "hub \<times> flight set"

text \<open>The store methods that the API and the enrollment call without a hub operation around them.\<close>

fun direct_op :: "store_op \<Rightarrow> bool" where
  "direct_op (OpDeleteNode nid now) = False"
| "direct_op (OpUpdateCertSerial nid serial) = False"
| "direct_op (OpCreateLink ulid a b now) = False"
| "direct_op (OpSetLinkExit lid x) = False"
| "direct_op (OpDeleteLink lid) = False"
| "direct_op op = True"

definition fresh_chan :: "nat \<Rightarrow> hub \<Rightarrow> bool" where
  "fresh_chan ch h \<longleftrightarrow> (\<forall>w \<in> ran (hb_confWait h). cw_ch w \<noteq> ch)"

inductive world_step :: "(string \<Rightarrow> string) \<Rightarrow> world \<Rightarrow> world \<Rightarrow> bool" for sha where
  admit: "handleConn_cert nid serial h = Admitted node
     \<Longrightarrow> world_step sha (h, fl) (h, insert (Starting node remote) fl)"
| start: "Starting node remote \<in> fl \<Longrightarrow> hb_heap h sid = None
     \<Longrightarrow> world_step sha (h, fl) (runSession_start sid node remote now h, fl - {Starting node remote})"
| frame: "hb_heap h sid \<noteq> None
     \<Longrightarrow> world_step sha (h, fl) (fst (session_frame sid env now h), fl)"
| reg_lookup: "hb_heap h sid = Some s \<Longrightarrow> dec_register (env_Data (env :: envelope)) = Some d
     \<Longrightarrow> \<not> bad_register d
     \<Longrightarrow> world_step sha (h, fl)
           (h, insert (Registering sid d (LinksOfNode (node_ID (ses_node s)) (hb_db h)) (env_ID env)) fl)"
| reg_locked: "Registering sid d links eid \<in> fl \<Longrightarrow> hb_heap h sid = Some s
     \<Longrightarrow> world_step sha (h, fl)
           (register_rest sid s d links eid now h, fl - {Registering sid d links eid})"
| drop: "world_step sha (h, fl) (dropSession sid now h, fl)"
| writer: "world_step sha (h, fl) (writer_step sid h, fl)"
| broken: "world_step sha (h, fl) (close_session sid h, fl)"
| timer: "world_step sha (h, fl) (fire_timer h, fl)"
| gc: "world_step sha (h, fl) (gcOfflinePeers now h, fl)"
| create_link: "world_step sha (h, fl) (fst (hub_CreateLink a b now h), fl)"
| set_exit: "world_step sha (h, fl) (fst (hub_SetLinkExit lid x now h), fl)"
| delete_link: "world_step sha (h, fl) (fst (hub_DeleteLink lid h), fl)"
| delete_node: "world_step sha (h, fl) (fst (hub_DeleteNode nid now h), fl)"
| rotate: "world_step sha (h, fl) (fst (RotateWG nid h), fl)"
| request: "fresh_chan ch h
     \<Longrightarrow> world_step sha (h, fl) (fst (request_start ch nid typ payload h), fl)"
| finish: "world_step sha (h, fl) (fst (request_finish rid ch h), fl)"
| subscribe: "world_step sha (h, fl) (Subscribe ch h, fl)"
| unsubscribe: "world_step sha (h, fl) (Unsubscribe ch h, fl)"
| db_call: "direct_op op
     \<Longrightarrow> world_step sha (h, fl) (h\<lparr>hb_db := store_exec sha op (hb_db h)\<rparr>, fl)"


inductive_cases world_stepE: "world_step sha (h, fl) w"

inductive reachable :: "(string \<Rightarrow> string) \<Rightarrow> world \<Rightarrow> bool" for sha where
  boot: "store_wf db \<Longrightarrow> reachable sha (NewHub cfg db ulid, {})"
| step: "reachable sha w \<Longrightarrow> world_step sha w w' \<Longrightarrow> reachable sha w'"

section \<open>The invariant\<close>

definition sessions_ok :: "hub \<Rightarrow> bool" where
  "sessions_ok h \<longleftrightarrow> (\<forall>nid sid. hb_sessions h nid = Some sid
     \<longrightarrow> (\<exists>s. hb_heap h sid = Some s \<and> node_ID (ses_node s) = nid))"

definition single_open :: "hub \<Rightarrow> bool" where
  "single_open h \<longleftrightarrow> (\<forall>sid s. hb_heap h sid = Some s \<longrightarrow> \<not> ses_closed s
     \<longrightarrow> hb_sessions h (node_ID (ses_node s)) = Some sid)"

definition queues_ok :: "hub \<Rightarrow> bool" where
  "queues_ok h \<longleftrightarrow> (\<forall>sid s. hb_heap h sid = Some s \<longrightarrow> length (ses_out s) \<le> outCap)"

definition observed :: "string \<Rightarrow> string \<Rightarrow> hub \<Rightarrow> bool" where
  "observed nid ip h \<longleftrightarrow>
     (\<exists>sid s. hb_heap h sid = Some s \<and> node_ID (ses_node s) = nid \<and> ses_remote s = ip)"

definition ident_ok :: "hub \<Rightarrow> bool" where
  "ident_ok h \<longleftrightarrow> (\<forall>nid w. hb_lastWG h nid = Some w \<longrightarrow> wi_pubkey w \<noteq> []
     \<and> 0 < wi_port w \<and> wi_port w \<le> 65535 \<and> observed nid (wi_ip w) h)"

definition waiters_ok :: "hub \<Rightarrow> bool" where
  "waiters_ok h \<longleftrightarrow> (\<forall>r w. hb_confWait h r = Some w \<longrightarrow> hb_chans h (cw_ch w) = None
     \<and> (\<forall>r' w'. hb_confWait h r' = Some w' \<longrightarrow> cw_ch w' = cw_ch w \<longrightarrow> r' = r))"

definition subs_ok :: "hub \<Rightarrow> bool" where
  "subs_ok h \<longleftrightarrow> (\<forall>ch q. hb_subs h ch = Some q \<longrightarrow> length q \<le> 64)"

definition revoked_ok :: "hub \<Rightarrow> bool" where
  "revoked_ok h \<longleftrightarrow> set (RevokedSerials (hb_db h)) \<subseteq> hb_revoked h"

definition hub_inv :: "hub \<Rightarrow> bool" where
  "hub_inv h \<longleftrightarrow> store_wf (hb_db h) \<and> sessions_ok h \<and> single_open h \<and> queues_ok h \<and> ident_ok h
     \<and> waiters_ok h \<and> subs_ok h \<and> revoked_ok h"

lemmas hub_inv_defs = hub_inv_def sessions_ok_def single_open_def queues_ok_def ident_ok_def
  observed_def waiters_ok_def subs_ok_def revoked_ok_def

named_theorems hub_intros

lemma hub_inv_NewHub: "store_wf db \<Longrightarrow> hub_inv (NewHub cfg db ulid)"
  by (simp add: hub_inv_defs NewHub_def)

text \<open>What touches none of the fields the invariant reads.\<close>

lemma hub_inv_frame [hub_intros]:
  "hub_inv h \<Longrightarrow> hub_inv (h\<lparr>hb_next := n\<rparr>)"
  "hub_inv h \<Longrightarrow> hub_inv (h\<lparr>hb_links := rts\<rparr>)"
  "hub_inv h \<Longrightarrow> hub_inv (h\<lparr>hb_metrics := m\<rparr>)"
  "hub_inv h \<Longrightarrow> hub_inv (h\<lparr>hb_gcDone := g\<rparr>)"
  "hub_inv h \<Longrightarrow> hub_inv (h\<lparr>hb_timers := ts\<rparr>)"
  by (simp_all add: hub_inv_defs)

lemma hub_inv_ULID [hub_intros]: "hub_inv h \<Longrightarrow> hub_inv (snd (NewULID h))"
  by (simp add: NewULID_def hub_intros)

lemma hub_inv_upd_link [hub_intros]: "hub_inv h \<Longrightarrow> hub_inv (upd_link lid f h)"
  by (simp add: upd_link_def hub_intros split: option.split)

lemma hub_inv_ensure [hub_intros]: "hub_inv h \<Longrightarrow> hub_inv (ensure_link lid h)"
  by (simp add: ensure_link_def hub_intros)

lemma hub_inv_drop_link [hub_intros]: "hub_inv h \<Longrightarrow> hub_inv (drop_link lid h)"
  by (simp add: drop_link_def hub_intros)

lemma hub_inv_publish [hub_intros]: "hub_inv h \<Longrightarrow> hub_inv (publish ev h)"
  by (auto simp: hub_inv_defs publish_def)

lemma hub_inv_Subscribe [hub_intros]:
  "hub_inv h \<Longrightarrow> hub_inv (Subscribe ch h)"
  "hub_inv h \<Longrightarrow> hub_inv (Unsubscribe ch h)"
  by (auto simp: hub_inv_defs Subscribe_def Unsubscribe_def)

section \<open>Updates of one session\<close>

text \<open>The updates every handler makes: identity kept, a closed session stays closed, queue bounded.\<close>

definition tame :: "(session \<Rightarrow> session) \<Rightarrow> bool" where
  "tame f \<longleftrightarrow> (\<forall>s. ses_node (f s) = ses_node s \<and> ses_remote (f s) = ses_remote s
     \<and> (ses_closed s \<longrightarrow> ses_closed (f s))
     \<and> (length (ses_out s) \<le> outCap \<longrightarrow> length (ses_out (f s)) \<le> outCap))"

lemma tameI:
  assumes "\<And>s. ses_node (f s) = ses_node s" "\<And>s. ses_remote (f s) = ses_remote s"
    and "\<And>s. ses_closed s \<Longrightarrow> ses_closed (f s)"
    and "\<And>s. length (ses_out s) \<le> outCap \<Longrightarrow> length (ses_out (f s)) \<le> outCap"
  shows "tame f"
  using assms by (simp add: tame_def)

lemma tame_enqueue: "tame (enqueue env)"
  by (simp add: tame_def enqueue_def)

lemma hub_inv_upd_session [hub_intros]:
  assumes inv: "hub_inv h" and f: "tame f"
  shows "hub_inv (upd_session sid f h)"
proof (cases "hb_heap h sid")
  case None
  with inv show ?thesis by (simp add: upd_session_def)
next
  case (Some s)
  have node: "ses_node (f s) = ses_node s" and remote: "ses_remote (f s) = ses_remote s"
    and closed: "ses_closed s \<Longrightarrow> ses_closed (f s)"
    and queue: "length (ses_out s) \<le> outCap \<Longrightarrow> length (ses_out (f s)) \<le> outCap"
    using f by (simp_all add: tame_def)
  let ?h = "h\<lparr>hb_heap := (hb_heap h)(sid \<mapsto> f s)\<rparr>"
  have "sessions_ok ?h" using inv Some node unfolding hub_inv_def sessions_ok_def by fastforce
  moreover have "single_open ?h"
    using inv Some node closed by (auto simp: hub_inv_def single_open_def)
  moreover have "queues_ok ?h" using inv Some queue by (auto simp: hub_inv_def queues_ok_def)
  moreover have "observed nid ip ?h" if obs: "observed nid ip h" for nid ip
  proof -
    from obs obtain sid' s' where s': "hb_heap h sid' = Some s'" "node_ID (ses_node s') = nid"
        "ses_remote s' = ip"
      unfolding observed_def by blast
    show ?thesis
    proof (cases "sid' = sid")
      case True
      with s' Some node remote show ?thesis unfolding observed_def by (intro exI [of _ sid]) simp
    next
      case False
      with s' show ?thesis unfolding observed_def by (intro exI [of _ sid']) simp
    qed
  qed
  then have "ident_ok ?h" using inv by (auto simp: hub_inv_def ident_ok_def)
  moreover have "waiters_ok ?h" "subs_ok ?h" "revoked_ok ?h" "store_wf (hb_db ?h)"
    using inv by (simp_all add: hub_inv_def waiters_ok_def subs_ok_def revoked_ok_def)
  ultimately show ?thesis using Some by (simp add: upd_session_def hub_inv_def)
qed

lemma hub_inv_send [hub_intros]: "hub_inv h \<Longrightarrow> hub_inv (send sid env h)"
  unfolding send_def by (rule hub_inv_upd_session [OF _ tame_enqueue])

lemma hub_inv_close [hub_intros]: "hub_inv h \<Longrightarrow> hub_inv (close_session sid h)"
  unfolding close_session_def by (erule hub_inv_upd_session) (simp add: tame_def)

lemma hub_inv_writer [hub_intros]: "hub_inv h \<Longrightarrow> hub_inv (writer_step sid h)"
  unfolding writer_step_def
  by (erule hub_inv_upd_session) (auto simp: tame_def split: list.split)

lemma hub_inv_sendError [hub_intros]: "hub_inv h \<Longrightarrow> hub_inv (sendError sid code msg h)"
  unfolding sendError_def NewULID_def
  by (auto simp: tame_def Let_def intro!: hub_inv_upd_session hub_inv_frame)

section \<open>Store calls\<close>

lemma hub_inv_db:
  assumes "hub_inv h" and "store_wf db" and "set (RevokedSerials db) \<subseteq> hb_revoked h"
  shows "hub_inv (h\<lparr>hb_db := db\<rparr>)"
  using assms by (simp add: hub_inv_defs)

lemma RevokedSerials_nodes:
  "st_nodes db = st_nodes db' \<Longrightarrow> RevokedSerials db = RevokedSerials db'"
  by (simp add: RevokedSerials_def)

lemma revoked_upd:
  "map node_CertSerial (filter node_Revoked (upd_where P (\<lambda>n. n\<lparr>node_Name := x\<rparr>) rows))
     = map node_CertSerial (filter node_Revoked rows)"
  "map node_CertSerial (filter node_Revoked (upd_where P (\<lambda>n. n\<lparr>node_LastSeen := t\<rparr>) rows))
     = map node_CertSerial (filter node_Revoked rows)"
  by (induction rows) simp_all

lemma prune_loop_nodes [frame_simps]: "st_nodes (fst (prune_loop nid keep as db)) = st_nodes db"
  by (induction "as" arbitrary: db) (simp_all add: Let_def case_prod_beta)

lemma RevokedSerials_direct:
  "direct_op op \<Longrightarrow> RevokedSerials (store_exec sha op db) = RevokedSerials db"
  by (cases op)
    (auto simp: RevokedSerials_def CreateNode_def RenameNode_def TouchNode_def SetSvcName_def
      PruneSvcNames_def CreateToken_def ConsumeToken_def consume_burn_def DeleteToken_def
      SetAdmin_def AllocateIP_def expire_cooldowns_def Let_def revoked_upd frame_simps split: sum.split)

lemma hub_inv_direct [hub_intros]:
  "hub_inv h \<Longrightarrow> direct_op op \<Longrightarrow> hub_inv (h\<lparr>hb_db := store_exec sha op (hb_db h)\<rparr>)"
  by (rule hub_inv_db)
    (auto simp: hub_inv_def revoked_ok_def RevokedSerials_direct intro: schema.step_inv)

lemma hub_inv_touch [hub_intros]: "hub_inv h \<Longrightarrow> hub_inv (touch nid ts h)"
  using hub_inv_direct [of h "OpTouchNode nid ts"] by (simp add: touch_def)

section \<open>Handlers\<close>

lemma hub_inv_sendSpec [hub_intros]:
  "hub_inv h \<Longrightarrow> hub_inv (sendPeerSpecLocked sid l typ peerID w h)"
  unfolding sendPeerSpecLocked_def NewULID_def
  by (auto simp: tame_def Let_def split: sum.split
      intro!: hub_inv_send hub_inv_upd_session hub_inv_frame)

lemma hub_inv_pushPair [hub_intros]: "hub_inv h \<Longrightarrow> hub_inv (pushPairLocked l typ h)"
  unfolding pushPairLocked_def by (auto simp: Let_def hub_intros split: option.split)

lemma hub_inv_pushLink [hub_intros]: "hub_inv h \<Longrightarrow> hub_inv (pushLink l h)"
  unfolding pushLink_def by (intro hub_intros)

lemma hub_inv_removeSide [hub_intros]: "hub_inv h \<Longrightarrow> hub_inv (removeSideLocked l d p h)"
  unfolding removeSideLocked_def NewULID_def by (auto simp: hub_intros split: option.split)

lemma hub_inv_removeLink [hub_intros]: "hub_inv h \<Longrightarrow> hub_inv (removeLinkFromPeers l h)"
  unfolding removeLinkFromPeers_def Let_def by (intro hub_intros)

lemma hub_inv_fold [hub_intros]:
  assumes "\<And>x h. hub_inv h \<Longrightarrow> hub_inv (f x h)"
  shows "hub_inv h \<Longrightarrow> hub_inv (fold f xs h)"
  by (induction xs arbitrary: h) (simp_all add: assms)

lemma hub_inv_start [hub_intros]:
  assumes inv: "hub_inv h" and new: "hb_heap h sid = None"
  shows "hub_inv (runSession_start sid node remote now h)"
proof -
  let ?nid = "node_ID node"
  define h1 where "h1 = (case hb_sessions h ?nid of None \<Rightarrow> h | Some old \<Rightarrow> close_session old h)"
  let ?h2 = "h1\<lparr>hb_heap := (hb_heap h1)(sid \<mapsto> new_session node remote now),
    hb_sessions := (hb_sessions h1)(?nid \<mapsto> sid), hb_gcDone := hb_gcDone h1 - {?nid}\<rparr>"
  have inv1: "hub_inv h1" using inv by (simp add: h1_def hub_intros split: option.split)
  have new1: "hb_heap h1 sid = None"
    using new by (simp add: h1_def close_session_def upd_session_def split: option.split)
  have sess1: "hb_sessions h1 = hb_sessions h"
    by (simp add: h1_def close_session_def upd_session_def split: option.split)
  have closed: "ses_closed s'" if "hb_heap h1 sid' = Some s'" "hb_sessions h1 ?nid = Some sid'" for sid' s'
    using that unfolding sess1
    by (auto simp: h1_def close_session_def upd_session_def split: option.splits if_splits)
  have "sessions_ok ?h2"
    using inv1 new1 unfolding hub_inv_def sessions_ok_def
    by (auto simp: new_session_def) (metis option.discI)
  moreover have "single_open ?h2"
    using inv1 closed unfolding hub_inv_def single_open_def
    by (auto simp: new_session_def) (metis option.inject)
  moreover have "queues_ok ?h2"
    using inv1 unfolding hub_inv_def queues_ok_def by (auto simp: new_session_def)
  moreover have "observed nid ip ?h2" if "observed nid ip h1" for nid ip
  proof -
    from that obtain sid' s' where s': "hb_heap h1 sid' = Some s'" "node_ID (ses_node s') = nid"
        "ses_remote s' = ip"
      unfolding observed_def by blast
    with new1 have "sid' \<noteq> sid" by auto
    with s' show ?thesis unfolding observed_def by (intro exI [of _ sid']) simp
  qed
  then have "ident_ok ?h2" using inv1 unfolding hub_inv_def ident_ok_def by auto
  moreover have "waiters_ok ?h2" "subs_ok ?h2" "revoked_ok ?h2" "store_wf (hb_db ?h2)"
    using inv1 by (simp_all add: hub_inv_def waiters_ok_def subs_ok_def revoked_ok_def)
  ultimately have "hub_inv ?h2" by (simp add: hub_inv_def)
  then show ?thesis unfolding runSession_start_def Let_def h1_def by (rule hub_inv_publish)
qed

lemma close_session_sels [simp]:
  "hb_sessions (close_session sid h) = hb_sessions h"
  "hb_lastWG (close_session sid h) = hb_lastWG h"
  by (simp_all add: close_session_def upd_session_def split: option.split)

lemma close_session_closed:
  "hb_heap (close_session sid h) sid = Some s \<Longrightarrow> ses_closed s"
  by (auto simp: close_session_def upd_session_def split: option.splits)

lemma hub_inv_forget:
  assumes "hub_inv h" and "\<And>s. hb_heap h sid = Some s \<Longrightarrow> ses_closed s"
    and "hb_sessions h nid = Some sid"
  shows "hub_inv (h\<lparr>hb_sessions := (hb_sessions h)(nid := None)\<rparr>)"
  using assms unfolding hub_inv_defs by (auto split: if_splits) (metis option.inject)

lemma hub_inv_dropSession [hub_intros]:
  assumes inv: "hub_inv h"
  shows "hub_inv (dropSession sid now h)"
proof (cases "hb_heap h sid")
  case None
  with inv show ?thesis by (simp add: dropSession_def)
next
  case (Some s)
  let ?nid = "node_ID (ses_node s)" and ?h1 = "close_session sid h"
  have "hub_inv (if hb_sessions ?h1 ?nid = Some sid
      then ?h1\<lparr>hb_sessions := (hb_sessions ?h1)(?nid := None)\<rparr> else ?h1)"
    using hub_inv_forget [OF hub_inv_close [OF inv] close_session_closed] hub_inv_close [OF inv]
    by auto
  then show ?thesis using Some unfolding dropSession_def Let_def
    by (simp only: option.case) (intro hub_intros)
qed

lemma sessions_frame [simp]:
  "hb_sessions (upd_session sid f h) = hb_sessions h"
  "hb_lastWG (upd_session sid f h) = hb_lastWG h"
  "hb_db (upd_session sid f h) = hb_db h"
  by (simp_all add: upd_session_def split: option.split)

lemma hub_inv_register_loop [hub_intros]:
  "hub_inv h \<Longrightarrow> hub_inv (fst (register_loop me ident links h expected))"
proof (induction links arbitrary: h expected)
  case (Cons l ls)
  then show ?case by (auto simp: Let_def hub_intros split: option.split sum.split)
qed simp

lemma hub_inv_ident:
  assumes inv: "hub_inv h" and s: "hb_heap h sid = Some s" and d: "\<not> bad_register d"
  shows "hub_inv (h\<lparr>hb_lastWG := (hb_lastWG h)(node_ID (ses_node s) \<mapsto>
     \<lparr>wi_pubkey = rd_WGPubkey d, wi_port = rd_WGPort d, wi_ip = ses_remote s, wi_socksPort = sp\<rparr>)\<rparr>)"
  using inv s d unfolding hub_inv_defs bad_register_def by auto

lemma hub_inv_register_rest [hub_intros]:
  assumes "hub_inv h" and "hb_heap h sid = Some s" and "\<not> bad_register d"
  shows "hub_inv (register_rest sid s d links eid now h)"
  unfolding register_rest_def register_locked_def Let_def case_prod_beta
  by (intro hub_inv_touch hub_inv_send hub_inv_register_loop hub_inv_upd_session
      hub_inv_ident [OF assms]) (simp add: tame_def)

lemma hub_inv_handleRegister [hub_intros]: "hub_inv h \<Longrightarrow> hub_inv (handleRegister sid env now h)"
  unfolding handleRegister_def by (auto simp: hub_intros split: option.split)

lemma hub_inv_heartbeat_links [hub_intros]:
  "hub_inv h \<Longrightarrow> hub_inv (heartbeat_links me w now links h)"
  by (induction links arbitrary: h) (simp_all add: hub_intros)

lemma hub_inv_handleHeartbeat [hub_intros]:
  assumes inv: "hub_inv h"
  shows "hub_inv (fst (handleHeartbeat sid env now h))"
proof -
  have "hub_inv (upd_session sid (\<lambda>s. s\<lparr>ses_lastHB := now, ses_hbWG := hd_WG d\<rparr>) h)" for d
    using inv by (rule hub_inv_upd_session) (simp add: tame_def)
  then have "hub_inv (fold (\<lambda>w. heartbeat_links me w now links) (hd_WG d)
      (upd_session sid (\<lambda>s. s\<lparr>ses_lastHB := now, ses_hbWG := hd_WG d\<rparr>) h))" for d me links
    by (rule hub_inv_fold [rotated]) (rule hub_inv_heartbeat_links)
  then show ?thesis using inv unfolding handleHeartbeat_def Let_def case_prod_beta
    by (auto split: option.split sum.split intro!: hub_inv_publish hub_inv_touch hub_inv_frame(3))
qed

lemma hub_inv_handleAck [hub_intros]:
  assumes inv: "hub_inv h"
  shows "hub_inv (handleAck sid env now h)"
proof -
  have "hub_inv (upd_session sid (\<lambda>s. s\<lparr>ses_pendingAcks := (ses_pendingAcks s)(env_ID env := None)\<rparr>) h)"
    using inv by (rule hub_inv_upd_session) (simp add: tame_def)
  then show ?thesis using inv unfolding handleAck_def Let_def
    by (simp add: hub_intros split: option.split sum.split)
qed

lemma hub_inv_handleConfResult [hub_intros]:
  assumes inv: "hub_inv h"
  shows "hub_inv (handleConfResult sid env h)"
  using inv unfolding handleConfResult_def
  by (auto simp: hub_inv_defs split: option.split)

lemma hub_inv_session_frame [hub_intros]:
  "hub_inv h \<Longrightarrow> hub_inv (fst (session_frame sid env now h))"
  unfolding session_frame_def Let_def case_prod_beta by (simp add: hub_intros)

section \<open>Background and administrator operations\<close>

lemma hub_inv_gc [hub_intros]: "hub_inv h \<Longrightarrow> hub_inv (gcOfflinePeers now h)"
proof -
  have one: "hub_inv (gc_node now n h)" if "hub_inv h" for n h
    using that hub_inv_fold [of "\<lambda>l. removeSideLocked l (Other l (node_ID n)) (node_ID n)"]
    by (simp add: gc_node_def Let_def hub_intros)
  show "hub_inv h \<Longrightarrow> hub_inv (gcOfflinePeers now h)"
    unfolding gcOfflinePeers_def by (rule hub_inv_fold [OF one])
qed

lemma hub_inv_timer [hub_intros]: "hub_inv h \<Longrightarrow> hub_inv (fire_timer h)"
  unfolding fire_timer_def by (simp add: hub_intros split: list.split)

lemma RevokedSerials_links [simp]:
  "RevokedSerials (fst (CreateLink ulid a b now db)) = RevokedSerials db"
  "RevokedSerials (fst (SetLinkExit lid x db)) = RevokedSerials db"
  "RevokedSerials (fst (DeleteLink lid db)) = RevokedSerials db"
  by (simp_all add: RevokedSerials_def CreateLink_def SetLinkExit_def DeleteLink_def Let_def
      split: sum.split)

lemma hub_inv_CreateLink_db:
  "hub_inv h \<Longrightarrow> hub_inv (h\<lparr>hb_db := fst (CreateLink ulid a b now (hb_db h))\<rparr>)"
  "hub_inv h \<Longrightarrow> hub_inv (h\<lparr>hb_db := fst (SetLinkExit lid x (hb_db h))\<rparr>)"
  "hub_inv h \<Longrightarrow> hub_inv (h\<lparr>hb_db := fst (DeleteLink lid (hb_db h))\<rparr>)"
  by (rule hub_inv_db; simp add: hub_inv_def revoked_ok_def wf_intros)+

lemma hub_inv_hub_CreateLink [hub_intros]: "hub_inv h \<Longrightarrow> hub_inv (fst (hub_CreateLink a b now h))"
  unfolding hub_CreateLink_def link_event_def Let_def case_prod_beta
  by (simp add: hub_intros hub_inv_CreateLink_db split: sum.split)

lemma hub_inv_hub_SetLinkExit [hub_intros]:
  "hub_inv h \<Longrightarrow> hub_inv (fst (hub_SetLinkExit lid x now h))"
  unfolding hub_SetLinkExit_def link_event_def Let_def case_prod_beta
  by (simp add: hub_intros hub_inv_CreateLink_db split: sum.split)

lemma hub_inv_hub_DeleteLink [hub_intros]: "hub_inv h \<Longrightarrow> hub_inv (fst (hub_DeleteLink lid h))"
  unfolding hub_DeleteLink_def Let_def case_prod_beta
  by (simp add: hub_intros hub_inv_CreateLink_db split: sum.split)

lemma GetNode_unique:
  assumes "store_wf db" and "GetNode nid db = Ok n" and "r \<in> set (st_nodes db)" and "node_ID r = nid"
  shows "r = n"
proof -
  have "find (\<lambda>n. node_ID n = nid) (st_nodes db) = Some n"
    using assms(2) by (simp add: GetNode_def split: option.splits)
  then have "n \<in> set (st_nodes db)" "node_ID n = nid" by (auto simp: find_Some_iff)
  moreover have "inj_on node_ID (set (st_nodes db))"
    using assms(1) by (simp add: store_wf_def distinct_map)
  ultimately show ?thesis using assms(3,4) by (metis inj_onD)
qed

lemma revoked_of_DeleteNode:
  assumes wf: "store_wf db" and ok: "DeleteNode nid now db = (db', Ok (n, ls))"
  shows "set (RevokedSerials db') \<subseteq> insert (node_CertSerial n) (set (RevokedSerials db))"
  using GetNode_unique [OF wf DeleteNode_OkD(1) [OF ok]]
  unfolding DeleteNode_OkD(3) [OF ok] RevokedSerials_def
  by (auto simp: upd_where_def split: if_splits)

lemma DeleteNode_ErrD: "DeleteNode nid now db = (db', Err e) \<Longrightarrow> db' = db"
  by (auto simp: DeleteNode_def Let_def split: sum.splits if_splits)

text \<open>
  Between the transaction of \<open>DeleteNode\<close> and the section that records the serial the database is
  ahead of the list in memory; the serial is in the list when the operation returns.
\<close>

definition hub_inv_but :: "string \<Rightarrow> hub \<Rightarrow> bool" where
  "hub_inv_but serial h \<longleftrightarrow> hub_inv (h\<lparr>hb_revoked := insert serial (hb_revoked h)\<rparr>)"

lemma revoked_commute [simp]:
  "removeSideLocked l d p (h\<lparr>hb_revoked := R\<rparr>) = (removeSideLocked l d p h)\<lparr>hb_revoked := R\<rparr>"
  "drop_link lid (h\<lparr>hb_revoked := R\<rparr>) = (drop_link lid h)\<lparr>hb_revoked := R\<rparr>"
  by (simp_all add: removeSideLocked_def NewULID_def send_def upd_session_def drop_link_def
      split: option.split)

lemma revoked_frame [simp]:
  "hb_revoked (removeSideLocked l d p h) = hb_revoked h"
  "hb_revoked (drop_link lid h) = hb_revoked h"
  by (simp_all add: removeSideLocked_def NewULID_def send_def upd_session_def drop_link_def
      split: option.split)

lemma hub_inv_but_unlink:
  "hub_inv_but serial h \<Longrightarrow> hub_inv_but serial (unlink_node nid links h)"
  unfolding unlink_node_def
proof (induction links arbitrary: h)
  case (Cons l ls)
  have "hub_inv_but serial (drop_link (link_ID l) (removeSideLocked l (Other l nid) nid h))"
    using hub_inv_drop_link [OF hub_inv_removeSide] Cons.prems
    unfolding hub_inv_but_def by fastforce
  then show ?case using Cons.IH by simp
qed simp

lemma hub_inv_kick [hub_intros]: "hub_inv h \<Longrightarrow> hub_inv (kick_node nid h)"
  unfolding kick_node_def NewULID_def by (simp add: Let_def hub_intros split: option.split)

lemma hub_inv_forget_node [hub_intros]: "hub_inv h \<Longrightarrow> hub_inv (forget_node nid h)"
  by (auto simp: hub_inv_defs forget_node_def)

lemma hub_inv_hub_DeleteNode [hub_intros]:
  assumes inv: "hub_inv h"
  shows "hub_inv (fst (hub_DeleteNode nid now h))"
proof -
  obtain db r where del: "DeleteNode nid now (hb_db h) = (db, r)" by (cases "DeleteNode nid now (hb_db h)")
  show ?thesis
  proof (cases r)
    case (Inl e)
    with del inv DeleteNode_ErrD [of nid now "hb_db h" db e] show ?thesis
      by (simp add: hub_DeleteNode_def)
  next
    case (Inr p)
    obtain n ls where p: "p = (n, ls)" by (cases p)
    have wf: "store_wf (hb_db h)" using inv by (simp add: hub_inv_def)
    have "store_wf db" using DeleteNode_wf [OF wf, of nid now] del by simp
    moreover have "set (RevokedSerials db) \<subseteq> insert (node_CertSerial n) (hb_revoked h)"
      using revoked_of_DeleteNode [OF wf] del Inr p inv by (fastforce simp: hub_inv_def revoked_ok_def)
    ultimately have "hub_inv_but (node_CertSerial n) (h\<lparr>hb_db := db\<rparr>)"
      using inv unfolding hub_inv_but_def hub_inv_defs by simp
    from hub_inv_but_unlink [OF this] show ?thesis
      using del Inr p unfolding hub_inv_but_def
      by (simp add: hub_DeleteNode_def Let_def hub_intros)
  qed
qed

lemma hub_inv_Rotate [hub_intros]: "hub_inv h \<Longrightarrow> hub_inv (fst (RotateWG nid h))"
  unfolding RotateWG_def NewULID_def by (simp add: hub_intros split: option.split)

lemma waiters_ok_new:
  assumes "waiters_ok h" and "fresh_chan ch h"
  shows "waiters_ok (h\<lparr>hb_next := k, hb_confWait := (hb_confWait h)(rid \<mapsto> \<lparr>cw_nodeID = nid, cw_ch = ch\<rparr>),
     hb_chans := (hb_chans h)(ch := None)\<rparr>)"
proof -
  have "cw_ch w \<noteq> ch" if "hb_confWait h r = Some w" for r w
    using assms(2) that unfolding fresh_chan_def by (blast intro: ranI)
  then show ?thesis using assms(1) unfolding waiters_ok_def by auto
qed

lemma hub_inv_waiter:
  "hub_inv h \<Longrightarrow> fresh_chan ch h \<Longrightarrow>
   hub_inv (h\<lparr>hb_next := k, hb_confWait := (hb_confWait h)(rid \<mapsto> \<lparr>cw_nodeID = nid, cw_ch = ch\<rparr>),
     hb_chans := (hb_chans h)(ch := None)\<rparr>)"
  using waiters_ok_new unfolding hub_inv_def
  by (simp add: sessions_ok_def single_open_def queues_ok_def ident_ok_def observed_def subs_ok_def
      revoked_ok_def)

lemma hub_inv_request [hub_intros]:
  "hub_inv h \<Longrightarrow> fresh_chan ch h \<Longrightarrow> hub_inv (fst (request_start ch nid typ payload h))"
  unfolding request_start_def NewULID_def
  by (auto intro!: hub_inv_send hub_inv_waiter split: option.split)

lemma hub_inv_finish [hub_intros]: "hub_inv h \<Longrightarrow> hub_inv (fst (request_finish rid ch h))"
  by (auto simp: request_finish_def Let_def hub_inv_defs split: option.split)

section \<open>Reachable worlds\<close>

definition world_inv :: "world \<Rightarrow> bool" where
  "world_inv w \<longleftrightarrow> hub_inv (fst w)
     \<and> (\<forall>sid d links eid. Registering sid d links eid \<in> snd w \<longrightarrow> \<not> bad_register d)"

lemma world_inv_step: "world_step sha w w' \<Longrightarrow> world_inv w \<Longrightarrow> world_inv w'"
proof (induction rule: world_step.induct)
  case (reg_locked sid d links eid fl h s now)
  then show ?case by (auto simp: world_inv_def intro!: hub_inv_register_rest)
qed (auto simp: world_inv_def hub_intros)

lemma reachable_inv: "reachable sha w \<Longrightarrow> world_inv w"
proof (induction rule: reachable.induct)
  case (boot db cfg ulid)
  then show ?case by (simp add: world_inv_def hub_inv_NewHub)
qed (blast intro: world_inv_step)

lemma reachable_hub_inv: "reachable sha (h, fl) \<Longrightarrow> hub_inv h"
  by (drule reachable_inv) (simp add: world_inv_def)

end
