(* ===== verification/HubFrame.thy ===== *)
theory HubFrame
  imports HubRun
begin

text \<open>
  What each operation of the hub leaves alone (the database, the session table, the known WG
  material, the revocation list) and how the updates of sessions and links are read back.
\<close>

named_theorems hub_frame

lemma frame_basic [hub_frame]:
  "hb_db (snd (NewULID h)) = hb_db h" "hb_sessions (snd (NewULID h)) = hb_sessions h"
  "hb_lastWG (snd (NewULID h)) = hb_lastWG h" "hb_revoked (snd (NewULID h)) = hb_revoked h"
  "hb_heap (snd (NewULID h)) = hb_heap h" "hb_links (snd (NewULID h)) = hb_links h"
  "hb_cfg (snd (NewULID h)) = hb_cfg h"
  by (simp_all add: NewULID_def)

lemma frame_upd_session [hub_frame]:
  "hb_db (upd_session sid f h) = hb_db h" "hb_sessions (upd_session sid f h) = hb_sessions h"
  "hb_lastWG (upd_session sid f h) = hb_lastWG h" "hb_revoked (upd_session sid f h) = hb_revoked h"
  "hb_links (upd_session sid f h) = hb_links h" "hb_cfg (upd_session sid f h) = hb_cfg h"
  "hb_next (upd_session sid f h) = hb_next h" "hb_ulid (upd_session sid f h) = hb_ulid h"
  "hb_gcDone (upd_session sid f h) = hb_gcDone h"
  by (simp_all add: upd_session_def split: option.split)

lemma frame_send [hub_frame]:
  "hb_db (send sid env h) = hb_db h" "hb_sessions (send sid env h) = hb_sessions h"
  "hb_lastWG (send sid env h) = hb_lastWG h" "hb_revoked (send sid env h) = hb_revoked h"
  "hb_links (send sid env h) = hb_links h" "hb_cfg (send sid env h) = hb_cfg h"
  "hb_next (send sid env h) = hb_next h" "hb_ulid (send sid env h) = hb_ulid h"
  "hb_gcDone (send sid env h) = hb_gcDone h"
  by (simp_all add: send_def hub_frame)

lemma frame_close [hub_frame]:
  "hb_db (close_session sid h) = hb_db h" "hb_revoked (close_session sid h) = hb_revoked h"
  by (simp_all add: close_session_def hub_frame)

lemma frame_links [hub_frame]:
  "hb_db (upd_link lid g h) = hb_db h" "hb_sessions (upd_link lid g h) = hb_sessions h"
  "hb_lastWG (upd_link lid g h) = hb_lastWG h" "hb_revoked (upd_link lid g h) = hb_revoked h"
  "hb_heap (upd_link lid g h) = hb_heap h" "hb_cfg (upd_link lid g h) = hb_cfg h"
  "hb_next (upd_link lid g h) = hb_next h" "hb_ulid (upd_link lid g h) = hb_ulid h"
  by (simp_all add: upd_link_def split: option.split)

lemma frame_ensure [hub_frame]:
  "hb_db (ensure_link lid h) = hb_db h" "hb_sessions (ensure_link lid h) = hb_sessions h"
  "hb_lastWG (ensure_link lid h) = hb_lastWG h" "hb_revoked (ensure_link lid h) = hb_revoked h"
  "hb_heap (ensure_link lid h) = hb_heap h" "hb_cfg (ensure_link lid h) = hb_cfg h"
  "hb_next (ensure_link lid h) = hb_next h" "hb_ulid (ensure_link lid h) = hb_ulid h"
  by (simp_all add: ensure_link_def)

lemma frame_drop_link [hub_frame]:
  "hb_db (drop_link lid h) = hb_db h" "hb_sessions (drop_link lid h) = hb_sessions h"
  "hb_lastWG (drop_link lid h) = hb_lastWG h" "hb_revoked (drop_link lid h) = hb_revoked h"
  "hb_heap (drop_link lid h) = hb_heap h"
  by (simp_all add: drop_link_def)

lemma frame_publish [hub_frame]:
  "hb_db (publish ev h) = hb_db h" "hb_sessions (publish ev h) = hb_sessions h"
  "hb_lastWG (publish ev h) = hb_lastWG h" "hb_revoked (publish ev h) = hb_revoked h"
  "hb_heap (publish ev h) = hb_heap h" "hb_links (publish ev h) = hb_links h"
  "hb_timers (publish ev h) = hb_timers h" "hb_gcDone (publish ev h) = hb_gcDone h"
  by (simp_all add: publish_def)

lemma frame_sendError [hub_frame]:
  "hb_db (sendError sid code msg h) = hb_db h"
  "hb_revoked (sendError sid code msg h) = hb_revoked h"
  by (simp_all add: sendError_def NewULID_def hub_frame)

lemma frame_sendSpec [hub_frame]:
  "hb_db (sendPeerSpecLocked sid l typ p w h) = hb_db h"
  "hb_sessions (sendPeerSpecLocked sid l typ p w h) = hb_sessions h"
  "hb_lastWG (sendPeerSpecLocked sid l typ p w h) = hb_lastWG h"
  "hb_revoked (sendPeerSpecLocked sid l typ p w h) = hb_revoked h"
  "hb_links (sendPeerSpecLocked sid l typ p w h) = hb_links h"
  "hb_cfg (sendPeerSpecLocked sid l typ p w h) = hb_cfg h"
  "hb_ulid (sendPeerSpecLocked sid l typ p w h) = hb_ulid h"
  by (simp_all add: sendPeerSpecLocked_def NewULID_def hub_frame split: sum.split)

lemma frame_removeSide [hub_frame]:
  "hb_db (removeSideLocked l d p h) = hb_db h"
  "hb_sessions (removeSideLocked l d p h) = hb_sessions h"
  "hb_lastWG (removeSideLocked l d p h) = hb_lastWG h"
  "hb_links (removeSideLocked l d p h) = hb_links h"
  "hb_gcDone (removeSideLocked l d p h) = hb_gcDone h"
  by (simp_all add: removeSideLocked_def NewULID_def hub_frame split: option.split)

lemma frame_pushPair [hub_frame]:
  "hb_db (pushPairLocked l typ h) = hb_db h" "hb_revoked (pushPairLocked l typ h) = hb_revoked h"
  by (simp_all add: pushPairLocked_def Let_def hub_frame split: option.split)

lemma frame_fold:
  assumes "\<And>x h. sel (f x h) = sel h"
  shows "sel (fold f xs h) = sel h"
  by (induction xs arbitrary: h) (simp_all add: assms)

lemma frame_register_loop [hub_frame]:
  "hb_db (fst (register_loop me ident links h expected)) = hb_db h"
  "hb_revoked (fst (register_loop me ident links h expected)) = hb_revoked h"
  by (induction links arbitrary: h expected)
    (simp_all add: Let_def hub_frame split: option.split sum.split)

lemma frame_heartbeat_links [hub_frame]:
  "hb_db (heartbeat_links me w now links h) = hb_db h"
  "hb_revoked (heartbeat_links me w now links h) = hb_revoked h"
  by (induction links arbitrary: h) (simp_all add: hub_frame)

section \<open>Sessions and links read back\<close>

lemma heap_upd_session:
  "hb_heap (upd_session sid f h) sid' = (if sid' = sid then map_option f (hb_heap h sid) else hb_heap h sid')"
  by (simp add: upd_session_def split: option.split)

lemma live_upd_session:
  "live nid (upd_session sid f h) =
     (if hb_sessions h nid = Some sid then map_option f (live nid h) else live nid h)"
  by (cases "hb_sessions h nid") (auto simp: live_def hub_frame heap_upd_session)

lemma live_frame [hub_frame]:
  "live nid (snd (NewULID h)) = live nid h" "live nid (upd_link lid g h) = live nid h"
  "live nid (ensure_link lid h) = live nid h" "live nid (drop_link lid h) = live nid h"
  "live nid (publish ev h) = live nid h"
  by (simp_all add: live_def hub_frame)

lemma registered_frame [hub_frame]:
  "registered_on nid (snd (NewULID h)) = registered_on nid h"
  "registered_on nid (upd_link lid g h) = registered_on nid h"
  "registered_on nid (ensure_link lid h) = registered_on nid h"
  "registered_on nid (drop_link lid h) = registered_on nid h"
  "registered_on nid (publish ev h) = registered_on nid h"
  by (simp_all add: registered_on_def hub_frame)

lemma registered_upd:
  "(\<And>s. ses_registered (f s) = ses_registered s)
    \<Longrightarrow> registered_on nid (upd_session sid f h) = registered_on nid h"
  by (simp add: registered_on_def live_upd_session split: option.split)

lemma registered_send [hub_frame]:
  "registered_on nid (send sid env h) = registered_on nid h"
  unfolding send_def by (rule registered_upd) (simp add: enqueue_def)

lemma registered_sendSpec [hub_frame]:
  "registered_on nid (sendPeerSpecLocked sid l typ p w h) = registered_on nid h"
  by (simp add: sendPeerSpecLocked_def NewULID_def hub_frame registered_upd split: sum.split)
     (simp add: registered_on_def live_def)

lemma links_upd:
  "hb_links (upd_link lid g h) lid' = (if lid' = lid then map_option g (hb_links h lid) else hb_links h lid')"
  by (simp add: upd_link_def split: option.split)

lemma links_ensure:
  "hb_links (ensure_link lid h) lid' =
     (if lid' = lid \<and> hb_links h lid = None then Some zero_rt else hb_links h lid')"
  by (simp add: ensure_link_def)

lemma spec_frame:
  assumes "hb_db h' = hb_db h" and "hb_cfg h' = hb_cfg h"
  shows "peerSpecLocked l p w h' = peerSpecLocked l p w h"
  by (simp add: peerSpecLocked_def assms Let_def split: sum.split)

section \<open>The database along the steps\<close>

text \<open>Every step keeps the serials the database has revoked, and adds those of deleted nodes.\<close>

lemma RevokedSerials_touch [hub_frame]:
  "RevokedSerials (hb_db (touch nid ts h)) = RevokedSerials (hb_db h)"
  using RevokedSerials_direct [of "OpTouchNode nid ts" undefined "hb_db h"] by (simp add: touch_def)

lemma RevokedSerials_dropSession [hub_frame]:
  "RevokedSerials (hb_db (dropSession sid now h)) = RevokedSerials (hb_db h)"
  by (simp add: dropSession_def hub_frame Let_def split: option.split)

lemma RevokedSerials_register [hub_frame]:
  "RevokedSerials (hb_db (register_rest sid s d links eid now h)) = RevokedSerials (hb_db h)"
  by (simp add: register_rest_def register_locked_def hub_frame Let_def case_prod_beta)

lemma RevokedSerials_frame [hub_frame]:
  "RevokedSerials (hb_db (fst (session_frame sid env now h))) = RevokedSerials (hb_db h)"
proof -
  have "RevokedSerials (hb_db (handleRegister sid env now h)) = RevokedSerials (hb_db h)"
    by (simp add: handleRegister_def hub_frame split: option.split)
  moreover have "RevokedSerials (hb_db (fst (handleHeartbeat sid env now h))) = RevokedSerials (hb_db h)"
  proof -
    have "hb_db (fold (\<lambda>w. heartbeat_links me w now links) ws h') = hb_db h'" for me links ws h'
      by (rule frame_fold) (simp add: hub_frame)
    then show ?thesis
      by (simp add: handleHeartbeat_def hub_frame Let_def case_prod_beta split: option.split sum.split)
  qed
  moreover have "RevokedSerials (hb_db (handleAck sid env now h)) = RevokedSerials (hb_db h)"
    by (simp add: handleAck_def hub_frame Let_def split: option.split sum.split)
  moreover have "RevokedSerials (hb_db (handleConfResult sid env h)) = RevokedSerials (hb_db h)"
    by (simp add: handleConfResult_def split: option.split)
  ultimately show ?thesis
    by (simp add: session_frame_def Let_def case_prod_beta hub_frame)
qed

lemma hb_db_gc [hub_frame]: "hb_db (gcOfflinePeers now h) = hb_db h"
proof -
  have "hb_db (fold (\<lambda>l. removeSideLocked l (Other l nid) nid) ls h') = hb_db h'" for nid ls h'
    by (rule frame_fold) (simp add: hub_frame)
  then have "hb_db (gc_node now n h') = hb_db h'" for n h'
    by (simp add: gc_node_def Let_def)
  then show ?thesis unfolding gcOfflinePeers_def by (rule frame_fold)
qed

lemma hb_db_unlink [hub_frame]: "hb_db (unlink_node nid ls h) = hb_db h"
  unfolding unlink_node_def by (rule frame_fold) (simp add: hub_frame)

lemma hb_db_admin [hub_frame]:
  "hb_db (kick_node nid h) = hb_db h" "hb_db (forget_node nid h) = hb_db h"
  "hb_db (fst (RotateWG nid h)) = hb_db h" "hb_db (fire_timer h) = hb_db h"
  "hb_db (fst (request_start ch nid typ payload h)) = hb_db h"
  "hb_db (fst (request_finish rid ch h)) = hb_db h"
  "hb_db (runSession_start sid node remote now h) = hb_db h"
  "hb_db (writer_step sid h) = hb_db h" "hb_db (Subscribe ch h) = hb_db h"
  "hb_db (Unsubscribe ch h) = hb_db h"
  by (simp_all add: kick_node_def forget_node_def RotateWG_def NewULID_def hub_frame Let_def
      fire_timer_def request_start_def request_finish_def runSession_start_def writer_step_def
      Subscribe_def Unsubscribe_def split: option.split list.split)

lemma hb_db_CreateLink [hub_frame]:
  "RevokedSerials (hb_db (fst (hub_CreateLink a b now h))) = RevokedSerials (hb_db h)"
  "RevokedSerials (hb_db (fst (hub_SetLinkExit lid x now h))) = RevokedSerials (hb_db h)"
  "RevokedSerials (hb_db (fst (hub_DeleteLink lid h))) = RevokedSerials (hb_db h)"
  by (simp_all add: hub_CreateLink_def hub_SetLinkExit_def hub_DeleteLink_def link_event_def
      pushLink_def removeLinkFromPeers_def Let_def case_prod_beta hub_frame NewULID_def split: sum.split)

lemma revoked_rows_grow:
  "set (map node_CertSerial (filter node_Revoked rows)) \<subseteq> set (map node_CertSerial (filter node_Revoked
     (upd_where P (\<lambda>n. n\<lparr>node_Revoked := True, node_OverlayIP := ip\<rparr>) rows)))"
proof (induction rows)
  case (Cons r rows)
  then show ?case
    by (cases "P r"; cases "node_Revoked r"; simp del: set_filter set_upd_where; blast)
qed simp

lemma RevokedSerials_DeleteNode:
  "set (RevokedSerials db) \<subseteq> set (RevokedSerials (fst (DeleteNode nid now db)))"
  unfolding DeleteNode_def Let_def RevokedSerials_def
  using revoked_rows_grow [of "st_nodes db" "\<lambda>n. node_ID n = nid" "freed_ip nid"]
  by (simp del: set_filter set_upd_where set_map split: sum.split)

lemma hb_db_DeleteNode [hub_frame]:
  "hb_db (fst (hub_DeleteNode nid now h)) = fst (DeleteNode nid now (hb_db h))"
  by (simp add: hub_DeleteNode_def Let_def case_prod_beta hub_frame split: sum.split)

lemma world_step_revoked:
  "world_step sha w w'
     \<Longrightarrow> set (RevokedSerials (hb_db (fst w))) \<subseteq> set (RevokedSerials (hb_db (fst w')))"
  by (induction rule: world_step.induct)
    (use RevokedSerials_DeleteNode in \<open>auto simp: hub_frame RevokedSerials_direct\<close>)

lemma world_steps_revoked:
  "(world_step sha)\<^sup>*\<^sup>* w w'
     \<Longrightarrow> set (RevokedSerials (hb_db (fst w))) \<subseteq> set (RevokedSerials (hb_db (fst w')))"
  by (induction rule: rtranclp_induct) (use world_step_revoked in blast)+

lemma world_steps_reachable:
  "(world_step sha)\<^sup>*\<^sup>* w w' \<Longrightarrow> reachable sha w \<Longrightarrow> reachable sha w'"
  by (induction rule: rtranclp_induct) (auto intro: reachable.step)

section \<open>Frames an agent is told\<close>

text \<open>
  A frame is told to a session when it is in its outbound queue, or the session has been torn down
  (queue full), after which the agent reconnects and registers. Nothing but the writer takes a
  frame out of the queue.
\<close>

definition told :: "nat \<Rightarrow> string \<Rightarrow> json \<Rightarrow> hub \<Rightarrow> bool" where
  "told sid typ data h \<longleftrightarrow> (\<exists>s. hb_heap h sid = Some s
     \<and> (ses_closed s \<or> (\<exists>pid. NewEnvelope typ pid data \<in> set (ses_out s))))"

lemma told_send: "hb_heap h sid = Some s \<Longrightarrow> told sid typ data (send sid (NewEnvelope typ pid data) h)"
  unfolding told_def send_def by (auto simp: heap_upd_session enqueue_def)

named_theorems told_intros

lemma told_upd [told_intros]:
  assumes "told sid typ data h" and "\<And>s. ses_closed s \<Longrightarrow> ses_closed (f s)"
    and "\<And>s. set (ses_out s) \<subseteq> set (ses_out (f s))"
  shows "told sid typ data (upd_session sid' f h)"
  using assms unfolding told_def by (auto simp: heap_upd_session) (metis subsetD)+

lemma told_send_other [told_intros]: "told sid typ data h \<Longrightarrow> told sid typ data (send sid' env h)"
  unfolding send_def by (erule told_upd) (auto simp: enqueue_def)

lemma told_frame [told_intros]:
  "told sid typ data h \<Longrightarrow> told sid typ data (h\<lparr>hb_next := n\<rparr>)"
  "told sid typ data h \<Longrightarrow> told sid typ data (h\<lparr>hb_links := ls\<rparr>)"
  "told sid typ data h \<Longrightarrow> told sid typ data (h\<lparr>hb_revoked := r\<rparr>)"
  "told sid typ data h \<Longrightarrow> told sid typ data (h\<lparr>hb_gcDone := gd\<rparr>)"
  "told sid typ data h \<Longrightarrow> told sid typ data (h\<lparr>hb_timers := ts\<rparr>)"
  "told sid typ data h \<Longrightarrow> told sid typ data (h\<lparr>hb_db := db\<rparr>)"
  "told sid typ data h \<Longrightarrow> told sid typ data (publish ev h)"
  "told sid typ data h \<Longrightarrow> told sid typ data (upd_link lid g h)"
  "told sid typ data h \<Longrightarrow> told sid typ data (ensure_link lid h)"
  "told sid typ data h \<Longrightarrow> told sid typ data (drop_link lid h)"
  by (simp_all add: told_def hub_frame)

lemma told_sendSpec [told_intros]:
  "told sid typ data h \<Longrightarrow> told sid typ data (sendPeerSpecLocked sid' l typ' p w h)"
  by (auto simp: sendPeerSpecLocked_def NewULID_def Let_def split: sum.split
      intro!: told_send_other told_upd told_frame)

lemma told_removeSide [told_intros]:
  "told sid typ data h \<Longrightarrow> told sid typ data (removeSideLocked l d p h)"
  by (auto simp: removeSideLocked_def NewULID_def split: option.split
      intro!: told_send_other told_frame)

lemma told_kick [told_intros]: "told sid typ data h \<Longrightarrow> told sid typ data (kick_node nid h)"
  by (auto simp: kick_node_def NewULID_def Let_def split: option.split
      intro!: told_send_other told_frame)

lemma told_forget [told_intros]: "told sid typ data h \<Longrightarrow> told sid typ data (forget_node nid h)"
  by (simp add: told_def forget_node_def)

lemma told_fold [told_intros]:
  assumes "\<And>x h. told sid typ data h \<Longrightarrow> told sid typ data (f x h)"
  shows "told sid typ data h \<Longrightarrow> told sid typ data (fold f xs h)"
  by (induction xs arbitrary: h) (simp_all add: assms)

lemma told_sendSpec_new:
  assumes "hb_heap h sid = Some s" and "peerSpecLocked l p w h = Ok spec"
  shows "told sid typ (enc_spec spec) (sendPeerSpecLocked sid l typ p w h)"
  using assms by (auto simp: sendPeerSpecLocked_def NewULID_def heap_upd_session intro!: told_send)

definition removal :: "link \<Rightarrow> wg_ident \<Rightarrow> json" where
  "removal l w = enc_peer_remove \<lparr>pr_LinkID = link_ID l, pr_WGPubkey = wi_pubkey w\<rparr>"

lemma told_removeSide_new:
  assumes "hb_sessions h d = Some sid" and "hb_heap h sid = Some s" and "hb_lastWG h p = Some w"
  shows "told sid TypePeerRemove (removal l w) (removeSideLocked l d p h)"
  using assms by (auto simp: removeSideLocked_def NewULID_def removal_def intro!: told_send)

text \<open>A loop that tells one removal per link tells them all.\<close>

lemma heap_defined [hub_frame]:
  "hb_heap (removeSideLocked l d p h) sid = None \<longleftrightarrow> hb_heap h sid = None"
  by (simp add: removeSideLocked_def NewULID_def send_def heap_upd_session split: option.split)

lemma told_removals:
  assumes g: "\<And>l h. \<exists>rts. g l h = h\<lparr>hb_links := rts\<rparr>"
    and "l \<in> set links" and "hb_sessions h (Other l nid) = Some sid" and "hb_heap h sid \<noteq> None"
    and "hb_lastWG h nid = Some w"
  shows "told sid TypePeerRemove (removal l w)
     (fold (\<lambda>l h. g l (removeSideLocked l (Other l nid) nid h)) links h)"
  using assms(2-)
proof (induction links arbitrary: h)
  case (Cons l' ls)
  let ?h = "g l' (removeSideLocked l' (Other l' nid) nid h)"
  obtain rts where g': "?h = (removeSideLocked l' (Other l' nid) nid h)\<lparr>hb_links := rts\<rparr>"
    using g by blast
  show ?case
  proof (cases "l = l'")
    case True
    then have "told sid TypePeerRemove (removal l w) ?h"
      unfolding g' using Cons.prems by (auto intro!: told_frame told_removeSide_new)
    moreover have "told sid TypePeerRemove (removal l w) (g l'' (removeSideLocked l'' (Other l'' nid) nid h'))"
      if "told sid TypePeerRemove (removal l w) h'" for l'' h'
      using g [of l'' "removeSideLocked l'' (Other l'' nid) nid h'"] that told_removeSide told_frame(2)
      by metis
    ultimately show ?thesis by (simp add: told_fold)
  next
    case False
    with Cons.prems have "told sid TypePeerRemove (removal l w)
        (fold (\<lambda>l h. g l (removeSideLocked l (Other l nid) nid h)) ls ?h)"
      by (intro Cons.IH) (simp_all add: g' hub_frame)
    then show ?thesis by simp
  qed
qed simp

end
