(* ===== verification/HubProps.thy ===== *)
theory HubProps
  imports HubFrame StoreProps
begin

text \<open>
  The properties of the hub: sessions, endpoints, revocation, matchmaking, acknowledgements,
  replies of agents and the garbage collection of offline peers. Each holds for every order of
  the handlers' sections under \<open>h.mu\<close> (\<open>HubRun\<close>) or states what one handler does from any state.
\<close>

section \<open>A small running hub\<close>

definition demo_ulid :: "nat \<Rightarrow> string" where
  "demo_ulid k = CHR ''u'' # itoa k"

definition demo_boot :: hub where
  "demo_boot = NewHub Defaults demo_store demo_ulid"

definition demo_up :: hub where
  "demo_up = runSession_start 1 (demo_node ''B'' ''10.0.0.4'') ''203.0.113.2'' 20
     (runSession_start 0 (demo_node ''A'' ''10.0.0.2'') ''203.0.113.1'' 20 demo_boot)"

definition demo_register :: "string \<Rightarrow> envelope" where
  "demo_register key = NewEnvelope TypeRegister (''r-'' @ key) (enc_register
     \<lparr>rd_WGPubkey = key, rd_WGPort = 51820, rd_AgentVersion = ''1'', rd_OS = ''linux'', rd_SocksPort = 0\<rparr>)"

lemma demo_store_wf: "store_wf demo_store"
  by (simp add: store_wf_def demo_store_def empty_store_def demo_node_def link_ok_def)

lemma demo_boot_reachable: "reachable sha (demo_boot, {})"
  unfolding demo_boot_def by (rule reachable.boot [OF demo_store_wf])

lemma world_connect:
  assumes "reachable sha (h, {})" and "handleConn_cert nid serial h = Admitted node"
    and "hb_heap h sid = None"
  shows "reachable sha (runSession_start sid node remote now h, {})"
proof -
  have "reachable sha (h, {Starting node remote})"
    using reachable.step [OF assms(1) world_step.admit [OF assms(2)]] .
  from reachable.step [OF this world_step.start [OF _ assms(3)]] show ?thesis by simp
qed

lemma demo_up_reachable: "reachable sha (demo_up, {})"
proof -
  have "handleConn_cert ''A'' ''s-A'' demo_boot = Admitted (demo_node ''A'' ''10.0.0.2'')"
    and "hb_heap demo_boot 0 = None"
    by (code_simp, code_simp)
  note first = world_connect [OF demo_boot_reachable this]
  have "handleConn_cert ''B'' ''s-B'' (runSession_start 0 (demo_node ''A'' ''10.0.0.2'')
      ''203.0.113.1'' 20 demo_boot) = Admitted (demo_node ''B'' ''10.0.0.4'')"
    and "hb_heap (runSession_start 0 (demo_node ''A'' ''10.0.0.2'') ''203.0.113.1'' 20 demo_boot) 1 = None"
    by (code_simp, code_simp)
  from world_connect [OF first this] show ?thesis unfolding demo_up_def .
qed

lemma demo_up_sels:
  "hb_db demo_up = demo_store" "hb_sessions demo_up = [''A'' \<mapsto> 0, ''B'' \<mapsto> 1]" "hb_revoked demo_up = {}"
  "hb_lastWG demo_up = Map.empty"
  "hb_heap demo_up = [0 \<mapsto> new_session (demo_node ''A'' ''10.0.0.2'') ''203.0.113.1'' 20,
     1 \<mapsto> new_session (demo_node ''B'' ''10.0.0.4'') ''203.0.113.2'' 20]"
  by (simp_all add: demo_up_def demo_boot_def NewHub_def runSession_start_def Let_def publish_def
      demo_node_def demo_store_def RevokedSerials_def empty_store_def)

section \<open>Sessions\<close>

text \<open>
  C1: one live session per node. In every reachable state two sessions of the same node that
  are both open are the same one, it is the one the session table names, and its outbound queue
  holds at most 64 frames, however connections, drops and queue overflows interleave.
\<close>

theorem one_open_session:
  assumes "reachable sha (h, fl)" and "hb_heap h i = Some s" and "\<not> ses_closed s"
  shows "hb_sessions h (node_ID (ses_node s)) = Some i \<and> length (ses_out s) \<le> outCap
    \<and> (\<forall>j t. hb_heap h j = Some t \<longrightarrow> \<not> ses_closed t
         \<longrightarrow> node_ID (ses_node t) = node_ID (ses_node s) \<longrightarrow> j = i)"
  using reachable_hub_inv [OF assms(1)] assms(2,3)
  unfolding hub_inv_def single_open_def queues_ok_def by (metis option.inject)

definition demo_relogin :: hub where
  "demo_relogin = runSession_start 2 (demo_node ''A'' ''10.0.0.2'') ''198.51.100.7'' 30 demo_up"

lemma demo_admit_A: "handleConn_cert ''A'' ''s-A'' demo_up = Admitted (demo_node ''A'' ''10.0.0.2'')"
  by (simp add: handleConn_cert_def isRevoked_def demo_up_sels GetNode_def demo_store_def
      empty_store_def demo_node_def)

lemma demo_relogin_reachable: "reachable sha (demo_relogin, {})"
  unfolding demo_relogin_def
  by (rule world_connect [OF demo_up_reachable demo_admit_A]) (simp add: demo_up_sels)

theorem one_open_session_witness:
  "hb_sessions demo_relogin ''A'' = Some 2 \<and> map_option ses_closed (hb_heap demo_relogin 0) = Some True"
proof -
  have heap: "hb_heap demo_relogin 2 = Some (new_session (demo_node ''A'' ''10.0.0.2'') ''198.51.100.7'' 30)"
    by (simp add: demo_relogin_def runSession_start_def Let_def publish_def)
  have "\<not> ses_closed (new_session (demo_node ''A'' ''10.0.0.2'') ''198.51.100.7'' 30)"
    and node: "node_ID (ses_node (new_session (demo_node ''A'' ''10.0.0.2'') ''198.51.100.7'' 30)) = ''A''"
    by (simp_all add: new_session_def demo_node_def)
  from one_open_session [OF demo_relogin_reachable heap this(1)]
  have "hb_sessions demo_relogin ''A'' = Some 2" unfolding node by blast
  moreover have "map_option ses_closed (hb_heap demo_relogin 0) = Some True"
    by (simp add: demo_relogin_def runSession_start_def Let_def publish_def close_session_def
        upd_session_def demo_up_sels demo_node_def)
  ultimately show ?thesis by blast
qed

section \<open>Endpoints\<close>

lemma lastWG_register:
  "hb_lastWG (register_rest sid s d links eid now h) = (hb_lastWG h)(node_ID (ses_node s) \<mapsto>
     \<lparr>wi_pubkey = rd_WGPubkey d, wi_port = rd_WGPort d, wi_ip = ses_remote s,
      wi_socksPort = rd_SocksPort d\<rparr>)"
proof -
  have "hb_lastWG (fst (register_loop me ident links h expected)) = hb_lastWG h" for me ident h expected
    by (induction links arbitrary: h expected)
      (simp_all add: Let_def hub_frame split: option.split sum.split)
  then show ?thesis
    by (simp add: register_rest_def register_locked_def Let_def case_prod_beta touch_def hub_frame)
qed

text \<open>
  C2: the WG endpoint of a node is never self-reported. Whatever the agents send, in every
  reachable state the address of the endpoint the hub hands to a peer is the source address of a
  control session of that node, the port is a valid UDP port and the public key is not empty.
\<close>

theorem endpoint_observed:
  assumes "reachable sha (h, fl)" and "hb_lastWG h nid = Some w"
  shows "(\<exists>sid s. hb_heap h sid = Some s \<and> node_ID (ses_node s) = nid
           \<and> wg_endpoint w = ses_remote s @ CHR '':'' # itoa_int (wi_port w))
    \<and> 0 < wi_port w \<and> wi_port w \<le> 65535 \<and> wi_pubkey w \<noteq> []"
  using reachable_hub_inv [OF assms(1)] assms(2)
  unfolding hub_inv_def ident_ok_def observed_def wg_endpoint_def by metis

theorem endpoint_observed_witness:
  "\<exists>h w. reachable (\<lambda>x. x) (h, {}) \<and> hb_lastWG h ''A'' = Some w \<and> wi_pubkey w = ''kA''
     \<and> 0 < wi_port w \<and> wi_port w \<le> 65535"
proof -
  let ?h = "fst (session_frame 0 (demo_register ''kA'') 21 demo_up)"
  let ?w = "\<lparr>wi_pubkey = ''kA'', wi_port = 51820, wi_ip = ''203.0.113.1'', wi_socksPort = 0\<rparr>"
  have heap: "hb_heap demo_up 0 = Some (new_session (demo_node ''A'' ''10.0.0.2'') ''203.0.113.1'' 20)"
    by (simp add: demo_up_sels)
  then have "hb_heap demo_up 0 \<noteq> None" by simp
  then have reach: "reachable (\<lambda>x. x) (?h, {})"
    by (rule reachable.step [OF demo_up_reachable world_step.frame])
  have "hb_lastWG ?h ''A'' = Some ?w"
    using heap by (simp add: session_frame_def demo_register_def NewEnvelope_def handleRegister_def
        in_int64_def bad_register_def lastWG_register new_session_def demo_node_def type_defs)
  with endpoint_observed [OF reach this] reach show ?thesis
    by (intro exI [of _ ?h] exI [of _ ?w]) simp
qed

section \<open>Deleting a node\<close>

lemma hub_DeleteNode_OkD:
  assumes "hub_DeleteNode nid now h = (h', Ok ())"
  obtains node where "DeleteNode nid now (hb_db h)
      = (fst (DeleteNode nid now (hb_db h)), Ok (node, LinksOfNode nid (hb_db h)))"
    and "GetNode nid (hb_db h) = Ok node"
    and "h' = publish (EvNodeStatus nid ''deleted'') (forget_node nid (kick_node nid
       ((unlink_node nid (LinksOfNode nid (hb_db h)) (h\<lparr>hb_db := fst (DeleteNode nid now (hb_db h))\<rparr>))
        \<lparr>hb_revoked := insert (node_CertSerial node) (hb_revoked
           (unlink_node nid (LinksOfNode nid (hb_db h)) (h\<lparr>hb_db := fst (DeleteNode nid now (hb_db h))\<rparr>)))\<rparr>)))"
proof -
  obtain db r where del: "DeleteNode nid now (hb_db h) = (db, r)"
    by (cases "DeleteNode nid now (hb_db h)")
  with assms obtain node links where r: "r = Ok (node, links)"
    by (auto simp: hub_DeleteNode_def Let_def split: sum.splits)
  note ok = del [unfolded r]
  show thesis
    using that [of node] assms ok DeleteNode_OkD(1,2) [OF ok] by (simp add: hub_DeleteNode_def Let_def)
qed

text \<open>
  C3: a deleted node stays out. After \<open>DeleteNode\<close> has succeeded its certificate is refused in
  every later state, whatever happens in between, and also by a hub restarted on the database.
\<close>

theorem deleted_node_stays_out:
  assumes "reachable sha (h, fl)" and "hub_DeleteNode nid now h = (h1, Ok ())"
    and "GetNode nid (hb_db h) = Ok node" and "(world_step sha)\<^sup>*\<^sup>* (h1, fl) (h2, fl2)"
  shows "handleConn_cert cn (node_CertSerial node) h2 = Rejected ''CERT_REVOKED'' ''certificate revoked''
    \<and> handleConn_cert cn (node_CertSerial node) (NewHub cfg (hb_db h2) ulid)
        = Rejected ''CERT_REVOKED'' ''certificate revoked''"
proof -
  obtain n where del: "DeleteNode nid now (hb_db h)
      = (fst (DeleteNode nid now (hb_db h)), Ok (n, LinksOfNode nid (hb_db h)))"
    and n: "GetNode nid (hb_db h) = Ok n"
    using hub_DeleteNode_OkD [OF assms(2)] by blast
  have same: "n = node" using n assms(3) by simp
  have "n \<in> set (st_nodes (hb_db h))" "node_ID n = nid"
    using n by (auto simp: GetNode_def find_Some_iff split: option.splits)
  then have "node_CertSerial node \<in> set (RevokedSerials (hb_db h1))"
    using hb_db_DeleteNode [of nid now h] assms(2) unfolding same [symmetric]
    by (subst (asm) DeleteNode_OkD(3) [OF del]) (auto simp: RevokedSerials_def upd_where_def image_iff)
  then have rev: "node_CertSerial node \<in> set (RevokedSerials (hb_db h2))"
    using world_steps_revoked [OF assms(4)] by auto
  have "reachable sha (h1, fl)"
    using reachable.step [OF assms(1) world_step.delete_node [of sha h fl nid now]] assms(2) by simp
  then have "reachable sha (h2, fl2)" using assms(4) world_steps_reachable by blast
  then have "revoked_ok h2" using reachable_hub_inv by (auto simp: hub_inv_def)
  with rev show ?thesis
    by (auto simp: handleConn_cert_def isRevoked_def revoked_ok_def NewHub_def)
qed

lemma demo_delete: "hub_DeleteNode ''A'' 40 demo_up = (fst (hub_DeleteNode ''A'' 40 demo_up), Ok ())"
proof -
  have "snd (hub_DeleteNode ''A'' 40 demo_up) = Ok ()"
    by (simp add: hub_DeleteNode_def DeleteNode_def GetNode_def demo_up_sels demo_store_def
        empty_store_def demo_node_def freed_ip_def Let_def)
  then show ?thesis by (metis prod.collapse)
qed

theorem deleted_node_stays_out_witness:
  "handleConn_cert ''A'' ''s-A'' (fst (hub_DeleteNode ''A'' 40 demo_up))
     = Rejected ''CERT_REVOKED'' ''certificate revoked''"
proof -
  have get: "GetNode ''A'' (hb_db demo_up) = Ok (demo_node ''A'' ''10.0.0.2'')"
    by (simp add: demo_up_sels GetNode_def demo_store_def empty_store_def demo_node_def)
  from deleted_node_stays_out [OF demo_up_reachable demo_delete get rtranclp.rtrancl_refl]
  show ?thesis by (simp add: demo_node_def)
qed

lemma links_unlink:
  "hb_links (unlink_node nid ls h) lid = (if lid \<in> link_ID ` set ls then None else hb_links h lid)"
  unfolding unlink_node_def
  by (induction ls arbitrary: h) (simp_all add: hub_frame drop_link_def)

lemma unlink_frame [hub_frame]:
  "hb_sessions (unlink_node nid ls h) = hb_sessions h"
  "hb_lastWG (unlink_node nid ls h) = hb_lastWG h"
  unfolding unlink_node_def by (rule frame_fold, simp add: hub_frame)+

lemma heap_unlink [hub_frame]:
  "hb_heap (unlink_node nid ls h) sid = None \<longleftrightarrow> hb_heap h sid = None"
  unfolding unlink_node_def by (induction ls arbitrary: h) (simp_all add: hub_frame)

lemma told_unlink:
  assumes "l \<in> set links" and "hb_sessions h (Other l nid) = Some sid" and "hb_heap h sid \<noteq> None"
    and "hb_lastWG h nid = Some w"
  shows "told sid TypePeerRemove (removal l w) (unlink_node nid links h)"
  unfolding unlink_node_def by (rule told_removals) (use assms in \<open>auto simp: drop_link_def\<close>)

lemma told_kick_new:
  assumes "hb_sessions h nid = Some sid" and "hb_heap h sid \<noteq> None"
  shows "told sid TypeKick (enc_kick \<lparr>kd_Reason = ''removed by admin''\<rparr>) (kick_node nid h)
    \<and> sid \<in> set (hb_timers (kick_node nid h))"
proof -
  obtain s where "hb_heap h sid = Some s" using assms(2) by blast
  then show ?thesis using assms(1)
    by (auto simp: kick_node_def NewULID_def Let_def intro!: told_frame told_send [of _ _ s])
qed

lemma timers_forget: "hb_timers (forget_node nid h) = hb_timers h"
  by (simp add: forget_node_def)

text \<open>
  C12: deleting a node unwinds it everywhere. The online end of each of its links is told to remove
  the peer (or its session is torn down), the node's own session is told \<open>kick\<close> and is put on the
  timer that closes it, and neither its WG material nor the run-time state of a link survives.
\<close>

theorem DeleteNode_unwinds:
  assumes "reachable sha (h, fl)" and "hub_DeleteNode nid now h = (h1, Ok ())"
  shows "(\<forall>l \<in> set (LinksOfNode nid (hb_db h)). \<forall>sid w. hb_sessions h (Other l nid) = Some sid
          \<longrightarrow> hb_lastWG h nid = Some w \<longrightarrow> told sid TypePeerRemove (removal l w) h1)
    \<and> (\<forall>sid. hb_sessions h nid = Some sid
          \<longrightarrow> told sid TypeKick (enc_kick \<lparr>kd_Reason = ''removed by admin''\<rparr>) h1 \<and> sid \<in> set (hb_timers h1))
    \<and> hb_lastWG h1 nid = None
    \<and> (\<forall>l \<in> set (LinksOfNode nid (hb_db h)). hb_links h1 (link_ID l) = None)"
proof -
  let ?ls = "LinksOfNode nid (hb_db h)" and ?h0 = "h\<lparr>hb_db := fst (DeleteNode nid now (hb_db h))\<rparr>"
  let ?hu = "unlink_node nid ?ls ?h0"
  obtain node :: node where h1: "h1 = publish (EvNodeStatus nid ''deleted'') (forget_node nid (kick_node nid
      (?hu\<lparr>hb_revoked := insert (node_CertSerial node) (hb_revoked ?hu)\<rparr>)))"
    by (rule hub_DeleteNode_OkD [OF assms(2)])
  have heap: "hb_heap h sid \<noteq> None" if "hb_sessions h n = Some sid" for n sid
    using reachable_hub_inv [OF assms(1)] that by (fastforce simp: hub_inv_def sessions_ok_def)
  have "told sid TypePeerRemove (removal l w) h1"
    if "l \<in> set ?ls" "hb_sessions h (Other l nid) = Some sid" "hb_lastWG h nid = Some w" for l sid w
    unfolding h1 by (intro told_frame told_forget told_kick told_unlink) (use that heap in auto)
  moreover have "told sid TypeKick (enc_kick \<lparr>kd_Reason = ''removed by admin''\<rparr>) h1 \<and> sid \<in> set (hb_timers h1)"
    if "hb_sessions h nid = Some sid" for sid
    using told_kick_new [of "?hu\<lparr>hb_revoked := insert (node_CertSerial node) (hb_revoked ?hu)\<rparr>" nid sid]
      that heap unfolding h1
    by (auto simp: hub_frame timers_forget intro!: told_frame told_forget)
  moreover have "hb_lastWG h1 nid = None" unfolding h1 by (simp add: hub_frame forget_node_def)
  moreover have "hb_links h1 (link_ID l) = None" if "l \<in> set ?ls" for l
    using that unfolding h1
    by (simp add: hub_frame forget_node_def kick_node_def NewULID_def Let_def links_unlink
        split: option.split)
  ultimately show ?thesis by blast
qed

theorem DeleteNode_unwinds_witness:
  "told 0 TypeKick (enc_kick \<lparr>kd_Reason = ''removed by admin''\<rparr>) (fst (hub_DeleteNode ''A'' 40 demo_up))
     \<and> 0 \<in> set (hb_timers (fst (hub_DeleteNode ''A'' 40 demo_up)))"
  using DeleteNode_unwinds [OF demo_up_reachable demo_delete] by (simp add: demo_up_sels)

section \<open>Replies of agents\<close>

text \<open>The node a session belongs to; the genuine replies to a request.\<close>

definition owner :: "nat \<Rightarrow> hub \<Rightarrow> string option" where
  "owner sid h = map_option (\<lambda>s. node_ID (ses_node s)) (hb_heap h sid)"

definition genuine :: "string \<Rightarrow> string \<Rightarrow> hub \<Rightarrow> nat \<times> envelope \<Rightarrow> bool" where
  "genuine rid nid h r \<longleftrightarrow> env_ID (snd r) = rid \<and> owner (fst r) h = Some nid"

abbreviation replies :: "(nat \<times> envelope) list \<Rightarrow> hub \<Rightarrow> hub" where
  "replies rs h \<equiv> fold (\<lambda>(sid, env). handleConfResult sid env) rs h"

definition waits :: "string \<Rightarrow> string \<Rightarrow> nat \<Rightarrow> hub \<Rightarrow> bool" where
  "waits rid nid ch h \<longleftrightarrow> hb_confWait h rid = Some \<lparr>cw_nodeID = nid, cw_ch = ch\<rparr> \<and> hb_chans h ch = None
     \<and> (\<forall>r w. hb_confWait h r = Some w \<longrightarrow> cw_ch w = ch \<longrightarrow> r = rid)"

definition answered :: "string \<Rightarrow> nat \<Rightarrow> json \<Rightarrow> hub \<Rightarrow> bool" where
  "answered rid ch data h \<longleftrightarrow> hb_confWait h rid = None \<and> hb_chans h ch = Some data
     \<and> (\<forall>r w. hb_confWait h r = Some w \<longrightarrow> cw_ch w \<noteq> ch)"

lemma owner_conf [hub_frame]: "owner sid (handleConfResult sid' env h) = owner sid h"
  by (simp add: owner_def handleConfResult_def split: option.split)

lemma answered_stays: "answered rid ch data h \<Longrightarrow> answered rid ch data (handleConfResult sid env h)"
  by (auto simp: answered_def handleConfResult_def split: option.split)

lemma waitsD:
  "waits rid nid ch h \<Longrightarrow> hb_confWait h rid = Some \<lparr>cw_nodeID = nid, cw_ch = ch\<rparr>"
  by (simp add: waits_def)

lemma waits_reply:
  assumes "waits rid nid ch h"
  shows "if genuine rid nid h (sid, env) then answered rid ch (env_Data env) (handleConfResult sid env h)
    else waits rid nid ch (handleConfResult sid env h)"
proof (cases "hb_heap h sid")
  case None
  with assms show ?thesis by (simp add: genuine_def owner_def handleConfResult_def)
next
  case (Some s)
  note heap = Some
  show ?thesis
  proof (cases "hb_confWait h (env_ID env)")
    case None
    then have "env_ID env \<noteq> rid" using waitsD [OF assms] by auto
    with None show ?thesis using assms heap by (simp add: genuine_def handleConfResult_def)
  next
    case (Some w)
    show ?thesis
    proof (cases "env_ID env = rid")
      case True
      with waitsD [OF assms] Some have "w = \<lparr>cw_nodeID = nid, cw_ch = ch\<rparr>" by simp
      moreover have "cw_ch w' \<noteq> ch" if "hb_confWait h r = Some w'" "r \<noteq> rid" for r w'
        using assms that unfolding waits_def by blast
      ultimately show ?thesis using heap Some True waitsD [OF assms] assms
        by (auto simp: answered_def genuine_def owner_def handleConfResult_def)
    next
      case False
      with assms Some have "cw_ch w \<noteq> ch" unfolding waits_def by blast
      then have "waits rid nid ch (handleConfResult sid env h)"
        using assms heap Some False unfolding waits_def by (simp add: handleConfResult_def)
      with False show ?thesis by (simp add: genuine_def)
    qed
  qed
qed

lemma replies_answered:
  "answered rid ch data h \<Longrightarrow> answered rid ch data (replies rs h)"
  by (induction rs arbitrary: h) (auto simp: answered_stays split: prod.split)

lemma replies_waits:
  "waits rid nid ch h \<Longrightarrow>
     (case find (genuine rid nid h) rs of
        None \<Rightarrow> waits rid nid ch (replies rs h)
      | Some r \<Rightarrow> answered rid ch (env_Data (snd r)) (replies rs h))"
proof (induction rs arbitrary: h)
  case (Cons r rs)
  obtain sid env where r: "r = (sid, env)" by (cases r)
  have gen: "genuine rid nid (handleConfResult sid env h) = genuine rid nid h"
    by (simp add: fun_eq_iff genuine_def hub_frame)
  show ?case
  proof (cases "genuine rid nid h r")
    case True
    with waits_reply [OF Cons.prems, of sid env] r show ?thesis by (simp add: replies_answered)
  next
    case False
    with waits_reply [OF Cons.prems, of sid env] r have "waits rid nid ch (handleConfResult sid env h)"
      by simp
    from Cons.IH [OF this] False show ?thesis unfolding gen r
      by (cases "find (genuine rid nid h) rs") simp_all
  qed
qed simp

lemma request_start_waits:
  assumes "hub_inv h" and "fresh_chan ch h" and "request_start ch nid typ payload h = (h1, Ok rid)"
  shows "waits rid nid ch h1"
proof -
  have no: "cw_ch w \<noteq> ch" if "hb_confWait h r = Some w" for r w
    using assms(2) that unfolding fresh_chan_def by (blast intro: ranI)
  have conf: "hb_confWait (send sid env h') = hb_confWait h'" "hb_chans (send sid env h') = hb_chans h'"
    for sid env h'
    by (simp_all add: send_def upd_session_def split: option.split)
  show ?thesis using assms(3)
    by (auto simp: request_start_def NewULID_def waits_def conf dest: no split: option.splits if_splits)
qed

text \<open>
  A request to an agent (\<open>conf_get\<close>, \<open>svc_action\<close>) returns the first reply with its envelope
  id that comes from a session of the node it was sent to, however many frames other agents send
  with the same id before or after it; later replies are ignored, and without a genuine one the
  call times out.
\<close>

theorem reply_from_asked_node:
  assumes "reachable sha (h, fl)" and "fresh_chan ch h"
    and "request_start ch nid typ payload h = (h1, Ok rid)"
  shows "snd (request_finish rid ch (replies rs h1)) =
     (case find (genuine rid nid h1) rs of
        None \<Rightarrow> Err ErrConfTimeout
      | Some r \<Rightarrow> Ok (env_Data (snd r)))"
  using replies_waits [OF request_start_waits [OF reachable_hub_inv [OF assms(1)] assms(2,3)], of rs]
  by (auto simp: request_finish_def waits_def answered_def Let_def split: option.splits)

lemma demo_zero: "digit_char 0 = CHR ''0''"
  by code_simp

theorem reply_from_asked_node_witness:
  "snd (request_finish ''u0'' 7 (replies
     [(1, NewEnvelope TypeConfResult ''u0'' (JStr ''forged'')),
      (0, NewEnvelope TypeConfResult ''u0'' (JStr ''genuine''))]
     (fst (RequestToolConf 7 ''A'' demo_up)))) = Ok (JStr ''genuine'')"
proof -
  have fresh: "fresh_chan 7 demo_up"
    by (simp add: fresh_chan_def demo_up_def demo_boot_def NewHub_def runSession_start_def publish_def
        Let_def demo_node_def)
  have "hb_ulid demo_up 0 = ''u0''" "hb_next demo_up = 0"
    by (simp_all add: demo_up_def demo_boot_def NewHub_def runSession_start_def publish_def
        Let_def demo_node_def demo_ulid_def itoa_small demo_zero)
  then have start: "request_start 7 ''A'' TypeConfGet (JObj []) demo_up
      = (fst (request_start 7 ''A'' TypeConfGet (JObj []) demo_up), Ok ''u0'')"
    by (simp add: request_start_def NewULID_def demo_up_sels)
  have "owner 1 (fst (request_start 7 ''A'' TypeConfGet (JObj []) demo_up)) = Some ''B''"
    "owner 0 (fst (request_start 7 ''A'' TypeConfGet (JObj []) demo_up)) = Some ''A''"
    by (simp_all add: request_start_def NewULID_def demo_up_sels owner_def send_def upd_session_def
        enqueue_def outCap_def new_session_def demo_node_def)
  then show ?thesis
    using reply_from_asked_node [OF demo_up_reachable fresh start,
        of "[(1, NewEnvelope TypeConfResult ''u0'' (JStr ''forged'')),
             (0, NewEnvelope TypeConfResult ''u0'' (JStr ''genuine''))]"]
    by (simp add: RequestToolConf_def genuine_def NewEnvelope_def)
qed

text \<open>
  C34: delivering a reply never blocks the agent's session. In every reachable state the channel
  of a registered waiter is empty (its capacity is one) and belongs to no other waiter.
\<close>

theorem reply_never_blocks:
  assumes "reachable sha (h, fl)" and "hb_confWait h rid = Some w"
  shows "hb_chans h (cw_ch w) = None
    \<and> (\<forall>rid' w'. hb_confWait h rid' = Some w' \<longrightarrow> cw_ch w' = cw_ch w \<longrightarrow> rid' = rid)"
  using reachable_hub_inv [OF assms(1)] assms(2) unfolding hub_inv_def waiters_ok_def by blast

theorem reply_never_blocks_witness:
  "hb_chans (fst (RequestToolConf 7 ''A'' demo_up)) 7 = None"
proof -
  have fresh: "fresh_chan 7 demo_up"
    by (simp add: fresh_chan_def demo_up_def demo_boot_def NewHub_def runSession_start_def publish_def
        Let_def demo_node_def)
  have "reachable (\<lambda>x. x) (fst (RequestToolConf 7 ''A'' demo_up), {})"
    unfolding RequestToolConf_def
    by (rule reachable.step [OF demo_up_reachable world_step.request [OF fresh]])
  moreover have "hb_confWait (fst (RequestToolConf 7 ''A'' demo_up)) (hb_ulid demo_up (hb_next demo_up))
      = Some \<lparr>cw_nodeID = ''A'', cw_ch = 7\<rparr>"
    by (simp add: RequestToolConf_def request_start_def NewULID_def demo_up_sels send_def upd_session_def)
  ultimately show ?thesis using reply_never_blocks by fastforce
qed

end
