(* ===== verification/LinkProps.thy ===== *)
theory LinkProps
  imports HubProps
begin

text \<open>
  Matchmaking: what a registration tells the agents, when a link counts as acknowledged, and what
  the garbage collection of offline peers does.
\<close>

section \<open>Registration\<close>

text \<open>The specification of \<open>peers_expected\<close>: one spec per link whose other end is online and registered.\<close>

definition ready_spec :: "string \<Rightarrow> hub \<Rightarrow> link \<Rightarrow> peer_spec list" where
  "ready_spec me h l =
     (case (hb_sessions h (Other l me), hb_lastWG h (Other l me)) of
        (Some os, Some w) \<Rightarrow>
          if registered_on (Other l me) h
          then (case peerSpecLocked l (Other l me) w h of Inl e \<Rightarrow> [] | Inr spec \<Rightarrow> [spec])
          else []
      | _ \<Rightarrow> [])"

definition peers_expected :: "string \<Rightarrow> hub \<Rightarrow> link list \<Rightarrow> peer_spec list" where
  "peers_expected me h links = concat (map (ready_spec me h) links)"

lemma ready_spec_cong:
  assumes "hb_db h' = hb_db h" and "hb_cfg h' = hb_cfg h"
    and "hb_sessions h' (Other l me) = hb_sessions h (Other l me)"
    and "hb_lastWG h' (Other l me) = hb_lastWG h (Other l me)"
    and "registered_on (Other l me) h' = registered_on (Other l me) h"
  shows "ready_spec me h' l = ready_spec me h l"
  using assms(3-) by (simp add: ready_spec_def spec_frame [OF assms(1,2)] split: option.split)

text \<open>One turn of the loop of \<open>handleRegister\<close>.\<close>

definition register_turn :: "string \<Rightarrow> wg_ident \<Rightarrow> link \<Rightarrow> hub \<Rightarrow> hub" where
  "register_turn me ident l h =
     (let h1 = ensure_link (link_ID l) h in
      if ready_spec me h l = [] then h1
      else sendPeerSpecLocked (the (hb_sessions h (Other l me))) l TypePeerUpdate me ident
             (upd_link (link_ID l) (set_ack (peerSide l me)) h1))"

lemma register_loop_turn:
  "register_loop me ident (l # ls) h expected
     = register_loop me ident ls (register_turn me ident l h) (expected @ ready_spec me h l)"
  by (simp add: register_turn_def ready_spec_def Let_def hub_frame
      spec_frame [of "ensure_link (link_ID l) h" h] split: option.split sum.split)

lemma turn_frame [hub_frame]:
  "hb_db (register_turn me ident l h) = hb_db h" "hb_cfg (register_turn me ident l h) = hb_cfg h"
  "hb_sessions (register_turn me ident l h) = hb_sessions h"
  "hb_lastWG (register_turn me ident l h) = hb_lastWG h"
  "registered_on nid (register_turn me ident l h) = registered_on nid h"
  by (simp_all add: register_turn_def Let_def hub_frame)

lemma ready_spec_turn [hub_frame]: "ready_spec me (register_turn me ident l h) = ready_spec me h"
  by (rule ext, rule ready_spec_cong) (simp_all add: hub_frame)

lemma register_loop_fold:
  "register_loop me ident ls h expected
     = (fold (register_turn me ident) ls h, expected @ peers_expected me h ls)"
proof (induction ls arbitrary: h expected)
  case (Cons l ls)
  have "peers_expected me (register_turn me ident l h) ls = peers_expected me h ls"
    by (simp add: peers_expected_def hub_frame)
  then show ?case unfolding register_loop_turn Cons.IH by (simp add: peers_expected_def)
qed (simp add: peers_expected_def)

lemma told_turn [told_intros]:
  "told sid typ data h \<Longrightarrow> told sid typ data (register_turn me ident l h)"
  by (auto simp: register_turn_def Let_def intro!: told_frame told_sendSpec)

lemma heap_turn [hub_frame]: "hb_heap (register_turn me ident l h) sid = None \<longleftrightarrow> hb_heap h sid = None"
  by (simp add: register_turn_def Let_def sendPeerSpecLocked_def NewULID_def send_def
      heap_upd_session hub_frame split: sum.split)

lemma told_turns:
  assumes "l \<in> set ls" and "ready_spec me h l \<noteq> []" and "hb_sessions h (Other l me) = Some os"
    and "hb_heap h os \<noteq> None" and "peerSpecLocked l me ident h = Ok spec"
  shows "told os TypePeerUpdate (enc_spec spec) (fold (register_turn me ident) ls h)"
  using assms
proof (induction ls arbitrary: h)
  case (Cons l' ls)
  show ?case
  proof (cases "l = l'")
    case True
    let ?h1 = "upd_link (link_ID l) (set_ack (peerSide l me)) (ensure_link (link_ID l) h)"
    obtain s where "hb_heap ?h1 os = Some s" using Cons.prems(4) by (auto simp: hub_frame)
    moreover have "peerSpecLocked l me ident ?h1 = Ok spec"
      using Cons.prems(5) spec_frame [of ?h1 h] by (simp add: hub_frame)
    ultimately have "told os TypePeerUpdate (enc_spec spec) (register_turn me ident l h)"
      using Cons.prems(2,3) told_sendSpec_new [of ?h1 os s]
      by (simp add: register_turn_def Let_def)
    then show ?thesis using True by (simp add: told_fold told_turn)
  next
    case False
    have "told os TypePeerUpdate (enc_spec spec) (fold (register_turn me ident) ls (register_turn me ident l' h))"
      by (rule Cons.IH) (use Cons.prems False spec_frame [of "register_turn me ident l' h" h] in
          \<open>auto simp: hub_frame\<close>)
    then show ?thesis by simp
  qed
qed simp

lemma heap_turns [hub_frame]:
  "hb_heap (fold (register_turn me ident) ls h) sid = None \<longleftrightarrow> hb_heap h sid = None"
  by (induction ls arbitrary: h) (simp_all add: hub_frame)

definition register_ident :: "session \<Rightarrow> register_data \<Rightarrow> wg_ident" where
  "register_ident s d = \<lparr>wi_pubkey = rd_WGPubkey d, wi_port = rd_WGPort d, wi_ip = ses_remote s,
     wi_socksPort = rd_SocksPort d\<rparr>"

lemma ready_spec_registered:
  fixes s :: session
  assumes "Other l me \<noteq> me" and "sessions_ok h" and "hb_heap h sid = Some s" and "me = node_ID (ses_node s)"
  shows "ready_spec me (upd_session sid (\<lambda>s. s\<lparr>ses_registered := True, ses_agentVersion := v, ses_osStr := os\<rparr>)
     (h\<lparr>hb_lastWG := (hb_lastWG h)(me \<mapsto> w)\<rparr>)) l = ready_spec me h l"
proof (rule ready_spec_cong)
  let ?h = "upd_session sid (\<lambda>s. s\<lparr>ses_registered := True, ses_agentVersion := v, ses_osStr := os\<rparr>)
     (h\<lparr>hb_lastWG := (hb_lastWG h)(me \<mapsto> w)\<rparr>)"
  have "hb_sessions h (Other l me) \<noteq> Some sid"
    using assms unfolding sessions_ok_def by fastforce
  then show "registered_on (Other l me) ?h = registered_on (Other l me) h"
    by (simp add: registered_on_def live_upd_session) (simp add: live_def)
qed (use assms(1) in \<open>simp_all add: hub_frame\<close>)

lemma LinksOfNode_Other:
  assumes "store_wf db" and "l \<in> set (LinksOfNode me db)"
  shows "Other l me \<noteq> me" and "\<exists>n. GetNode (Other l me) db = Ok n"
proof -
  have l: "l \<in> set (st_links db)" "link_A l = me \<or> link_B l = me"
    using assms(2) by (auto simp: LinksOfNode_def touches_def)
  then have "link_A l < link_B l" "link_A l \<in> node_ID ` set (st_nodes db)"
    "link_B l \<in> node_ID ` set (st_nodes db)"
    using assms(1) by (auto simp: store_wf_def link_ok_def)
  with l(2) show "Other l me \<noteq> me" "\<exists>n. GetNode (Other l me) db = Ok n"
    by (auto simp: Other_def GetNode_def find_None_iff split: option.split)
qed

text \<open>The hub after the registration has been entered, before the loop over the links.\<close>

abbreviation entered :: "nat \<Rightarrow> session \<Rightarrow> register_data \<Rightarrow> hub \<Rightarrow> hub" where
  "entered sid s d h \<equiv> upd_session sid (\<lambda>s. s\<lparr>ses_registered := True, ses_agentVersion := rd_AgentVersion d,
     ses_osStr := rd_OS d\<rparr>) (h\<lparr>hb_lastWG := (hb_lastWG h)(node_ID (ses_node s) \<mapsto> register_ident s d)\<rparr>)"

lemma entered_ready:
  assumes "sessions_ok h" "store_wf (hb_db h)" and "hb_heap h sid = Some s" and "node_ID (ses_node s) = me"
    and "l \<in> set (LinksOfNode me (hb_db h))"
  shows "ready_spec me (entered sid s d h) l = ready_spec me h l"
  using ready_spec_registered [OF LinksOfNode_Other(1) [OF assms(2,5)] assms(1,3)] assms(4) by blast

lemma handleRegister_run:
  assumes "sessions_ok h" "store_wf (hb_db h)" and "hb_heap h sid = Some s" and "node_ID (ses_node s) = me"
    and "dec_register (env_Data (env :: envelope)) = Some d" and "\<not> bad_register d"
  shows "handleRegister sid env now h = touch me now (send sid (NewEnvelope TypeRegisterAck (env_ID env)
     (enc_register_ack \<lparr>ra_NodeID = me, ra_OverlayIP = node_OverlayIP (ses_node s) @ ''/32'',
       ra_PeersExpected = peers_expected me h (LinksOfNode me (hb_db h))\<rparr>))
     (fold (register_turn me (register_ident s d)) (LinksOfNode me (hb_db h)) (entered sid s d h)))"
proof -
  let ?ls = "LinksOfNode me (hb_db h)"
  have "peers_expected me (entered sid s d h) ?ls = peers_expected me h ?ls"
    unfolding peers_expected_def
    by (rule arg_cong [of _ _ concat], rule map_cong [OF refl entered_ready [OF assms(1-4)]])
  then show ?thesis
    using assms(3-6)
    by (simp add: handleRegister_def register_rest_def register_locked_def register_loop_fold Let_def
        register_ident_def)
qed

lemma handleRegister_acked:
  assumes "sessions_ok h" "store_wf (hb_db h)" and "hb_heap h sid = Some s" and "node_ID (ses_node s) = me"
    and "dec_register (env_Data (env :: envelope)) = Some d" and "\<not> bad_register d"
  shows "told sid TypeRegisterAck (enc_register_ack \<lparr>ra_NodeID = me,
            ra_OverlayIP = node_OverlayIP (ses_node s) @ ''/32'',
            ra_PeersExpected = peers_expected me h (LinksOfNode me (hb_db h))\<rparr>) (handleRegister sid env now h)"
proof -
  have "hb_heap (entered sid s d h) sid \<noteq> None" using assms(3) by (simp add: heap_upd_session)
  then obtain s1 where
    "hb_heap (fold (register_turn me (register_ident s d)) (LinksOfNode me (hb_db h)) (entered sid s d h)) sid = Some s1"
    using heap_turns by (metis not_None_eq)
  then show ?thesis unfolding handleRegister_run [OF assms] touch_def by (intro told_frame told_send)
qed

text \<open>The other end of a ready link is told the new identity.\<close>

lemma handleRegister_tells:
  assumes "sessions_ok h" "store_wf (hb_db h)" and "hb_heap h sid = Some s" and "node_ID (ses_node s) = me"
    and "dec_register (env_Data (env :: envelope)) = Some d" and "\<not> bad_register d"
    and l: "l \<in> set (LinksOfNode me (hb_db h))" "ready_spec me h l \<noteq> []" "hb_sessions h (Other l me) = Some os"
      "peerSpecLocked l me (register_ident s d) h = Ok spec"
  shows "told os TypePeerUpdate (enc_spec spec) (handleRegister sid env now h)"
proof -
  have heap: "hb_heap (entered sid s d h) os = None \<longleftrightarrow> hb_heap h os = None" for os
    using assms(3) by (simp add: heap_upd_session)
  have "hb_heap h os \<noteq> None" using assms(1) l(3) by (fastforce simp: sessions_ok_def)
  then have "told os TypePeerUpdate (enc_spec spec)
      (fold (register_turn me (register_ident s d)) (LinksOfNode me (hb_db h)) (entered sid s d h))"
    using l heap entered_ready [OF assms(1-4) l(1), of d] spec_frame [of "entered sid s d h" h]
    by (intro told_turns) (auto simp: hub_frame)
  then show ?thesis unfolding handleRegister_run [OF assms(1-6)] touch_def by (intro told_frame told_send_other)
qed

text \<open>
  C14: registration converges. A well-formed \<open>register\<close> is answered with exactly one spec for every
  link of the node whose other end is online and registered, in the order of the links, and each of
  those other ends is told the node's new key and endpoint (or its session is torn down).
\<close>

theorem register_converges:
  assumes "reachable sha (h, fl)" and "hb_heap h sid = Some s" and "node_ID (ses_node s) = me"
    and "dec_register (env_Data (env :: envelope)) = Some d" and "\<not> bad_register d"
  shows "told sid TypeRegisterAck (enc_register_ack \<lparr>ra_NodeID = me,
            ra_OverlayIP = node_OverlayIP (ses_node s) @ ''/32'',
            ra_PeersExpected = peers_expected me h (LinksOfNode me (hb_db h))\<rparr>)
          (handleRegister sid env now h)
    \<and> (\<forall>l \<in> set (LinksOfNode me (hb_db h)). \<forall>os spec. ready_spec me h l \<noteq> []
         \<longrightarrow> hb_sessions h (Other l me) = Some os
         \<longrightarrow> peerSpecLocked l me (register_ident s d) h = Ok spec
         \<longrightarrow> told os TypePeerUpdate (enc_spec spec) (handleRegister sid env now h))"
proof -
  have inv: "sessions_ok h" "store_wf (hb_db h)"
    using reachable_hub_inv [OF assms(1)] by (simp_all add: hub_inv_def)
  show ?thesis
    using handleRegister_acked [OF inv assms(2-5)] handleRegister_tells [OF inv assms(2-5)] by blast
qed

lemma turns_frame [hub_frame]:
  "hb_db (fold (register_turn me ident) ls h) = hb_db h"
  "hb_sessions (fold (register_turn me ident) ls h) = hb_sessions h"
  "registered_on nid (fold (register_turn me ident) ls h) = registered_on nid h"
  by (rule frame_fold, simp add: hub_frame)+

lemma register_rest_frame [hub_frame]:
  "hb_db (register_rest sid s d links eid now h) = TouchNode (node_ID (ses_node s)) now (hb_db h)"
  "hb_sessions (register_rest sid s d links eid now h) = hb_sessions h"
  by (simp_all add: register_rest_def register_locked_def register_loop_fold Let_def touch_def hub_frame)

lemma register_rest_registers:
  assumes "hb_sessions h nid = Some sid" and "hb_heap h sid = Some s0"
  shows "registered_on nid (register_rest sid s d links eid now h)"
proof -
  have "registered_on n (touch me now h') = registered_on n h'" for n me h'
    by (simp add: registered_on_def live_def touch_def)
  then show ?thesis using assms
    by (simp add: register_rest_def register_locked_def register_loop_fold Let_def hub_frame)
      (simp add: registered_on_def live_upd_session, simp add: live_def)
qed

definition demo_B :: hub where
  "demo_B = fst (session_frame 1 (demo_register ''kB'') 21 demo_up)"

definition demo_data :: "string \<Rightarrow> register_data" where
  "demo_data key = \<lparr>rd_WGPubkey = key, rd_WGPort = 51820, rd_AgentVersion = ''1'', rd_OS = ''linux'',
     rd_SocksPort = 0\<rparr>"

lemma demo_register_data:
  "env_V (demo_register key) = Version" "env_Type (demo_register key) = TypeRegister"
  "dec_register (env_Data (demo_register key)) = Some (demo_data key)"
  "key \<noteq> [] \<Longrightarrow> \<not> bad_register (demo_data key)"
  by (simp_all add: demo_register_def NewEnvelope_def demo_data_def in_int64_def bad_register_def)

lemma demo_B_eq: "demo_B = register_rest 1 (new_session (demo_node ''B'' ''10.0.0.4'') ''203.0.113.2'' 20)
    (demo_data ''kB'') (LinksOfNode ''B'' demo_store) (env_ID (demo_register ''kB'')) 21 demo_up"
  by (simp add: demo_B_def session_frame_def demo_register_data handleRegister_def demo_up_sels)
    (simp add: new_session_def demo_node_def)

lemma demo_B_reachable: "reachable sha (demo_B, {})"
  unfolding demo_B_def
  by (rule reachable.step [OF demo_up_reachable world_step.frame]) (simp add: demo_up_sels)

lemma demo_B_sels:
  "hb_sessions demo_B = [''A'' \<mapsto> 0, ''B'' \<mapsto> 1]" "hb_db demo_B = TouchNode ''B'' 21 demo_store"
  "registered_on ''B'' demo_B"
  "hb_lastWG demo_B ''B'' = Some \<lparr>wi_pubkey = ''kB'', wi_port = 51820, wi_ip = ''203.0.113.2'', wi_socksPort = 0\<rparr>"
proof -
  show "registered_on ''B'' demo_B" unfolding demo_B_eq
    by (rule register_rest_registers) (simp_all add: demo_up_sels)
qed (simp_all add: demo_B_eq hub_frame demo_up_sels lastWG_register new_session_def demo_node_def
    demo_data_def)

definition demo_link :: link where
  "demo_link = \<lparr>link_ID = ''L'', link_A = ''A'', link_B = ''B'', link_CreatedAt = 11, link_ExitNode = []\<rparr>"

lemma demo_B_db:
  "LinksOfNode ''A'' (hb_db demo_B) = [demo_link]"
  "GetNode ''A'' (hb_db demo_B) = Ok (demo_node ''A'' ''10.0.0.2'')"
  "GetNode ''B'' (hb_db demo_B) = Ok (demo_node ''B'' ''10.0.0.4''\<lparr>node_LastSeen := 21\<rparr>)"
  by (simp_all add: demo_B_sels LinksOfNode_def TouchNode_def demo_store_def empty_store_def demo_link_def
      touches_def GetNode_def demo_node_def)

lemma demo_B_heap: "hb_heap demo_B 0 = Some (new_session (demo_node ''A'' ''10.0.0.2'') ''203.0.113.1'' 20)"
proof -
  have "LinksOfNode ''B'' demo_store = [demo_link]"
    by (simp add: LinksOfNode_def demo_store_def empty_store_def demo_link_def touches_def)
  then show ?thesis
    by (simp add: demo_B_eq register_rest_def register_locked_def demo_link_def Other_def Let_def hub_frame
        demo_up_sels touch_def send_def heap_upd_session new_session_def demo_node_def split: option.split)
qed

theorem register_converges_witness:
  "length (peers_expected ''A'' demo_B [demo_link]) = 1
   \<and> told 0 TypeRegisterAck (enc_register_ack \<lparr>ra_NodeID = ''A'', ra_OverlayIP = ''10.0.0.2/32'',
       ra_PeersExpected = peers_expected ''A'' demo_B [demo_link]\<rparr>) (handleRegister 0 (demo_register ''kA'') 22 demo_B)
   \<and> (\<exists>spec. ps_WGPubkey spec = ''kA''
       \<and> told 1 TypePeerUpdate (enc_spec spec) (handleRegister 0 (demo_register ''kA'') 22 demo_B))"
proof -
  let ?s = "new_session (demo_node ''A'' ''10.0.0.2'') ''203.0.113.1'' 20"
  have me: "node_ID (ses_node ?s) = ''A''" "node_OverlayIP (ses_node ?s) = ''10.0.0.2''"
    by (simp_all add: new_session_def demo_node_def)
  have "\<not> bad_register (demo_data ''kA'')" by (simp add: demo_register_data)
  note conv = register_converges [OF demo_B_reachable demo_B_heap me(1) demo_register_data(3) this, of 22]
  have other: "Other demo_link ''A'' = ''B''" by (simp add: demo_link_def Other_def)
  have ready: "length (ready_spec ''A'' demo_B demo_link) = 1"
    unfolding ready_spec_def other by (simp add: demo_B_sels(1,3,4) peerSpecLocked_def demo_B_db Let_def)
  obtain spec where spec: "peerSpecLocked demo_link ''A'' (register_ident ?s (demo_data ''kA'')) demo_B = Ok spec"
    "ps_WGPubkey spec = ''kA''"
    by (auto simp: peerSpecLocked_def demo_B_db Let_def register_ident_def demo_data_def)
  have "told 1 TypePeerUpdate (enc_spec spec) (handleRegister 0 (demo_register ''kA'') 22 demo_B)"
    using conv spec ready by (simp add: demo_B_db other demo_B_sels(1)) auto
  with conv spec ready show ?thesis by (auto simp: demo_B_db me peers_expected_def)
qed

end
