(* ===== verification/AckProps.thy ===== *)
theory AckProps
  imports LinkProps
begin

text \<open>
  Acknowledgements and the status of a link, and the garbage collection of offline peers.
\<close>

section \<open>Acknowledgements\<close>

lemma pending_enqueue [simp]: "ses_pendingAcks (enqueue env s) = ses_pendingAcks s"
  "ses_node (enqueue env s) = ses_node s"
  by (simp_all add: enqueue_def)

lemma heap_send: "hb_heap (send sid env h) sid' =
     (if sid' = sid then map_option (enqueue env) (hb_heap h sid) else hb_heap h sid')"
  by (simp add: send_def heap_upd_session)

lemma sendSpec_pending:
  assumes "peerSpecLocked l p w h = Ok spec" and "hb_heap h sid = Some s"
  shows "\<exists>s'. hb_heap (sendPeerSpecLocked sid l typ p w h) sid = Some s' \<and> ses_node s' = ses_node s
    \<and> ses_pendingAcks s' = (ses_pendingAcks s)(hb_ulid h (hb_next h) \<mapsto>
         \<lparr>ar_linkID = link_ID l, ar_side = peerSide l (node_ID (ses_node s))\<rparr>)"
    and "sid' \<noteq> sid \<Longrightarrow> hb_heap (sendPeerSpecLocked sid l typ p w h) sid' = hb_heap h sid'"
    and "hb_next (sendPeerSpecLocked sid l typ p w h) = Suc (hb_next h)"
  using assms by (simp_all add: sendPeerSpecLocked_def NewULID_def heap_send heap_upd_session hub_frame)

definition good_ack :: "string \<Rightarrow> envelope" where
  "good_ack i = NewEnvelope TypeAck i (enc_ack \<lparr>ad_OK = True, ad_Err = []\<rparr>)"

lemma good_ack_sels [simp]:
  "env_ID (good_ack i) = i" "dec_ack (env_Data (good_ack i)) = Some \<lparr>ad_OK = True, ad_Err = []\<rparr>"
  by (simp_all add: good_ack_def NewEnvelope_def)

lemma handleAck_frame [hub_frame]:
  "hb_db (handleAck sid env t h) = hb_db h"
  "registered_on nid (handleAck sid env t h) = registered_on nid h"
  "sid' \<noteq> sid \<Longrightarrow> hb_heap (handleAck sid env t h) sid' = hb_heap h sid'"
  by (simp_all add: handleAck_def Let_def hub_frame heap_upd_session registered_upd
      split: option.split sum.split)

lemma LinkStatus_links:
  assumes "hb_links h (link_ID l) = Some rt" and "registered_on (link_A l) h" and "registered_on (link_B l) h"
  shows "LinkStatus l now h = (if rt_ackA rt \<and> rt_ackB rt
     then (if now - rt_lastHS rt < 180 then ''active'' else ''degraded'') else ''pending'')"
  using assms by (simp add: LinkStatus_def)

subsection \<open>Sequences of frames\<close>

text \<open>Frames and the sessions and times they arrive at.\<close>

definition run_frames :: "(nat \<times> envelope \<times> int) list \<Rightarrow> hub \<Rightarrow> hub" where
  "run_frames = fold (\<lambda>(sid, env, t) h. fst (session_frame sid env t h))"

text \<open>A frame that answers the push \<open>i\<close> of a session, and whether the first answer in a sequence is OK.\<close>

definition answers :: "nat \<Rightarrow> string \<Rightarrow> nat \<times> envelope \<times> int \<Rightarrow> bool" where
  "answers sid i f \<longleftrightarrow> (case f of (sid', env, t) \<Rightarrow> sid' = sid \<and> env_V env = Version \<and> env_Type env = TypeAck
     \<and> env_ID env = i \<and> dec_ack (env_Data env) \<noteq> None)"

definition positive :: "nat \<times> envelope \<times> int \<Rightarrow> bool" where
  "positive f \<longleftrightarrow> (case dec_ack (env_Data (fst (snd f))) of None \<Rightarrow> False | Some d \<Rightarrow> ad_OK d)"

definition confirmed :: "(nat \<times> envelope \<times> int) list \<Rightarrow> nat \<Rightarrow> string \<Rightarrow> bool" where
  "confirmed frames sid i \<longleftrightarrow> (case find (answers sid i) frames of None \<Rightarrow> False | Some f \<Rightarrow> positive f)"

text \<open>A session holds an open push of the link for the given end.\<close>

definition asks :: "hub \<Rightarrow> link \<Rightarrow> string \<Rightarrow> nat \<Rightarrow> string \<Rightarrow> bool" where
  "asks h l nid sid i \<longleftrightarrow> (\<exists>s ref. hb_heap h sid = Some s \<and> ses_pendingAcks s i = Some ref
     \<and> ar_linkID ref = link_ID l \<and> (ar_side ref = ''a'') = (nid = link_A l))"

definition flag :: "link \<Rightarrow> string \<Rightarrow> link_rt \<Rightarrow> bool" where
  "flag l nid rt = (if nid = link_A l then rt_ackA rt else rt_ackB rt)"

text \<open>What frames other than \<open>register\<close> and \<open>ack\<close> leave.\<close>

definition quiet :: "hub \<Rightarrow> hub \<Rightarrow> bool" where
  "quiet h h' \<longleftrightarrow> (\<forall>lid rt. hb_links h lid = Some rt \<longrightarrow>
       (\<exists>rt'. hb_links h' lid = Some rt' \<and> rt_ackA rt' = rt_ackA rt \<and> rt_ackB rt' = rt_ackB rt))
     \<and> (\<forall>sid. map_option ses_pendingAcks (hb_heap h' sid) = map_option ses_pendingAcks (hb_heap h sid))
     \<and> (\<forall>nid. registered_on nid h' = registered_on nid h)"

lemma quiet_refl [simp]: "quiet h h"
  by (simp add: quiet_def)

lemma quiet_trans: "quiet h1 h2 \<Longrightarrow> quiet h2 h3 \<Longrightarrow> quiet h1 h3"
  unfolding quiet_def by (metis (no_types, lifting))

lemma quiet_same:
  "hb_links h' = hb_links h \<Longrightarrow> hb_heap h' = hb_heap h \<Longrightarrow> hb_sessions h' = hb_sessions h \<Longrightarrow> quiet h h'"
  by (simp add: quiet_def registered_on_def live_def)

lemma quiet_session:
  assumes "\<And>s. ses_pendingAcks (f s) = ses_pendingAcks s" and "\<And>s. ses_registered (f s) = ses_registered s"
  shows "quiet h (upd_session sid f h)"
  using registered_upd [of f, OF assms(2)]
  by (auto simp: quiet_def hub_frame heap_upd_session option.map_comp comp_def assms(1))

lemma quiet_link:
  assumes "\<And>rt. rt_ackA (g rt) = rt_ackA rt" and "\<And>rt. rt_ackB (g rt) = rt_ackB rt"
  shows "quiet h (upd_link lid g h)"
  by (auto simp: quiet_def hub_frame links_upd assms)

lemma quiet_ensure: "quiet h (ensure_link lid h)"
  by (auto simp: quiet_def hub_frame links_ensure)

lemma quiet_fold: "(\<And>x h. quiet h (f x h)) \<Longrightarrow> quiet h (fold f xs h)"
  by (induction xs arbitrary: h) (auto intro: quiet_trans)

lemma hb_link_update_flags: "rt_ackA (hb_link_update w now rt) = rt_ackA rt" "rt_ackB (hb_link_update w now rt) = rt_ackB rt"
  by (simp_all add: hb_link_update_def Let_def)

lemma quiet_heartbeat_links: "quiet h (heartbeat_links me w now ls h)"
proof (induction ls arbitrary: h)
  case (Cons l ls)
  have "quiet h (upd_link (link_ID l) (hb_link_update w now) (ensure_link (link_ID l) h))"
    by (rule quiet_trans [OF quiet_ensure quiet_link]) (simp_all add: hb_link_update_flags)
  with Cons.IH show ?case by (auto intro: quiet_trans)
qed simp

lemma quiet_heartbeat: "quiet h (fst (handleHeartbeat sid env now h))"
proof (cases "hb_heap h sid = None \<or> dec_heartbeat (env_Data env) = None")
  case True
  then show ?thesis by (auto simp: handleHeartbeat_def split: option.split)
next
  case False
  then obtain s d where sd: "hb_heap h sid = Some s" "dec_heartbeat (env_Data env) = Some d" by auto
  let ?h1 = "upd_session sid (\<lambda>s. s\<lparr>ses_lastHB := now, ses_hbWG := hd_WG d\<rparr>) h"
  let ?h2 = "fold (\<lambda>w. heartbeat_links (node_ID (ses_node s)) w now (LinksOfNode (node_ID (ses_node s)) (hb_db ?h1))) (hd_WG d) ?h1"
  have "quiet h ?h1" by (rule quiet_session) simp_all
  moreover have "quiet ?h1 ?h2" by (rule quiet_fold) (rule quiet_heartbeat_links)
  ultimately have q: "quiet h ?h2" by (rule quiet_trans)
  have "quiet ?h2 (fst (handleHeartbeat sid env now h))"
    by (rule quiet_same) (simp_all add: handleHeartbeat_def sd Let_def case_prod_beta publish_def touch_def split: sum.split)
  with q show ?thesis by (rule quiet_trans)
qed

lemma quiet_error: "quiet h (sendError sid code msg h)"
proof -
  have "quiet (snd (NewULID h)) (sendError sid code msg h)"
    unfolding sendError_def Let_def case_prod_beta by (rule quiet_session) simp_all
  moreover have "quiet h (snd (NewULID h))" by (rule quiet_same) (simp_all add: NewULID_def)
  ultimately show ?thesis by (rule quiet_trans [rotated])
qed

lemma quiet_conf: "quiet h (handleConfResult sid env h)"
  by (rule quiet_same) (simp_all add: handleConfResult_def split: option.split)

lemma frame_kinds:
  assumes "env_Type env \<noteq> TypeRegister"
  shows "if env_V env = Version \<and> env_Type env = TypeAck then fst (session_frame sid env t h) = handleAck sid env t h
     else quiet h (fst (session_frame sid env t h))"
  using assms quiet_heartbeat [of h sid env t]
  by (auto simp: session_frame_def quiet_error quiet_conf Let_def case_prod_beta type_defs)

lemma flag_set_ack: "flag l nid (set_ack side rt) \<longleftrightarrow> flag l nid rt \<or> (side = ''a'') = (nid = link_A l)"
  by (simp add: flag_def set_ack_def)

text \<open>One frame: what is asked after it, and which flag it sets.\<close>

lemma frame_step:
  fixes h :: hub and sid :: nat and env :: envelope and t :: int
  assumes "env_Type env \<noteq> TypeRegister"
  defines "h' \<equiv> fst (session_frame sid env t h)" and "f \<equiv> (sid, env, t)"
  shows "asks h' l nid sid' i \<longleftrightarrow> asks h l nid sid' i \<and> \<not> answers sid' i f"
    and "registered_on nid h' = registered_on nid h"
    and "hb_links h (link_ID l) = Some rt \<Longrightarrow> \<exists>rt'. hb_links h' (link_ID l) = Some rt'
      \<and> (\<forall>nid \<in> {link_A l, link_B l}. flag l nid rt' \<longleftrightarrow> flag l nid rt \<or>
           (positive f \<and> (\<exists>sid i. asks h l nid sid i \<and> answers sid i f)))"
proof -
  note kind = frame_kinds [OF assms(1), of sid t h]
  have all: "(asks h' l nid sid' i \<longleftrightarrow> asks h l nid sid' i \<and> \<not> answers sid' i f)
    \<and> registered_on nid h' = registered_on nid h
    \<and> (hb_links h (link_ID l) = Some rt \<longrightarrow> (\<exists>rt'. hb_links h' (link_ID l) = Some rt'
      \<and> (\<forall>nid \<in> {link_A l, link_B l}. flag l nid rt' \<longleftrightarrow> flag l nid rt \<or>
           (positive f \<and> (\<exists>sid i. asks h l nid sid i \<and> answers sid i f)))))"
  proof (cases "env_V env = Version \<and> env_Type env = TypeAck")
    case False
    then have q: "quiet h h'" and no: "\<not> answers sid' i f" for sid' i
      using kind by (auto simp: answers_def f_def h'_def)
    have "map_option ses_pendingAcks (hb_heap h' sid') = map_option ses_pendingAcks (hb_heap h sid')"
      using q by (simp add: quiet_def)
    then have "asks h' l nid sid' i = asks h l nid sid' i"
      by (cases "hb_heap h' sid'"; cases "hb_heap h sid'") (auto simp: asks_def)
    then show ?thesis using q no by (fastforce simp: quiet_def flag_def)
  next
    case True
    then have h': "h' = handleAck sid env t h" using kind by (simp add: h'_def)
    have ans: "answers sid' i f \<longleftrightarrow> sid' = sid \<and> i = env_ID env \<and> dec_ack (env_Data env) \<noteq> None" for sid' i
      using True by (auto simp: answers_def f_def)
    have links: "hb_links (handleAck sid env t h) = (case (hb_heap h sid, dec_ack (env_Data env)) of
        (Some s, Some d) \<Rightarrow> (case ses_pendingAcks s (env_ID env) of
           Some ref \<Rightarrow> if ad_OK d then hb_links (upd_link (ar_linkID ref) (set_ack (ar_side ref)) h) else hb_links h
         | None \<Rightarrow> hb_links h) | _ \<Rightarrow> hb_links h)"
      by (auto simp: handleAck_def Let_def hub_frame upd_link_def split: option.split sum.split)
    have "asks h' l nid sid' i \<longleftrightarrow> asks h l nid sid' i \<and> \<not> answers sid' i f"
      unfolding h' ans
      by (auto simp: asks_def handleAck_def Let_def hub_frame heap_upd_session split: option.splits sum.splits if_splits)
    moreover have "registered_on nid h' = registered_on nid h" unfolding h' by (simp add: hub_frame)
    moreover have "\<exists>rt'. hb_links h' (link_ID l) = Some rt'
      \<and> (\<forall>nid \<in> {link_A l, link_B l}. flag l nid rt' \<longleftrightarrow> flag l nid rt \<or>
           (positive f \<and> (\<exists>sid i. asks h l nid sid i \<and> answers sid i f)))" if "hb_links h (link_ID l) = Some rt"
      unfolding h' links ans
      using that by (auto simp: asks_def flag_set_ack links_upd positive_def f_def split: option.split)
    ultimately show ?thesis by blast
  qed
  from all show "asks h' l nid sid' i \<longleftrightarrow> asks h l nid sid' i \<and> \<not> answers sid' i f"
    and "registered_on nid h' = registered_on nid h"
    and "hb_links h (link_ID l) = Some rt \<Longrightarrow> \<exists>rt'. hb_links h' (link_ID l) = Some rt'
      \<and> (\<forall>nid \<in> {link_A l, link_B l}. flag l nid rt' \<longleftrightarrow> flag l nid rt \<or>
           (positive f \<and> (\<exists>sid i. asks h l nid sid i \<and> answers sid i f)))" by blast+
qed

lemma confirmed_Cons:
  "confirmed (f # fs) sid i \<longleftrightarrow> (if answers sid i f then positive f else confirmed fs sid i)"
  by (simp add: confirmed_def)

lemma flags_after_frames:
  assumes "\<forall>f \<in> set frames. env_Type (fst (snd f)) \<noteq> TypeRegister" and "hb_links h (link_ID l) = Some rt"
  shows "(\<forall>nid. registered_on nid (run_frames frames h) = registered_on nid h)
    \<and> (\<exists>rt'. hb_links (run_frames frames h) (link_ID l) = Some rt' \<and> (\<forall>nid \<in> {link_A l, link_B l}.
         flag l nid rt' \<longleftrightarrow> flag l nid rt \<or> (\<exists>sid i. asks h l nid sid i \<and> confirmed frames sid i)))"
  using assms
proof (induction frames arbitrary: h rt)
  case Nil
  then show ?case by (simp add: run_frames_def confirmed_def)
next
  case (Cons f frames)
  obtain sid env t where f: "f = (sid, env, t)" by (metis prod_cases3)
  let ?h = "fst (session_frame sid env t h)"
  have env: "env_Type env \<noteq> TypeRegister" using Cons.prems(1) f by simp
  note step = frame_step [OF env, where sid = sid and t = t and h = h, folded f]
  obtain rt1 where rt1: "hb_links ?h (link_ID l) = Some rt1"
    "\<forall>nid \<in> {link_A l, link_B l}. flag l nid rt1 \<longleftrightarrow> flag l nid rt \<or>
           (positive f \<and> (\<exists>sid i. asks h l nid sid i \<and> answers sid i f))"
    using step(3) [OF Cons.prems(2)] by blast
  have run: "run_frames (f # frames) h = run_frames frames ?h" by (simp add: run_frames_def f)
  have fs: "\<forall>f \<in> set frames. env_Type (fst (snd f)) \<noteq> TypeRegister" using Cons.prems(1) by simp
  note ih = Cons.IH [OF fs rt1(1)]
  then obtain rt2 where rt2: "hb_links (run_frames frames ?h) (link_ID l) = Some rt2"
    "\<forall>nid \<in> {link_A l, link_B l}. flag l nid rt2 \<longleftrightarrow> flag l nid rt1 \<or>
        (\<exists>sid i. asks ?h l nid sid i \<and> confirmed frames sid i)" by blast
  have "flag l nid rt2 \<longleftrightarrow> flag l nid rt \<or> (\<exists>sid i. asks h l nid sid i \<and> confirmed (f # frames) sid i)"
    if "nid \<in> {link_A l, link_B l}" for nid
    using rt1(2) rt2(2) that unfolding step(1) confirmed_Cons by metis
  then show ?case using ih rt2(1) step(2) unfolding run by blast
qed


text \<open>Both ends are connected and registered, and each can be told of the other.\<close>

definition ready :: "hub \<Rightarrow> link \<Rightarrow> nat \<Rightarrow> nat \<Rightarrow> bool" where
  "ready h l sa sb \<longleftrightarrow> link_A l \<noteq> link_B l
     \<and> hb_sessions h (link_A l) = Some sa \<and> hb_sessions h (link_B l) = Some sb
     \<and> (\<exists>s. hb_heap h sa = Some s \<and> node_ID (ses_node s) = link_A l)
     \<and> (\<exists>s. hb_heap h sb = Some s \<and> node_ID (ses_node s) = link_B l)
     \<and> (\<forall>nid \<in> {link_A l, link_B l}. registered_on nid h \<and> hb_lastWG h nid \<noteq> None \<and> is_ok (GetNode nid (hb_db h)))"

lemma spec_ok: "is_ok (peerSpecLocked l p w h) \<longleftrightarrow> is_ok (GetNode p (hb_db h))"
  by (simp add: peerSpecLocked_def Let_def split: sum.split)

lemma ready_distinct: "ready h l sa sb \<Longrightarrow> sa \<noteq> sb"
  by (auto simp: ready_def)

text \<open>What a push asks, what it resets, and that it can be repeated.\<close>

lemma push_state:
  fixes ty :: string
  assumes "ready h l sa sb"
  defines "h' \<equiv> pushPairLocked l ty (ensure_link (link_ID l) h)"
    and "id1 \<equiv> hb_ulid h (hb_next h)" and "id2 \<equiv> hb_ulid h (Suc (hb_next h))"
  shows "asks h' l nid sid i \<longleftrightarrow> (if (sid, i) = (sa, id1) then nid = link_A l
      else if (sid, i) = (sb, id2) then nid \<noteq> link_A l else asks h l nid sid i)"
    and "\<exists>rt. hb_links h' (link_ID l) = Some rt \<and> \<not> rt_ackA rt \<and> \<not> rt_ackB rt
      \<and> rt_lastHS rt = fst (LinkRuntime (link_ID l) h)"
    and "ready h' l sa sb" and "hb_db h' = hb_db h" and "hb_ulid h' = hb_ulid h" and "hb_next h' = hb_next h + 2"
proof -
  let ?h1 = "upd_link (link_ID l) (\<lambda>rt. rt\<lparr>rt_ackA := False, rt_ackB := False\<rparr>) (ensure_link (link_ID l) h)"
  obtain sA sB wa wb where s: "hb_heap h sa = Some sA" "node_ID (ses_node sA) = link_A l"
      "hb_heap h sb = Some sB" "node_ID (ses_node sB) = link_B l"
    and w: "hb_lastWG h (link_A l) = Some wa" "hb_lastWG h (link_B l) = Some wb"
    and nodes: "is_ok (GetNode (link_A l) (hb_db h))" "is_ok (GetNode (link_B l) (hb_db h))"
    and reg: "registered_on (link_A l) h" "registered_on (link_B l) h" and AB: "link_A l \<noteq> link_B l"
    and ses: "hb_sessions h (link_A l) = Some sa" "hb_sessions h (link_B l) = Some sb"
    using assms(1) by (auto simp: ready_def)
  have ne: "sa \<noteq> sb" by (rule ready_distinct [OF assms(1)])
  let ?h2 = "sendPeerSpecLocked sa l ty (link_B l) wb ?h1"
  let ?h3 = "sendPeerSpecLocked sb l ty (link_A l) wa ?h2"
  have h': "h' = ?h3"
    using reg ses w by (simp add: h'_def pushPairLocked_def hub_frame Let_def)
  obtain spb where spb: "peerSpecLocked l (link_B l) wb ?h1 = Ok spb"
    using spec_ok [of l "link_B l" wb ?h1] nodes(2) by (cases "peerSpecLocked l (link_B l) wb ?h1") (auto simp: hub_frame)
  obtain spa where spa: "peerSpecLocked l (link_A l) wa ?h2 = Ok spa"
    using spec_ok [of l "link_A l" wa ?h2] nodes(1) by (cases "peerSpecLocked l (link_A l) wa ?h2") (auto simp: hub_frame)
  have heap1: "hb_heap ?h1 = hb_heap h" and u1: "hb_ulid ?h1 = hb_ulid h" "hb_next ?h1 = hb_next h" by (simp_all add: hub_frame)
  have sA1: "hb_heap ?h1 sa = Some sA" and sB1: "hb_heap ?h1 sb = Some sB" using s heap1 by simp_all
  obtain s1 where s1: "hb_heap ?h2 sa = Some s1" "ses_node s1 = ses_node sA"
      "ses_pendingAcks s1 = (ses_pendingAcks sA)(id1 \<mapsto> \<lparr>ar_linkID = link_ID l, ar_side = ''a''\<rparr>)"
    using sendSpec_pending(1) [OF spb sA1, of ty] s(2) u1 by (auto simp: id1_def peerSide_def)
  have o2: "sid \<noteq> sa \<Longrightarrow> hb_heap ?h2 sid = hb_heap h sid" for sid
    using sendSpec_pending(2) [OF spb sA1, of sid ty] heap1 by simp
  have u2: "hb_ulid ?h2 = hb_ulid h" "hb_next ?h2 = Suc (hb_next h)"
    using sendSpec_pending(3) [OF spb sA1, of ty] u1 by (simp_all add: hub_frame)
  have sB2: "hb_heap ?h2 sb = Some sB" using o2 [of sb] ne s(3) by simp
  obtain s2 where s2: "hb_heap ?h3 sb = Some s2" "ses_node s2 = ses_node sB"
      "ses_pendingAcks s2 = (ses_pendingAcks sB)(id2 \<mapsto> \<lparr>ar_linkID = link_ID l, ar_side = ''b''\<rparr>)"
    using sendSpec_pending(1) [OF spa sB2, of ty] s(4) u2 AB by (auto simp: id2_def peerSide_def)
  have o3: "sid \<noteq> sb \<Longrightarrow> hb_heap ?h3 sid = hb_heap ?h2 sid" for sid
    using sendSpec_pending(2) [OF spa sB2, of sid ty] .
  have s1': "hb_heap ?h3 sa = Some s1" using o3 [OF ne] s1(1) by simp
  have others: "sid \<noteq> sa \<Longrightarrow> sid \<noteq> sb \<Longrightarrow> hb_heap ?h3 sid = hb_heap h sid" for sid using o2 o3 by simp
  consider "sid = sa" | "sid = sb" | "sid \<noteq> sa" "sid \<noteq> sb" by blast
  then show "asks h' l nid sid i \<longleftrightarrow> (if (sid, i) = (sa, id1) then nid = link_A l
      else if (sid, i) = (sb, id2) then nid \<noteq> link_A l else asks h l nid sid i)"
    by cases (use ne s1' s1(3) s2(1,3) s(1,3) others in \<open>auto simp: asks_def h'\<close>)
  show "\<exists>rt. hb_links h' (link_ID l) = Some rt \<and> \<not> rt_ackA rt \<and> \<not> rt_ackB rt
      \<and> rt_lastHS rt = fst (LinkRuntime (link_ID l) h)"
    by (cases "hb_links h (link_ID l)") (auto simp: h' hub_frame links_upd links_ensure LinkRuntime_def zero_rt_def)
  show "ready h' l sa sb"
    using AB ses reg w nodes s(2,4) s1' s1(2) s2(1,2) by (auto simp: ready_def h' hub_frame)
  show "hb_db h' = hb_db h" "hb_ulid h' = hb_ulid h" by (simp_all add: h' hub_frame)
  show "hb_next h' = hb_next h + 2"
    using sendSpec_pending(3) [OF spa sB2, of ty] u2 by (simp add: h')
qed

lemma status_after_frames:
  assumes "\<forall>f \<in> set frames. env_Type (fst (snd f)) \<noteq> TypeRegister"
    and "hb_links h (link_ID l) = Some rt" and "\<not> rt_ackA rt" and "\<not> rt_ackB rt" and "link_A l \<noteq> link_B l"
    and "registered_on (link_A l) h" and "registered_on (link_B l) h"
  shows "LinkStatus l now (run_frames frames h) =
     (if \<forall>nid \<in> {link_A l, link_B l}. \<exists>sid i. asks h l nid sid i \<and> confirmed frames sid i
      then (if now - fst (LinkRuntime (link_ID l) (run_frames frames h)) < 180 then ''active'' else ''degraded'')
      else ''pending'')"
proof -
  note after = flags_after_frames [OF assms(1,2)]
  obtain rt' where rt': "hb_links (run_frames frames h) (link_ID l) = Some rt'"
    "\<forall>nid \<in> {link_A l, link_B l}. flag l nid rt' \<longleftrightarrow> flag l nid rt \<or> (\<exists>sid i. asks h l nid sid i \<and> confirmed frames sid i)"
    using after by blast
  have fl: "flag l (link_A l) rt' = rt_ackA rt'" "flag l (link_B l) rt' = rt_ackB rt'"
    "\<not> flag l (link_A l) rt" "\<not> flag l (link_B l) rt" using assms(3-5) by (simp_all add: flag_def)
  have reg: "registered_on (link_A l) (run_frames frames h)" "registered_on (link_B l) (run_frames frames h)"
    using after assms(6,7) by simp_all
  have acks: "rt_ackA rt' \<and> rt_ackB rt' \<longleftrightarrow> (\<forall>nid \<in> {link_A l, link_B l}. \<exists>sid i. asks h l nid sid i \<and> confirmed frames sid i)"
    using rt'(2) fl by auto
  show ?thesis
    unfolding LinkStatus_links [OF rt'(1) reg] acks by (simp add: LinkRuntime_def rt'(1))
qed

text \<open>
  C15: what makes a pushed link count as up. After a push of a link with two registered ends (\<open>pushLink\<close>
  or the one of \<open>SetLinkExit\<close>) and any sequence of frames except \<open>register\<close>, from any sessions, the
  link is \<open>pending\<close> unless for each end some push of this link that a session still holds was answered,
  and answered first, with OK; then it is \<open>active\<close> or \<open>degraded\<close> by the last handshake. The
  pushes held are the two of this push and those of the link that were open before it. When none was open,
  the link leaves \<open>pending\<close> exactly when both ends have confirmed this very push.
\<close>

theorem push_needs_both_acks:
  assumes "reachable sha (h, fl)" and "link_A l \<noteq> link_B l"
    and "hb_sessions h (link_A l) = Some sa" and "hb_sessions h (link_B l) = Some sb"
    and "registered_on (link_A l) h" and "registered_on (link_B l) h"
    and "hb_lastWG h (link_A l) = Some wa" and "hb_lastWG h (link_B l) = Some wb"
    and "is_ok (GetNode (link_A l) (hb_db h))" and "is_ok (GetNode (link_B l) (hb_db h))"
    and "\<forall>f \<in> set frames. env_Type (fst (snd f)) \<noteq> TypeRegister"
  shows "LinkStatus l now (run_frames frames (pushPairLocked l ty (ensure_link (link_ID l) h))) =
      (if \<forall>nid \<in> {link_A l, link_B l}. \<exists>sid i. asks (pushPairLocked l ty (ensure_link (link_ID l) h)) l nid sid i
            \<and> confirmed frames sid i
       then (if now - fst (LinkRuntime (link_ID l) (run_frames frames (pushPairLocked l ty (ensure_link (link_ID l) h)))) < 180
             then ''active'' else ''degraded'')
       else ''pending'')
    \<and> (\<forall>nid sid i. asks (pushPairLocked l ty (ensure_link (link_ID l) h)) l nid sid i \<longleftrightarrow>
        (if (sid, i) = (sa, hb_ulid h (hb_next h)) then nid = link_A l
         else if (sid, i) = (sb, hb_ulid h (Suc (hb_next h))) then nid \<noteq> link_A l
         else asks h l nid sid i))
    \<and> ((\<forall>nid sid i. \<not> asks h l nid sid i) \<longrightarrow>
        (LinkStatus l now (run_frames frames (pushPairLocked l ty (ensure_link (link_ID l) h))) \<noteq> ''pending'' \<longleftrightarrow>
           confirmed frames sa (hb_ulid h (hb_next h)) \<and> confirmed frames sb (hb_ulid h (Suc (hb_next h)))))"
proof -
  have "sessions_ok h" using reachable_hub_inv [OF assms(1)] by (simp add: hub_inv_def)
  then have "ready h l sa sb" using assms(2-10) by (auto simp: ready_def sessions_ok_def)
  note push = push_state [OF this, of ty] ready_distinct [OF this]
  obtain rt where rt: "hb_links (pushPairLocked l ty (ensure_link (link_ID l) h)) (link_ID l) = Some rt"
    "\<not> rt_ackA rt" "\<not> rt_ackB rt" using push(2) by blast
  note status = status_after_frames [OF assms(11) rt assms(2), of now]
  have reg: "registered_on (link_A l) (pushPairLocked l ty (ensure_link (link_ID l) h))"
    "registered_on (link_B l) (pushPairLocked l ty (ensure_link (link_ID l) h))" using push(3) by (simp_all add: ready_def)
  show ?thesis
    unfolding status [OF reg] using push(1,7) assms(2) by auto
qed


text \<open>\<open>SetLinkExit\<close> pushes the link as it is stored afterwards.\<close>

lemma SetLinkExit_push:
  assumes "ready h l sa sb" and "GetLink (link_ID l) (hb_db h) = Ok l" and "x \<in> {[], link_A l, link_B l}"
  obtains g ev where "fst (hub_SetLinkExit (link_ID l) x t h)
      = publish ev (pushPairLocked (l\<lparr>link_ExitNode := x\<rparr>) TypePeerUpdate (ensure_link (link_ID l) g))"
    and "ready g (l\<lparr>link_ExitNode := x\<rparr>) sa sb" and "GetLink (link_ID l) (hb_db g) = Ok (l\<lparr>link_ExitNode := x\<rparr>)"
    and "hb_ulid g = hb_ulid h" and "hb_next g = hb_next h" and "hb_heap g = hb_heap h"
proof -
  let ?l = "l\<lparr>link_ExitNode := x\<rparr>" and ?db = "fst (SetLinkExit (link_ID l) x (hb_db h))"
  let ?g = "h\<lparr>hb_db := ?db\<rparr>"
  have s: "SetLinkExit (link_ID l) x (hb_db h) = ((hb_db h)\<lparr>st_links :=
      upd_where (\<lambda>r. link_ID r = link_ID l) (\<lambda>r. r\<lparr>link_ExitNode := x\<rparr>) (st_links (hb_db h))\<rparr>, Ok ?l)"
    using assms(2,3) by (auto simp: SetLinkExit_def)
  have find: "find (\<lambda>r. link_ID r = link_ID l) (st_links (hb_db h)) = Some l"
    using assms(2) by (simp add: GetLink_def split: option.splits)
  have "fst (hub_SetLinkExit (link_ID l) x t h) = publish (EvLinkStatus (link_ID ?l) (LinkStatus ?l t
      (pushPairLocked ?l TypePeerUpdate (ensure_link (link_ID l) ?g)))) (pushPairLocked ?l TypePeerUpdate (ensure_link (link_ID l) ?g))"
    by (simp add: hub_SetLinkExit_def s link_event_def Let_def)
  moreover have "registered_on nid ?g = registered_on nid h" for nid by (simp add: registered_on_def live_def)
  then have "ready ?g ?l sa sb" using assms(1) by (simp add: ready_def s GetNode_def)
  moreover have "GetLink (link_ID l) (hb_db ?g) = Ok ?l"
    using find_upd_where_same [OF find, of "\<lambda>r. r\<lparr>link_ExitNode := x\<rparr>"] by (simp add: s GetLink_def)
  ultimately show thesis by (rule that) simp_all
qed

lemma asks_same: "link_ID l' = link_ID l \<Longrightarrow> link_A l' = link_A l \<Longrightarrow> hb_heap h' = hb_heap h \<Longrightarrow> asks h' l' nid sid i = asks h l nid sid i"
  by (simp add: asks_def)

lemma confirmed_good:
  assumes "sa \<noteq> sb"
  shows "confirmed [(sa, good_ack i, t), (sb, good_ack j, u)] sa i" and "confirmed [(sa, good_ack i, t), (sb, good_ack j, u)] sb j"
    and "k \<noteq> i \<Longrightarrow> \<not> confirmed [(sa, good_ack i, t), (sb, good_ack j, u)] sa k"
    and "k \<noteq> j \<Longrightarrow> \<not> confirmed [(sa, good_ack i, t), (sb, good_ack j, u)] sb k"
  using assms by (auto simp: confirmed_def answers_def positive_def) (simp_all add: good_ack_def)

text \<open>
  Acknowledgements of an earlier push count for a later one. The exit node of a link is set twice, both
  ends confirm the first push only, and the link counts as up although neither end has confirmed the second.
\<close>

lemma stale_acks_confirm:
  fixes t u v :: int
  assumes "ready h l sa sb" and "GetLink (link_ID l) (hb_db h) = Ok l" and "inj (hb_ulid h)"
    and "x \<in> {[], link_A l, link_B l}" and "y \<in> {[], link_A l, link_B l}"
  defines "h2 \<equiv> fst (hub_SetLinkExit (link_ID l) y u (fst (hub_SetLinkExit (link_ID l) x t h)))"
    and "frames \<equiv> [(sa, good_ack (hb_ulid h (hb_next h)), v), (sb, good_ack (hb_ulid h (Suc (hb_next h))), v)]"
  shows "LinkStatus (l\<lparr>link_ExitNode := y\<rparr>) now (run_frames frames h2) \<noteq> ''pending''"
    and "asks h2 l (link_A l) sa (hb_ulid h (hb_next h + 2)) \<and> \<not> confirmed frames sa (hb_ulid h (hb_next h + 2))"
    and "asks h2 l (link_B l) sb (hb_ulid h (hb_next h + 3)) \<and> \<not> confirmed frames sb (hb_ulid h (hb_next h + 3))"
proof -
  let ?lx = "l\<lparr>link_ExitNode := x\<rparr>" and ?ly = "l\<lparr>link_ExitNode := y\<rparr>"
  obtain g ev where g: "fst (hub_SetLinkExit (link_ID l) x t h)
      = publish ev (pushPairLocked ?lx TypePeerUpdate (ensure_link (link_ID l) g))" (is "?h1 = publish ev ?p1")
    "ready g ?lx sa sb" "GetLink (link_ID l) (hb_db g) = Ok ?lx" "hb_ulid g = hb_ulid h" "hb_next g = hb_next h"
    by (rule SetLinkExit_push [OF assms(1,2,4), of t]) blast
  note p1 = push_state [OF g(2), of TypePeerUpdate, simplified]
  have r1: "ready ?h1 ?lx sa sb" "GetLink (link_ID ?lx) (hb_db ?h1) = Ok ?lx"
    "hb_ulid ?h1 = hb_ulid h" "hb_next ?h1 = hb_next h + 2"
    using p1(3-6) g(3-5) by (simp_all add: g(1) ready_def hub_frame) (simp_all add: publish_def)
  have y: "y \<in> {[], link_A ?lx, link_B ?lx}" using assms(5) by simp
  obtain g' ev' where g': "h2 = publish ev' (pushPairLocked ?ly TypePeerUpdate (ensure_link (link_ID l) g'))" (is "h2 = publish ev' ?p2")
    "ready g' ?ly sa sb" "hb_ulid g' = hb_ulid h" "hb_next g' = hb_next h + 2" "hb_heap g' = hb_heap ?h1"
    by (rule SetLinkExit_push [OF r1(1,2) y, of u]) (simp add: h2_def r1(3,4))
  note p2 = push_state [OF g'(2), of TypePeerUpdate, simplified]
  have asks2: "asks h2 l nid sid i = asks ?p2 ?ly nid sid i" for nid sid i
    by (rule asks_same) (simp_all add: g'(1) hub_frame)
  have asks1: "asks g' ?ly nid sid i = asks ?p1 ?lx nid sid i" for nid sid i
    by (rule asks_same) (simp_all add: g'(5) g(1) hub_frame)
  have AB: "link_A l \<noteq> link_B l" and ne: "sa \<noteq> sb" using assms(1) ready_distinct by (auto simp: ready_def)
  have id: "asks h2 l (link_A l) sa (hb_ulid h (hb_next h))" "asks h2 l (link_B l) sb (hb_ulid h (Suc (hb_next h)))"
    using ne AB by (simp_all add: asks2 p2(1) asks1 p1(1) g(4,5) eq_sym_conv [of "link_B l"])
  have fresh: "hb_ulid h (hb_next h + 2) \<noteq> hb_ulid h (hb_next h)" "hb_ulid h (hb_next h + 3) \<noteq> hb_ulid h (Suc (hb_next h))"
    using assms(3) by (simp_all add: inj_eq)
  show "asks h2 l (link_A l) sa (hb_ulid h (hb_next h + 2)) \<and> \<not> confirmed frames sa (hb_ulid h (hb_next h + 2))"
    using confirmed_good(3) [OF ne fresh(1)] by (simp add: asks2 p2(1) g'(3,4) frames_def)
  show "asks h2 l (link_B l) sb (hb_ulid h (hb_next h + 3)) \<and> \<not> confirmed frames sb (hb_ulid h (hb_next h + 3))"
    using confirmed_good(4) [OF ne fresh(2)] ne AB by (simp add: asks2 p2(1) g'(3,4) frames_def numeral_3_eq_3)
  obtain rt where rt: "hb_links h2 (link_ID ?ly) = Some rt" "\<not> rt_ackA rt" "\<not> rt_ackB rt"
    using p2(2) by (auto simp: g'(1) hub_frame)
  have reg: "registered_on (link_A ?ly) h2" "registered_on (link_B ?ly) h2"
    using p2(3) by (simp_all add: ready_def g'(1) hub_frame)
  have fs: "\<forall>f \<in> set frames. env_Type (fst (snd f)) \<noteq> TypeRegister"
    by (simp add: frames_def good_ack_def NewEnvelope_def type_defs)
  have "asks h2 ?ly nid sid i = asks h2 l nid sid i" for nid sid i by (rule asks_same) simp_all
  moreover have "confirmed frames sa (hb_ulid h (hb_next h))" "confirmed frames sb (hb_ulid h (Suc (hb_next h)))"
    unfolding frames_def by (rule confirmed_good [OF ne])+
  ultimately have "\<forall>nid \<in> {link_A ?ly, link_B ?ly}. \<exists>sid i. asks h2 ?ly nid sid i \<and> confirmed frames sid i"
    using id by auto
  moreover have "link_A ?ly \<noteq> link_B ?ly" using AB by simp
  ultimately show "LinkStatus ?ly now (run_frames frames h2) \<noteq> ''pending''"
    using status_after_frames [OF fs rt _ reg] by simp
qed

lemma registered_upd_mono:
  "(\<And>s. ses_registered s \<Longrightarrow> ses_registered (f s)) \<Longrightarrow> registered_on nid h
     \<Longrightarrow> registered_on nid (upd_session sid f h)"
  by (auto simp: registered_on_def live_upd_session split: option.splits)

lemma registered_stays:
  assumes "registered_on nid h"
  shows "registered_on nid (register_rest sid s d links eid now h)"
proof -
  have "registered_on n (touch me now h') = registered_on n h'" for n me h'
    by (simp add: registered_on_def live_def touch_def)
  then show ?thesis using assms
    by (simp add: register_rest_def register_locked_def register_loop_fold Let_def hub_frame)
      (rule registered_upd_mono, simp_all add: registered_on_def live_def)
qed

definition demo_AB :: hub where
  "demo_AB = fst (session_frame 0 (demo_register ''kA'') 22 demo_B)"

lemma demo_AB_eq: "demo_AB = register_rest 0 (new_session (demo_node ''A'' ''10.0.0.2'') ''203.0.113.1'' 20)
    (demo_data ''kA'') (LinksOfNode ''A'' (hb_db demo_B)) (env_ID (demo_register ''kA'')) 22 demo_B"
  by (simp add: demo_AB_def session_frame_def demo_register_data handleRegister_def demo_B_heap)
    (simp add: new_session_def demo_node_def)

lemma demo_AB_reachable: "reachable sha (demo_AB, {})"
  unfolding demo_AB_def
  by (rule reachable.step [OF demo_B_reachable world_step.frame]) (simp add: demo_B_heap)

lemma demo_AB_sels:
  "hb_sessions demo_AB = [''A'' \<mapsto> 0, ''B'' \<mapsto> 1]"
  "registered_on ''A'' demo_AB" "registered_on ''B'' demo_AB"
  "\<exists>w. hb_lastWG demo_AB ''A'' = Some w" "\<exists>w. hb_lastWG demo_AB ''B'' = Some w"
  "\<exists>n. GetNode ''A'' (hb_db demo_AB) = Ok n" "\<exists>n. GetNode ''B'' (hb_db demo_AB) = Ok n"
proof -
  show "registered_on ''A'' demo_AB" unfolding demo_AB_eq
    by (rule register_rest_registers) (simp_all add: demo_B_sels demo_B_heap)
  show "registered_on ''B'' demo_AB" unfolding demo_AB_eq
    by (rule registered_stays) (simp add: demo_B_sels)
qed (simp_all add: demo_AB_eq hub_frame demo_B_sels lastWG_register new_session_def demo_node_def
    TouchNode_def demo_store_def empty_store_def GetNode_def)

theorem push_needs_both_acks_witness:
  "LinkStatus demo_link 30 (pushLink demo_link demo_AB) = ''pending''
   \<and> LinkStatus demo_link 30 (run_frames [(0, good_ack (hb_ulid demo_AB (hb_next demo_AB)), 30),
       (1, good_ack (hb_ulid demo_AB (Suc (hb_next demo_AB))), 30)] (pushLink demo_link demo_AB)) \<noteq> ''pending''"
proof -
  obtain wa wb where w: "hb_lastWG demo_AB ''A'' = Some wa" "hb_lastWG demo_AB ''B'' = Some wb"
    using demo_AB_sels by blast
  have nodes: "is_ok (GetNode ''A'' (hb_db demo_AB))" "is_ok (GetNode ''B'' (hb_db demo_AB))" using demo_AB_sels by auto
  have l: "link_A demo_link = ''A''" "link_B demo_link = ''B''" by (simp_all add: demo_link_def)
  let ?fs = "[(0, good_ack (hb_ulid demo_AB (hb_next demo_AB)), 30), (1, good_ack (hb_ulid demo_AB (Suc (hb_next demo_AB))), 30)]"
  have fs: "\<forall>f \<in> set ?fs. env_Type (fst (snd f)) \<noteq> TypeRegister"
    by (simp add: good_ack_def NewEnvelope_def type_defs)
  note at = push_needs_both_acks [OF demo_AB_reachable, of demo_link 0 1 wa wb, unfolded l, where ty = TypePeerAdd and now = 30,
      OF _ _ _ _ _ w nodes]
  have "LinkStatus demo_link 30 (run_frames [] (pushLink demo_link demo_AB)) = ''pending''"
    using at [of "[]"] by (simp add: demo_AB_sels pushLink_def confirmed_def) blast
  moreover have "confirmed ?fs 0 (hb_ulid demo_AB (hb_next demo_AB))" "confirmed ?fs 1 (hb_ulid demo_AB (Suc (hb_next demo_AB)))"
    by (rule confirmed_good; simp)+
  then have "LinkStatus demo_link 30 (run_frames ?fs (pushLink demo_link demo_AB)) \<noteq> ''pending''"
    using at [OF _ _ _ _ _ fs] by (auto simp: demo_AB_sels pushLink_def)
  ultimately show ?thesis by (simp add: run_frames_def)
qed

text \<open>
  An acknowledgement can only confirm what its own session was asked. If it changes the
  run-time state of a link then the session holds a pending push with that envelope id for that
  link; delivered a second time, it changes nothing.
\<close>

theorem ack_only_what_was_asked:
  "(hb_links (handleAck sid env t h) lid = hb_links h lid
     \<or> (\<exists>s ref. hb_heap h sid = Some s \<and> ses_pendingAcks s (env_ID (env :: envelope)) = Some ref
          \<and> ar_linkID ref = lid))
   \<and> hb_links (handleAck sid env t' (handleAck sid env t h)) = hb_links (handleAck sid env t h)"
proof
  show "hb_links (handleAck sid env t h) lid = hb_links h lid
     \<or> (\<exists>s ref. hb_heap h sid = Some s \<and> ses_pendingAcks s (env_ID env) = Some ref \<and> ar_linkID ref = lid)"
    by (auto simp: handleAck_def Let_def hub_frame links_upd split: option.split sum.split)
  show "hb_links (handleAck sid env t' (handleAck sid env t h)) = hb_links (handleAck sid env t h)"
  proof (cases "hb_heap h sid = None \<or> dec_ack (env_Data env) = None")
    case True
    then have "handleAck sid env t h = h" for t by (auto simp: handleAck_def split: option.split)
    then show ?thesis by simp
  next
    case False
    then obtain s d where "hb_heap h sid = Some s" "dec_ack (env_Data env) = Some d" by auto
    then have "\<exists>s'. hb_heap (handleAck sid env t h) sid = Some s' \<and> ses_pendingAcks s' (env_ID env) = None"
      by (auto simp: handleAck_def Let_def hub_frame heap_upd_session split: option.split sum.split)
    then show ?thesis
      by (auto simp: handleAck_def [of sid env t'] Let_def hub_frame split: option.split)
  qed
qed

section \<open>Garbage collection\<close>

definition collectable :: "int \<Rightarrow> hub \<Rightarrow> node \<Rightarrow> bool" where
  "collectable now h n \<longleftrightarrow> hb_sessions h (node_ID n) = None \<and> node_LastSeen n \<noteq> 0
     \<and> now - node_LastSeen n \<ge> cfg_PeerGCAfterS (hb_cfg h)"

lemma gc_node_frame [hub_frame]:
  "hb_db (gc_node now n h) = hb_db h" "hb_sessions (gc_node now n h) = hb_sessions h"
  "hb_cfg (gc_node now n h) = hb_cfg h" "hb_lastWG (gc_node now n h) = hb_lastWG h"
proof -
  have cfg: "hb_cfg (removeSideLocked l d p h) = hb_cfg h" for l d p h
    by (simp add: removeSideLocked_def NewULID_def hub_frame split: option.split)
  have "hb_db (fold (\<lambda>l. removeSideLocked l (Other l nid) nid) ls h) = hb_db h"
    "hb_sessions (fold (\<lambda>l. removeSideLocked l (Other l nid) nid) ls h) = hb_sessions h"
    "hb_cfg (fold (\<lambda>l. removeSideLocked l (Other l nid) nid) ls h) = hb_cfg h"
    "hb_lastWG (fold (\<lambda>l. removeSideLocked l (Other l nid) nid) ls h) = hb_lastWG h" for nid ls
    by (rule frame_fold, simp add: hub_frame cfg)+
  then show "hb_db (gc_node now n h) = hb_db h" "hb_sessions (gc_node now n h) = hb_sessions h"
    "hb_cfg (gc_node now n h) = hb_cfg h" "hb_lastWG (gc_node now n h) = hb_lastWG h"
    by (simp_all add: gc_node_def Let_def)
qed

lemma gc_node_done:
  "hb_gcDone (gc_node now n h) = (if collectable now h n then insert (node_ID n) (hb_gcDone h) else hb_gcDone h)"
proof -
  have "hb_gcDone (fold (\<lambda>l. removeSideLocked l (Other l nid) nid) ls h) = hb_gcDone h" for nid ls
    by (rule frame_fold) (simp add: hub_frame)
  then show ?thesis by (auto simp: gc_node_def Let_def collectable_def)
qed

lemma gc_node_idle: "\<not> collectable now h n \<or> node_ID n \<in> hb_gcDone h \<Longrightarrow> gc_node now n h = h"
  by (auto simp: gc_node_def Let_def collectable_def)

lemma collectable_gc [simp]: "collectable now (gc_node now' n' h) n = collectable now h n"
  by (simp add: collectable_def hub_frame)

lemma gc_fold_done:
  "hb_gcDone (fold (gc_node now) ns h) = hb_gcDone h \<union> node_ID ` {n \<in> set ns. collectable now h n}"
  by (induction ns arbitrary: h) (auto simp: gc_node_done)

lemma gc_fold_idle:
  "\<forall>n \<in> set ns. \<not> collectable now h n \<or> node_ID n \<in> hb_gcDone h \<Longrightarrow> fold (gc_node now) ns h = h"
  by (induction ns) (simp_all add: gc_node_idle)

text \<open>
  \<open>gcOfflinePeers\<close> marks exactly the live rows that are offline, have been seen and not for
  \<open>peer_gc_after\<close>; where there is none it does nothing, and run again at the same time it does
  nothing: peers are removed once per outage.
\<close>

theorem gc_exactly_once:
  "hb_gcDone (gcOfflinePeers now h)
     = hb_gcDone h \<union> node_ID ` {n \<in> set (ListNodes (hb_db h)). collectable now h n}
   \<and> gcOfflinePeers now (gcOfflinePeers now h) = gcOfflinePeers now h"
proof
  let ?ns = "ListNodes (hb_db h)" and ?h = "gcOfflinePeers now h"
  show gone: "hb_gcDone ?h = hb_gcDone h \<union> node_ID ` {n \<in> set ?ns. collectable now h n}"
    unfolding gcOfflinePeers_def by (rule gc_fold_done)
  have "collectable now (fold (gc_node now) ns h) n = collectable now h n" for ns n
    by (induction ns arbitrary: h) simp_all
  then have "\<forall>n \<in> set ?ns. \<not> collectable now ?h n \<or> node_ID n \<in> hb_gcDone ?h"
    using gone by (auto simp: gcOfflinePeers_def)
  then have "fold (gc_node now) ?ns ?h = ?h" by (rule gc_fold_idle)
  then show "gcOfflinePeers now ?h = ?h"
    by (simp add: gcOfflinePeers_def [of now ?h] hb_db_gc)
qed

lemma told_gc_node [told_intros]: "told sid typ data h \<Longrightarrow> told sid typ data (gc_node now n h)"
  by (auto simp: gc_node_def Let_def intro!: told_frame told_fold told_removeSide)

lemma heap_gc_node [hub_frame]: "hb_heap (gc_node now n h) sid = None \<longleftrightarrow> hb_heap h sid = None"
proof -
  have "hb_heap (fold (\<lambda>l. removeSideLocked l (Other l nid) nid) ls h) sid = None
      \<longleftrightarrow> hb_heap h sid = None" for nid ls
    by (induction ls arbitrary: h) (simp_all add: hub_frame)
  then show ?thesis by (simp add: gc_node_def Let_def)
qed

lemma told_gc_node_new:
  assumes "collectable now h n" and "node_ID n \<notin> hb_gcDone h" and "l \<in> set (LinksOfNode (node_ID n) (hb_db h))"
    and "hb_sessions h (Other l (node_ID n)) = Some sid" and "hb_heap h sid \<noteq> None"
    and "hb_lastWG h (node_ID n) = Some w"
  shows "told sid TypePeerRemove (removal l w) (gc_node now n h)"
proof -
  have "told sid TypePeerRemove (removal l w)
      (fold (\<lambda>l. removeSideLocked l (Other l (node_ID n)) (node_ID n)) (LinksOfNode (node_ID n) (hb_db h)) h)"
  proof (rule told_removals [of "\<lambda>l h. h", OF _ assms(3-6)])
    fix h' :: hub
    show "\<exists>rts. h' = h'\<lparr>hb_links := rts\<rparr>" by (rule exI [of _ "hb_links h'"]) simp
  qed
  then show ?thesis using assms(1,2) by (simp add: gc_node_def collectable_def Let_def told_frame)
qed

lemma told_gc_fold:
  assumes "n \<in> set ns" and "collectable now h n" and "node_ID n \<notin> hb_gcDone h" and "distinct (map node_ID ns)"
    and "l \<in> set (LinksOfNode (node_ID n) (hb_db h))"
    and "hb_sessions h (Other l (node_ID n)) = Some sid" and "hb_heap h sid \<noteq> None"
    and "hb_lastWG h (node_ID n) = Some w"
  shows "told sid TypePeerRemove (removal l w) (fold (gc_node now) ns h)"
  using assms
proof (induction ns arbitrary: h)
  case (Cons m ns)
  show ?case
  proof (cases "n = m")
    case True
    have "told sid TypePeerRemove (removal l w) (gc_node now m h)"
      using told_gc_node_new [of now h n l sid w] Cons.prems True by simp
    then show ?thesis by (simp add: told_fold told_gc_node)
  next
    case False
    then have "node_ID m \<noteq> node_ID n" using Cons.prems(1,4) by (auto simp: image_iff)
    then have "told sid TypePeerRemove (removal l w) (fold (gc_node now) ns (gc_node now m h))"
      by (intro Cons.IH) (use Cons.prems False in \<open>auto simp: hub_frame gc_node_done\<close>)
    then show ?thesis by simp
  qed
qed simp

lemma ListNodes_distinct: "store_wf db \<Longrightarrow> distinct (map node_ID (ListNodes db))"
  by (simp add: store_wf_def ListNodes_def distinct_map inj_on_def)

text \<open>
  Garbage collection withdraws the tunnel. When a node is collected, the online end of each of
  its links is told to remove the peer with the key the node last registered (or its session is
  torn down).
\<close>

theorem gc_withdraws_peers:
  assumes "reachable sha (h, fl)" and "n \<in> set (ListNodes (hb_db h))" and "collectable now h n"
    and "node_ID n \<notin> hb_gcDone h" and "l \<in> set (LinksOfNode (node_ID n) (hb_db h))"
    and "hb_sessions h (Other l (node_ID n)) = Some sid" and "hb_lastWG h (node_ID n) = Some w"
  shows "told sid TypePeerRemove (removal l w) (gcOfflinePeers now h)"
proof -
  have inv: "store_wf (hb_db h)" "sessions_ok h"
    using reachable_hub_inv [OF assms(1)] by (simp_all add: hub_inv_def)
  then have "hb_heap h sid \<noteq> None" using assms(6) by (fastforce simp: sessions_ok_def)
  then show ?thesis unfolding gcOfflinePeers_def
    using told_gc_fold [OF assms(2,3,4) ListNodes_distinct [OF inv(1)] assms(5,6) _ assms(7)] by blast
qed

lemma gcDone_frame [hub_frame]:
  "hb_gcDone (register_rest sid s d links eid now h) = hb_gcDone h"
  "hb_cfg (register_rest sid s d links eid now h) = hb_cfg h"
proof -
  have "hb_gcDone (register_turn me ident l h) = hb_gcDone h" for me ident l h
    by (simp add: register_turn_def Let_def sendPeerSpecLocked_def NewULID_def send_def upd_session_def
        upd_link_def ensure_link_def split: sum.split option.split)
  then have "hb_gcDone (fold (register_turn me ident) ls h) = hb_gcDone h" for me ident ls h
    by (rule frame_fold)
  moreover have "hb_cfg (fold (register_turn me ident) ls h) = hb_cfg h" for me ident ls h
    by (rule frame_fold) (simp add: hub_frame)
  ultimately show "hb_gcDone (register_rest sid s d links eid now h) = hb_gcDone h"
    and "hb_cfg (register_rest sid s d links eid now h) = hb_cfg h"
    by (simp_all add: register_rest_def register_locked_def register_loop_fold Let_def touch_def hub_frame)
qed

lemma dropSession_frame [hub_frame]:
  assumes "hb_heap h sid = Some s" and "hb_sessions h (node_ID (ses_node s)) = Some sid"
  shows "hb_sessions (dropSession sid now h) = (hb_sessions h)(node_ID (ses_node s) := None)"
    and "hb_db (dropSession sid now h) = TouchNode (node_ID (ses_node s)) now (hb_db h)"
    and "hb_lastWG (dropSession sid now h) = hb_lastWG h"
    and "hb_gcDone (dropSession sid now h) = hb_gcDone h" and "hb_cfg (dropSession sid now h) = hb_cfg h"
  using assms
  by (simp_all add: dropSession_def Let_def hub_frame touch_def)
    (simp_all add: close_session_def publish_def hub_frame)

lemma demo_AB_more:
  "hb_db demo_AB = TouchNode ''A'' 22 (TouchNode ''B'' 21 demo_store)"
  "hb_gcDone demo_AB = {}" "hb_cfg demo_AB = Defaults"
  by (simp_all add: demo_AB_eq hub_frame demo_B_sels new_session_def demo_node_def)
    (simp_all add: demo_B_eq hub_frame demo_up_def demo_boot_def NewHub_def runSession_start_def
      publish_def Let_def demo_node_def)

theorem gc_withdraws_peers_witness:
  "\<exists>w. hb_lastWG demo_AB ''A'' = Some w
     \<and> told 1 TypePeerRemove (removal demo_link w) (gcOfflinePeers 1000000 (dropSession 0 100 demo_AB))"
proof -
  let ?h = "dropSession 0 100 demo_AB" and ?n = "demo_node ''A'' ''10.0.0.2''\<lparr>node_LastSeen := 100\<rparr>"
  have reach: "reachable (\<lambda>x. x) (?h, {})" by (rule reachable.step [OF demo_AB_reachable world_step.drop])
  have A: "hb_sessions demo_AB ''A'' = Some 0" by (simp add: demo_AB_sels)
  obtain s where s: "hb_heap demo_AB 0 = Some s" "node_ID (ses_node s) = ''A''"
    using reachable_hub_inv [OF demo_AB_reachable] A unfolding hub_inv_def sessions_ok_def by blast
  have "hb_sessions demo_AB (node_ID (ses_node s)) = Some 0" by (simp add: s demo_AB_sels)
  note drop = dropSession_frame [OF s(1) this, unfolded s(2)]
  obtain w where w: "hb_lastWG demo_AB ''A'' = Some w" using demo_AB_sels by blast
  have db: "hb_db ?h = TouchNode ''A'' 100 (TouchNode ''A'' 22 (TouchNode ''B'' 21 demo_store))"
    unfolding drop(2) demo_AB_more ..
  have "?n \<in> set (ListNodes (hb_db ?h))" "demo_link \<in> set (LinksOfNode (node_ID ?n) (hb_db ?h))"
    by (simp_all add: db ListNodes_def LinksOfNode_def TouchNode_def demo_store_def empty_store_def
        demo_node_def demo_link_def touches_def upd_where_def)
  moreover have "hb_cfg ?h = Defaults" "hb_gcDone ?h = {}"
    by (simp_all add: drop demo_AB_more)
  then have "collectable 1000000 ?h ?n" "node_ID ?n \<notin> hb_gcDone ?h"
    by (simp_all add: collectable_def drop demo_AB_sels Defaults_def demo_node_def)
  moreover have "hb_sessions ?h (Other demo_link (node_ID ?n)) = Some 1"
    by (simp add: drop demo_AB_sels demo_node_def demo_link_def Other_def)
  moreover have "hb_lastWG ?h (node_ID ?n) = Some w" by (simp add: drop w demo_node_def)
  ultimately show ?thesis using gc_withdraws_peers [OF reach] w by blast
qed

end
