(* ===== verification/Races.thy ===== *)
theory Races
  imports AckProps
begin

text \<open>
  Two interleavings of sections under \<open>h.mu\<close> that the code allows and its handlers do not repair:
  a node deleted between the checks of \<open>handleConn\<close> and \<open>runSession\<close> keeps an open session, and a
  link created between the lookup of the links and the locked section of \<open>handleRegister\<close> is never
  pushed.
\<close>

section \<open>Deletion during admission\<close>

lemma boot_admit_A: "handleConn_cert ''A'' ''s-A'' demo_boot = Admitted (demo_node ''A'' ''10.0.0.2'')"
  by (simp add: handleConn_cert_def isRevoked_def demo_boot_def NewHub_def GetNode_def demo_store_def
      empty_store_def demo_node_def RevokedSerials_def)

definition demo_gone :: hub where
  "demo_gone = fst (hub_DeleteNode ''A'' 40 demo_boot)"

lemma demo_gone_sels:
  "hb_heap demo_gone = Map.empty" "hb_sessions demo_gone = Map.empty" "hb_timers demo_gone = []"
  "''s-A'' \<in> set (RevokedSerials (hb_db demo_gone))"
  by (simp_all add: demo_gone_def hub_DeleteNode_def DeleteNode_def GetNode_def demo_boot_def NewHub_def
      demo_store_def empty_store_def demo_node_def freed_ip_def Let_def forget_node_def kick_node_def
      unlink_node_def LinksOfNode_def touches_def removeSideLocked_def drop_link_def publish_def
      RevokedSerials_def Other_def)

lemma deleted_node_keeps_session:
  "\<exists>h s. reachable (\<lambda>x. x) (h, {}) \<and> hb_sessions h ''A'' = Some 0 \<and> hb_heap h 0 = Some s
     \<and> \<not> ses_closed s \<and> hb_timers h = [] \<and> ''s-A'' \<in> set (RevokedSerials (hb_db h))"
proof -
  let ?n = "demo_node ''A'' ''10.0.0.2''" and ?fl = "{Starting (demo_node ''A'' ''10.0.0.2'') ''203.0.113.1''}"
  let ?h = "runSession_start 0 ?n ''203.0.113.1'' 41 demo_gone"
  have "reachable (\<lambda>x. x) (demo_boot, ?fl)"
    using reachable.step [OF demo_boot_reachable world_step.admit [OF boot_admit_A]] .
  from reachable.step [OF this world_step.delete_node]
  have "reachable (\<lambda>x. x) (demo_gone, ?fl)" unfolding demo_gone_def .
  from reachable.step [OF this world_step.start [OF _ , of ?n "''203.0.113.1''" _ _ 0 _ 41]]
  have reach: "reachable (\<lambda>x. x) (?h, {})" by (simp add: demo_gone_sels)
  have "hb_sessions ?h ''A'' = Some 0" "hb_heap ?h 0 = Some (new_session ?n ''203.0.113.1'' 41)"
    "hb_timers ?h = []" "''s-A'' \<in> set (RevokedSerials (hb_db ?h))"
    by (simp_all add: runSession_start_def Let_def publish_def demo_gone_sels demo_node_def)
  moreover have "\<not> ses_closed (new_session ?n ''203.0.113.1'' 41)" by (simp add: new_session_def)
  ultimately show ?thesis using reach by blast
qed

section \<open>A link created during a registration\<close>

text \<open>
  The links were read (none) before the link \<open>l\<close> was created; \<open>pushLink\<close> finds its end not yet
  registered and pushes nothing, and the locked section then runs on the old list: no other session
  hears of \<open>l\<close>, and the node's own \<open>register_ack\<close> has no peer. Nothing pushes \<open>l\<close> until one end
  registers again.
\<close>

lemma link_missed:
  assumes "\<not> registered_on (link_A l) h" and "sid' \<noteq> sid"
  shows "hb_heap (register_rest sid s d [] eid now (pushLink l h)) sid' = hb_heap h sid'"
    and "snd (register_locked sid s d [] (pushLink l h)) = []"
proof -
  have "hb_heap (pushLink l h) = hb_heap h"
    using assms(1) by (simp add: pushLink_def pushPairLocked_def hub_frame Let_def split: option.split)
  then show "hb_heap (register_rest sid s d [] eid now (pushLink l h)) sid' = hb_heap h sid'"
    and "snd (register_locked sid s d [] (pushLink l h)) = []"
    using assms(2) by (simp_all add: register_rest_def register_locked_def Let_def touch_def heap_send
        heap_upd_session)
qed

end
