(* ===== verification/RateLimit.thy ===== *)
theory RateLimit
  imports Prelude
begin

text \<open>
  The two rate limiters of the hub: \<open>loginAllowed\<close> (\<open>internal/hub/api.go\<close>) and \<open>enrollAllowed\<close>
  (\<open>internal/hub/control.go\<close>). A limiter keeps, per source address, the times of the attempts it
  let through; a missing map entry is the empty list. Times are nanoseconds of the monotonic clock.
  What both promise is the interface \<open>sliding_window\<close>; its consequence is proved once.
\<close>

type_synonym tries = "string \<Rightarrow> int list"

definition Minute :: int where "Minute = 60000000000"

definition no_tries :: tries where "no_tries = (\<lambda>ip. [])"

definition loginAllowed :: "string \<Rightarrow> int \<Rightarrow> tries \<Rightarrow> tries \<times> bool" where
  "loginAllowed ip now tr =
     (let kept = filter (\<lambda>t. now - t < Minute) (tr ip) in
      if length kept \<ge> 5 then (tr(ip := kept), False) else (tr(ip := kept @ [now]), True))"

definition enrollAllowed :: "string \<Rightarrow> int \<Rightarrow> tries \<Rightarrow> tries \<times> bool" where
  "enrollAllowed ip now tr =
     (let kept = filter (\<lambda>t. now - t < Minute) (tr ip); tr1 = tr(ip := kept) in
      if length kept \<ge> 5 then (tr1, False) else (tr1(ip := kept @ [now]), True))"

section \<open>The interface\<close>

text \<open>The times at which a run of calls (address and time) lets \<open>ip\<close> through.\<close>

fun accepted :: "(string \<Rightarrow> int \<Rightarrow> 's \<Rightarrow> 's \<times> bool) \<Rightarrow> string \<Rightarrow> (string \<times> int) list \<Rightarrow> 's \<Rightarrow> int list" where
  "accepted allow ip [] s = []"
| "accepted allow ip ((j, now) # cs) s =
     (if j = ip \<and> snd (allow j now s) then [now] else []) @ accepted allow ip cs (fst (allow j now s))"

definition recent :: "int \<Rightarrow> int list \<Rightarrow> int list" where
  "recent now = filter (\<lambda>t. now - t < Minute)"

definition in_window :: "int \<Rightarrow> int \<Rightarrow> bool" where
  "in_window t x \<longleftrightarrow> t - Minute < x \<and> x \<le> t"

lemma recent_recent: "now \<le> later \<Longrightarrow> recent later (recent now ts) = recent later ts"
  unfolding recent_def by (induction ts) auto

lemma recent_append: "recent now (xs @ ys) = recent now xs @ recent now ys"
  by (simp add: recent_def)

locale sliding_window =
  fixes allow :: "string \<Rightarrow> int \<Rightarrow> 's \<Rightarrow> 's \<times> bool"
    and kept_of :: "'s \<Rightarrow> string \<Rightarrow> int list"
  assumes verdict: "snd (allow ip now s) \<longleftrightarrow> length (recent now (kept_of s ip)) < 5"
    and logged: "kept_of (fst (allow ip now s)) ip
      = recent now (kept_of s ip) @ (if snd (allow ip now s) then [now] else [])"
    and separate: "ip' \<noteq> ip \<Longrightarrow> kept_of (fst (allow ip now s)) ip' = kept_of s ip'"
begin

text \<open>
  The ghost list \<open>acc\<close> of all times let through so far agrees with the kept_of on what is recent.
\<close>

lemma window_from:
  assumes "\<And>now. prev \<le> now \<Longrightarrow> recent now acc = recent now (kept_of s ip)"
    and "\<And>x. x \<in> set acc \<Longrightarrow> x \<le> prev"
    and "\<And>t. length (filter (in_window t) acc) \<le> 5"
    and "sorted (prev # map snd cs)"
  shows "length (filter (in_window t) (acc @ accepted allow ip cs s)) \<le> 5"
  using assms
proof (induction cs arbitrary: acc s prev)
  case (Cons c cs)
  obtain j now where c: "c = (j, now)" by (cases c)
  let ?s' = "fst (allow j now s)" and ?acc' = "acc @ (if j = ip \<and> snd (allow j now s) then [now] else [])"
  have now: "prev \<le> now" "sorted (now # map snd cs)" using Cons.prems(4) c by auto
  have kept_of': "recent later ?acc' = recent later (kept_of ?s' ip)" if "now \<le> later" for later
  proof (cases "j = ip")
    case True
    have "recent later acc = recent later (recent now (kept_of s ip))"
      using Cons.prems(1) [of later] that now(1) recent_recent [OF that] by simp
    with True show ?thesis by (simp add: logged recent_append)
  next
    case False
    then have "kept_of ?s' ip = kept_of s ip" by (intro separate) simp
    then show ?thesis using Cons.prems(1) [of later] that now(1) False by simp
  qed
  have old: "x \<le> now" if "x \<in> set ?acc'" for x
    using Cons.prems(2) [of x] that now(1) by (auto split: if_splits)
  have win: "length (filter (in_window t) ?acc') \<le> 5" for t
  proof (cases "j = ip \<and> snd (allow j now s) \<and> in_window t now")
    case True
    have sub: "in_window t x \<longrightarrow> now - x < Minute" for x
      using True by (auto simp: in_window_def)
    have "length (filter (in_window t) acc) \<le> length (recent now acc)"
      unfolding recent_def using sub by (induction acc) auto
    moreover have "length (recent now acc) < 5"
      using True verdict [of ip now s] Cons.prems(1) [OF now(1)] by auto
    ultimately show ?thesis using True by simp
  next
    case False
    then show ?thesis using Cons.prems(3) [of t] by auto
  qed
  have "length (filter (in_window t) (?acc' @ accepted allow ip cs ?s')) \<le> 5"
  proof (rule Cons.IH)
    show "recent later ?acc' = recent later (kept_of ?s' ip)" if "now \<le> later" for later
      using that by (rule kept_of')
    show "x \<le> now" if "x \<in> set ?acc'" for x using that by (rule old)
    show "length (filter (in_window t) ?acc') \<le> 5" for t by (rule win)
    show "sorted (now # map snd cs)" by (rule now(2))
  qed
  then show ?case by (simp add: c)
qed simp

lemma window_bound:
  assumes "kept_of s ip = []" and "sorted (map snd cs)"
  shows "length (filter (in_window t) (accepted allow ip cs s)) \<le> 5"
proof (cases cs)
  case (Cons c cs')
  have "length (filter (in_window t) ([] @ accepted allow ip cs s)) \<le> 5"
    by (rule window_from [of "snd c"]) (use assms Cons in \<open>auto simp: recent_def\<close>)
  then show ?thesis by simp
qed simp

end

interpretation login: sliding_window loginAllowed "\<lambda>tr. tr"
  by unfold_locales (auto simp: loginAllowed_def recent_def Let_def)

interpretation enroll: sliding_window enrollAllowed "\<lambda>tr. tr"
  by unfold_locales (auto simp: enrollAllowed_def recent_def Let_def)

section \<open>Properties\<close>

text \<open>
  At most five logins per minute. However calls from all addresses interleave, in every window
  of a minute \<open>loginAllowed\<close> lets at most five attempts of one address through.
\<close>

theorem login_rate_bounded:
  assumes "sorted (map snd calls)"
  shows "length (filter (in_window t) (accepted loginAllowed ip calls no_tries)) \<le> 5"
  by (rule login.window_bound) (use assms in \<open>simp_all add: no_tries_def\<close>)

theorem login_rate_bounded_witness:
  "length (filter (in_window 7) (accepted loginAllowed ''i''
     [(''i'', 1), (''i'', 2), (''j'', 2), (''i'', 3), (''i'', 4), (''i'', 5), (''i'', 6), (''i'', 7)] no_tries)) \<le> 5"
  by (rule login_rate_bounded) simp

text \<open>
  At most five enrollment attempts per minute and address, by the same interface.
\<close>

theorem enroll_rate_bounded:
  assumes "sorted (map snd calls)"
  shows "length (filter (in_window t) (accepted enrollAllowed ip calls no_tries)) \<le> 5"
  by (rule enroll.window_bound) (use assms in \<open>simp_all add: no_tries_def\<close>)

theorem enroll_rate_bounded_witness:
  "length (filter (in_window 7) (accepted enrollAllowed ''i'' [(''i'', 1), (''i'', 2), (''j'', 2)] no_tries)) \<le> 5"
  by (rule enroll_rate_bounded) simp

end
