(* ===== verification/Base64.thy ===== *)
theory Base64
  imports Prelude
begin

text \<open>
  Go's \<open>encoding/base64\<close>, the parts the program uses: \<open>StdEncoding\<close> (padded) and \<open>RawStdEncoding\<close>
  (no padding), both over the standard alphabet. The decoders ignore carriage returns and newlines
  anywhere in the text and do not look at the unused low bits of the last digit, as the library
  documents for encodings that are not \<open>Strict\<close>. Bytes are \<open>8 word\<close>s.
\<close>

type_synonym bytes = "8 word list"

definition sextet_char :: "nat \<Rightarrow> char" where
  "sextet_char v = char_of (if v < 26 then v + 65 else if v < 52 then v + 71
     else if v < 62 then v - 4 else if v = 62 then 43 else 47)"

definition char_sextet :: "char \<Rightarrow> nat option" where
  "char_sextet c =
     (let n = (of_char c :: nat) in
      if 65 \<le> n \<and> n \<le> 90 then Some (n - 65)
      else if 97 \<le> n \<and> n \<le> 122 then Some (n - 71)
      else if 48 \<le> n \<and> n \<le> 57 then Some (n + 4)
      else if n = 43 then Some 62 else if n = 47 then Some 63 else None)"

definition is_newline :: "char \<Rightarrow> bool" where
  "is_newline c \<longleftrightarrow> (of_char c :: nat) = 10 \<or> (of_char c :: nat) = 13"

abbreviation strip_newlines :: "string \<Rightarrow> string" where
  "strip_newlines \<equiv> filter (\<lambda>c. \<not> is_newline c)"

section \<open>Groups of digits and bytes\<close>

definition byte :: "nat \<Rightarrow> 8 word" where
  "byte n = of_nat n"

fun bytes_of_sextets :: "nat list \<Rightarrow> bytes option" where
  "bytes_of_sextets [] = Some []"
| "bytes_of_sextets [a] = None"
| "bytes_of_sextets [a, b] = Some [byte (a * 4 + b div 16)]"
| "bytes_of_sextets [a, b, c] = Some [byte (a * 4 + b div 16), byte (b * 16 + c div 4)]"
| "bytes_of_sextets (a # b # c # d # rest) =
     map_option (\<lambda>bs. byte (a * 4 + b div 16) # byte (b * 16 + c div 4) # byte (c * 64 + d) # bs)
       (bytes_of_sextets rest)"

fun sextets_of_bytes :: "bytes \<Rightarrow> nat list" where
  "sextets_of_bytes [] = []"
| "sextets_of_bytes [x] = [unat x div 4, unat x mod 4 * 16]"
| "sextets_of_bytes [x, y] =
     [unat x div 4, unat x mod 4 * 16 + unat y div 16, unat y mod 16 * 4]"
| "sextets_of_bytes (x # y # z # rest) =
     unat x div 4 # (unat x mod 4 * 16 + unat y div 16) # (unat y mod 16 * 4 + unat z div 64)
       # unat z mod 64 # sextets_of_bytes rest"

fun sextets_of_chars :: "string \<Rightarrow> nat list option" where
  "sextets_of_chars [] = Some []"
| "sextets_of_chars (c # cs) =
     (case char_sextet c of
        None \<Rightarrow> None
      | Some v \<Rightarrow> map_option ((#) v) (sextets_of_chars cs))"

section \<open>The two encodings\<close>

definition RawEncode :: "bytes \<Rightarrow> string" where
  "RawEncode bs = map sextet_char (sextets_of_bytes bs)"

definition RawDecode :: "string \<Rightarrow> bytes option" where
  "RawDecode s = Option.bind (sextets_of_chars (strip_newlines s)) bytes_of_sextets"

definition pad_of :: "nat \<Rightarrow> string" where
  "pad_of n = (if n mod 3 = 1 then ''=='' else if n mod 3 = 2 then ''='' else [])"

definition StdEncode :: "bytes \<Rightarrow> string" where
  "StdEncode bs = RawEncode bs @ pad_of (length bs)"

fun std_groups :: "string \<Rightarrow> bytes option" where
  "std_groups [] = Some []"
| "std_groups (a # b # c # d # rest) =
     (if d = CHR ''='' then
        (if rest \<noteq> [] then None
         else if c = CHR ''='' then Option.bind (sextets_of_chars [a, b]) bytes_of_sextets
         else Option.bind (sextets_of_chars [a, b, c]) bytes_of_sextets)
      else
        (case Option.bind (sextets_of_chars [a, b, c, d]) bytes_of_sextets of
           None \<Rightarrow> None
         | Some bs \<Rightarrow> map_option ((@) bs) (std_groups rest)))"
| "std_groups _ = None"

definition StdDecode :: "string \<Rightarrow> bytes option" where
  "StdDecode s = std_groups (strip_newlines s)"

section \<open>Round trips\<close>

lemma sextet_facts [simp]:
  assumes "v < 64"
  shows "char_sextet (sextet_char v) = Some v" and "\<not> is_newline (sextet_char v)"
    and "sextet_char v \<noteq> CHR ''=''"
proof -
  define n where "n = (if v < 26 then v + 65 else if v < 52 then v + 71
     else if v < 62 then v - 4 else if v = 62 then 43 else 47)"
  have n: "of_char (sextet_char v) = n"
    using assms by (simp add: sextet_char_def n_def of_char_of)
  show "char_sextet (sextet_char v) = Some v" unfolding char_sextet_def n
    using assms by (auto simp: n_def Let_def)
  show "\<not> is_newline (sextet_char v)" unfolding is_newline_def n
    using assms by (auto simp: n_def)
  have "(of_char CHR ''='' :: nat) = 61" by simp
  moreover have "n \<noteq> 61" using assms by (auto simp: n_def)
  ultimately show "sextet_char v \<noteq> CHR ''=''" using n by metis
qed

lemma byte_bound: "unat (x :: 8 word) < 256"
  using unsigned_less [of x, where 'a = nat] by simp

lemma sextets_bound: "v \<in> set (sextets_of_bytes bs) \<Longrightarrow> v < 64"
proof (induction bs rule: sextets_of_bytes.induct)
  case (2 x) then show ?case using byte_bound [of x] by auto
next
  case (3 x y) then show ?case using byte_bound [of x] byte_bound [of y] by auto
next
  case (4 x y z rest)
  then show ?case using byte_bound [of x] byte_bound [of y] byte_bound [of z] by auto
qed simp

lemma sextets_of_encoded: "\<forall>v \<in> set vs. v < 64 \<Longrightarrow> sextets_of_chars (map sextet_char vs) = Some vs"
  by (induction vs) simp_all

lemma strip_encoded: "\<forall>v \<in> set vs. v < 64 \<Longrightarrow> strip_newlines (map sextet_char vs) = map sextet_char vs"
  by (induction vs) simp_all

lemma byte_high: "(x :: 8 word) = byte (unat x div 4 * 4 + unat x mod 4)"
  by (simp add: byte_def)

lemma byte_unat [simp]: "byte (unat x) = x"
  by (simp add: byte_def)

lemma group_arith:
  fixes x y z :: nat
  shows "(x mod 4 * 16 + y div 16) div 16 = x mod 4 + y div 256"
    and "(y mod 16 * 4 + z div 64) div 4 = y mod 16 + z div 256"
proof -
  have "(x mod 4 * 16 + y div 16) div 16 = x mod 4 + y div 16 div 16" by simp
  then show "(x mod 4 * 16 + y div 16) div 16 = x mod 4 + y div 256"
    by (simp add: div_mult2_eq [symmetric])
  have "(y mod 16 * 4 + z div 64) div 4 = y mod 16 + z div 64 div 4" by simp
  then show "(y mod 16 * 4 + z div 64) div 4 = y mod 16 + z div 256"
    by (simp add: div_mult2_eq [symmetric])
qed

lemma byte_mod: "byte (n * 256 + m) = byte m" "byte (m + 256 * n) = byte m"
  unfolding byte_def by (simp_all only: word_of_nat_eq_iff take_bit_eq_mod) simp_all

lemma group_bytes:
  fixes x y z :: "8 word"
  shows "byte (unat x div 4 * 4 + (unat x mod 4 * 16 + unat y div 16) div 16) = x"
    and "byte ((unat x mod 4 * 16 + unat y div 16) * 16 + (unat y mod 16 * 4 + unat z div 64) div 4) = y"
    and "byte ((unat y mod 16 * 4 + unat z div 64) * 64 + unat z mod 64) = z"
proof -
  have small: "unat y div 256 = 0" "unat z div 256 = 0" using byte_bound by simp_all
  show "byte (unat x div 4 * 4 + (unat x mod 4 * 16 + unat y div 16) div 16) = x"
    unfolding group_arith small by simp
  have "(unat x mod 4 * 16 + unat y div 16) * 16 + (unat y mod 16 + 0)
      = unat x mod 4 * 256 + (unat y div 16 * 16 + unat y mod 16)" by simp
  then show "byte ((unat x mod 4 * 16 + unat y div 16) * 16 + (unat y mod 16 * 4 + unat z div 64) div 4) = y"
    unfolding group_arith small by (simp add: byte_mod)
  have "(unat y mod 16 * 4 + unat z div 64) * 64 + unat z mod 64
      = unat y mod 16 * 256 + (unat z div 64 * 64 + unat z mod 64)" by simp
  then show "byte ((unat y mod 16 * 4 + unat z div 64) * 64 + unat z mod 64) = z"
    by (simp add: byte_mod)
qed

lemma bytes_of_sextets_of_bytes: "bytes_of_sextets (sextets_of_bytes bs) = Some bs"
proof (induction bs rule: sextets_of_bytes.induct)
  case (2 x)
  show ?case using group_bytes(1) [of x 0] by simp
next
  case (3 x y)
  show ?case using group_bytes(1) [of x y] group_bytes(2) [of x y 0] by simp
next
  case (4 x y z rest)
  then show ?case
    using group_bytes(1) [of x y] group_bytes(2) [of x y z] group_bytes(3) [of y z] by simp
qed simp

lemma RawDecode_RawEncode [simp]: "RawDecode (RawEncode bs) = Some bs"
proof -
  have "\<forall>v \<in> set (sextets_of_bytes bs). v < 64" using sextets_bound by blast
  then show ?thesis
    by (simp add: RawDecode_def RawEncode_def strip_encoded sextets_of_encoded bytes_of_sextets_of_bytes)
qed

lemma std_groups_encode: "std_groups (map sextet_char (sextets_of_bytes bs) @ pad_of (length bs)) = Some bs"
proof (induction bs rule: sextets_of_bytes.induct)
  case (2 x)
  have "\<forall>v \<in> set (sextets_of_bytes [x]). v < 64" using sextets_bound by blast
  then show ?case using bytes_of_sextets_of_bytes [of "[x]"] by (simp add: pad_of_def)
next
  case (3 x y)
  have "\<forall>v \<in> set (sextets_of_bytes [x, y]). v < 64" using sextets_bound by blast
  then show ?case using bytes_of_sextets_of_bytes [of "[x, y]"] by (simp add: pad_of_def)
next
  case (4 x y z rest)
  have "\<forall>v \<in> set (sextets_of_bytes [x, y, z]). v < 64" using sextets_bound by blast
  moreover have "pad_of (length (x # y # z # rest)) = pad_of (length rest)"
    by (simp add: pad_of_def mod_Suc)
  ultimately show ?case using 4 bytes_of_sextets_of_bytes [of "[x, y, z]"] by simp
qed (simp add: pad_of_def)

lemma StdDecode_StdEncode [simp]: "StdDecode (StdEncode bs) = Some bs"
proof -
  have "\<forall>v \<in> set (sextets_of_bytes bs). v < 64" using sextets_bound by blast
  moreover have "strip_newlines (pad_of n) = pad_of n" for n by (simp add: pad_of_def is_newline_def)
  ultimately show ?thesis
    using std_groups_encode [of bs] by (simp add: StdDecode_def StdEncode_def RawEncode_def strip_encoded)
qed

text \<open>What makes two different texts of the same bytes: a newline anywhere changes nothing.\<close>

lemma StdDecode_newline: "is_newline c \<Longrightarrow> StdDecode (s @ c # t) = StdDecode (s @ t)"
  by (simp add: StdDecode_def)

end
