(* ===== verification/Auth.thy ===== *)
theory Auth
  imports RateLimit Base64 Store Json
begin

text \<open>
  The panel's authentication in \<open>internal/hub/api.go\<close>: password hashes in PHC format, the login rate
  limit, session tokens and the cookie check in front of every other handler. \<open>argon\<close> is
  \<open>argon2.IDKey\<close> of \<open>golang.org/x/crypto\<close>: password, salt, time, memory, threads, key length; its
  result may be a panic. Times are nanoseconds.
\<close>

type_synonym argon2 = "string \<Rightarrow> bytes \<Rightarrow> nat \<Rightarrow> nat \<Rightarrow> nat \<Rightarrow> nat \<Rightarrow> bytes result"

section \<open>Parts of the strings package\<close>

fun split_on :: "char \<Rightarrow> string \<Rightarrow> string list" where
  "split_on c [] = [[]]"
| "split_on c (x # xs) =
     (case split_on c xs of
        [] \<Rightarrow> [[x]]
      | p # ps \<Rightarrow> if x = c then [] # p # ps else (x # p) # ps)"

definition cut :: "char \<Rightarrow> string \<Rightarrow> (string \<times> string) option" where
  "cut c s = (if c \<in> set s then Some (takeWhile (\<lambda>x. x \<noteq> c) s, tl (dropWhile (\<lambda>x. x \<noteq> c) s)) else None)"

definition ParseUint32 :: "string \<Rightarrow> nat option" where
  "ParseUint32 s = (case atoi_nat s of Some n \<Rightarrow> if n < 2 ^ 32 then Some n else None | None \<Rightarrow> None)"

section \<open>Password hashes\<close>

record argon_params =
  ap_m :: nat
  ap_t :: nat
  ap_p :: nat

definition set_param :: "string \<Rightarrow> nat \<Rightarrow> argon_params \<Rightarrow> argon_params" where
  "set_param k n ps =
     (if k = ''m'' then ps\<lparr>ap_m := n\<rparr> else if k = ''t'' then ps\<lparr>ap_t := n\<rparr>
      else if k = ''p'' then ps\<lparr>ap_p := n mod 256\<rparr> else ps)"

fun scan_params :: "string list \<Rightarrow> argon_params \<Rightarrow> argon_params option" where
  "scan_params [] ps = Some ps"
| "scan_params (kv # kvs) ps =
     (case cut CHR ''='' kv of
        None \<Rightarrow> None
      | Some (k, v) \<Rightarrow>
          (case ParseUint32 v of
             None \<Rightarrow> None
           | Some n \<Rightarrow> scan_params kvs (set_param k n ps)))"

definition fmtSscanParams :: "string \<Rightarrow> argon_params option" where
  "fmtSscanParams s = scan_params (split_on CHR '','' s) \<lparr>ap_m = 0, ap_t = 0, ap_p = 0\<rparr>"

definition HashPassword :: "argon2 \<Rightarrow> bytes \<Rightarrow> string \<Rightarrow> string result" where
  "HashPassword argon salt password =
     (case argon password salt 3 (64 * 1024) 2 32 of
        Inl e \<Rightarrow> Err e
      | Inr key \<Rightarrow> Ok (''$argon2id$v=19$m=65536,t=3,p=2$'' @ RawEncode salt @ ''$'' @ RawEncode key))"

definition VerifyPassword :: "argon2 \<Rightarrow> string \<Rightarrow> string \<Rightarrow> bool result" where
  "VerifyPassword argon password phc =
     (let parts = split_on CHR ''$'' phc in
      if length parts \<noteq> 6 \<or> parts ! 1 \<noteq> ''argon2id'' then Ok False
      else (case fmtSscanParams (parts ! 3) of
          None \<Rightarrow> Ok False
        | Some ps \<Rightarrow>
            (case (RawDecode (parts ! 4), RawDecode (parts ! 5)) of
               (Some salt, Some want) \<Rightarrow>
                 (case argon password salt (ap_t ps) (ap_m ps) (ap_p ps) (length want mod 2 ^ 32) of
                    Inl e \<Rightarrow> Err e
                  | Inr got \<Rightarrow> Ok (got = want))
             | _ \<Rightarrow> Ok False)))"

section \<open>Sessions of the panel\<close>

definition sessionTTL :: int where "sessionTTL = 12 * 3600 * 1000000000"

type_synonym panel_sessions = "string \<rightharpoonup> int"

definition sessionValid :: "string \<Rightarrow> int \<Rightarrow> panel_sessions \<Rightarrow> panel_sessions \<times> bool" where
  "sessionValid tok now ss =
     (case ss tok of
        None \<Rightarrow> (ss(tok := None), False)
      | Some expiry \<Rightarrow> if now > expiry then (ss(tok := None), False) else (ss, True))"

record resp =
  rs_status :: nat
  rs_body :: json
  rs_cookie :: "(string \<times> int) option"

definition writeJSON :: "json \<Rightarrow> resp" where
  "writeJSON j = \<lparr>rs_status = 200, rs_body = j, rs_cookie = None\<rparr>"

definition httpErr :: "nat \<Rightarrow> string \<Rightarrow> resp" where
  "httpErr code msg = \<lparr>rs_status = code, rs_body = JObj [(''error'', JStr msg)], rs_cookie = None\<rparr>"

definition ok_true :: resp where
  "ok_true = writeJSON (JObj [(''ok'', JBool True)])"

definition error_text :: "go_error \<Rightarrow> string" where
  "error_text e =
     (case e of ErrNotFound \<Rightarrow> ''not found'' | ErrTokenExpired \<Rightarrow> ''token expired''
      | ErrTokenUsed \<Rightarrow> ''token already used'' | ErrConfTimeout \<Rightarrow> ''agent did not answer in time''
      | ErrConstraint \<Rightarrow> ''constraint failed'' | ErrMsg m \<Rightarrow> m | Panic m \<Rightarrow> m)"

definition httpNotFoundOr500 :: "go_error \<Rightarrow> resp" where
  "httpNotFoundOr500 e =
     (if e = ErrNotFound then httpErr 404 ''not found'' else httpErr 500 (error_text e))"

text \<open>A login: \<open>body\<close> is the decoded request body, \<open>tok\<close> the fresh random token.\<close>

record panel =
  pn_sessions :: panel_sessions
  pn_tries :: tries

definition new_panel :: panel where
  "new_panel = \<lparr>pn_sessions = Map.empty, pn_tries = no_tries\<rparr>"

definition dec_login :: "json \<Rightarrow> (string \<times> string) option" where
  "dec_login = dec_struct [fld ''username'' dec_string fst (\<lambda>x r. (x, snd r)),
     fld ''password'' dec_string snd (\<lambda>x r. (fst r, x))] ([], [])"

definition check_credentials :: "argon2 \<Rightarrow> string \<Rightarrow> string \<Rightarrow> store \<Rightarrow> bool result" where
  "check_credentials argon username password db =
     (case GetAdminHash username db of
        Inl e \<Rightarrow> Ok False
      | Inr hash \<Rightarrow> VerifyPassword argon password hash)"

definition login ::
  "argon2 \<Rightarrow> string \<Rightarrow> json option \<Rightarrow> string \<Rightarrow> int \<Rightarrow> store \<Rightarrow> panel \<Rightarrow> panel \<times> resp result" where
  "login argon ip body tok now db pn =
     (let (tr, ok) = loginAllowed ip now (pn_tries pn); pn1 = pn\<lparr>pn_tries := tr\<rparr> in
      if \<not> ok then (pn1, Ok (httpErr 429 ''rate limited''))
      else (case Option.bind body dec_login of
          None \<Rightarrow> (pn1, Ok (httpErr 400 ''bad request''))
        | Some (username, password) \<Rightarrow>
            (case check_credentials argon username password db of
               Inl e \<Rightarrow> (pn1, Err e)
             | Inr False \<Rightarrow> (pn1, Ok (httpErr 401 ''invalid credentials''))
             | Inr True \<Rightarrow>
                 (pn1\<lparr>pn_sessions := (pn_sessions pn1)(tok \<mapsto> now + sessionTTL)\<rparr>,
                  Ok (ok_true\<lparr>rs_cookie := Some (tok, sessionTTL div 1000000000)\<rparr>)))))"

definition logout :: "string option \<Rightarrow> panel \<Rightarrow> panel \<times> resp" where
  "logout cookie pn =
     (case cookie of
        None \<Rightarrow> (pn, ok_true\<lparr>rs_cookie := Some ([], - 1)\<rparr>)
      | Some tok \<Rightarrow> (pn\<lparr>pn_sessions := (pn_sessions pn)(tok := None)\<rparr>, ok_true\<lparr>rs_cookie := Some ([], - 1)\<rparr>))"

text \<open>\<open>auth\<close> runs the handler \<open>nxt\<close> on its own state only behind a valid session.\<close>

definition auth :: "string option \<Rightarrow> int \<Rightarrow> ('h \<Rightarrow> 'h \<times> 'r) \<Rightarrow> (resp \<Rightarrow> 'r) \<Rightarrow> panel \<Rightarrow> 'h \<Rightarrow> panel \<times> 'h \<times> 'r" where
  "auth cookie now nxt refuse pn h =
     (case cookie of
        None \<Rightarrow> (pn, h, refuse (httpErr 401 ''not authenticated''))
      | Some tok \<Rightarrow>
          (let (ss, ok) = sessionValid tok now (pn_sessions pn); pn1 = pn\<lparr>pn_sessions := ss\<rparr> in
           if \<not> ok then (pn1, h, refuse (httpErr 401 ''not authenticated''))
           else (let (h', r) = nxt h in (pn1, h', r))))"

section \<open>The PHC text read back\<close>

lemma split_on_none: "c \<notin> set s \<Longrightarrow> split_on c s = [s]"
  by (induction s) auto

lemma split_on_not_Nil [simp]: "split_on c s \<noteq> []"
  by (induction s) (auto split: list.split)

lemma split_on_app: "c \<notin> set s \<Longrightarrow> split_on c (s @ c # t) = s # split_on c t"
  by (induction s) (auto split: list.split)

lemma RawEncode_no_dollar: "CHR ''$'' \<notin> set (RawEncode bs)"
proof
  assume "CHR ''$'' \<in> set (RawEncode bs)"
  then obtain v where "v \<in> set (sextets_of_bytes bs)" "sextet_char v = CHR ''$''"
    by (auto simp: RawEncode_def)
  with sextet_facts(1) [OF sextets_bound] have "char_sextet CHR ''$'' = Some v" by metis
  then show False by (simp add: char_sextet_def)
qed

lemma phc_split:
  "split_on CHR ''$'' (''$argon2id$v=19$m=65536,t=3,p=2$'' @ RawEncode salt @ ''$'' @ RawEncode key)
     = [[], ''argon2id'', ''v=19'', ''m=65536,t=3,p=2'', RawEncode salt, RawEncode key]"
proof -
  have "split_on CHR ''$'' (RawEncode salt @ ''$'' @ RawEncode key) = [RawEncode salt, RawEncode key]"
    using split_on_app [OF RawEncode_no_dollar] split_on_none [OF RawEncode_no_dollar] by simp
  then show ?thesis by simp
qed

lemma phc_params: "fmtSscanParams ''m=65536,t=3,p=2'' = Some \<lparr>ap_m = 65536, ap_t = 3, ap_p = 2\<rparr>"
  by (simp add: fmtSscanParams_def cut_def ParseUint32_def atoi_nat_def is_digit_def digits_val_def
      digit_val_def set_param_def)

text \<open>
  A password hash is checked against exactly what was hashed. For the hash \<open>HashPassword\<close> makes
  with any salt, \<open>VerifyPassword\<close> accepts the password, and accepts another one only if argon2id under
  that salt and the stored parameters gives the same 32 bytes.
\<close>

theorem VerifyPassword_HashPassword:
  assumes "argon pw salt 3 65536 2 32 = Ok key" and "length key = 32"
  shows "\<exists>phc. HashPassword argon salt pw = Ok phc \<and> VerifyPassword argon pw phc = Ok True
    \<and> (\<forall>pw'. VerifyPassword argon pw' phc = map_sum id (\<lambda>got. got = key) (argon pw' salt 3 65536 2 32))"
proof -
  have "VerifyPassword argon pw' (''$argon2id$v=19$m=65536,t=3,p=2$'' @ RawEncode salt @ ''$'' @ RawEncode key)
      = map_sum id (\<lambda>got. got = key) (argon pw' salt 3 65536 2 32)" for pw'
    unfolding VerifyPassword_def phc_split
    by (simp add: phc_params assms Let_def split: sum.split)
  then show ?thesis unfolding HashPassword_def using assms by simp
qed

definition demo_argon :: argon2 where
  "demo_argon pw salt t m p n = Ok (replicate n (of_nat (length pw)))"

theorem VerifyPassword_HashPassword_witness:
  "\<exists>phc. HashPassword demo_argon [1, 2] ''wrong'' = Ok phc \<and> VerifyPassword demo_argon ''secret'' phc = Ok False"
  using VerifyPassword_HashPassword [of demo_argon "''wrong''" "[1, 2]" "replicate 32 5"]
  by (auto simp: demo_argon_def)

section \<open>Who holds a session\<close>

text \<open>The calls that touch the panel's state, each with the database it ran on.\<close>

datatype panel_op =
    PLogin string "json option" string int store
  | PLogout "string option"
  | PCheck string int

fun panel_exec :: "argon2 \<Rightarrow> panel_op \<Rightarrow> panel \<Rightarrow> panel" where
  "panel_exec argon (PLogin ip body tok now db) pn = fst (login argon ip body tok now db pn)"
| "panel_exec argon (PLogout cookie) pn = fst (logout cookie pn)"
| "panel_exec argon (PCheck tok now) pn = pn\<lparr>pn_sessions := fst (sessionValid tok now (pn_sessions pn))\<rparr>"

definition good_login :: "argon2 \<Rightarrow> string \<Rightarrow> int \<Rightarrow> panel_op \<Rightarrow> bool" where
  "good_login argon tok t c \<longleftrightarrow> (\<exists>ip body db username password. c = PLogin ip body tok t db
     \<and> Option.bind body dec_login = Some (username, password)
     \<and> check_credentials argon username password db = Ok True)"

lemma login_sessions:
  assumes "pn_sessions (fst (login argon ip body tok' t db pn)) tok = Some e"
  shows "pn_sessions pn tok = Some e \<or> (e = t + sessionTTL \<and> good_login argon tok t (PLogin ip body tok' t db))"
  using assms
  by (auto simp: login_def Let_def case_prod_beta good_login_def
      split: if_splits option.splits sum.splits bool.splits)

lemma session_origin:
  assumes "pn_sessions (run_ops (panel_exec argon) ops new_panel) tok = Some e"
  shows "\<exists>pre c post t. ops = pre @ c # post \<and> good_login argon tok t c \<and> e = t + sessionTTL
    \<and> PLogout (Some tok) \<notin> set post"
  using assms
proof (induction ops rule: rev_induct)
  case Nil
  then show ?case by (simp add: new_panel_def)
next
  case (snoc c ops)
  let ?pn = "run_ops (panel_exec argon) ops new_panel"
  have now: "pn_sessions (panel_exec argon c ?pn) tok = Some e"
    using snoc.prems by (simp add: run_ops_append)
  have old: ?case if "pn_sessions ?pn tok = Some e" "c \<noteq> PLogout (Some tok)"
  proof -
    from snoc.IH [OF that(1)] obtain pre d post t where "ops = pre @ d # post" "good_login argon tok t d"
        "e = t + sessionTTL" "PLogout (Some tok) \<notin> set post" by blast
    then have "ops @ [c] = pre @ d # (post @ [c])" "PLogout (Some tok) \<notin> set (post @ [c])"
      using that(2) by auto
    then show ?thesis using \<open>good_login argon tok t d\<close> \<open>e = t + sessionTTL\<close> by blast
  qed
  show ?case
  proof (cases c)
    case (PLogin ip body tok' t db)
    with now login_sessions have "pn_sessions ?pn tok = Some e \<or> (e = t + sessionTTL \<and> good_login argon tok t c)"
      by simp
    then show ?thesis
    proof
      assume "e = t + sessionTTL \<and> good_login argon tok t c"
      then show ?thesis by (intro exI [of _ ops] exI [of _ c] exI [of _ "[]"] exI [of _ t]) simp
    qed (use old PLogin in simp)
  next
    case (PLogout cookie)
    with now have "pn_sessions ?pn tok = Some e" "c \<noteq> PLogout (Some tok)"
      by (auto simp: logout_def split: option.splits if_splits)
    then show ?thesis by (rule old)
  next
    case (PCheck tok' now')
    with now have "pn_sessions ?pn tok = Some e"
      by (auto simp: sessionValid_def split: option.splits if_splits)
    then show ?thesis using old PCheck by simp
  qed
qed

text \<open>
  C33: a session is a login. Whatever calls came before, a token is a valid session only if a login
  with credentials that matched the stored hash issued it at most twelve hours ago and it has not
  been logged out since.
\<close>

theorem session_needs_login:
  assumes "snd (sessionValid tok now (pn_sessions (run_ops (panel_exec argon) ops new_panel)))"
  shows "\<exists>pre c post t. ops = pre @ c # post \<and> good_login argon tok t c \<and> now \<le> t + sessionTTL
    \<and> PLogout (Some tok) \<notin> set post"
  using assms session_origin [of argon ops tok]
  by (fastforce simp: sessionValid_def split: option.splits if_splits)

definition demo_hash :: string where
  "demo_hash = ''$argon2id$v=19$m=65536,t=3,p=2$'' @ RawEncode [1, 2] @ ''$'' @ RawEncode (replicate 32 6)"

definition demo_admin :: store where
  "demo_admin = empty_store\<lparr>st_admins :=
     [\<lparr>adm_id = ''u'', adm_username = ''admin'', adm_pw_hash = demo_hash\<rparr>]\<rparr>"

definition demo_login :: panel_op where
  "demo_login = PLogin ''i'' (Some (JObj [(''username'', JStr ''admin''), (''password'', JStr ''secret'')]))
     ''tok'' 5 demo_admin"

theorem session_needs_login_witness:
  "\<exists>pre c post t. [demo_login] = pre @ c # post \<and> good_login demo_argon ''tok'' t c \<and> 7 \<le> t + sessionTTL"
proof -
  have "VerifyPassword demo_argon ''secret'' demo_hash = Ok True"
    unfolding VerifyPassword_def demo_hash_def phc_split
    by (simp add: phc_params Let_def demo_argon_def)
  then have "check_credentials demo_argon ''admin'' ''secret'' demo_admin = Ok True"
    by (simp add: check_credentials_def GetAdminHash_def demo_admin_def)
  then have "snd (sessionValid ''tok'' 7 (pn_sessions (run_ops (panel_exec demo_argon) [demo_login] new_panel)))"
    by (simp add: demo_login_def login_def loginAllowed_def new_panel_def no_tries_def Let_def dec_login_def
        dec_struct_def fld_def codec_simps sessionValid_def sessionTTL_def)
  from session_needs_login [OF this] show ?thesis by blast
qed

end
