(* ===== verification/Api.thy ===== *)
theory Api
  imports Auth HubHandlers GoText
begin

text \<open>
  The admin API of \<open>internal/hub/api.go\<close>: one function per handler on the hub (the router is in
  \<open>Serve\<close>). A request body is the parsed JSON (\<open>None\<close>: not JSON); path values are arguments;
  \<open>now\<close> is the Unix time. Handlers that wait for an agent are split at the wait.
\<close>

section \<open>Request bodies\<close>

definition dec_field :: "string \<Rightarrow> json \<Rightarrow> string option" where
  "dec_field name = dec_struct [fld name dec_string (\<lambda>r. r) (\<lambda>x r. x)] []"

definition dec_alias_display :: "json \<Rightarrow> (string \<times> string) option" where
  "dec_alias_display = dec_struct [fld ''alias'' dec_string fst (\<lambda>x r. (x, snd r)),
     fld ''display'' dec_string snd (\<lambda>x r. (fst r, x))] ([], [])"

definition dec_pair :: "json \<Rightarrow> (string \<times> string) option" where
  "dec_pair = dec_struct [fld ''a'' dec_string fst (\<lambda>x r. (x, snd r)),
     fld ''b'' dec_string snd (\<lambda>x r. (fst r, x))] ([], [])"

definition dec_aliases :: "json \<Rightarrow> string list option" where
  "dec_aliases = dec_struct [fld ''aliases'' (dec_list dec_string []) (\<lambda>r. r) (\<lambda>x r. x)] []"

text \<open>
  \<open>createToken\<close> ignores the decoder's error: a field of the wrong type keeps its zero value and the
  others are still read; a body that is not JSON leaves both.
\<close>

definition lenient :: "'r fields \<Rightarrow> 'r \<Rightarrow> json option \<Rightarrow> 'r" where
  "lenient fs cur body =
     (case body of
        Some (JObj kvs) \<Rightarrow>
          fold (\<lambda>kv r. case field_for fs (fst kv) of
              None \<Rightarrow> r
            | Some f \<Rightarrow> (case f r (snd kv) of None \<Rightarrow> r | Some r' \<Rightarrow> r')) kvs cur
      | _ \<Rightarrow> cur)"

definition token_body :: "json option \<Rightarrow> int \<times> string" where
  "token_body = lenient [fld ''ttl_s'' dec_int fst (\<lambda>x r. (x, snd r)),
     fld ''note'' dec_string snd (\<lambda>x r. (fst r, x))] (0, [])"

section \<open>Nodes\<close>

definition enc_sample :: "sample \<Rightarrow> json" where
  "enc_sample s = JObj [(''ts'', JInt (sa_TS s)), (''cpu'', JReal (sa_CPUPct s)), (''mem'', JReal (sa_MemPct s)),
     (''disk'', JReal (sa_DiskPct s)), (''rx_rate'', JReal (sa_RxRate s)), (''tx_rate'', JReal (sa_TxRate s)),
     (''load1'', JReal (sa_Load1 s)), (''mem_used'', enc_u64 (sa_MemUsed s)),
     (''mem_total'', enc_u64 (sa_MemTotal s))]"

definition node_fields :: "node \<Rightarrow> int \<Rightarrow> hub \<Rightarrow> (string \<times> json) list" where
  "node_fields n now h =
     (let info = Session (node_ID n) h in
      [(''id'', JStr (node_ID n)), (''name'', JStr (node_Name n)), (''overlay_ip'', JStr (node_OverlayIP n)),
       (''status'', JStr (NodeStatus (node_ID n) now h)),
       (''endpoint'', JStr (case info of None \<Rightarrow> [] | Some i \<Rightarrow> si_Endpoint i)),
       (''agent_version'', JStr (case info of None \<Rightarrow> [] | Some i \<Rightarrow> si_AgentVersion i)),
       (''last_seen'', JInt (case info of None \<Rightarrow> node_LastSeen n | Some i \<Rightarrow> si_LastHB i)),
       (''exit_capable'', JBool (case info of None \<Rightarrow> False | Some i \<Rightarrow> si_ExitCapable i))]
      @ (case Latest (node_ID n) (hb_metrics h) of
           Inr (Some s) \<Rightarrow> [(''sys_summary'', enc_sample s)]
         | _ \<Rightarrow> []))"

definition nodeJSON :: "node \<Rightarrow> int \<Rightarrow> hub \<Rightarrow> json" where
  "nodeJSON n now h = JObj (node_fields n now h)"

definition listNodes :: "int \<Rightarrow> hub \<Rightarrow> resp" where
  "listNodes now h = writeJSON (JArr (map (\<lambda>n. nodeJSON n now h) (ListNodes (hb_db h))))"

definition getNode :: "string \<Rightarrow> int \<Rightarrow> hub \<Rightarrow> resp" where
  "getNode nid now h =
     (case GetNode nid (hb_db h) of
        Inl e \<Rightarrow> httpNotFoundOr500 e
      | Inr n \<Rightarrow> writeJSON (JObj (node_fields n now h @
          [(''peers'', case Session (node_ID n) h of
              None \<Rightarrow> JNull | Some i \<Rightarrow> enc_list enc_wg_status (si_WGPeers i))])))"

text \<open>\<open>ParseDuration\<close> is \<open>time.ParseDuration\<close>, in nanoseconds.\<close>

definition parseRange :: "(string \<Rightarrow> int option) \<Rightarrow> string \<Rightarrow> int \<Rightarrow> int" where
  "parseRange ParseDuration s def =
     (if s = [] then def
      else (case ParseDuration s of
          None \<Rightarrow> def
        | Some d \<Rightarrow> if d \<le> 0 \<or> d > 24 * 3600 * 1000000000 then def else d))"

definition nodeMetrics :: "(string \<Rightarrow> int option) \<Rightarrow> string \<Rightarrow> string \<Rightarrow> int \<Rightarrow> hub \<Rightarrow> resp" where
  "nodeMetrics ParseDuration nid query now h =
     (let rangeS = duration_secs (parseRange ParseDuration query (3600 * 1000000000));
          samples = filter (\<lambda>s. sa_TS s \<noteq> 0) (Range nid (now - rangeS) now (hb_metrics h));
          column = (\<lambda>e. JArr (map e samples))
      in writeJSON (JObj [(''ts'', column (\<lambda>s. JInt (sa_TS s))), (''cpu'', column (\<lambda>s. JReal (sa_CPUPct s))),
           (''mem'', column (\<lambda>s. JReal (sa_MemPct s))), (''disk'', column (\<lambda>s. JReal (sa_DiskPct s))),
           (''rx_rate'', column (\<lambda>s. JReal (sa_RxRate s))), (''tx_rate'', column (\<lambda>s. JReal (sa_TxRate s)))]))"

definition respond_ok :: "unit result \<Rightarrow> resp" where
  "respond_ok r = (case r of Inl e \<Rightarrow> httpNotFoundOr500 e | Inr u \<Rightarrow> ok_true)"

definition patchNode :: "string \<Rightarrow> json option \<Rightarrow> hub \<Rightarrow> hub \<times> resp" where
  "patchNode nid body h =
     (case Option.bind body (dec_field ''name'') of
        None \<Rightarrow> (h, httpErr 400 ''name required'')
      | Some name \<Rightarrow>
          if TrimSpace name = [] then (h, httpErr 400 ''name required'')
          else (let (db, r) = RenameNode nid (TrimSpace name) (hb_db h) in (h\<lparr>hb_db := db\<rparr>, respond_ok r)))"

definition deleteNode :: "string \<Rightarrow> int \<Rightarrow> hub \<Rightarrow> hub \<times> resp" where
  "deleteNode nid now h = (let (h', r) = hub_DeleteNode nid now h in (h', respond_ok r))"

definition rotateWG :: "string \<Rightarrow> hub \<Rightarrow> hub \<times> resp" where
  "rotateWG nid h =
     (let (h', r) = RotateWG nid h in
      (h', case r of Inl e \<Rightarrow> httpErr 409 (error_text e) | Inr u \<Rightarrow> ok_true))"

section \<open>Requests to an agent\<close>

text \<open>
  \<open>Inl\<close>: the handler has answered; \<open>Inr\<close>: it waits on channel \<open>ch\<close> for the reply to that request id,
  and answers with \<open>agent_reply\<close>.
\<close>

definition begin_request :: "hub \<times> string result \<Rightarrow> hub \<times> (resp + string)" where
  "begin_request hr = (fst hr, case snd hr of Inl e \<Rightarrow> Inl (httpErr 409 (error_text e)) | Inr rid \<Rightarrow> Inr rid)"

definition nodeToolConf :: "nat \<Rightarrow> string \<Rightarrow> hub \<Rightarrow> hub \<times> (resp + string)" where
  "nodeToolConf ch nid h =
     (case GetNode nid (hb_db h) of
        Inl e \<Rightarrow> (h, Inl (httpNotFoundOr500 e))
      | Inr n \<Rightarrow> begin_request (RequestToolConf ch nid h))"

definition nodeSvcAction :: "nat \<Rightarrow> string \<Rightarrow> json option \<Rightarrow> hub \<Rightarrow> hub \<times> (resp + string)" where
  "nodeSvcAction ch nid body h =
     (case GetNode nid (hb_db h) of
        Inl e \<Rightarrow> (h, Inl (httpNotFoundOr500 e))
      | Inr n \<Rightarrow>
          (case Option.bind body dec_svc_action of
             None \<Rightarrow> (h, Inl (httpErr 400 ''bad sealed command''))
           | Some d \<Rightarrow>
               if sa_Nonce d = [] \<or> sa_CT d = [] then (h, Inl (httpErr 400 ''bad sealed command''))
               else begin_request (RequestSvcAction ch nid d h)))"

definition agent_reply :: "string \<Rightarrow> nat \<Rightarrow> hub \<Rightarrow> hub \<times> resp" where
  "agent_reply rid ch h =
     (let (h', r) = request_finish rid ch h in
      (h', case r of
             Inr data \<Rightarrow> writeJSON data
           | Inl e \<Rightarrow> if e = ErrConfTimeout then httpErr 504 (error_text e) else httpErr 409 (error_text e)))"

section \<open>Service names\<close>

definition getSvcNames :: "string \<Rightarrow> hub \<Rightarrow> resp" where
  "getSvcNames nid h = writeJSON (JObj (map (\<lambda>r. (sn_alias r, JStr (sn_display r)))
     (filter (\<lambda>r. sn_node_id r = nid) (st_svc_names (hb_db h)))))"

definition setSvcName :: "string \<Rightarrow> json option \<Rightarrow> hub \<Rightarrow> hub \<times> resp" where
  "setSvcName nid body h =
     (case Option.bind body dec_alias_display of
        None \<Rightarrow> (h, httpErr 400 ''alias required'')
      | Some (alias, display) \<Rightarrow>
          if alias = [] then (h, httpErr 400 ''alias required'')
          else if length display > 64 then (h, httpErr 400 ''display name too long'')
          else (h\<lparr>hb_db := SetSvcName nid alias (TrimSpace display) (hb_db h)\<rparr>, ok_true))"

definition pruneSvcNames :: "string \<Rightarrow> json option \<Rightarrow> hub \<Rightarrow> hub \<times> resp" where
  "pruneSvcNames nid body h =
     (case Option.bind body dec_aliases of
        None \<Rightarrow> (h, httpErr 400 ''bad body'')
      | Some aliases \<Rightarrow>
          (let (db, n) = PruneSvcNames nid aliases (hb_db h) in
           (h\<lparr>hb_db := db\<rparr>, writeJSON (JObj [(''removed'', JInt (int n))]))))"

section \<open>Tokens\<close>

text \<open>\<open>raw\<close> is the base32 text of the random bytes; the response maps have their keys sorted.\<close>

definition token_ttl :: "int \<Rightarrow> hub \<Rightarrow> int" where
  "token_ttl ttl_s h = (if ttl_s > 0 \<and> ttl_s \<le> 24 * 3600 then seconds ttl_s else TokenTTL (hb_cfg h))"

definition createToken :: "(string \<Rightarrow> string) \<Rightarrow> string \<Rightarrow> json option \<Rightarrow> int \<Rightarrow> hub \<Rightarrow> hub \<times> resp" where
  "createToken sha256 raw body now h =
     (let (ttl_s, note) = token_body body; (ulid, h1) = NewULID h;
          (db, r) = CreateToken sha256 raw ulid (duration_secs (token_ttl ttl_s h)) note now (hb_db h1);
          h2 = h1\<lparr>hb_db := db\<rparr>
      in (case r of
            Inl e \<Rightarrow> (h2, httpErr 500 (error_text e))
          | Inr (plaintext, tok) \<Rightarrow>
              (h2, writeJSON (JObj [(''control_addr'', JStr (cfg_PublicAddr (hb_cfg h))),
                 (''expires_at'', JInt (token_ExpiresAt tok)), (''id'', JStr (token_ID tok)),
                 (''token'', JStr plaintext)]))))"

definition listTokens :: "int \<Rightarrow> hub \<Rightarrow> resp" where
  "listTokens now h = writeJSON (JArr (map (\<lambda>t. JObj [(''expires_at'', JInt (token_ExpiresAt t)),
     (''id'', JStr (token_ID t)), (''note'', JStr (token_Note t))]) (ListTokens now (hb_db h))))"

definition deleteToken :: "string \<Rightarrow> hub \<Rightarrow> hub \<times> resp" where
  "deleteToken tid h = (let (db, r) = DeleteToken tid (hb_db h) in (h\<lparr>hb_db := db\<rparr>, respond_ok r))"

section \<open>Links\<close>

definition link_json :: "int \<Rightarrow> hub \<Rightarrow> link \<Rightarrow> json" where
  "link_json now h l =
     (let (hs, rx, tx) = LinkRuntime (link_ID l) h in
      JObj [(''a'', JStr (link_A l)), (''b'', JStr (link_B l)), (''created_at'', JInt (link_CreatedAt l)),
        (''exit_node'', JStr (link_ExitNode l)), (''id'', JStr (link_ID l)), (''last_handshake'', JInt hs),
        (''rx_rate'', JReal rx), (''status'', JStr (LinkStatus l now h)), (''tx_rate'', JReal tx)])"

definition listLinks :: "int \<Rightarrow> hub \<Rightarrow> resp" where
  "listLinks now h = writeJSON (JArr (map (link_json now h) (ListLinks (hb_db h))))"

definition setLinkExit :: "string \<Rightarrow> json option \<Rightarrow> int \<Rightarrow> hub \<Rightarrow> hub \<times> resp" where
  "setLinkExit lid body now h =
     (case Option.bind body (dec_field ''exit_node'') of
        None \<Rightarrow> (h, httpErr 400 ''bad request'')
      | Some exitNode \<Rightarrow>
          (let (h', r) = hub_SetLinkExit lid exitNode now h in
           (h', case r of
                  Inl e \<Rightarrow> if e = ErrNotFound then httpErr 404 ''not found'' else httpErr 400 (error_text e)
                | Inr l \<Rightarrow> writeJSON (JObj [(''exit_node'', JStr (link_ExitNode l)), (''id'', JStr (link_ID l)),
                    (''status'', JStr (LinkStatus l now h'))]))))"

definition known_node :: "string \<Rightarrow> hub \<Rightarrow> bool" where
  "known_node nid h = (case GetNode nid (hb_db h) of Inl e \<Rightarrow> False | Inr n \<Rightarrow> \<not> node_Revoked n)"

definition createLink :: "json option \<Rightarrow> int \<Rightarrow> hub \<Rightarrow> hub \<times> resp" where
  "createLink body now h =
     (case Option.bind body dec_pair of
        None \<Rightarrow> (h, httpErr 400 ''a and b node ids required'')
      | Some (a, b) \<Rightarrow>
          if a = [] \<or> b = [] then (h, httpErr 400 ''a and b node ids required'')
          else (case find (\<lambda>nid. \<not> known_node nid h) [a, b] of
              Some nid \<Rightarrow> (h, httpErr 400 (''unknown node '' @ nid))
            | None \<Rightarrow>
                (let (h', r) = hub_CreateLink a b now h in
                 (h', case r of
                        Inl e \<Rightarrow> httpErr 409 (error_text e)
                      | Inr l \<Rightarrow> writeJSON (JObj [(''a'', JStr (link_A l)), (''b'', JStr (link_B l)),
                          (''id'', JStr (link_ID l)), (''status'', JStr (LinkStatus l now h'))])))))"

definition deleteLink :: "string \<Rightarrow> hub \<Rightarrow> hub \<times> resp" where
  "deleteLink lid h = (let (h', r) = hub_DeleteLink lid h in (h', respond_ok r))"

end
