(* ===== verification/Serve.thy ===== *)
theory Serve
  imports Api
begin

text \<open>
  The router of \<open>ServeAPI\<close> in \<open>internal/hub/api.go\<close>: which handler a request reaches, with the
  cookie check in front of every handler but login, logout and the static files, and the web socket.
  A path is the list of its segments, the pattern \<open>GET\<close> also matches \<open>HEAD\<close>, and what matches no
  pattern goes to the file server, as in \<open>http.ServeMux\<close>.
\<close>

datatype route =
    RLogin | RLogout | RNodes | RNode string | RMetrics string | RPatchNode string | RDeleteNode string
  | RRotateWG string | RToolConf string | RSvc string | RSvcNames string | RSetSvcName string | RPruneSvcNames string
  | RCreateToken | RTokens | RDeleteToken string | RLinks | RCreateLink | RSetLinkExit string | RDeleteLink string
  | RWS | RSession | RFiles

definition is_get :: "string \<Rightarrow> bool" where
  "is_get m \<longleftrightarrow> m = ''GET'' \<or> m = ''HEAD''"

definition collection_route :: "string \<Rightarrow> string \<Rightarrow> route" where
  "collection_route m c =
     (if m = ''POST'' \<and> c = ''login'' then RLogin
      else if m = ''POST'' \<and> c = ''logout'' then RLogout
      else if is_get m \<and> c = ''nodes'' then RNodes
      else if m = ''POST'' \<and> c = ''tokens'' then RCreateToken
      else if is_get m \<and> c = ''tokens'' then RTokens
      else if is_get m \<and> c = ''links'' then RLinks
      else if m = ''POST'' \<and> c = ''links'' then RCreateLink
      else if is_get m \<and> c = ''ws'' then RWS
      else if is_get m \<and> c = ''session'' then RSession
      else RFiles)"

definition item_route :: "string \<Rightarrow> string \<Rightarrow> string \<Rightarrow> route" where
  "item_route m c iid =
     (if is_get m \<and> c = ''nodes'' then RNode iid
      else if m = ''PATCH'' \<and> c = ''nodes'' then RPatchNode iid
      else if m = ''DELETE'' \<and> c = ''nodes'' then RDeleteNode iid
      else if m = ''DELETE'' \<and> c = ''tokens'' then RDeleteToken iid
      else if m = ''PATCH'' \<and> c = ''links'' then RSetLinkExit iid
      else if m = ''DELETE'' \<and> c = ''links'' then RDeleteLink iid
      else RFiles)"

definition node_route :: "string \<Rightarrow> string \<Rightarrow> string \<Rightarrow> route" where
  "node_route m nid part =
     (if is_get m \<and> part = ''metrics'' then RMetrics nid
      else if m = ''POST'' \<and> part = ''rotate-wg'' then RRotateWG nid
      else if is_get m \<and> part = ''toolconf'' then RToolConf nid
      else if m = ''POST'' \<and> part = ''svc'' then RSvc nid
      else if is_get m \<and> part = ''svcnames'' then RSvcNames nid
      else if m = ''PATCH'' \<and> part = ''svcnames'' then RSetSvcName nid
      else RFiles)"

definition route_of :: "string \<Rightarrow> string list \<Rightarrow> route" where
  "route_of m path =
     (case path of
        [a, c] \<Rightarrow> if a = ''api'' then collection_route m c else RFiles
      | [a, c, iid] \<Rightarrow> if a = ''api'' \<and> iid \<noteq> [] then item_route m c iid else RFiles
      | [a, c, iid, part] \<Rightarrow> if a = ''api'' \<and> c = ''nodes'' \<and> iid \<noteq> [] then node_route m iid part else RFiles
      | [a, c, iid, part, sub] \<Rightarrow>
          if m = ''POST'' \<and> a = ''api'' \<and> c = ''nodes'' \<and> iid \<noteq> [] \<and> part = ''svcnames'' \<and> sub = ''prune''
          then RPruneSvcNames iid else RFiles
      | _ \<Rightarrow> RFiles)"

section \<open>Requests\<close>

text \<open>
  What the server brings to a request: the libraries, the clocks (Unix seconds, monotonic
  nanoseconds), a fresh channel and fresh random text. \<open>ParseHost\<close> is the host of \<open>url.Parse\<close>.
\<close>

record serve_env =
  sv_argon :: argon2
  sv_sha256 :: "string \<Rightarrow> string"
  sv_ParseDuration :: "string \<Rightarrow> int option"
  sv_ParseHost :: "string \<Rightarrow> string option"
  sv_now :: int
  sv_mono :: int
  sv_ch :: nat
  sv_raw :: string
  sv_tok :: string

record request =
  rq_Method :: string
  rq_Path :: "string list"
  rq_Range :: string
  rq_Cookie :: "string option"
  rq_Body :: "json option"
  rq_RemoteIP :: string
  rq_Origin :: string
  rq_Host :: string

text \<open>
  A finished response, a handler that waits on a channel for the reply to a request id, an open
  web socket on a channel, the file server, or a panic (which \<open>net/http\<close> confines to the request).
\<close>

datatype outcome = Resp resp | Waiting string nat | Socket nat | Files | HandlerPanic go_error

definition CheckOrigin :: "serve_env \<Rightarrow> request \<Rightarrow> bool" where
  "CheckOrigin sv rq =
     (rq_Origin rq = [] \<or>
      (case sv_ParseHost sv (rq_Origin rq) of
         None \<Rightarrow> False
       | Some host \<Rightarrow> map lower host = map lower (rq_Host rq)))"

definition waiting :: "nat \<Rightarrow> hub \<times> (resp + string) \<Rightarrow> hub \<times> outcome" where
  "waiting ch hr = (fst hr, case snd hr of Inl r \<Rightarrow> Resp r | Inr rid \<Rightarrow> Waiting rid ch)"

definition responds :: "hub \<times> resp \<Rightarrow> hub \<times> outcome" where
  "responds hr = (fst hr, Resp (snd hr))"

definition ws :: "serve_env \<Rightarrow> request \<Rightarrow> hub \<Rightarrow> hub \<times> outcome" where
  "ws sv rq h =
     (if CheckOrigin sv rq then (Subscribe (sv_ch sv) h, Socket (sv_ch sv))
      else (h, Resp (httpErr 403 ''Forbidden'')))"

fun handle_route :: "serve_env \<Rightarrow> request \<Rightarrow> route \<Rightarrow> hub \<Rightarrow> hub \<times> outcome" where
  "handle_route sv rq RNodes h = (h, Resp (listNodes (sv_now sv) h))"
| "handle_route sv rq (RNode nid) h = (h, Resp (getNode nid (sv_now sv) h))"
| "handle_route sv rq (RMetrics nid) h =
     (h, Resp (nodeMetrics (sv_ParseDuration sv) nid (rq_Range rq) (sv_now sv) h))"
| "handle_route sv rq (RPatchNode nid) h = responds (patchNode nid (rq_Body rq) h)"
| "handle_route sv rq (RDeleteNode nid) h = responds (deleteNode nid (sv_now sv) h)"
| "handle_route sv rq (RRotateWG nid) h = responds (rotateWG nid h)"
| "handle_route sv rq (RToolConf nid) h = waiting (sv_ch sv) (nodeToolConf (sv_ch sv) nid h)"
| "handle_route sv rq (RSvc nid) h = waiting (sv_ch sv) (nodeSvcAction (sv_ch sv) nid (rq_Body rq) h)"
| "handle_route sv rq (RSvcNames nid) h = (h, Resp (getSvcNames nid h))"
| "handle_route sv rq (RSetSvcName nid) h = responds (setSvcName nid (rq_Body rq) h)"
| "handle_route sv rq (RPruneSvcNames nid) h = responds (pruneSvcNames nid (rq_Body rq) h)"
| "handle_route sv rq RCreateToken h =
     responds (createToken (sv_sha256 sv) (sv_raw sv) (rq_Body rq) (sv_now sv) h)"
| "handle_route sv rq RTokens h = (h, Resp (listTokens (sv_now sv) h))"
| "handle_route sv rq (RDeleteToken tid) h = responds (deleteToken tid h)"
| "handle_route sv rq RLinks h = (h, Resp (listLinks (sv_now sv) h))"
| "handle_route sv rq RCreateLink h = responds (createLink (rq_Body rq) (sv_now sv) h)"
| "handle_route sv rq (RSetLinkExit lid) h = responds (setLinkExit lid (rq_Body rq) (sv_now sv) h)"
| "handle_route sv rq (RDeleteLink lid) h = responds (deleteLink lid h)"
| "handle_route sv rq RWS h = ws sv rq h"
| "handle_route sv rq RSession h = (h, Resp ok_true)"
| "handle_route sv rq RLogin h = (h, Files)"
| "handle_route sv rq RLogout h = (h, Files)"
| "handle_route sv rq RFiles h = (h, Files)"

definition serve_login :: "serve_env \<Rightarrow> request \<Rightarrow> panel \<Rightarrow> hub \<Rightarrow> panel \<times> hub \<times> outcome" where
  "serve_login sv rq pn h =
     (let (pn', r) = login (sv_argon sv) (rq_RemoteIP rq) (rq_Body rq) (sv_tok sv) (sv_mono sv) (hb_db h) pn
      in (pn', h, case r of Inl e \<Rightarrow> HandlerPanic e | Inr resp \<Rightarrow> Resp resp))"

definition serve :: "serve_env \<Rightarrow> request \<Rightarrow> panel \<times> hub \<Rightarrow> panel \<times> hub \<times> outcome" where
  "serve sv rq st =
     (case route_of (rq_Method rq) (rq_Path rq) of
        RLogin \<Rightarrow> serve_login sv rq (fst st) (snd st)
      | RLogout \<Rightarrow> (let (pn', r) = logout (rq_Cookie rq) (fst st) in (pn', snd st, Resp r))
      | RFiles \<Rightarrow> (fst st, snd st, Files)
      | r \<Rightarrow> auth (rq_Cookie rq) (sv_mono sv) (handle_route sv rq r) Resp (fst st) (snd st))"

section \<open>Nothing without a session\<close>

definition open_route :: "route \<Rightarrow> bool" where
  "open_route r \<longleftrightarrow> r = RLogin \<or> r = RLogout \<or> r = RFiles"

definition logged_in :: "int \<Rightarrow> string option \<Rightarrow> panel \<Rightarrow> bool" where
  "logged_in now cookie pn = (case cookie of None \<Rightarrow> False | Some tok \<Rightarrow> snd (sessionValid tok now (pn_sessions pn)))"

lemma serve_closed_route:
  "\<not> open_route (route_of (rq_Method rq) (rq_Path rq)) \<Longrightarrow>
     serve sv rq st = auth (rq_Cookie rq) (sv_mono sv) (handle_route sv rq (route_of (rq_Method rq) (rq_Path rq))) Resp (fst st) (snd st)"
  by (auto simp: serve_def open_route_def split: route.split)

text \<open>
  C11: nothing on the hub changes or is shown without a session. Whatever the request, a caller whose
  cookie is not a valid session changes no state of the hub and no session but their own, and receives
  a login or logout response, a static file, or status 401.
\<close>

theorem no_access_without_session:
  assumes "\<not> logged_in (sv_mono sv) (rq_Cookie rq) pn"
    and "serve sv rq (pn, h) = (pn', h', out)"
  shows "h' = h
    \<and> (route_of (rq_Method rq) (rq_Path rq) \<in> {RLogin, RLogout, RFiles} \<or> out = Resp (httpErr 401 ''not authenticated''))
    \<and> (\<forall>tok. Some tok \<noteq> rq_Cookie rq \<longrightarrow> pn_sessions pn' tok \<noteq> pn_sessions pn tok \<longrightarrow>
         route_of (rq_Method rq) (rq_Path rq) = RLogin \<and> tok = sv_tok sv \<and> out = Resp (ok_true\<lparr>rs_cookie := Some (tok, 43200)\<rparr>))"
proof (cases "open_route (route_of (rq_Method rq) (rq_Path rq))")
  case True
  then consider "route_of (rq_Method rq) (rq_Path rq) = RLogin" | "route_of (rq_Method rq) (rq_Path rq) = RLogout"
    | "route_of (rq_Method rq) (rq_Path rq) = RFiles" unfolding open_route_def by blast
  then show ?thesis
  proof cases
    case 1
    with assms(2) show ?thesis
      by (auto simp: serve_def serve_login_def login_def Let_def case_prod_beta sessionTTL_def
          split: if_splits option.splits sum.splits bool.splits)
  next
    case 2
    with assms(2) show ?thesis
      by (auto simp: serve_def logout_def split: option.splits)
  next
    case 3
    with assms(2) show ?thesis by (simp add: serve_def)
  qed
next
  case False
  with assms show ?thesis
    by (auto simp: serve_closed_route auth_def logged_in_def sessionValid_def split: option.splits if_splits)
qed

definition demo_sv :: serve_env where
  "demo_sv = \<lparr>sv_argon = demo_argon, sv_sha256 = (\<lambda>s. s), sv_ParseDuration = (\<lambda>s. None), sv_ParseHost = (\<lambda>s. None),
     sv_now = 100, sv_mono = 100, sv_ch = 0, sv_raw = ''raw'', sv_tok = ''tok''\<rparr>"

definition demo_rq :: "string \<Rightarrow> string list \<Rightarrow> string option \<Rightarrow> request" where
  "demo_rq m path cookie = \<lparr>rq_Method = m, rq_Path = path, rq_Range = [], rq_Cookie = cookie, rq_Body = None,
     rq_RemoteIP = ''i'', rq_Origin = [], rq_Host = ''panel''\<rparr>"

theorem no_access_without_session_witness:
  "\<exists>pn' h'. serve demo_sv (demo_rq ''DELETE'' [''api'', ''nodes'', ''A''] (Some ''forged'')) (new_panel, NewHub Defaults empty_store (\<lambda>k. ''u''))
     = (pn', h', Resp (httpErr 401 ''not authenticated'')) \<and> h' = NewHub Defaults empty_store (\<lambda>k. ''u'')"
proof -
  let ?rq = "demo_rq ''DELETE'' [''api'', ''nodes'', ''A''] (Some ''forged'')" and ?h = "NewHub Defaults empty_store (\<lambda>k. ''u'')"
  obtain pn' h' out where run: "serve demo_sv ?rq (new_panel, ?h) = (pn', h', out)" by (metis prod.collapse)
  have "\<not> logged_in (sv_mono demo_sv) (rq_Cookie ?rq) new_panel"
    by (simp add: logged_in_def demo_rq_def sessionValid_def new_panel_def)
  from no_access_without_session [OF this run] run show ?thesis
    by (auto simp: demo_rq_def route_of_def item_route_def is_get_def)
qed

end
