(* ===== verification/Files.thy ===== *)
theory Files
  imports Prelude
begin

text \<open>
  The part of package \<open>os\<close> the programs use on their data directories: a file has contents and mode,
  every operation may be refused by the operating system. \<open>fs_denied\<close> is the set of paths it refuses
  to write and create; paths in \<open>fs_hidden\<close> exist but cannot be read. A write that is refused
  leaves the file as it was (a disk that fills up during a write is not modelled).
\<close>

record fs =
  fs_files :: "string \<rightharpoonup> string \<times> nat"
  fs_denied :: "string set"
  fs_hidden :: "string set"

datatype file_error = NotExist | PermissionDenied

definition Join :: "string \<Rightarrow> string \<Rightarrow> string" where
  "Join dir name = (if dir = [] then name else dir @ ''/'' @ name)"

definition Stat :: "string \<Rightarrow> fs \<Rightarrow> bool" where
  "Stat path f = (fs_files f path \<noteq> None)"

definition ReadFile :: "string \<Rightarrow> fs \<Rightarrow> file_error + string" where
  "ReadFile path f =
     (case fs_files f path of
        None \<Rightarrow> Inl NotExist
      | Some c \<Rightarrow> if path \<in> fs_hidden f then Inl PermissionDenied else Inr (fst c))"

definition WriteFile :: "string \<Rightarrow> string \<Rightarrow> nat \<Rightarrow> fs \<Rightarrow> fs \<times> bool" where
  "WriteFile path data mode f =
     (if path \<in> fs_denied f then (f, False)
      else (f\<lparr>fs_files := (fs_files f)(path \<mapsto>
             (data, case fs_files f path of None \<Rightarrow> mode | Some c \<Rightarrow> snd c))\<rparr>, True))"

definition MkdirAll :: "string \<Rightarrow> fs \<Rightarrow> bool" where
  "MkdirAll dir f = (dir \<notin> fs_denied f)"

definition Remove :: "string \<Rightarrow> fs \<Rightarrow> fs \<times> file_error option" where
  "Remove path f =
     (if fs_files f path = None then (f, Some NotExist)
      else if path \<in> fs_denied f then (f, Some PermissionDenied)
      else (f\<lparr>fs_files := (fs_files f)(path := None)\<rparr>, None))"

text \<open>\<open>RemoveAll\<close> removes the files below a directory that it may remove.\<close>

definition below :: "string \<Rightarrow> string \<Rightarrow> bool" where
  "below dir path \<longleftrightarrow> take (Suc (length dir)) path = dir @ ''/''"

definition RemoveAll :: "string \<Rightarrow> fs \<Rightarrow> fs" where
  "RemoveAll dir f =
     f\<lparr>fs_files := (\<lambda>p. if (below dir p \<or> p = dir) \<and> p \<notin> fs_denied f then None else fs_files f p)\<rparr>"

definition file_error_text :: "string \<Rightarrow> file_error \<Rightarrow> string" where
  "file_error_text path e = ''open '' @ path @ (case e of NotExist \<Rightarrow> '': no such file or directory''
     | PermissionDenied \<Rightarrow> '': permission denied'')"

section \<open>Reading back what was written\<close>

lemma Join_inject [simp]: "Join d a = Join d b \<longleftrightarrow> a = b"
  by (simp add: Join_def)

lemma WriteFile_denied [simp]:
  "fs_denied (fst (WriteFile p c m f)) = fs_denied f" "fs_hidden (fst (WriteFile p c m f)) = fs_hidden f"
  by (simp_all add: WriteFile_def)

lemma ReadFile_WriteFile:
  "snd (WriteFile p c m f) \<Longrightarrow> q \<notin> fs_hidden f \<Longrightarrow>
     ReadFile q (fst (WriteFile p c m f)) = (if q = p then Inr c else ReadFile q f)"
  by (auto simp: WriteFile_def ReadFile_def split: if_splits option.splits)

lemma Stat_WriteFile: "snd (WriteFile p c m f) \<Longrightarrow> Stat q (fst (WriteFile p c m f)) \<longleftrightarrow> q = p \<or> Stat q f"
  by (simp add: WriteFile_def Stat_def split: if_splits)

lemma fs_files_WriteFile:
  "snd (WriteFile p c m f) \<Longrightarrow> fs_files (fst (WriteFile p c m f)) = (fs_files f)(p \<mapsto>
     (c, case fs_files f p of None \<Rightarrow> m | Some c \<Rightarrow> snd c))"
  by (simp add: WriteFile_def split: if_splits)

end
