(* ===== verification/Pki.thy ===== *)
theory Pki
  imports Files
begin

text \<open>
  \<open>internal/pki/pki.go\<close>: the trust root. The packages \<open>crypto/x509\<close>, \<open>crypto/ecdsa\<close>,
  \<open>crypto/sha256\<close>, \<open>encoding/pem\<close> and the calendar and address functions of the standard library
  are the fields of the record \<open>crypto\<close>, an argument; keys and DER encodings are byte strings. What
  the code relies on is the definition \<open>crypto_laws\<close>: what is written in PEM or as a key is read
  back, a certificate that was created parses to its template and subject key, a request that was
  created carries its key and a valid signature, and a parsed certificate keeps its DER bytes.
\<close>

section \<open>The libraries\<close>

datatype key_usage = DigitalSignature | CertSign | CRLSign
datatype ext_key_usage = ServerAuth | ClientAuth

record certificate =
  ct_Raw :: string
  ct_PublicKey :: string
  ct_Serial :: nat
  ct_CN :: string
  ct_Organization :: "string list"
  ct_NotBefore :: int
  ct_NotAfter :: int
  ct_IsCA :: bool
  ct_KeyUsage :: "key_usage list"
  ct_ExtKeyUsage :: "ext_key_usage list"
  ct_BasicConstraintsValid :: bool
  ct_IPAddresses :: "string list"
  ct_DNSNames :: "string list"

definition no_cert :: certificate where
  "no_cert = \<lparr>ct_Raw = [], ct_PublicKey = [], ct_Serial = 0, ct_CN = [], ct_Organization = [],
     ct_NotBefore = 0, ct_NotAfter = 0, ct_IsCA = False, ct_KeyUsage = [], ct_ExtKeyUsage = [],
     ct_BasicConstraintsValid = False, ct_IPAddresses = [], ct_DNSNames = []\<rparr>"

record csr =
  csr_Subject :: string
  csr_PublicKey :: string
  csr_Signature :: string

record crypto =
  x_pem_encode :: "string \<Rightarrow> string \<Rightarrow> string"
  x_pem_decode :: "string \<Rightarrow> (string \<times> string) option"
  x_ParseCertificate :: "string \<Rightarrow> certificate result"
  x_ParseCertificateRequest :: "string \<Rightarrow> csr result"
  x_CheckSignature :: "csr \<Rightarrow> unit result"
  x_CreateCertificate :: "string \<Rightarrow> certificate \<Rightarrow> certificate \<Rightarrow> string \<Rightarrow> string \<Rightarrow> string result"
  x_CreateCertificateRequest :: "string \<Rightarrow> string \<Rightarrow> string \<Rightarrow> string result"
  x_PublicKey :: "string \<Rightarrow> string"
  x_MarshalECPrivateKey :: "string \<Rightarrow> string result"
  x_ParseECPrivateKey :: "string \<Rightarrow> string result"
  x_Sum256 :: "string \<Rightarrow> string"
  x_ParseIP :: "string \<Rightarrow> string option"
  x_AddYears :: "int \<Rightarrow> int \<Rightarrow> int"

definition crypto_laws :: "crypto \<Rightarrow> bool" where
  "crypto_laws x \<longleftrightarrow>
     (\<forall>typ der. x_pem_decode x (x_pem_encode x typ der) = Some (typ, der))
   \<and> (\<forall>rnd tpl parent pub key der. x_CreateCertificate x rnd tpl parent pub key = Ok der \<longrightarrow>
        x_ParseCertificate x der = Ok (tpl\<lparr>ct_Raw := der, ct_PublicKey := pub\<rparr>))
   \<and> (\<forall>key der. x_MarshalECPrivateKey x key = Ok der \<longrightarrow> x_ParseECPrivateKey x der = Ok key)
   \<and> (\<forall>rnd cn key der. x_CreateCertificateRequest x rnd cn key = Ok der \<longrightarrow>
        (\<exists>req. x_ParseCertificateRequest x der = Ok req \<and> csr_PublicKey req = x_PublicKey x key
           \<and> x_CheckSignature x req = Ok ()))
   \<and> (\<forall>der cert. x_ParseCertificate x der = Ok cert \<longrightarrow> ct_Raw cert = der)"

section \<open>The authority\<close>

record ca =
  ca_Cert :: certificate
  ca_Key :: string

text \<open>
  The random inputs of one call: the generated key, the 128-bit serial, the randomness of the
  signature; a failing source is an error.
\<close>

record entropy =
  en_key :: "string result"
  en_serial :: "nat result"
  en_sig :: string

definition Hour :: int where "Hour = 3600"

definition hex_digit :: "nat \<Rightarrow> char" where
  "hex_digit d = (if d < 10 then char_of (48 + d) else char_of (87 + d))"

text \<open>\<open>big.Int.Text(16)\<close> and \<open>hex.EncodeToString\<close>.\<close>

fun Text16 :: "nat \<Rightarrow> string" where
  "Text16 n = (if n < 16 then [] else Text16 (n div 16)) @ [hex_digit (n mod 16)]"

declare Text16.simps [simp del]

definition EncodeHex :: "string \<Rightarrow> string" where
  "EncodeHex s = concat (map (\<lambda>c. [hex_digit (of_char c div 16), hex_digit (of_char c mod 16)]) s)"

definition randSerial :: "entropy \<Rightarrow> nat result" where
  "randSerial en = (case en_serial en of Inl e \<Rightarrow> Err e | Inr n \<Rightarrow> Ok (n mod 2 ^ 128))"

definition write_error :: "string \<Rightarrow> go_error" where
  "write_error path = ErrMsg (file_error_text path PermissionDenied)"

definition writePEM :: "crypto \<Rightarrow> string \<Rightarrow> string \<Rightarrow> string \<Rightarrow> nat \<Rightarrow> fs \<Rightarrow> fs \<times> unit result" where
  "writePEM x path typ der mode f =
     (let (f', ok) = WriteFile path (x_pem_encode x typ der) mode f in
      (f', if ok then Ok () else Err (write_error path)))"

definition readCertPEM :: "crypto \<Rightarrow> string \<Rightarrow> fs \<Rightarrow> certificate result" where
  "readCertPEM x path f =
     (case ReadFile path f of
        Inl e \<Rightarrow> Err (ErrMsg (file_error_text path e))
      | Inr data \<Rightarrow>
          (case x_pem_decode x data of
             None \<Rightarrow> Err (ErrMsg ''invalid certificate PEM'')
           | Some (typ, der) \<Rightarrow> x_ParseCertificate x der))"

definition load :: "crypto \<Rightarrow> string \<Rightarrow> string \<Rightarrow> fs \<Rightarrow> ca result" where
  "load x certPath keyPath f =
     (case readCertPEM x certPath f of
        Inl e \<Rightarrow> Err (ErrMsg ''load CA cert'')
      | Inr cert \<Rightarrow>
          (case ReadFile keyPath f of
             Inl e \<Rightarrow> Err (ErrMsg (file_error_text keyPath e))
           | Inr keyPEM \<Rightarrow>
               (case x_pem_decode x keyPEM of
                  None \<Rightarrow> Err (ErrMsg ''invalid CA key PEM'')
                | Some (typ, der) \<Rightarrow>
                    (case x_ParseECPrivateKey x der of
                       Inl e \<Rightarrow> Err e
                     | Inr key \<Rightarrow> Ok \<lparr>ca_Cert = cert, ca_Key = key\<rparr>))))"

text \<open>File modes are decimal here: 420 is \<open>0o644\<close>, 384 is \<open>0o600\<close>.\<close>

definition ca_template :: "crypto \<Rightarrow> nat \<Rightarrow> int \<Rightarrow> certificate" where
  "ca_template x serial now = no_cert\<lparr>ct_Serial := serial, ct_CN := ''LightPN CA'',
     ct_Organization := [''LightPN''], ct_NotBefore := now - Hour, ct_NotAfter := x_AddYears x now 20,
     ct_IsCA := True, ct_KeyUsage := [CertSign, CRLSign], ct_BasicConstraintsValid := True\<rparr>"

definition create_ca :: "crypto \<Rightarrow> entropy \<Rightarrow> int \<Rightarrow> string \<Rightarrow> string \<Rightarrow> fs \<Rightarrow> fs \<times> ca result" where
  "create_ca x en now certPath keyPath f =
     (case en_key en of
        Inl e \<Rightarrow> (f, Err e)
      | Inr key \<Rightarrow>
          (case randSerial en of
             Inl e \<Rightarrow> (f, Err e)
           | Inr serial \<Rightarrow>
               (let tpl = ca_template x serial now in
                (case x_CreateCertificate x (en_sig en) tpl tpl (x_PublicKey x key) key of
                   Inl e \<Rightarrow> (f, Err e)
                 | Inr der \<Rightarrow>
                     (case x_ParseCertificate x der of
                        Inl e \<Rightarrow> (f, Err e)
                      | Inr cert \<Rightarrow>
                          (let (f1, r1) = writePEM x certPath ''CERTIFICATE'' der 420 f in
                           (case r1 of
                              Inl e \<Rightarrow> (f1, Err e)
                            | Inr u1 \<Rightarrow>
                                (case x_MarshalECPrivateKey x key of
                                   Inl e \<Rightarrow> (f1, Err e)
                                 | Inr keyDER \<Rightarrow>
                                     (let (f2, r2) = writePEM x keyPath ''EC PRIVATE KEY'' keyDER 384 f1 in
                                      (case r2 of
                                         Inl e \<Rightarrow> (f2, Err e)
                                       | Inr u2 \<Rightarrow> (f2, Ok \<lparr>ca_Cert = cert, ca_Key = key\<rparr>)))))))))))"

definition LoadOrCreate :: "crypto \<Rightarrow> string \<Rightarrow> entropy \<Rightarrow> int \<Rightarrow> fs \<Rightarrow> fs \<times> ca result" where
  "LoadOrCreate x dir en now f =
     (let certPath = Join dir ''ca.crt''; keyPath = Join dir ''ca.key'' in
      if Stat certPath f then (f, load x certPath keyPath f)
      else if \<not> MkdirAll dir f then (f, Err (write_error dir))
      else create_ca x en now certPath keyPath f)"

definition CertPEM :: "crypto \<Rightarrow> ca \<Rightarrow> string" where
  "CertPEM x c = x_pem_encode x ''CERTIFICATE'' (ct_Raw (ca_Cert c))"

definition Fingerprint :: "crypto \<Rightarrow> ca \<Rightarrow> string" where
  "Fingerprint x c = EncodeHex (x_Sum256 x (ct_Raw (ca_Cert c)))"

fun add_hosts :: "crypto \<Rightarrow> string list \<Rightarrow> certificate \<Rightarrow> certificate" where
  "add_hosts x [] tpl = tpl"
| "add_hosts x (h # hs) tpl =
     (case x_ParseIP x h of
        Some ip \<Rightarrow> add_hosts x hs (tpl\<lparr>ct_IPAddresses := ct_IPAddresses tpl @ [ip]\<rparr>)
      | None \<Rightarrow> add_hosts x hs (tpl\<lparr>ct_DNSNames := ct_DNSNames tpl @ [h]\<rparr>))"

definition server_template :: "crypto \<Rightarrow> nat \<Rightarrow> int \<Rightarrow> certificate" where
  "server_template x serial now = no_cert\<lparr>ct_Serial := serial, ct_CN := ''lightpn-hub'',
     ct_NotBefore := now - Hour, ct_NotAfter := x_AddYears x now 5, ct_KeyUsage := [DigitalSignature],
     ct_ExtKeyUsage := [ServerAuth]\<rparr>"

definition issue_server ::
  "crypto \<Rightarrow> ca \<Rightarrow> string list \<Rightarrow> entropy \<Rightarrow> int \<Rightarrow> string \<Rightarrow> string \<Rightarrow> fs \<Rightarrow> fs \<times> (string \<times> string) result" where
  "issue_server x c hosts en now certPath keyPath f =
     (case en_key en of
        Inl e \<Rightarrow> (f, Err e)
      | Inr key \<Rightarrow>
          (case randSerial en of
             Inl e \<Rightarrow> (f, Err e)
           | Inr serial \<Rightarrow>
               (case x_CreateCertificate x (en_sig en) (add_hosts x hosts (server_template x serial now))
                       (ca_Cert c) (x_PublicKey x key) (ca_Key c) of
                  Inl e \<Rightarrow> (f, Err e)
                | Inr der \<Rightarrow>
                    (let (f1, r1) = writePEM x certPath ''CERTIFICATE'' der 420 f in
                     (case r1 of
                        Inl e \<Rightarrow> (f1, Err e)
                      | Inr u1 \<Rightarrow>
                          (case x_MarshalECPrivateKey x key of
                             Inl e \<Rightarrow> (f1, Err e)
                           | Inr keyDER \<Rightarrow>
                               (let (f2, r2) = writePEM x keyPath ''EC PRIVATE KEY'' keyDER 384 f1 in
                                (case r2 of
                                   Inl e \<Rightarrow> (f2, Err e)
                                 | Inr u2 \<Rightarrow> (f2, Ok (certPath, keyPath))))))))))"

definition IssueServer ::
  "crypto \<Rightarrow> ca \<Rightarrow> string \<Rightarrow> string list \<Rightarrow> entropy \<Rightarrow> int \<Rightarrow> fs \<Rightarrow> fs \<times> (string \<times> string) result" where
  "IssueServer x c dir hosts en now f =
     (let certPath = Join dir ''server.crt''; keyPath = Join dir ''server.key'' in
      if Stat certPath f \<and> (case readCertPEM x certPath f of
           Inl e \<Rightarrow> False | Inr cert \<Rightarrow> ct_NotAfter cert - now > 30 * 24 * Hour)
      then (f, Ok (certPath, keyPath))
      else issue_server x c hosts en now certPath keyPath f)"

definition csr_template :: "nat \<Rightarrow> string \<Rightarrow> int \<Rightarrow> int \<Rightarrow> certificate" where
  "csr_template serial nodeID ttl now = no_cert\<lparr>ct_Serial := serial, ct_CN := nodeID,
     ct_NotBefore := now - Hour, ct_NotAfter := now + ttl, ct_KeyUsage := [DigitalSignature],
     ct_ExtKeyUsage := [ClientAuth]\<rparr>"

definition SignCSR ::
  "crypto \<Rightarrow> ca \<Rightarrow> entropy \<Rightarrow> int \<Rightarrow> string \<Rightarrow> string \<Rightarrow> int \<Rightarrow> (string \<times> string) result" where
  "SignCSR x c en now csrPEM nodeID ttl =
     (case x_pem_decode x csrPEM of
        None \<Rightarrow> Err (ErrMsg ''invalid CSR PEM'')
      | Some (typ, der) \<Rightarrow>
          (case x_ParseCertificateRequest x der of
             Inl e \<Rightarrow> Err e
           | Inr req \<Rightarrow>
               (case x_CheckSignature x req of
                  Inl e \<Rightarrow> Err (ErrMsg ''CSR signature'')
                | Inr u \<Rightarrow>
                    (case randSerial en of
                       Inl e \<Rightarrow> Err e
                     | Inr serial \<Rightarrow>
                         (case x_CreateCertificate x (en_sig en) (csr_template serial nodeID ttl now)
                                 (ca_Cert c) (csr_PublicKey req) (ca_Key c) of
                            Inl e \<Rightarrow> Err e
                          | Inr cert \<Rightarrow> Ok (x_pem_encode x ''CERTIFICATE'' cert, Text16 serial))))))"

definition NewIdentityKey :: "crypto \<Rightarrow> entropy \<Rightarrow> string \<Rightarrow> (string \<times> string) result" where
  "NewIdentityKey x en hostname =
     (case en_key en of
        Inl e \<Rightarrow> Err e
      | Inr key \<Rightarrow>
          (case x_CreateCertificateRequest x (en_sig en) hostname key of
             Inl e \<Rightarrow> Err e
           | Inr csrDER \<Rightarrow>
               (case x_MarshalECPrivateKey x key of
                  Inl e \<Rightarrow> Err e
                | Inr keyDER \<Rightarrow>
                    Ok (x_pem_encode x ''EC PRIVATE KEY'' keyDER, x_pem_encode x ''CERTIFICATE REQUEST'' csrDER))))"

end
