(* ===== verification/Enroll.thy ===== *)
theory Enroll
  imports HubHandlers RateLimit Pki GoText
begin

text \<open>
  The unauthenticated connection of \<open>internal/hub/control.go\<close>: \<open>handleEnroll\<close>. The surroundings of
  one call are a record: the libraries, the authority, the hash of tokens, the random inputs and the
  clocks. \<open>frame\<close> is what \<open>proto.ReadFrame\<close> of the connection gives; the result is the one frame the
  hub writes before it closes the connection, if any.
\<close>

record enroll_env =
  ev_crypto :: crypto
  ev_ca :: ca
  ev_sha256 :: "string \<Rightarrow> string"
  ev_entropy :: entropy
  ev_now :: int
  ev_mono :: int
  ev_remoteIP :: string
  ev_localAddr :: string

type_synonym enroll_state = "tries \<times> hub"

definition refuse :: "string \<Rightarrow> string \<Rightarrow> hub \<Rightarrow> hub \<times> envelope option" where
  "refuse code msg h =
     (let (eid, h') = NewULID h in
      (h', Some (NewEnvelope TypeError eid (enc_error \<lparr>er_Code = code, er_Msg = msg\<rparr>))))"

definition token_refusal :: "go_error \<Rightarrow> string \<times> string" where
  "token_refusal e =
     (case e of ErrTokenExpired \<Rightarrow> (''TOKEN_EXPIRED'', ''token expired'')
      | ErrTokenUsed \<Rightarrow> (''TOKEN_USED'', ''token already used'')
      | ErrNotFound \<Rightarrow> (''AUTH_FAILED'', ''unknown token'')
      | _ \<Rightarrow> (''INTERNAL'', ''token check failed''))"

definition certTTL :: "config \<Rightarrow> int" where
  "certTTL cfg = wrap64 (wrap64 (cfg_CertTTLDays cfg) * 86400000000000)"

definition control_addr :: "enroll_env \<Rightarrow> hub \<Rightarrow> string" where
  "control_addr ev h = (if cfg_PublicAddr (hb_cfg h) = [] then ev_localAddr ev else cfg_PublicAddr (hb_cfg h))"

definition go_message :: "go_error \<Rightarrow> string" where
  "go_message e = (case e of ErrMsg m \<Rightarrow> m | _ \<Rightarrow> ''error'')"

text \<open>From the allocated address to the acknowledgement.\<close>

definition enroll_node :: "enroll_env \<Rightarrow> string \<Rightarrow> enroll_data \<Rightarrow> string \<Rightarrow> hub \<Rightarrow> hub \<times> envelope option" where
  "enroll_node ev eid d overlayIP h =
     (let (nodeID, h1) = NewULID h in
      (case SignCSR (ev_crypto ev) (ev_ca ev) (ev_entropy ev) (ev_now ev) (ed_CSRPEM d) nodeID
              (certTTL (hb_cfg h1) div 1000000000) of
         Inl e \<Rightarrow> refuse ''INTERNAL'' ''CSR rejected'' h1
       | Inr (certPEM, serial) \<Rightarrow>
           (let name = (if ed_Hostname d = [] then nodeID else ed_Hostname d);
                node = \<lparr>node_ID = nodeID, node_Name = name, node_OverlayIP = overlayIP, node_CertSerial = serial,
                  node_CreatedAt = ev_now ev, node_LastSeen = 0, node_Revoked = False\<rparr>;
                (db, r) = CreateNode node (hb_db h1); h2 = h1\<lparr>hb_db := db\<rparr>
            in (case r of
                  Inl e \<Rightarrow> refuse ''INTERNAL'' ''node create failed'' h2
                | Inr u \<Rightarrow>
                    (publish (EvEnrolled nodeID name) h2,
                     Some (NewEnvelope TypeEnrollAck eid (enc_enroll_ack
                       \<lparr>ea_NodeID = nodeID, ea_CertPEM = certPEM, ea_CAPEM = CertPEM (ev_crypto ev) (ev_ca ev),
                        ea_OverlayIP = overlayIP @ ''/32'', ea_OverlayCIDR = cfg_OverlayCIDR (hb_cfg h2),
                        ea_ControlAddr = control_addr ev h2\<rparr>)))))))"

definition enroll_token :: "enroll_env \<Rightarrow> string \<Rightarrow> enroll_data \<Rightarrow> hub \<Rightarrow> hub \<times> envelope option" where
  "enroll_token ev eid d h =
     (let (db1, r1) = ConsumeToken (ev_sha256 ev) (ed_Token d) (ev_now ev) (hb_db h); h1 = h\<lparr>hb_db := db1\<rparr> in
      (case r1 of
         Inl e \<Rightarrow> refuse (fst (token_refusal e)) (snd (token_refusal e)) h1
       | Inr u \<Rightarrow>
           (let (db2, r2) = AllocateIP (cfg_OverlayCIDR (hb_cfg h1)) (IPCooldown (hb_cfg h1)) (ev_now ev) (hb_db h1);
                h2 = h1\<lparr>hb_db := db2\<rparr>
            in (case r2 of
                  Inl e \<Rightarrow> refuse ''IPAM_EXHAUSTED'' (go_message e) h2
                | Inr overlayIP \<Rightarrow> enroll_node ev eid d overlayIP h2))))"

definition enroll_frame :: "enroll_env \<Rightarrow> envelope result \<Rightarrow> hub \<Rightarrow> hub \<times> envelope option" where
  "enroll_frame ev frame h =
     (case frame of
        Inl e \<Rightarrow> (h, None)
      | Inr env \<Rightarrow>
          if env_V env \<noteq> Version then refuse ''VERSION_UNSUPPORTED'' ''unsupported protocol version'' h
          else if env_Type env \<noteq> TypeEnroll then refuse ''AUTH_FAILED'' ''client certificate required'' h
          else (case dec_enroll (env_Data env) of
              None \<Rightarrow> refuse ''INTERNAL'' ''bad enroll payload'' h
            | Some d \<Rightarrow> enroll_token ev (env_ID env) d h))"

definition handleEnroll :: "enroll_env \<Rightarrow> envelope result \<Rightarrow> enroll_state \<Rightarrow> enroll_state \<times> envelope option" where
  "handleEnroll ev frame st =
     (let (tr, allowed) = enrollAllowed (ev_remoteIP ev) (ev_mono ev) (fst st);
          (h, reply) = (if \<not> allowed then refuse ''AUTH_FAILED'' ''rate limited'' (snd st)
                        else enroll_frame ev frame (snd st))
      in ((tr, h), reply))"

text \<open>The names in the server certificate.\<close>

definition serverHosts :: "config \<Rightarrow> string list" where
  "serverHosts cfg =
     [''lightpn-hub'', ''localhost'', ''127.0.0.1''] @
     (if cfg_PublicAddr cfg = [] then []
      else (case SplitHostPort (cfg_PublicAddr cfg) of Some (host, port) \<Rightarrow> [host] | None \<Rightarrow> [cfg_PublicAddr cfg]))"

end
