(* ===== verification/Identity.thy ===== *)
theory Identity
  imports Pki Proto Json
begin

text \<open>
  The agent's identity: \<open>internal/agent/identity.go\<close> and \<open>enroll.go\<close>. \<open>marshal\<close> and
  \<open>unmarshal\<close> are the text form of JSON; the dial of the enrollment is split at the network: what the
  agent sends, and what it does with the hub's answer.
\<close>

record identity =
  id_Dir :: string
  id_NodeID :: string
  id_ControlAddr :: string
  id_OverlayIP :: string
  id_OverlayCIDR :: string
  id_CAFingerprint :: string

definition keyPath :: "string \<Rightarrow> string" where "keyPath dir = Join dir ''identity.key''"
definition certPath :: "string \<Rightarrow> string" where "certPath dir = Join dir ''identity.crt''"
definition caPath :: "string \<Rightarrow> string" where "caPath dir = Join dir ''ca.crt''"
definition statePath :: "string \<Rightarrow> string" where "statePath dir = Join dir ''state.json''"

lemmas identityPaths = keyPath_def certPath_def caPath_def statePath_def

text \<open>\<open>Dir\<close> is an exported field without a tag, so it is written and read like the others.\<close>

definition enc_identity :: "identity \<Rightarrow> json" where
  "enc_identity i = JObj [(''Dir'', JStr (id_Dir i)), (''node_id'', JStr (id_NodeID i)),
     (''control_addr'', JStr (id_ControlAddr i)), (''overlay_ip'', JStr (id_OverlayIP i)),
     (''overlay_cidr'', JStr (id_OverlayCIDR i)), (''ca_fingerprint'', JStr (id_CAFingerprint i))]"

definition dec_identity_onto :: "identity \<Rightarrow> json \<Rightarrow> identity option" where
  "dec_identity_onto = dec_struct
     [fld ''Dir'' dec_string id_Dir (\<lambda>x r. r\<lparr>id_Dir := x\<rparr>),
      fld ''node_id'' dec_string id_NodeID (\<lambda>x r. r\<lparr>id_NodeID := x\<rparr>),
      fld ''control_addr'' dec_string id_ControlAddr (\<lambda>x r. r\<lparr>id_ControlAddr := x\<rparr>),
      fld ''overlay_ip'' dec_string id_OverlayIP (\<lambda>x r. r\<lparr>id_OverlayIP := x\<rparr>),
      fld ''overlay_cidr'' dec_string id_OverlayCIDR (\<lambda>x r. r\<lparr>id_OverlayCIDR := x\<rparr>),
      fld ''ca_fingerprint'' dec_string id_CAFingerprint (\<lambda>x r. r\<lparr>id_CAFingerprint := x\<rparr>)]"

definition LoadIdentity :: "(string \<Rightarrow> json option) \<Rightarrow> string \<Rightarrow> fs \<Rightarrow> identity result" where
  "LoadIdentity unmarshal dir f =
     (case ReadFile (statePath dir) f of
        Inl e \<Rightarrow> Err (ErrMsg (file_error_text (statePath dir) e))
      | Inr data \<Rightarrow>
          (case Option.bind (unmarshal data) (dec_identity_onto
                  \<lparr>id_Dir = dir, id_NodeID = [], id_ControlAddr = [], id_OverlayIP = [], id_OverlayCIDR = [],
                   id_CAFingerprint = []\<rparr>) of
             None \<Rightarrow> Err (ErrMsg ''json'')
           | Some i \<Rightarrow> Ok i))"

fun write_all :: "(string \<times> string \<times> nat) list \<Rightarrow> fs \<Rightarrow> fs \<times> unit result" where
  "write_all [] f = (f, Ok ())"
| "write_all (w # ws) f =
     (let (f', ok) = WriteFile (fst w) (fst (snd w)) (snd (snd w)) f in
      if ok then write_all ws f' else (f', Err (write_error (fst w))))"

definition Save :: "(json \<Rightarrow> string) \<Rightarrow> identity \<Rightarrow> string \<Rightarrow> string \<Rightarrow> string \<Rightarrow> fs \<Rightarrow> fs \<times> unit result" where
  "Save marshal i keyPEM certPEM caPEM f =
     (if \<not> MkdirAll (id_Dir i) f then (f, Err (write_error (id_Dir i)))
      else write_all [(keyPath (id_Dir i), keyPEM, 384), (certPath (id_Dir i), certPEM, 420),
        (caPath (id_Dir i), caPEM, 420), (statePath (id_Dir i), marshal (enc_identity i), 384)] f)"

definition UpdateCert :: "identity \<Rightarrow> string \<Rightarrow> fs \<Rightarrow> fs \<times> unit result" where
  "UpdateCert i certPEM f = write_all [(certPath (id_Dir i), certPEM, 420)] f"

definition Destroy :: "identity \<Rightarrow> fs \<Rightarrow> fs" where
  "Destroy i = RemoveAll (id_Dir i)"

record tls_config =
  tc_Certificate :: certificate
  tc_RootCA :: certificate
  tc_ServerName :: string

text \<open>\<open>tls.LoadX509KeyPair\<close>: both files parse and the key belongs to the certificate.\<close>

definition LoadX509KeyPair :: "crypto \<Rightarrow> string \<Rightarrow> string \<Rightarrow> fs \<Rightarrow> certificate result" where
  "LoadX509KeyPair x cpath kpath f =
     (case load x cpath kpath f of
        Inl e \<Rightarrow> Err (ErrMsg ''load identity'')
      | Inr pair \<Rightarrow>
          if x_PublicKey x (ca_Key pair) = ct_PublicKey (ca_Cert pair) then Ok (ca_Cert pair)
          else Err (ErrMsg ''load identity''))"

definition TLSConfig :: "crypto \<Rightarrow> identity \<Rightarrow> fs \<Rightarrow> tls_config result" where
  "TLSConfig x i f =
     (case LoadX509KeyPair x (certPath (id_Dir i)) (keyPath (id_Dir i)) f of
        Inl e \<Rightarrow> Err e
      | Inr cert \<Rightarrow>
          (case ReadFile (caPath (id_Dir i)) f of
             Inl e \<Rightarrow> Err (ErrMsg (file_error_text (caPath (id_Dir i)) e))
           | Inr caPEM \<Rightarrow>
               (case x_pem_decode x caPEM of
                  None \<Rightarrow> Err (ErrMsg ''invalid CA PEM'')
                | Some (ty, der) \<Rightarrow>
                    (case x_ParseCertificate x der of
                       Inl e \<Rightarrow> Err e
                     | Inr caCert \<Rightarrow>
                         if id_CAFingerprint i \<noteq> [] \<and> EncodeHex (x_Sum256 x (ct_Raw caCert)) \<noteq> id_CAFingerprint i
                         then Err (ErrMsg ''CA fingerprint mismatch'')
                         else Ok \<lparr>tc_Certificate = cert, tc_RootCA = caCert, tc_ServerName = ''lightpn-hub''\<rparr>))))"

definition CAFingerprintOf :: "crypto \<Rightarrow> string \<Rightarrow> string result" where
  "CAFingerprintOf x caPEM =
     (case x_pem_decode x caPEM of
        None \<Rightarrow> Err (ErrMsg ''invalid CA PEM'')
      | Some (ty, der) \<Rightarrow> Ok (EncodeHex (x_Sum256 x der)))"

section \<open>Enrollment\<close>

text \<open>What the agent keeps and sends, then what it does with the answer.\<close>

definition enroll_request :: "crypto \<Rightarrow> entropy \<Rightarrow> string \<Rightarrow> string \<Rightarrow> string \<Rightarrow> (string \<times> envelope) result" where
  "enroll_request x en hostname tok ulid =
     (case NewIdentityKey x en hostname of
        Inl e \<Rightarrow> Err e
      | Inr (keyPEM, csrPEM) \<Rightarrow>
          Ok (keyPEM, NewEnvelope TypeEnroll ulid (enc_enroll
            \<lparr>ed_Token = tok, ed_Hostname = hostname, ed_CSRPEM = csrPEM\<rparr>)))"

definition enroll_answer ::
  "crypto \<Rightarrow> (json \<Rightarrow> string) \<Rightarrow> string \<Rightarrow> string \<Rightarrow> envelope \<Rightarrow> fs \<Rightarrow> fs \<times> identity result" where
  "enroll_answer x marshal dataDir keyPEM reply f =
     (if env_Type reply = TypeError then (f, Err (ErrMsg ''enrollment rejected''))
      else if env_Type reply \<noteq> TypeEnrollAck then (f, Err (ErrMsg ''unexpected response type''))
      else (case dec_enroll_ack (env_Data reply) of
          None \<Rightarrow> (f, Err (ErrMsg ''json''))
        | Some ack \<Rightarrow>
            (case CAFingerprintOf x (ea_CAPEM ack) of
               Inl e \<Rightarrow> (f, Err e)
             | Inr fp \<Rightarrow>
                 (let i = \<lparr>id_Dir = dataDir, id_NodeID = ea_NodeID ack, id_ControlAddr = ea_ControlAddr ack,
                        id_OverlayIP = ea_OverlayIP ack, id_OverlayCIDR = ea_OverlayCIDR ack, id_CAFingerprint = fp\<rparr>;
                      (f', r) = Save marshal i keyPEM (ea_CertPEM ack) (ea_CAPEM ack) f
                  in (f', case r of Inl e \<Rightarrow> Err (ErrMsg ''persist identity'') | Inr u \<Rightarrow> Ok i)))))"

section \<open>The stored directory\<close>

lemma dec_identity_enc: "dec_identity_onto z (enc_identity i) = Some i"
  by (simp add: dec_identity_onto_def enc_identity_def dec_defs codec_simps)

text \<open>An identity directory that is moved still names its old place.\<close>

lemma dir_is_persisted:
  assumes "fs_files f (statePath moved) = Some (marshal (enc_identity i), mode)" and "statePath moved \<notin> fs_hidden f"
    and "unmarshal (marshal (enc_identity i)) = Some (enc_identity i)"
  shows "LoadIdentity unmarshal moved f = Ok i"
  using assms by (simp add: LoadIdentity_def ReadFile_def dec_identity_enc)

end
