(* ===== verification/PkiProps.thy ===== *)
theory PkiProps
  imports Pki
begin

text \<open>
  The properties of the trust root of \<open>internal/pki/pki.go\<close>: it is created once, and a client
  certificate says what the hub put into it.
\<close>

section \<open>The laws at work\<close>

lemma pem_law: "crypto_laws x \<Longrightarrow> x_pem_decode x (x_pem_encode x typ der) = Some (typ, der)"
  by (simp add: crypto_laws_def)

lemma cert_law:
  "crypto_laws x \<Longrightarrow> x_CreateCertificate x rnd tpl parent pub key = Ok der \<Longrightarrow>
     x_ParseCertificate x der = Ok (tpl\<lparr>ct_Raw := der, ct_PublicKey := pub\<rparr>)"
  unfolding crypto_laws_def by blast

lemma key_law:
  "crypto_laws x \<Longrightarrow> x_MarshalECPrivateKey x key = Ok der \<Longrightarrow> x_ParseECPrivateKey x der = Ok key"
  unfolding crypto_laws_def by blast

lemma writePEM_Ok:
  "writePEM x p typ der m f = (f', Ok u) \<longleftrightarrow>
     snd (WriteFile p (x_pem_encode x typ der) m f) \<and> f' = fst (WriteFile p (x_pem_encode x typ der) m f)"
  by (auto simp: writePEM_def Let_def case_prod_beta)

lemma readCertPEM_written:
  assumes "crypto_laws x" and "x_CreateCertificate x rnd tpl parent pub key = Ok der"
    and "ReadFile p f = Inr (x_pem_encode x typ der)"
  shows "readCertPEM x p f = Ok (tpl\<lparr>ct_Raw := der, ct_PublicKey := pub\<rparr>)"
  using assms by (simp add: readCertPEM_def pem_law cert_law)

lemma csr_law:
  assumes "crypto_laws x" and "x_CreateCertificateRequest x rnd cn key = Ok der"
  obtains req where "x_ParseCertificateRequest x der = Ok req" "csr_PublicKey req = x_PublicKey x key"
    "x_CheckSignature x req = Ok ()"
  using assms unfolding crypto_laws_def by blast

lemma raw_law: "crypto_laws x \<Longrightarrow> x_ParseCertificate x der = Ok cert \<Longrightarrow> ct_Raw cert = der"
  unfolding crypto_laws_def by blast

text \<open>A successful \<open>create_ca\<close> has written the pair it returns.\<close>

lemma create_ca_Ok:
  assumes "create_ca x en now cp kp f = (f', Ok c)"
  obtains key serial der keyDER f1 where
    "x_CreateCertificate x (en_sig en) (ca_template x serial now) (ca_template x serial now)
       (x_PublicKey x key) key = Ok der"
    "x_ParseCertificate x der = Ok (ca_Cert c)" "ca_Key c = key" "x_MarshalECPrivateKey x key = Ok keyDER"
    "writePEM x cp ''CERTIFICATE'' der 420 f = (f1, Ok ())"
    "writePEM x kp ''EC PRIVATE KEY'' keyDER 384 f1 = (f', Ok ())"
  using assms
  by (auto simp: create_ca_def Let_def case_prod_beta split: sum.splits) (metis prod.collapse)

lemma create_ca_load:
  assumes laws: "crypto_laws x" and ok: "create_ca x en now cp kp f = (f', Ok c)"
    and vis: "cp \<notin> fs_hidden f" "kp \<notin> fs_hidden f" and ne: "cp \<noteq> kp"
  shows "Stat cp f' \<and> load x cp kp f' = Ok c"
proof -
  from ok obtain key serial der keyDER f1 where
    parse: "x_ParseCertificate x der = Ok (ca_Cert c)" and key: "ca_Key c = key" "x_MarshalECPrivateKey x key = Ok keyDER"
    and w1: "writePEM x cp ''CERTIFICATE'' der 420 f = (f1, Ok ())"
    and w2: "writePEM x kp ''EC PRIVATE KEY'' keyDER 384 f1 = (f', Ok ())"
    by (rule create_ca_Ok)
  note w = w1 [unfolded writePEM_Ok] w2 [unfolded writePEM_Ok]
  have hid: "fs_hidden f1 = fs_hidden f" "fs_hidden f' = fs_hidden f" using w by simp_all
  have "ReadFile cp f1 = Inr (x_pem_encode x ''CERTIFICATE'' der)"
    using w(1) vis by (simp add: ReadFile_WriteFile)
  then have "ReadFile cp f' = Inr (x_pem_encode x ''CERTIFICATE'' der)"
    and "ReadFile kp f' = Inr (x_pem_encode x ''EC PRIVATE KEY'' keyDER)"
    using w(2) vis ne hid by (simp_all add: ReadFile_WriteFile)
  moreover have "Stat cp f'" using w by (simp add: Stat_WriteFile)
  ultimately show ?thesis
    using parse key by (simp add: load_def readCertPEM_def pem_law [OF laws] key_law [OF laws] key(1) [symmetric])
qed

lemma IssueServer_frame:
  shows "q \<noteq> Join dir ''server.crt'' \<Longrightarrow> q \<noteq> Join dir ''server.key'' \<Longrightarrow>
      fs_files (fst (IssueServer x c dir hosts en now f)) q = fs_files f q"
    and "fs_hidden (fst (IssueServer x c dir hosts en now f)) = fs_hidden f"
  by (auto simp: IssueServer_def issue_server_def writePEM_def WriteFile_def Let_def case_prod_beta split: sum.splits)

lemma load_cong:
  assumes "fs_files f' cp = fs_files f cp" and "fs_files f' kp = fs_files f kp" and "fs_hidden f' = fs_hidden f"
  shows "load x cp kp f' = load x cp kp f"
  unfolding load_def readCertPEM_def ReadFile_def assms ..

lemma LoadOrCreate_stored:
  assumes laws: "crypto_laws x" and ok: "LoadOrCreate x dir en now f = (f', Ok c)"
    and vis: "Join dir ''ca.crt'' \<notin> fs_hidden f" "Join dir ''ca.key'' \<notin> fs_hidden f"
  shows "Stat (Join dir ''ca.crt'') f' \<and> load x (Join dir ''ca.crt'') (Join dir ''ca.key'') f' = Ok c"
proof (cases "Stat (Join dir ''ca.crt'') f")
  case True
  then show ?thesis using ok by (auto simp: LoadOrCreate_def Let_def)
next
  case False
  then have "create_ca x en now (Join dir ''ca.crt'') (Join dir ''ca.key'') f = (f', Ok c)"
    using ok by (simp add: LoadOrCreate_def Let_def split: if_splits)
  then show ?thesis using laws vis by (intro create_ca_load) simp_all
qed

lemma LoadOrCreate_again:
  assumes "crypto_laws x" and "LoadOrCreate x dir en now f = (f', Ok c)"
    and "Join dir ''ca.crt'' \<notin> fs_hidden f" "Join dir ''ca.key'' \<notin> fs_hidden f"
  shows "LoadOrCreate x dir en' now' f' = (f', Ok c)"
  using LoadOrCreate_stored [OF assms] by (simp add: LoadOrCreate_def Let_def)

text \<open>
  The trust root is created once. Once \<open>LoadOrCreate\<close> has returned an authority, every later
  start finds that same authority and writes nothing, whatever its clock and random source say, also
  after the server certificate has been issued or reissued in the same directory.
\<close>

theorem trust_root_created_once:
  assumes laws: "crypto_laws x" and ok: "LoadOrCreate x dir en now f = (f', Ok c)"
    and vis: "Join dir ''ca.crt'' \<notin> fs_hidden f" "Join dir ''ca.key'' \<notin> fs_hidden f"
  shows "LoadOrCreate x dir en' now' f' = (f', Ok c)
    \<and> LoadOrCreate x dir en' now' (fst (IssueServer x c' dir hosts en2 now2 f'))
        = (fst (IssueServer x c' dir hosts en2 now2 f'), Ok c)"
proof -
  let ?cp = "Join dir ''ca.crt''" and ?kp = "Join dir ''ca.key''" and ?f2 = "fst (IssueServer x c' dir hosts en2 now2 f')"
  note st = LoadOrCreate_stored [OF laws ok vis]
  have "fs_files ?f2 ?cp = fs_files f' ?cp" "fs_files ?f2 ?kp = fs_files f' ?kp" "fs_hidden ?f2 = fs_hidden f'"
    by (simp_all add: IssueServer_frame)
  with st load_cong [of ?f2 ?cp f' ?kp x] have "Stat ?cp ?f2 \<and> load x ?cp ?kp ?f2 = Ok c"
    unfolding Stat_def by simp
  with st show ?thesis by (simp add: LoadOrCreate_def Let_def)
qed

section \<open>A library for the examples\<close>

text \<open>
  An instance of the library that knows the certificates of a table (template, subject key and DER
  bytes), refuses to create others, and whose PEM form is the type in unary, the type and the bytes.
\<close>

definition demo_pem :: "string \<Rightarrow> string \<Rightarrow> string" where
  "demo_pem typ der = replicate (length typ) CHR ''-'' @ ''+'' @ typ @ der"

definition demo_unpem :: "string \<Rightarrow> (string \<times> string) option" where
  "demo_unpem s = (let n = length (takeWhile (\<lambda>c. c = CHR ''-'') s) in
     if length s \<le> n then None else Some (take n (drop (Suc n) s), drop n (drop (Suc n) s)))"

type_synonym cert_table = "((certificate \<times> string) \<times> string) list"

definition demo_crypto :: "cert_table \<Rightarrow> crypto" where
  "demo_crypto tbl = \<lparr>x_pem_encode = demo_pem, x_pem_decode = demo_unpem,
     x_ParseCertificate = (\<lambda>der. case find (\<lambda>e. snd e = der) tbl of
        None \<Rightarrow> Err (ErrMsg ''asn1'')
      | Some ((tpl, pub), _) \<Rightarrow> Ok (tpl\<lparr>ct_Raw := der, ct_PublicKey := pub\<rparr>)),
     x_ParseCertificateRequest = (\<lambda>der. if der = ''csr'' then Ok \<lparr>csr_Subject = ''h'', csr_PublicKey = ''pub'', csr_Signature = []\<rparr>
        else Err (ErrMsg ''asn1'')),
     x_CheckSignature = (\<lambda>r. Ok ()),
     x_CreateCertificate = (\<lambda>rnd tpl parent pub key. case map_of tbl (tpl, pub) of
        None \<Rightarrow> Err (ErrMsg ''x509'') | Some der \<Rightarrow> Ok der),
     x_CreateCertificateRequest = (\<lambda>rnd cn key. Ok ''csr''),
     x_PublicKey = (\<lambda>key. ''pub''), x_MarshalECPrivateKey = Ok, x_ParseECPrivateKey = Ok,
     x_Sum256 = (\<lambda>s. s), x_ParseIP = (\<lambda>s. None), x_AddYears = (\<lambda>t y. t + y * 31536000)\<rparr>"

lemma demo_unpem_pem: "demo_unpem (demo_pem typ der) = Some (typ, der)"
  by (simp add: demo_unpem_def demo_pem_def Let_def takeWhile_append)

lemma demo_crypto_laws:
  assumes "distinct (map snd tbl)"
  shows "crypto_laws (demo_crypto tbl)"
proof -
  have "find (\<lambda>e. snd e = der) tbl = Some ((tpl, pub), der)" if "map_of tbl (tpl, pub) = Some der" for tpl pub der
    using assms map_of_SomeD [OF that] by (intro find_key_Some) simp_all
  then show ?thesis
    by (auto simp: crypto_laws_def demo_crypto_def demo_unpem_pem split: option.splits if_splits)
qed

definition demo_entropy :: entropy where
  "demo_entropy = \<lparr>en_key = Ok ''key'', en_serial = Ok 255, en_sig = []\<rparr>"

definition demo_ca_tpl :: certificate where
  "demo_ca_tpl = no_cert\<lparr>ct_Serial := 255, ct_CN := ''LightPN CA'', ct_Organization := [''LightPN''],
     ct_NotBefore := 6400, ct_NotAfter := 630730000, ct_IsCA := True, ct_KeyUsage := [CertSign, CRLSign],
     ct_BasicConstraintsValid := True\<rparr>"

definition demo_ca :: ca where
  "demo_ca = \<lparr>ca_Cert = demo_ca_tpl\<lparr>ct_Raw := ''der'', ct_PublicKey := ''pub''\<rparr>, ca_Key = ''key''\<rparr>"

definition demo_fs :: fs where
  "demo_fs = \<lparr>fs_files = Map.empty, fs_denied = {}, fs_hidden = {}\<rparr>"

lemma demo_ca_created:
  "snd (LoadOrCreate (demo_crypto [((demo_ca_tpl, ''pub''), ''der'')]) ''d'' demo_entropy 10000 demo_fs) = Ok demo_ca"
  by (simp add: LoadOrCreate_def create_ca_def ca_template_def writePEM_def WriteFile_def MkdirAll_def Stat_def
      demo_crypto_def demo_entropy_def demo_fs_def demo_ca_def demo_ca_tpl_def randSerial_def Hour_def Let_def)

theorem trust_root_created_once_witness:
  "\<exists>f'. LoadOrCreate (demo_crypto [((demo_ca_tpl, ''pub''), ''der'')]) ''d'' \<lparr>en_key = Ok ''k2'', en_serial = Ok 7, en_sig = []\<rparr>
     20000 f' = (f', Ok demo_ca) \<and> Stat ''d/ca.crt'' f'"
proof -
  let ?x = "demo_crypto [((demo_ca_tpl, ''pub''), ''der'')]"
  obtain f' where f': "LoadOrCreate ?x ''d'' demo_entropy 10000 demo_fs = (f', Ok demo_ca)"
    using demo_ca_created by (cases "LoadOrCreate ?x ''d'' demo_entropy 10000 demo_fs") auto
  have "crypto_laws ?x" by (rule demo_crypto_laws) simp
  from trust_root_created_once [OF this f', of "\<lparr>en_key = Ok ''k2'', en_serial = Ok 7, en_sig = []\<rparr>" 20000]
  have "LoadOrCreate ?x ''d'' \<lparr>en_key = Ok ''k2'', en_serial = Ok 7, en_sig = []\<rparr> 20000 f' = (f', Ok demo_ca)"
    by (simp add: demo_fs_def)
  then show ?thesis by (auto simp: LoadOrCreate_def Let_def Join_def create_ca_def demo_crypto_def MkdirAll_def
      randSerial_def ca_template_def demo_ca_tpl_def no_cert_def split: if_splits)
qed

text \<open>
  The creation is not atomic: when the key cannot be written the certificate stays, and no later
  start creates an authority, even when the refusal was temporary.
\<close>

lemma half_created_ca:
  assumes "LoadOrCreate x dir en now f = (f', Err e)" and "\<not> Stat (Join dir ''ca.crt'') f"
    and "Stat (Join dir ''ca.crt'') f'" and "\<not> Stat (Join dir ''ca.key'') f"
    and "fs_files g = fs_files f'"
  shows "fst (LoadOrCreate x dir en' now' g) = g \<and> \<not> is_ok (snd (LoadOrCreate x dir en' now' g))"
proof -
  let ?cp = "Join dir ''ca.crt''" and ?kp = "Join dir ''ca.key''"
  have none: "fs_files f ?kp = None" 
    using assms(4) by (cases "fs_files f ?kp") (auto simp: Stat_def)
  have "create_ca x en now ?cp ?kp f = (f', Err e)"
    using assms by (auto simp: LoadOrCreate_def Let_def split: if_splits)
  then have "fs_files f' ?kp = None"
    using none by (auto simp: create_ca_def writePEM_def WriteFile_def Let_def case_prod_beta
        split: sum.splits if_splits)
  then have "ReadFile ?kp g = Inl NotExist" using assms(5) by (simp add: ReadFile_def)
  then have "\<not> is_ok (load x ?cp ?kp g)" by (auto simp: load_def split: sum.splits)
  then show ?thesis using assms(3,5) by (simp add: LoadOrCreate_def Stat_def Let_def)
qed

section \<open>Client certificates\<close>

lemma SignCSR_facts:
  assumes laws: "crypto_laws x" and ok: "SignCSR x c en now csrPEM nodeID ttl = Ok (certPEM, serial)"
  shows "\<exists>typ der req cert. x_pem_decode x csrPEM = Some (typ, der)
    \<and> x_ParseCertificateRequest x der = Ok req \<and> x_CheckSignature x req = Ok ()
    \<and> x_pem_decode x certPEM = Some (''CERTIFICATE'', ct_Raw cert) \<and> x_ParseCertificate x (ct_Raw cert) = Ok cert
    \<and> ct_PublicKey cert = csr_PublicKey req \<and> ct_CN cert = nodeID \<and> Text16 (ct_Serial cert) = serial
    \<and> ct_ExtKeyUsage cert = [ClientAuth] \<and> \<not> ct_IsCA cert \<and> ct_NotAfter cert = now + ttl"
proof -
  from ok obtain ty der req serialN cert where
    steps: "x_pem_decode x csrPEM = Some (ty, der)" "x_ParseCertificateRequest x der = Ok req"
      "x_CheckSignature x req = Ok ()"
    and made: "x_CreateCertificate x (en_sig en) (csr_template serialN nodeID ttl now) (ca_Cert c)
      (csr_PublicKey req) (ca_Key c) = Ok cert"
    and out: "certPEM = x_pem_encode x ''CERTIFICATE'' cert" "serial = Text16 serialN"
    by (auto simp: SignCSR_def split: option.splits sum.splits)
  show ?thesis
    using steps out cert_law [OF laws made] pem_law [OF laws]
    by (intro exI [of _ ty] exI [of _ der] exI [of _ req]
        exI [of _ "(csr_template serialN nodeID ttl now)\<lparr>ct_Raw := cert, ct_PublicKey := csr_PublicKey req\<rparr>"])
      (simp add: csr_template_def no_cert_def)
qed

text \<open>
  C32: the authority, not the applicant, decides what a client certificate says. When \<open>SignCSR\<close>
  succeeds the request carried a valid signature of its own key, and the certificate parses to one for
  that key with the node's ID as its common name, the returned serial, client authentication only, no
  authority to sign, and the life asked for by the hub.
\<close>

theorem SignCSR_binds:
  assumes laws: "crypto_laws x" and ok: "SignCSR x c en now csrPEM nodeID ttl = Ok (certPEM, serial)"
  shows "\<exists>typ der req cert. x_pem_decode x csrPEM = Some (typ, der)
    \<and> x_ParseCertificateRequest x der = Ok req \<and> x_CheckSignature x req = Ok ()
    \<and> x_pem_decode x certPEM = Some (''CERTIFICATE'', ct_Raw cert) \<and> x_ParseCertificate x (ct_Raw cert) = Ok cert
    \<and> ct_PublicKey cert = csr_PublicKey req \<and> ct_CN cert = nodeID \<and> Text16 (ct_Serial cert) = serial
    \<and> ct_ExtKeyUsage cert = [ClientAuth] \<and> \<not> ct_IsCA cert \<and> ct_NotAfter cert = now + ttl"
  using assms by (rule SignCSR_facts)

definition demo_node_tpl :: certificate where
  "demo_node_tpl = no_cert\<lparr>ct_Serial := 255, ct_CN := ''N'', ct_NotBefore := 6400, ct_NotAfter := 96400,
     ct_KeyUsage := [DigitalSignature], ct_ExtKeyUsage := [ClientAuth]\<rparr>"

definition demo_x :: crypto where
  "demo_x = demo_crypto [((demo_node_tpl, ''pub''), ''crt''), ((demo_ca_tpl, ''pub''), ''der'')]"

lemma demo_x_laws: "crypto_laws demo_x"
  unfolding demo_x_def by (rule demo_crypto_laws) simp

lemma demo_SignCSR:
  "SignCSR demo_x demo_ca demo_entropy 10000 (demo_pem typ ''csr'') ''N'' 86400
     = Ok (demo_pem ''CERTIFICATE'' ''crt'', ''ff'')"
proof -
  have "Text16 255 = ''ff''" by (simp add: Text16.simps hex_digit_def char_of_def bit_iff_odd)
  then show ?thesis
    by (simp add: SignCSR_def demo_x_def demo_crypto_def demo_unpem_pem demo_entropy_def randSerial_def
        csr_template_def demo_node_tpl_def Hour_def)
qed

theorem SignCSR_binds_witness:
  "\<exists>cert. x_ParseCertificate demo_x (ct_Raw cert) = Ok cert \<and> ct_CN cert = ''N'' \<and> Text16 (ct_Serial cert) = ''ff''"
  using SignCSR_binds [OF demo_x_laws demo_SignCSR] by blast

end
