(* ===== verification/EnrollProps.thy ===== *)
theory EnrollProps
  imports Enroll Identity PkiProps
begin

text \<open>
  Enrollment from end to end: what the agent keeps is accepted by the hub it enrolled with, and every
  refusal leaves the nodes alone.
\<close>

section \<open>What an acknowledged enrollment did\<close>

lemma NewULID_frame [simp]:
  "hb_db (snd (NewULID h)) = hb_db h" "hb_cfg (snd (NewULID h)) = hb_cfg h"
  "hb_revoked (snd (NewULID h)) = hb_revoked h"
  by (simp_all add: NewULID_def)

lemma refuse_sels [simp]:
  "hb_db (fst (refuse code msg h)) = hb_db h" "hb_revoked (fst (refuse code msg h)) = hb_revoked h"
  "snd (refuse code msg h) = Some reply \<Longrightarrow> env_Type reply = TypeError"
  by (auto simp: refuse_def Let_def case_prod_beta)

lemma publish_enroll_frame [simp]:
  "hb_db (publish e h) = hb_db h" "hb_cfg (publish e h) = hb_cfg h" "hb_revoked (publish e h) = hb_revoked h"
  by (simp_all add: publish_def)

lemma CreateNode_GetNode:
  assumes "CreateNode n db = (db', Ok u)" and "\<not> node_Revoked n"
  shows "GetNode (node_ID n) db' = Ok n"
proof -
  have fresh: "\<not> (\<exists>r \<in> set (st_nodes db). node_ID r = node_ID n)" and db': "st_nodes db' = st_nodes db @ [n]"
    using assms by (auto simp: CreateNode_def split: if_splits)
  have "find (\<lambda>r. node_ID r = node_ID n) (xs @ [n]) = Some n"
    if "\<not> (\<exists>r \<in> set xs. node_ID r = node_ID n)" for xs using that by (induction xs) auto
  with fresh db' show ?thesis by (simp add: GetNode_def)
qed

lemma enroll_node_ack:
  assumes "enroll_node ev eid d ip h = (h', Some reply)" and "env_Type reply = TypeEnrollAck"
  obtains certPEM serial node where
    "SignCSR (ev_crypto ev) (ev_ca ev) (ev_entropy ev) (ev_now ev) (ed_CSRPEM d) (node_ID node)
       (certTTL (hb_cfg h) div 1000000000) = Ok (certPEM, serial)"
    "dec_enroll_ack (env_Data reply) = Some \<lparr>ea_NodeID = node_ID node, ea_CertPEM = certPEM,
       ea_CAPEM = CertPEM (ev_crypto ev) (ev_ca ev), ea_OverlayIP = ip @ ''/32'',
       ea_OverlayCIDR = cfg_OverlayCIDR (hb_cfg h), ea_ControlAddr = control_addr ev h\<rparr>"
    "GetNode (node_ID node) (hb_db h') = Ok node" "node_CertSerial node = serial" "node_OverlayIP node = ip"
    "\<not> node_Revoked node" "hb_revoked h' = hb_revoked h"
proof -
  obtain nodeID h1 where ulid: "NewULID h = (nodeID, h1)" by (cases "NewULID h")
  have h1: "hb_db h1 = hb_db h" "hb_cfg h1 = hb_cfg h" "hb_revoked h1 = hb_revoked h"
    using NewULID_frame [of h] by (simp_all add: ulid)
  have not_refused: "refuse code msg g \<noteq> (h', Some reply)" for code msg g
    using refuse_sels(3) [of code msg g reply] assms(2) by (auto simp: type_defs)
  obtain certPEM serial where sign: "SignCSR (ev_crypto ev) (ev_ca ev) (ev_entropy ev) (ev_now ev) (ed_CSRPEM d) nodeID
      (certTTL (hb_cfg h) div 1000000000) = Ok (certPEM, serial)"
    using assms(1) not_refused h1 unfolding enroll_node_def ulid by (fastforce split: sum.splits)
  define node :: node where "node = \<lparr>node_ID = nodeID, node_Name = (if ed_Hostname d = [] then nodeID else ed_Hostname d),
    node_OverlayIP = ip, node_CertSerial = serial, node_CreatedAt = ev_now ev, node_LastSeen = 0, node_Revoked = False\<rparr>"
  obtain db r where create: "CreateNode node (hb_db h1) = (db, r)" by (cases "CreateNode node (hb_db h1)")
  have "is_ok r" "h' = publish (EvEnrolled nodeID (node_Name node)) (h1\<lparr>hb_db := db\<rparr>)"
    "reply = NewEnvelope TypeEnrollAck eid (enc_enroll_ack \<lparr>ea_NodeID = nodeID, ea_CertPEM = certPEM,
       ea_CAPEM = CertPEM (ev_crypto ev) (ev_ca ev), ea_OverlayIP = ip @ ''/32'',
       ea_OverlayCIDR = cfg_OverlayCIDR (hb_cfg h), ea_ControlAddr = control_addr ev h\<rparr>)"
    using assms(1) not_refused sign create h1 unfolding enroll_node_def ulid
    by (auto simp: Let_def node_def control_addr_def split: sum.splits)
  moreover from this(1) create have "GetNode nodeID db = Ok node"
    using CreateNode_GetNode [of node "hb_db h1" db] by (cases r) (auto simp: node_def)
  ultimately show thesis
    using sign h1 by (intro that [of node certPEM serial]) (simp_all add: node_def)
qed

lemma AllocateIP_nodes [simp]: "st_nodes (fst (AllocateIP cidr cd now db)) = st_nodes db"
  by (simp add: AllocateIP_def expire_cooldowns_def Let_def split: sum.split)

lemma ConsumeToken_nodes [simp]: "st_nodes (fst (ConsumeToken sha tok now db)) = st_nodes db"
  by (simp add: ConsumeToken_def consume_burn_def Let_def split: sum.split)

lemma handleEnroll_ack:
  assumes "handleEnroll ev frame (tr, h) = ((tr', h'), Some reply)" and "env_Type reply = TypeEnrollAck"
  obtains env d ip h1 where "frame = Ok env" "dec_enroll (env_Data env) = Some d"
    "enroll_node ev (env_ID env) d ip h1 = (h', Some reply)" "hb_revoked h1 = hb_revoked h" "hb_cfg h1 = hb_cfg h"
proof -
  have not_refused: "refuse code msg g \<noteq> (h', Some reply)" for code msg g
    using refuse_sels(3) [of code msg g reply] assms(2) by (auto simp: type_defs)
  have "enroll_frame ev frame h = (h', Some reply)"
    using assms(1) not_refused [of "''AUTH_FAILED''" "''rate limited''" h]
    unfolding handleEnroll_def by (cases "snd (enrollAllowed (ev_remoteIP ev) (ev_mono ev) tr)")
      (auto simp: Let_def case_prod_beta prod_eq_iff)
  then obtain env d where env: "frame = Ok env" "dec_enroll (env_Data env) = Some d"
    "enroll_token ev (env_ID env) d h = (h', Some reply)"
    using not_refused by (auto simp: enroll_frame_def split: sum.splits if_splits option.splits)
  then have "\<exists>ip h1. enroll_node ev (env_ID env) d ip h1 = (h', Some reply)
      \<and> hb_revoked h1 = hb_revoked h \<and> hb_cfg h1 = hb_cfg h"
    using not_refused unfolding enroll_token_def Let_def case_prod_beta
    by (fastforce split: sum.splits)
  then obtain ip h1 where "enroll_node ev (env_ID env) d ip h1 = (h', Some reply)"
    "hb_revoked h1 = hb_revoked h" "hb_cfg h1 = hb_cfg h" by blast
  from that [OF env(1,2) this] show thesis .
qed

text \<open>A frame with a token that \<open>ConsumeToken\<close> accepts, from an address within its rate.\<close>

definition token_accepted :: "enroll_env \<Rightarrow> envelope result \<Rightarrow> tries \<Rightarrow> hub \<Rightarrow> bool" where
  "token_accepted ev frame tr h =
     (snd (enrollAllowed (ev_remoteIP ev) (ev_mono ev) tr) \<and>
      (case frame of
         Inl e \<Rightarrow> False
       | Inr env \<Rightarrow> env_V env = Version \<and> env_Type env = TypeEnroll \<and>
           (case dec_enroll (env_Data env) of
              None \<Rightarrow> False
            | Some d \<Rightarrow> is_ok (snd (ConsumeToken (ev_sha256 ev) (ed_Token d) (ev_now ev) (hb_db h))))))"

lemma ConsumeToken_Err: "snd (ConsumeToken sha tok now db) = Err e \<Longrightarrow> fst (ConsumeToken sha tok now db) = db"
  by (auto simp: ConsumeToken_def consume_burn_def Let_def split: sum.splits if_splits)

lemma enroll_node_refused:
  assumes "\<forall>r. snd (enroll_node ev eid d ip h) = Some r \<longrightarrow> env_Type r \<noteq> TypeEnrollAck"
  shows "hb_db (fst (enroll_node ev eid d ip h)) = hb_db h"
  using assms unfolding enroll_node_def
  by (auto simp: Let_def case_prod_beta CreateNode_def split: sum.splits if_splits)

lemma enroll_token_refused:
  assumes "\<forall>r. snd (enroll_token ev eid d h) = Some r \<longrightarrow> env_Type r \<noteq> TypeEnrollAck"
  shows "st_nodes (hb_db (fst (enroll_token ev eid d h))) = st_nodes (hb_db h)"
    and "hb_db (fst (enroll_token ev eid d h)) = hb_db h
      \<or> is_ok (snd (ConsumeToken (ev_sha256 ev) (ed_Token d) (ev_now ev) (hb_db h)))"
  using assms enroll_node_refused ConsumeToken_Err unfolding enroll_token_def
  by (auto simp: Let_def case_prod_beta split: sum.splits)

text \<open>
  A refused enrollment registers nobody. Without an acknowledgement the nodes are what they were,
  and the database is untouched unless the request carried a token that was accepted: a bad frame, an
  unknown, used or expired token and an address beyond its rate change nothing, while a rejected CSR
  or an exhausted overlay has spent the token.
\<close>

theorem refused_registers_nobody:
  assumes "handleEnroll ev frame (tr, h) = ((tr', h'), reply)" and "\<forall>r. reply = Some r \<longrightarrow> env_Type r \<noteq> TypeEnrollAck"
  shows "st_nodes (hb_db h') = st_nodes (hb_db h) \<and> (hb_db h' = hb_db h \<or> token_accepted ev frame tr h)"
proof (cases "snd (enrollAllowed (ev_remoteIP ev) (ev_mono ev) tr)")
  case True
  then have "h' = fst (enroll_frame ev frame h)" "reply = snd (enroll_frame ev frame h)"
    using assms(1) by (auto simp: handleEnroll_def Let_def case_prod_beta)
  then show ?thesis using assms(2) enroll_token_refused True
    by (auto simp: enroll_frame_def token_accepted_def split: sum.splits option.splits if_splits)
next
  case False
  then show ?thesis using assms(1) by (auto simp: handleEnroll_def Let_def case_prod_beta)
qed

section \<open>What the agent keeps\<close>

lemma write_all_read:
  assumes "write_all ws f = (f', Ok u)" and "distinct (map fst ws)" and "q \<notin> fs_hidden f"
  shows "ReadFile q f' = (case map_of ws q of Some c \<Rightarrow> Inr (fst c) | None \<Rightarrow> ReadFile q f)"
  using assms
proof (induction ws arbitrary: f)
  case (Cons w ws)
  let ?g = "fst (WriteFile (fst w) (fst (snd w)) (snd (snd w)) f)"
  have ok: "snd (WriteFile (fst w) (fst (snd w)) (snd (snd w)) f)" and rest: "write_all ws ?g = (f', Ok u)"
    using Cons.prems(1) by (auto simp: Let_def case_prod_beta split: if_splits)
  have none: "map_of ws (fst w) = None" using Cons.prems(2) by (auto simp: map_of_eq_None_iff)
  have "ReadFile q f' = (case map_of ws q of Some c \<Rightarrow> Inr (fst c) | None \<Rightarrow> ReadFile q ?g)"
    using Cons.IH [OF rest] Cons.prems(2,3) by simp
  with none ok Cons.prems(3) show ?case by (auto simp: ReadFile_WriteFile split: option.split)
qed simp

lemma Save_read:
  assumes "Save marshal i keyPEM certPEM caPEM f = (f', Ok u)"
    and "\<forall>p \<in> {keyPath (id_Dir i), certPath (id_Dir i), caPath (id_Dir i), statePath (id_Dir i)}. p \<notin> fs_hidden f"
  shows "ReadFile (keyPath (id_Dir i)) f' = Inr keyPEM" "ReadFile (certPath (id_Dir i)) f' = Inr certPEM"
    "ReadFile (caPath (id_Dir i)) f' = Inr caPEM" "ReadFile (statePath (id_Dir i)) f' = Inr (marshal (enc_identity i))"
proof -
  let ?ws = "[(keyPath (id_Dir i), keyPEM, 384), (certPath (id_Dir i), certPEM, 420),
    (caPath (id_Dir i), caPEM, 420), (statePath (id_Dir i), marshal (enc_identity i), 384 :: nat)]"
  have w: "write_all ?ws f = (f', Ok u)" using assms(1) by (simp add: Save_def del: write_all.simps split: if_splits)
  have d: "distinct (map fst ?ws)" by (simp add: identityPaths)
  from write_all_read [OF w d] assms(2)
  show "ReadFile (keyPath (id_Dir i)) f' = Inr keyPEM" "ReadFile (certPath (id_Dir i)) f' = Inr certPEM"
    "ReadFile (caPath (id_Dir i)) f' = Inr caPEM" "ReadFile (statePath (id_Dir i)) f' = Inr (marshal (enc_identity i))"
    by (simp_all add: identityPaths)
qed

lemma LoadOrCreate_parsed:
  assumes laws: "crypto_laws x" and ok: "LoadOrCreate x dir en now f = (f', Ok c)"
  shows "x_ParseCertificate x (ct_Raw (ca_Cert c)) = Ok (ca_Cert c)"
proof -
  have "\<exists>der. x_ParseCertificate x der = Ok (ca_Cert c)"
  proof (cases "Stat (Join dir ''ca.crt'') f")
    case True
    then show ?thesis using ok
      by (fastforce simp: LoadOrCreate_def Let_def load_def readCertPEM_def split: sum.splits option.splits)
  next
    case False
    then have "create_ca x en now (Join dir ''ca.crt'') (Join dir ''ca.key'') f = (f', Ok c)"
      using ok by (auto simp: LoadOrCreate_def Let_def split: if_splits)
    then show ?thesis by (rule create_ca_Ok) blast
  qed
  then show ?thesis using raw_law [OF laws] by auto
qed

lemma enroll_answer_Ok:
  assumes "enroll_answer x marshal dir keyPEM reply f = (f', Ok i)"
    and "dec_enroll_ack (env_Data reply) = Some ack"
  shows "id_Dir i = dir" and "id_NodeID i = ea_NodeID ack" and "id_OverlayIP i = ea_OverlayIP ack"
    and "id_ControlAddr i = ea_ControlAddr ack" and "CAFingerprintOf x (ea_CAPEM ack) = Ok (id_CAFingerprint i)"
    and "Save marshal i keyPEM (ea_CertPEM ack) (ea_CAPEM ack) f = (f', Ok ())"
  using assms by (auto simp: enroll_answer_def Let_def case_prod_beta split: if_splits sum.splits) (metis prod.collapse)

section \<open>From the first connection to the first session\<close>

text \<open>
  C4: enrollment works end to end. When the hub acknowledges the request an agent has built and the
  agent saves the answer, the agent's next connection presents a certificate that the hub admits as
  the node it registered, with that node's ID and overlay address on both sides, and the agent pins
  exactly the hub's authority. The serial must not be one that is revoked (it is 128 random bits).
\<close>

theorem enrollment_end_to_end:
  assumes laws: "crypto_laws (ev_crypto ev)"
    and ca: "LoadOrCreate (ev_crypto ev) dir en0 t0 f0 = (f1, Ok (ev_ca ev))"
    and req: "enroll_request (ev_crypto ev) en hostname tok ulid = Ok (keyPEM, env)"
    and reply: "handleEnroll ev (Ok env) (tr, h) = ((tr', h'), Some reply)" "env_Type reply = TypeEnrollAck"
    and fresh: "\<forall>n. en_serial (ev_entropy ev) = Ok n \<longrightarrow> Text16 (n mod 2 ^ 128) \<notin> hb_revoked h"
    and answer: "enroll_answer (ev_crypto ev) marshal dataDir keyPEM reply f = (f', Ok i)"
    and vis: "fs_hidden f = {}"
  shows "\<exists>tc node. TLSConfig (ev_crypto ev) i f' = Ok tc
    \<and> handleConn_cert (ct_CN (tc_Certificate tc)) (Text16 (ct_Serial (tc_Certificate tc))) h' = Admitted node
    \<and> id_NodeID i = node_ID node \<and> id_OverlayIP i = node_OverlayIP node @ ''/32''
    \<and> tc_RootCA tc = ca_Cert (ev_ca ev) \<and> id_CAFingerprint i = Fingerprint (ev_crypto ev) (ev_ca ev)"
proof -
  let ?x = "ev_crypto ev"
  obtain key csrDER keyDER where key: "en_key en = Ok key" "x_CreateCertificateRequest ?x (en_sig en) hostname key = Ok csrDER"
      "x_MarshalECPrivateKey ?x key = Ok keyDER" and keyPEM: "keyPEM = x_pem_encode ?x ''EC PRIVATE KEY'' keyDER"
    and env: "env = NewEnvelope TypeEnroll ulid (enc_enroll \<lparr>ed_Token = tok, ed_Hostname = hostname,
        ed_CSRPEM = x_pem_encode ?x ''CERTIFICATE REQUEST'' csrDER\<rparr>)"
    using req by (auto simp: enroll_request_def NewIdentityKey_def split: sum.splits)
  obtain r where r: "x_ParseCertificateRequest ?x csrDER = Ok r" "csr_PublicKey r = x_PublicKey ?x key"
    using csr_law [OF laws key(2)] by blast
  obtain d ip h1 where d: "dec_enroll (env_Data env) = Some d"
    and en: "enroll_node ev (env_ID env) d ip h1 = (h', Some reply)" and h1: "hb_revoked h1 = hb_revoked h"
    using handleEnroll_ack [OF reply] by (metis sum.inject(2))
  have csr: "ed_CSRPEM d = x_pem_encode ?x ''CERTIFICATE REQUEST'' csrDER" using d env by auto
  obtain certPEM serial node where sign: "SignCSR ?x (ev_ca ev) (ev_entropy ev) (ev_now ev) (ed_CSRPEM d) (node_ID node)
       (certTTL (hb_cfg h1) div 1000000000) = Ok (certPEM, serial)"
    and ack: "dec_enroll_ack (env_Data reply) = Some \<lparr>ea_NodeID = node_ID node, ea_CertPEM = certPEM,
       ea_CAPEM = CertPEM ?x (ev_ca ev), ea_OverlayIP = ip @ ''/32'',
       ea_OverlayCIDR = cfg_OverlayCIDR (hb_cfg h1), ea_ControlAddr = control_addr ev h1\<rparr>"
    and node: "GetNode (node_ID node) (hb_db h') = Ok node" "node_CertSerial node = serial"
      "node_OverlayIP node = ip" "\<not> node_Revoked node" "hb_revoked h' = hb_revoked h1"
    by (rule enroll_node_ack [OF en reply(2)])
  obtain cert where cert: "x_pem_decode ?x certPEM = Some (''CERTIFICATE'', ct_Raw cert)"
      "x_ParseCertificate ?x (ct_Raw cert) = Ok cert" "ct_PublicKey cert = csr_PublicKey r"
      "ct_CN cert = node_ID node" "Text16 (ct_Serial cert) = serial"
    using SignCSR_facts [OF laws sign] r(1) by (auto simp: csr pem_law [OF laws])
  have "serial \<notin> hb_revoked h"
    using sign fresh by (auto simp: SignCSR_def randSerial_def split: option.splits sum.splits)
  then have admitted: "handleConn_cert (ct_CN cert) (Text16 (ct_Serial cert)) h' = Admitted node"
    using node h1 cert by (simp add: handleConn_cert_def isRevoked_def)
  note i = enroll_answer_Ok [OF answer ack, simplified]
  note files = Save_read [OF i(6), unfolded vis, simplified]
  have fp: "id_CAFingerprint i = Fingerprint ?x (ev_ca ev)"
    using i(5) by (simp add: CAFingerprintOf_def CertPEM_def pem_law [OF laws] Fingerprint_def)
  have "load ?x (certPath (id_Dir i)) (keyPath (id_Dir i)) f' = Ok \<lparr>ca_Cert = cert, ca_Key = key\<rparr>"
    using files(1,2) cert keyPEM by (simp add: load_def readCertPEM_def pem_law [OF laws] key_law [OF laws key(3)])
  then have "LoadX509KeyPair ?x (certPath (id_Dir i)) (keyPath (id_Dir i)) f' = Ok cert"
    using cert(3) r(2) by (simp add: LoadX509KeyPair_def)
  then have "TLSConfig ?x i f' = Ok \<lparr>tc_Certificate = cert, tc_RootCA = ca_Cert (ev_ca ev), tc_ServerName = ''lightpn-hub''\<rparr>"
    using files(3) LoadOrCreate_parsed [OF laws ca] fp
    by (simp add: TLSConfig_def CertPEM_def pem_law [OF laws] Fingerprint_def)
  with admitted i node fp show ?thesis 
    by (intro exI [of _ "\<lparr>tc_Certificate = cert, tc_RootCA = ca_Cert (ev_ca ev), tc_ServerName = ''lightpn-hub''\<rparr>"]
        exI [of _ node]) simp
qed

section \<open>An enrollment\<close>

definition demo_ev :: enroll_env where
  "demo_ev = \<lparr>ev_crypto = demo_x, ev_ca = demo_ca, ev_sha256 = (\<lambda>s. s), ev_entropy = demo_entropy,
     ev_now = 10000, ev_mono = 0, ev_remoteIP = ''198.51.100.7'', ev_localAddr = ''192.0.2.1:7440''\<rparr>"

definition demo_token_store :: store where
  "demo_token_store = empty_store\<lparr>st_tokens := [\<lparr>tok_id = ''t'', tok_hash = ''lp_tok'', tok_note = [],
     tok_expires_at = 20000, tok_used_at = None\<rparr>]\<rparr>"

definition demo_enroll_hub :: hub where
  "demo_enroll_hub = NewHub (Defaults\<lparr>cfg_CertTTLDays := 1\<rparr>) demo_token_store (\<lambda>k. ''N'')"

definition demo_request :: "string \<times> envelope" where
  "demo_request = (demo_pem ''EC PRIVATE KEY'' ''key'', NewEnvelope TypeEnroll ''e'' (enc_enroll
     \<lparr>ed_Token = ''lp_tok'', ed_Hostname = ''h'', ed_CSRPEM = demo_pem ''CERTIFICATE REQUEST'' ''csr''\<rparr>))"

lemma demo_request: "enroll_request demo_x demo_entropy ''h'' ''lp_tok'' ''e'' = Ok demo_request"
  by (simp add: enroll_request_def NewIdentityKey_def demo_x_def demo_crypto_def demo_entropy_def demo_request_def)

definition demo_ack :: enroll_ack_data where
  "demo_ack = \<lparr>ea_NodeID = ''N'', ea_CertPEM = demo_pem ''CERTIFICATE'' ''crt'', ea_CAPEM = demo_pem ''CERTIFICATE'' ''der'',
     ea_OverlayIP = ''100.100.0.2/32'', ea_OverlayCIDR = ''100.100.0.0/24'', ea_ControlAddr = ''192.0.2.1:7440''\<rparr>"

lemma demo_enroll_alloc:
  "AllocateIP ''100.100.0.0/24'' 2592000000000000 10000 (empty_store\<lparr>st_tokens := toks\<rparr>) =
     (empty_store\<lparr>st_tokens := toks\<rparr>, Ok ''100.100.0.2'')"
  by code_simp

lemma demo_ca_in_demo_x: "snd (LoadOrCreate demo_x ''d'' demo_entropy 10000 demo_fs) = Ok demo_ca"
  by (simp add: LoadOrCreate_def create_ca_def ca_template_def writePEM_def WriteFile_def MkdirAll_def Stat_def demo_x_def
      demo_node_tpl_def demo_crypto_def demo_entropy_def demo_fs_def demo_ca_def demo_ca_tpl_def randSerial_def Hour_def
      no_cert_def Let_def)

lemma demo_saved:
  "\<exists>f' i. enroll_answer demo_x (\<lambda>j. ''{}'') ''a'' (demo_pem ''EC PRIVATE KEY'' ''key'')
      (NewEnvelope TypeEnrollAck ''e'' (enc_enroll_ack demo_ack)) demo_fs = (f', Ok i) \<and> id_NodeID i = ''N''"
  by (simp add: enroll_answer_def demo_ack_def CAFingerprintOf_def demo_x_def demo_crypto_def demo_unpem_pem type_defs
      Save_def MkdirAll_def WriteFile_def demo_fs_def Let_def)

lemma demo_enrolled:
  "\<exists>h'. handleEnroll demo_ev (Ok (snd demo_request)) (no_tries, demo_enroll_hub)
     = ((no_tries(''198.51.100.7'' := [0]), h'), Some (NewEnvelope TypeEnrollAck ''e'' (enc_enroll_ack demo_ack)))"
proof -
  have sign: "SignCSR demo_x demo_ca demo_entropy 10000 (demo_pem ''CERTIFICATE REQUEST'' ''csr'') ''N'' 86400
     = Ok (demo_pem ''CERTIFICATE'' ''crt'', ''ff'')" by (rule demo_SignCSR)
  have ttl: "certTTL (Defaults\<lparr>cfg_CertTTLDays := 1\<rparr>) div 1000000000 = 86400"
    by (simp add: certTTL_def wrap64_id)
  have cool: "IPCooldown (Defaults\<lparr>cfg_CertTTLDays := 1\<rparr>) = 2592000000000000"
    by (simp add: IPCooldown_def Defaults_def seconds_id)
  have ca: "CertPEM demo_x demo_ca = demo_pem ''CERTIFICATE'' ''der''"
    by (simp add: CertPEM_def demo_x_def demo_crypto_def demo_ca_def)
  have cons: "ConsumeToken (\<lambda>s. s) ''lp_tok'' 10000 demo_token_store = (empty_store\<lparr>st_tokens :=
      [\<lparr>tok_id = ''t'', tok_hash = ''lp_tok'', tok_note = [], tok_expires_at = 20000, tok_used_at = Some 10000\<rparr>]\<rparr>, Ok ())"
    by (simp add: ConsumeToken_def consume_check_def consume_burn_def demo_token_store_def empty_store_def Let_def)
  have cfg: "cfg_OverlayCIDR Defaults = ''100.100.0.0/24''" "cfg_PublicAddr Defaults = []"
    "st_nodes empty_store = []" by (simp_all add: Defaults_def empty_store_def)
  show ?thesis
    by (simp add: handleEnroll_def enroll_frame_def enroll_token_def enroll_node_def enrollAllowed_def no_tries_def
        demo_request_def demo_ev_def demo_enroll_hub_def NewHub_def Let_def cons cool demo_enroll_alloc sign ttl ca NewULID_def
        CreateNode_def cfg demo_ack_def control_addr_def Version_def)
qed

theorem enrollment_end_to_end_witness:
  "\<exists>h' f' i tc node. TLSConfig demo_x i f' = Ok tc \<and> id_NodeID i = ''N''
    \<and> handleConn_cert (ct_CN (tc_Certificate tc)) (Text16 (ct_Serial (tc_Certificate tc))) h' = Admitted node"
proof -
  obtain f1 where ca: "LoadOrCreate demo_x ''d'' demo_entropy 10000 demo_fs = (f1, Ok demo_ca)"
    using demo_ca_in_demo_x by (cases "LoadOrCreate demo_x ''d'' demo_entropy 10000 demo_fs") auto
  obtain h' where h': "handleEnroll demo_ev (Ok (snd demo_request)) (no_tries, demo_enroll_hub)
     = ((no_tries(''198.51.100.7'' := [0]), h'), Some (NewEnvelope TypeEnrollAck ''e'' (enc_enroll_ack demo_ack)))"
    using demo_enrolled by blast
  obtain f' i where answer: "enroll_answer demo_x (\<lambda>j. ''{}'') ''a'' (demo_pem ''EC PRIVATE KEY'' ''key'')
      (NewEnvelope TypeEnrollAck ''e'' (enc_enroll_ack demo_ack)) demo_fs = (f', Ok i)" and i: "id_NodeID i = ''N''"
    using demo_saved by blast
  have env: "enroll_request demo_x demo_entropy ''h'' ''lp_tok'' ''e'' = Ok (demo_pem ''EC PRIVATE KEY'' ''key'', snd demo_request)"
    by (simp add: demo_request) (simp add: demo_request_def)
  have ev: "ev_crypto demo_ev = demo_x" "ev_ca demo_ev = demo_ca" by (simp_all add: demo_ev_def)
  note end_to_end = enrollment_end_to_end [where ev = demo_ev, unfolded ev, OF demo_x_laws ca env h' _ _ answer]
  have "\<exists>tc node. TLSConfig demo_x i f' = Ok tc
    \<and> handleConn_cert (ct_CN (tc_Certificate tc)) (Text16 (ct_Serial (tc_Certificate tc))) h' = Admitted node"
    using end_to_end by (auto simp: demo_fs_def demo_enroll_hub_def NewHub_def demo_token_store_def empty_store_def
        RevokedSerials_def)
  with i show ?thesis by blast
qed

theorem refused_registers_nobody_witness:
  "\<exists>tr' h' reply. handleEnroll demo_ev (Ok (NewEnvelope TypeRegister ''r'' JNull)) (no_tries, demo_enroll_hub) = ((tr', h'), reply)
     \<and> hb_db h' = demo_token_store"
proof -
  let ?frame = "Ok (NewEnvelope TypeRegister ''r'' JNull)"
  obtain tr' h' reply where run: "handleEnroll demo_ev ?frame (no_tries, demo_enroll_hub) = ((tr', h'), reply)"
    by (metis prod.collapse)
  have "\<forall>r. reply = Some r \<longrightarrow> env_Type r \<noteq> TypeEnrollAck"
    using run by (auto simp: handleEnroll_def enroll_frame_def refuse_def enrollAllowed_def no_tries_def demo_ev_def
        Let_def case_prod_beta type_defs)
  from refused_registers_nobody [OF run this] have "hb_db h' = hb_db demo_enroll_hub"
    by (simp add: token_accepted_def type_defs)
  then show ?thesis using run by (auto simp: demo_enroll_hub_def NewHub_def)
qed

end
