(* ===== verification/WG.thy ===== *)
theory WG
  imports Proto Netip Config
begin

text \<open>
  The WireGuard managers of the agent: the Linux one of \<open>internal/agent/wg_linux.go\<close> over the kernel
  and the development stub of \<open>wg_stub.go\<close>. Every method runs under \<open>w.mu\<close>. The kernel, the \<open>ip\<close>
  command, \<open>wgctrl\<close>, the resolver and the CIDR parser are the fields of the record \<open>kernel\<close> over an
  opaque kernel state. What the code relies on is the definition \<open>kernel_laws\<close> in \<open>WGProps\<close>.
\<close>

section \<open>The kernel\<close>

record peer_config =
  pc_PublicKey :: string
  pc_Remove :: bool
  pc_Endpoint :: string
  pc_AllowedIPs :: "string list"
  pc_ReplaceAllowedIPs :: bool
  pc_Keepalive :: int

record wg_config =
  wc_PrivateKey :: "string option"
  wc_ListenPort :: "int option"
  wc_ReplacePeers :: bool
  wc_Peers :: "peer_config list"

record wg_peer =
  dp_PublicKey :: string
  dp_ReceiveBytes :: int
  dp_TransmitBytes :: int
  dp_LastHandshake :: "int option"
  dp_Endpoint :: "string option"

record device =
  dv_ListenPort :: int
  dv_Peers :: "wg_peer list"

record 'k kernel =
  kn_ConfigureDevice :: "wg_config \<Rightarrow> 'k \<Rightarrow> 'k \<times> unit result"
  kn_Device :: "'k \<Rightarrow> device result"
  kn_InterfaceByName :: "'k \<Rightarrow> bool"
  kn_ip :: "string list \<Rightarrow> 'k \<Rightarrow> 'k \<times> unit result"
  kn_ParseKey :: "string \<Rightarrow> string option"
  kn_KeyString :: "string \<Rightarrow> string"
  kn_PublicKey :: "string \<Rightarrow> string"
  kn_ResolveUDPAddr :: "string \<Rightarrow> string option"
  kn_ParseCIDR :: "string \<Rightarrow> string option"

section \<open>The Linux manager\<close>

record 'k linuxWG =
  lw_kernel :: 'k
  lw_priv :: string
  lw_port :: int
  lw_peerNodes :: "string \<rightharpoonup> string"
  lw_nodeKeys :: "string \<rightharpoonup> string"

definition deviceName :: string where "deviceName = ''lightpn0''"

definition no_config :: wg_config where
  "no_config = \<lparr>wc_PrivateKey = None, wc_ListenPort = None, wc_ReplacePeers = False, wc_Peers = []\<rparr>"

text \<open>The part of the address before the first slash, with the prefix length of the overlay.\<close>

definition overlayAddr :: "string \<Rightarrow> string \<Rightarrow> string result" where
  "overlayAddr overlayIP overlayCIDR =
     (case ParseAddr (takeWhile (\<lambda>c. c \<noteq> CHR ''/'') overlayIP) of
        None \<Rightarrow> Err (ErrMsg ''ParseAddr'')
      | Some addr \<Rightarrow>
          (case ParsePrefix overlayCIDR of
             Inl e \<Rightarrow> Err e
           | Inr p \<Rightarrow> Ok (addr_String addr @ ''/'' @ itoa (snd p))))"

fun parse_allowed :: "'k kernel \<Rightarrow> string list \<Rightarrow> string list result" where
  "parse_allowed kn [] = Ok []"
| "parse_allowed kn (c # cs) =
     (case kn_ParseCIDR kn c of
        None \<Rightarrow> Err (ErrMsg ''allowed_ip'')
      | Some net \<Rightarrow> (case parse_allowed kn cs of Inl e \<Rightarrow> Err e | Inr nets \<Rightarrow> Ok (net # nets)))"

definition specToPeerConfig :: "'k kernel \<Rightarrow> peer_spec \<Rightarrow> peer_config result" where
  "specToPeerConfig kn spec =
     (case kn_ParseKey kn (ps_WGPubkey spec) of
        None \<Rightarrow> Err (ErrMsg ''peer pubkey'')
      | Some key \<Rightarrow>
          (case kn_ResolveUDPAddr kn (ps_Endpoint spec) of
             None \<Rightarrow> Err (ErrMsg ''peer endpoint'')
           | Some endpoint \<Rightarrow>
               (case parse_allowed kn (ps_AllowedIPs spec) of
                  Inl e \<Rightarrow> Err e
                | Inr allowed \<Rightarrow>
                    Ok \<lparr>pc_PublicKey = key, pc_Remove = False, pc_Endpoint = endpoint, pc_AllowedIPs = allowed,
                      pc_ReplaceAllowedIPs = True, pc_Keepalive = seconds (ps_KeepaliveS spec)\<rparr>)))"

text \<open>The loop of \<open>Reconcile\<close> over the specs: the configurations and the two maps, or the first error.\<close>

fun spec_loop ::
  "'k kernel \<Rightarrow> peer_spec list \<Rightarrow> peer_config list \<Rightarrow> (string \<rightharpoonup> string) \<Rightarrow> (string \<rightharpoonup> string)
    \<Rightarrow> (peer_config list \<times> (string \<rightharpoonup> string) \<times> (string \<rightharpoonup> string)) result" where
  "spec_loop kn [] peers pn nk = Ok (peers, pn, nk)"
| "spec_loop kn (s # ss) peers pn nk =
     (case specToPeerConfig kn s of
        Inl e \<Rightarrow> Err e
      | Inr pc \<Rightarrow> spec_loop kn ss (peers @ [pc]) (pn(ps_WGPubkey s \<mapsto> ps_PeerNodeID s))
          (nk(ps_PeerNodeID s \<mapsto> ps_WGPubkey s)))"

definition linux_Reconcile :: "'k kernel \<Rightarrow> peer_spec list \<Rightarrow> 'k linuxWG \<Rightarrow> 'k linuxWG \<times> unit result" where
  "linux_Reconcile kn specs w =
     (case spec_loop kn specs [] Map.empty Map.empty of
        Inl e \<Rightarrow> (w, Err e)
      | Inr (peers, pn, nk) \<Rightarrow>
          (let (k, r) = kn_ConfigureDevice kn (no_config\<lparr>wc_ReplacePeers := True, wc_Peers := peers\<rparr>) (lw_kernel w);
               w1 = w\<lparr>lw_kernel := k\<rparr>
           in (case r of
                 Inl e \<Rightarrow> (w1, Err e)
               | Inr u \<Rightarrow> (w1\<lparr>lw_peerNodes := pn, lw_nodeKeys := nk\<rparr>, Ok ()))))"

definition linux_AddPeer :: "'k kernel \<Rightarrow> peer_spec \<Rightarrow> 'k linuxWG \<Rightarrow> 'k linuxWG \<times> unit result" where
  "linux_AddPeer kn spec w =
     (case specToPeerConfig kn spec of
        Inl e \<Rightarrow> (w, Err e)
      | Inr pc \<Rightarrow>
          (let (k, r) = kn_ConfigureDevice kn (no_config\<lparr>wc_Peers := [pc]\<rparr>) (lw_kernel w); w1 = w\<lparr>lw_kernel := k\<rparr> in
           (case r of
              Inl e \<Rightarrow> (w1, Err e)
            | Inr u \<Rightarrow>
                (w1\<lparr>lw_peerNodes := (lw_peerNodes w)(ps_WGPubkey spec \<mapsto> ps_PeerNodeID spec),
                    lw_nodeKeys := (lw_nodeKeys w)(ps_PeerNodeID spec \<mapsto> ps_WGPubkey spec)\<rparr>, Ok ()))))"

text \<open>The kernel's error for a peer that is already gone contains \<open>no such\<close> and is no failure.\<close>

definition no_such :: "go_error \<Rightarrow> bool" where
  "no_such e = (case e of ErrMsg m \<Rightarrow> (\<exists>i \<in> set [0..<length m]. take 7 (drop i m) = ''no such'') | _ \<Rightarrow> False)"

definition removal_config :: "string \<Rightarrow> peer_config" where
  "removal_config key = \<lparr>pc_PublicKey = key, pc_Remove = True, pc_Endpoint = [], pc_AllowedIPs = [],
     pc_ReplaceAllowedIPs = False, pc_Keepalive = 0\<rparr>"

definition forget_key :: "string \<Rightarrow> 'k linuxWG \<Rightarrow> 'k linuxWG" where
  "forget_key pub w =
     (case lw_peerNodes w pub of
        None \<Rightarrow> w
      | Some nid \<Rightarrow> w\<lparr>lw_peerNodes := (lw_peerNodes w)(pub := None),
          lw_nodeKeys := (if lw_nodeKeys w nid = Some pub then (lw_nodeKeys w)(nid := None) else lw_nodeKeys w)\<rparr>)"

definition removeKeyLocked :: "'k kernel \<Rightarrow> string \<Rightarrow> 'k linuxWG \<Rightarrow> 'k linuxWG \<times> unit result" where
  "removeKeyLocked kn pub w =
     (case kn_ParseKey kn pub of
        None \<Rightarrow> (w, Err (ErrMsg ''key''))
      | Some key \<Rightarrow>
          (let (k, r) = kn_ConfigureDevice kn (no_config\<lparr>wc_Peers := [removal_config key]\<rparr>) (lw_kernel w);
               w1 = w\<lparr>lw_kernel := k\<rparr>
           in (case r of
                 Inl e \<Rightarrow> if no_such e then (forget_key pub w1, Ok ()) else (w1, Err e)
               | Inr u \<Rightarrow> (forget_key pub w1, Ok ()))))"

definition linux_UpdatePeer :: "'k kernel \<Rightarrow> peer_spec \<Rightarrow> 'k linuxWG \<Rightarrow> 'k linuxWG \<times> unit result" where
  "linux_UpdatePeer kn spec w =
     (case lw_nodeKeys w (ps_PeerNodeID spec) of
        None \<Rightarrow> linux_AddPeer kn spec w
      | Some old \<Rightarrow>
          if old = ps_WGPubkey spec then linux_AddPeer kn spec w
          else (let (w1, r) = removeKeyLocked kn old w in
                (case r of Inl e \<Rightarrow> (w1, Err e) | Inr u \<Rightarrow> linux_AddPeer kn spec w1)))"

definition linux_RemovePeer :: "'k kernel \<Rightarrow> string \<Rightarrow> 'k linuxWG \<Rightarrow> 'k linuxWG \<times> unit result" where
  "linux_RemovePeer kn pub w = removeKeyLocked kn pub w"

definition linux_Rotate :: "'k kernel \<Rightarrow> string result \<Rightarrow> 'k linuxWG \<Rightarrow> 'k linuxWG \<times> string result" where
  "linux_Rotate kn gen w =
     (case gen of
        Inl e \<Rightarrow> (w, Err e)
      | Inr priv \<Rightarrow>
          (let (k, r) = kn_ConfigureDevice kn (no_config\<lparr>wc_PrivateKey := Some priv, wc_ReplacePeers := True\<rparr>) (lw_kernel w);
               w1 = w\<lparr>lw_kernel := k\<rparr>
           in (case r of
                 Inl e \<Rightarrow> (w1, Err e)
               | Inr u \<Rightarrow> (w1\<lparr>lw_priv := priv, lw_peerNodes := Map.empty, lw_nodeKeys := Map.empty\<rparr>,
                   Ok (kn_KeyString kn (kn_PublicKey kn priv))))))"

fun ip_cmds :: "'k kernel \<Rightarrow> string list list \<Rightarrow> 'k \<Rightarrow> 'k \<times> unit result" where
  "ip_cmds kn [] k = (k, Ok ())"
| "ip_cmds kn (c # cs) k =
     (let (k1, r) = kn_ip kn c k in (case r of Inl e \<Rightarrow> (k1, Err e) | Inr u \<Rightarrow> ip_cmds kn cs k1))"

text \<open>\<open>Init\<close> once the address is known: key, configuration, link up, and the port the kernel chose.\<close>

definition init_device :: "'k kernel \<Rightarrow> string result \<Rightarrow> int \<Rightarrow> 'k linuxWG \<Rightarrow> 'k linuxWG \<times> (string \<times> int) result" where
  "init_device kn gen listenPort w =
     (case gen of
        Inl e \<Rightarrow> (w, Err e)
      | Inr priv \<Rightarrow>
          (let w1 = w\<lparr>lw_priv := priv\<rparr>;
               (k2, r2) = kn_ConfigureDevice kn (no_config\<lparr>wc_PrivateKey := Some priv, wc_ListenPort := Some listenPort,
                 wc_ReplacePeers := True\<rparr>) (lw_kernel w1)
           in (case r2 of
                 Inl e \<Rightarrow> (w1\<lparr>lw_kernel := k2\<rparr>, Err e)
               | Inr u2 \<Rightarrow>
                   (let (k3, r3) = ip_cmds kn [[''link'', ''set'', ''up'', ''dev'', deviceName]] k2; w3 = w1\<lparr>lw_kernel := k3\<rparr> in
                    (case r3 of
                       Inl e \<Rightarrow> (w3, Err e)
                     | Inr u3 \<Rightarrow>
                         (case kn_Device kn k3 of
                            Inl e \<Rightarrow> (w3, Err e)
                          | Inr dev \<Rightarrow>
                              (w3\<lparr>lw_port := dv_ListenPort dev, lw_peerNodes := Map.empty, lw_nodeKeys := Map.empty\<rparr>,
                               Ok (kn_KeyString kn (kn_PublicKey kn priv), dv_ListenPort dev))))))))"

definition linux_Init ::
  "'k kernel \<Rightarrow> string result \<Rightarrow> string \<Rightarrow> string \<Rightarrow> int \<Rightarrow> 'k linuxWG \<Rightarrow> 'k linuxWG \<times> (string \<times> int) result" where
  "linux_Init kn gen overlayIP overlayCIDR listenPort w =
     (let del = (if kn_InterfaceByName kn (lw_kernel w) then [[''link'', ''del'', ''dev'', deviceName]] else []);
          (k1, r1) = ip_cmds kn (del @ [[''link'', ''add'', deviceName, ''type'', ''wireguard'']]) (lw_kernel w);
          w1 = w\<lparr>lw_kernel := k1\<rparr>
      in (case r1 of
            Inl e \<Rightarrow> (w1, Err e)
          | Inr u1 \<Rightarrow>
              (case overlayAddr overlayIP overlayCIDR of
                 Inl e \<Rightarrow> (w1, Err e)
               | Inr addr \<Rightarrow>
                   (let (k2, r2) = ip_cmds kn [[''addr'', ''replace'', addr, ''dev'', deviceName]] k1; w2 = w1\<lparr>lw_kernel := k2\<rparr> in
                    (case r2 of Inl e \<Rightarrow> (w2, Err e) | Inr u2 \<Rightarrow> init_device kn gen listenPort w2)))))"

definition linux_Status :: "'k kernel \<Rightarrow> 'k linuxWG \<Rightarrow> wg_peer_status list result" where
  "linux_Status kn w =
     (case kn_Device kn (lw_kernel w) of
        Inl e \<Rightarrow> Err e
      | Inr dev \<Rightarrow> Ok (map (\<lambda>p.
          \<lparr>wp_PeerNodeID = (case lw_peerNodes w (kn_KeyString kn (dp_PublicKey p)) of None \<Rightarrow> [] | Some nid \<Rightarrow> nid),
           wp_LastHandshakeTS = (case dp_LastHandshake p of None \<Rightarrow> 0 | Some t \<Rightarrow> t),
           wp_RxBytes = word_of_int (dp_ReceiveBytes p), wp_TxBytes = word_of_int (dp_TransmitBytes p),
           wp_Endpoint = (case dp_Endpoint p of None \<Rightarrow> [] | Some e \<Rightarrow> e)\<rparr>) (dv_Peers dev)))"

definition linux_Teardown :: "'k kernel \<Rightarrow> 'k linuxWG \<Rightarrow> 'k linuxWG \<times> unit result" where
  "linux_Teardown kn w =
     (if \<not> kn_InterfaceByName kn (lw_kernel w) then (w, Ok ())
      else (let (k, r) = kn_ip kn [''link'', ''del'', ''dev'', deviceName] (lw_kernel w) in (w\<lparr>lw_kernel := k\<rparr>, r)))"

section \<open>The stub\<close>

record stubWG =
  sw_pub :: string
  sw_port :: int
  sw_peerNodes :: "string \<rightharpoonup> string"
  sw_nodeKeys :: "string \<rightharpoonup> string"

definition stub_Init :: "string \<Rightarrow> int \<Rightarrow> stubWG \<Rightarrow> stubWG \<times> (string \<times> int) result" where
  "stub_Init key listenPort w =
     (w\<lparr>sw_pub := key, sw_port := listenPort, sw_peerNodes := Map.empty, sw_nodeKeys := Map.empty\<rparr>, Ok (key, listenPort))"

definition stub_AddPeer :: "peer_spec \<Rightarrow> stubWG \<Rightarrow> stubWG" where
  "stub_AddPeer s w = w\<lparr>sw_peerNodes := (sw_peerNodes w)(ps_WGPubkey s \<mapsto> ps_PeerNodeID s),
     sw_nodeKeys := (sw_nodeKeys w)(ps_PeerNodeID s \<mapsto> ps_WGPubkey s)\<rparr>"

definition stub_Reconcile :: "peer_spec list \<Rightarrow> stubWG \<Rightarrow> stubWG" where
  "stub_Reconcile specs w = fold stub_AddPeer specs (w\<lparr>sw_peerNodes := Map.empty, sw_nodeKeys := Map.empty\<rparr>)"

definition stub_UpdatePeer :: "peer_spec \<Rightarrow> stubWG \<Rightarrow> stubWG" where
  "stub_UpdatePeer s w =
     (let w1 = (case sw_nodeKeys w (ps_PeerNodeID s) of
          None \<Rightarrow> w
        | Some old \<Rightarrow> w\<lparr>sw_peerNodes := (sw_peerNodes w)(old := None)\<rparr>)
      in w1\<lparr>sw_peerNodes := (sw_peerNodes w1)(ps_WGPubkey s \<mapsto> ps_PeerNodeID s),
            sw_nodeKeys := (sw_nodeKeys w1)(ps_PeerNodeID s \<mapsto> ps_WGPubkey s)\<rparr>)"

definition stub_RemovePeer :: "string \<Rightarrow> stubWG \<Rightarrow> stubWG" where
  "stub_RemovePeer pub w =
     (case sw_peerNodes w pub of
        None \<Rightarrow> w
      | Some nid \<Rightarrow> w\<lparr>sw_peerNodes := (sw_peerNodes w)(pub := None), sw_nodeKeys := (sw_nodeKeys w)(nid := None)\<rparr>)"

definition stub_Rotate :: "string \<Rightarrow> stubWG \<Rightarrow> stubWG \<times> string" where
  "stub_Rotate key w = (w\<lparr>sw_pub := key, sw_peerNodes := Map.empty, sw_nodeKeys := Map.empty\<rparr>, key)"

end
