(* ===== verification/WGProps.thy ===== *)
theory WGProps
  imports WG
begin

text \<open>
  What both WireGuard managers promise the agent, as the interface \<open>wg_manager\<close>: their book-keeping is
  the abstract table from node to public key. The Linux manager and the stub are its instances, which
  gives the refinement of the table by the kernel's peers and the equivalence of the two.
\<close>

section \<open>The abstract table\<close>

type_synonym key_table = "string \<rightharpoonup> string"

datatype wg_op = WAdd peer_spec | WUpdate peer_spec | WRemove string | WReconcile "peer_spec list" | WRotate "string result"

definition add_spec :: "peer_spec \<Rightarrow> key_table \<Rightarrow> key_table" where
  "add_spec s T = T(ps_PeerNodeID s \<mapsto> ps_WGPubkey s)"

fun table_step :: "wg_op \<Rightarrow> key_table \<Rightarrow> key_table" where
  "table_step (WAdd s) T = add_spec s T"
| "table_step (WUpdate s) T = add_spec s T"
| "table_step (WRemove k) T = (\<lambda>n. if T n = Some k then None else T n)"
| "table_step (WReconcile ss) T = fold add_spec ss Map.empty"
| "table_step (WRotate g) T = Map.empty"

text \<open>
  The discipline of the hub: a key belongs to one node, \<open>peer_add\<close> names a node that has no other key,
  and one reconciliation names each node and each key once. \<open>valid\<close> are the key texts the manager accepts.
\<close>

fun fits :: "(string \<Rightarrow> bool) \<Rightarrow> wg_op \<Rightarrow> key_table \<Rightarrow> bool" where
  "fits valid (WAdd s) T \<longleftrightarrow> valid (ps_WGPubkey s) \<and> T (ps_PeerNodeID s) \<in> {None, Some (ps_WGPubkey s)}
     \<and> (\<forall>n. n \<noteq> ps_PeerNodeID s \<longrightarrow> T n \<noteq> Some (ps_WGPubkey s))"
| "fits valid (WUpdate s) T \<longleftrightarrow> valid (ps_WGPubkey s) \<and> (\<forall>n. n \<noteq> ps_PeerNodeID s \<longrightarrow> T n \<noteq> Some (ps_WGPubkey s))"
| "fits valid (WRemove k) T \<longleftrightarrow> valid k"
| "fits valid (WReconcile ss) T \<longleftrightarrow> (\<forall>s \<in> set ss. valid (ps_WGPubkey s))
     \<and> distinct (map ps_PeerNodeID ss) \<and> distinct (map ps_WGPubkey ss)"
| "fits valid (WRotate g) T \<longleftrightarrow> True"

fun fits_all :: "(string \<Rightarrow> bool) \<Rightarrow> wg_op list \<Rightarrow> key_table \<Rightarrow> bool" where
  "fits_all valid [] T \<longleftrightarrow> True"
| "fits_all valid (c # cs) T \<longleftrightarrow> fits valid c T \<and> fits_all valid cs (table_step c T)"

text \<open>A run in which every operation succeeds, or \<open>None\<close>.\<close>

fun wg_run :: "(wg_op \<Rightarrow> 's \<Rightarrow> 's \<times> bool) \<Rightarrow> wg_op list \<Rightarrow> 's \<Rightarrow> 's option" where
  "wg_run exec [] s = Some s"
| "wg_run exec (c # cs) s = (let (s', ok) = exec c s in if ok then wg_run exec cs s' else None)"

locale wg_manager =
  fixes exec :: "wg_op \<Rightarrow> 's \<Rightarrow> 's \<times> bool"
    and table :: "'s \<Rightarrow> key_table"
    and good :: "'s \<Rightarrow> bool"
    and valid :: "string \<Rightarrow> bool"
  assumes step_good: "good s \<Longrightarrow> fits valid c (table s) \<Longrightarrow> snd (exec c s) \<Longrightarrow> good (fst (exec c s))"
    and step_table: "good s \<Longrightarrow> fits valid c (table s) \<Longrightarrow> snd (exec c s) \<Longrightarrow>
      table (fst (exec c s)) = table_step c (table s)"
begin

lemma run_refines:
  "good s \<Longrightarrow> fits_all valid cs (table s) \<Longrightarrow> wg_run exec cs s = Some s' \<Longrightarrow>
     good s' \<and> table s' = fold table_step cs (table s)"
proof (induction cs arbitrary: s)
  case (Cons c cs)
  have ok: "snd (exec c s)" and rest: "wg_run exec cs (fst (exec c s)) = Some s'"
    using Cons.prems(3) by (auto simp: case_prod_beta Let_def split: if_splits)
  have fit: "fits valid c (table s)" "fits_all valid cs (table_step c (table s))" using Cons.prems(2) by simp_all
  note t = step_table [OF Cons.prems(1) fit(1) ok]
  from Cons.IH [OF step_good [OF Cons.prems(1) fit(1) ok] _ rest] fit(2) t show ?case by simp
qed simp

end

section \<open>Two maps that are inverse\<close>

definition inverse_maps :: "(string \<rightharpoonup> string) \<Rightarrow> (string \<rightharpoonup> string) \<Rightarrow> bool" where
  "inverse_maps pn nk \<longleftrightarrow> (\<forall>n k. nk n = Some k \<longleftrightarrow> pn k = Some n)"

lemma inverse_empty [simp]: "inverse_maps Map.empty Map.empty"
  by (simp add: inverse_maps_def)

lemma inverse_add:
  assumes "inverse_maps pn nk" and "nk n = None \<or> nk n = Some k" and "\<And>m. m \<noteq> n \<Longrightarrow> nk m \<noteq> Some k"
  shows "inverse_maps (pn(k \<mapsto> n)) (nk(n \<mapsto> k))"
  using assms unfolding inverse_maps_def by (auto split: if_splits) (metis option.distinct(1) option.inject)+

lemma inverse_remove: "inverse_maps pn nk \<Longrightarrow> pn k = Some n \<Longrightarrow> inverse_maps (pn(k := None)) (nk(n := None))"
  unfolding inverse_maps_def by (auto split: if_splits) (metis option.inject)+

lemma inverse_key: "inverse_maps pn nk \<Longrightarrow> nk n = Some k \<longleftrightarrow> pn k = Some n"
  by (simp add: inverse_maps_def)

lemma inverse_dom: "inverse_maps pn nk \<Longrightarrow> dom pn = ran nk"
  unfolding inverse_maps_def dom_def ran_def by (rule set_eqI) simp

lemma table_remove:
  assumes "inverse_maps pn nk"
  shows "table_step (WRemove k) nk = (case pn k of None \<Rightarrow> nk | Some n \<Rightarrow> nk(n := None))"
  using assms by (auto simp: inverse_maps_def fun_eq_iff split: option.split)

section \<open>The stub\<close>

fun stub_exec :: "wg_op \<Rightarrow> stubWG \<Rightarrow> stubWG \<times> bool" where
  "stub_exec (WAdd s) w = (stub_AddPeer s w, True)"
| "stub_exec (WUpdate s) w = (stub_UpdatePeer s w, True)"
| "stub_exec (WRemove k) w = (stub_RemovePeer k w, True)"
| "stub_exec (WReconcile ss) w = (stub_Reconcile ss w, True)"
| "stub_exec (WRotate g) w = (fst (stub_Rotate (case g of Inl e \<Rightarrow> [] | Inr k \<Rightarrow> k) w), True)"

definition stub_good :: "stubWG \<Rightarrow> bool" where
  "stub_good w \<longleftrightarrow> inverse_maps (sw_peerNodes w) (sw_nodeKeys w)"

lemma stub_add_fold:
  assumes "inverse_maps (sw_peerNodes w) (sw_nodeKeys w)"
    and "distinct (map ps_PeerNodeID ss)" and "distinct (map ps_WGPubkey ss)"
    and "\<And>s. s \<in> set ss \<Longrightarrow> sw_nodeKeys w (ps_PeerNodeID s) = None \<and> sw_peerNodes w (ps_WGPubkey s) = None"
  shows "inverse_maps (sw_peerNodes (fold stub_AddPeer ss w)) (sw_nodeKeys (fold stub_AddPeer ss w))
    \<and> sw_nodeKeys (fold stub_AddPeer ss w) = fold add_spec ss (sw_nodeKeys w)"
  using assms
proof (induction ss arbitrary: w)
  case (Cons s ss)
  have new: "sw_nodeKeys w (ps_PeerNodeID s) = None" "sw_peerNodes w (ps_WGPubkey s) = None"
    using Cons.prems(4) [of s] by simp_all
  have "inverse_maps (sw_peerNodes (stub_AddPeer s w)) (sw_nodeKeys (stub_AddPeer s w))"
    unfolding stub_AddPeer_def
    using inverse_add [OF Cons.prems(1), of "ps_PeerNodeID s" "ps_WGPubkey s"] new inverse_key [OF Cons.prems(1)]
    by simp
  moreover have "distinct (map ps_PeerNodeID ss)" "distinct (map ps_WGPubkey ss)" using Cons.prems(2,3) by simp_all
  moreover have "sw_nodeKeys (stub_AddPeer s w) (ps_PeerNodeID q) = None
      \<and> sw_peerNodes (stub_AddPeer s w) (ps_WGPubkey q) = None" if "q \<in> set ss" for q
  proof -
    have "ps_PeerNodeID q \<noteq> ps_PeerNodeID s" "ps_WGPubkey q \<noteq> ps_WGPubkey s"
      using that Cons.prems(2,3) by (simp_all, metis image_eqI, metis image_eqI)
    then show ?thesis using that Cons.prems(4) [of q] by (simp add: stub_AddPeer_def)
  qed
  ultimately have "inverse_maps (sw_peerNodes (fold stub_AddPeer ss (stub_AddPeer s w)))
        (sw_nodeKeys (fold stub_AddPeer ss (stub_AddPeer s w)))
      \<and> sw_nodeKeys (fold stub_AddPeer ss (stub_AddPeer s w))
        = fold add_spec ss (sw_nodeKeys (stub_AddPeer s w))"
    by (rule Cons.IH)
  moreover have "sw_nodeKeys (stub_AddPeer s w) = add_spec s (sw_nodeKeys w)"
    by (simp add: stub_AddPeer_def add_spec_def)
  ultimately show ?case by auto
qed simp

lemma stub_step:
  assumes "stub_good w" and "fits valid c (sw_nodeKeys w)"
  shows "stub_good (fst (stub_exec c w)) \<and> sw_nodeKeys (fst (stub_exec c w)) = table_step c (sw_nodeKeys w)"
proof (cases c)
  case (WAdd s)
  then show ?thesis using assms by (auto simp: stub_good_def stub_AddPeer_def add_spec_def intro: inverse_add)
next
  case (WUpdate s)
  show ?thesis
  proof (cases "sw_nodeKeys w (ps_PeerNodeID s)")
    case None
    then show ?thesis using assms WUpdate by (auto simp: stub_good_def stub_UpdatePeer_def add_spec_def Let_def intro: inverse_add)
  next
    case (Some old)
    let ?n = "ps_PeerNodeID s" and ?k = "ps_WGPubkey s"
    have inv: "inverse_maps (sw_peerNodes w) (sw_nodeKeys w)" using assms(1) by (simp add: stub_good_def)
    then have "inverse_maps ((sw_peerNodes w)(old := None)) ((sw_nodeKeys w)(?n := None))"
      using Some by (intro inverse_remove) (simp_all add: inverse_key)
    then have "inverse_maps ((sw_peerNodes w)(old := None, ?k \<mapsto> ?n)) ((sw_nodeKeys w)(?n := None, ?n \<mapsto> ?k))"
      using assms(2) WUpdate by (intro inverse_add) auto
    then show ?thesis using WUpdate Some by (simp add: stub_good_def stub_UpdatePeer_def add_spec_def Let_def)
  qed
next
  case (WRemove k)
  then show ?thesis using assms(1)
    by (auto simp: stub_good_def stub_RemovePeer_def table_remove simp del: table_step.simps
        intro: inverse_remove split: option.split)
next
  case (WReconcile ss)
  then show ?thesis
    using assms(2) stub_add_fold [of "w\<lparr>sw_peerNodes := Map.empty, sw_nodeKeys := Map.empty\<rparr>" ss]
    by (auto simp: stub_good_def stub_Reconcile_def)
next
  case (WRotate g)
  then show ?thesis by (simp add: stub_good_def stub_Rotate_def)
qed

interpretation stub: wg_manager stub_exec sw_nodeKeys stub_good valid for valid
  by unfold_locales (use stub_step in blast)+

section \<open>The Linux manager\<close>

definition apply_peer :: "peer_config \<Rightarrow> (string \<rightharpoonup> peer_config) \<Rightarrow> (string \<rightharpoonup> peer_config)" where
  "apply_peer pc v = v(pc_PublicKey pc := if pc_Remove pc then None else Some pc)"

text \<open>
  What the code relies on: an accepted configuration replaces the peers or changes exactly those it
  lists, and a removal that fails with \<open>no such\<close> finds the peer gone. \<open>view\<close> reads the kernel's peers
  by key. Every configuration the code sends replaces the allowed addresses of its peer.
\<close>

definition kernel_laws :: "'k kernel \<Rightarrow> ('k \<Rightarrow> string \<rightharpoonup> peer_config) \<Rightarrow> bool" where
  "kernel_laws kn view \<longleftrightarrow>
     (\<forall>cfg k k'. kn_ConfigureDevice kn cfg k = (k', Ok ()) \<longrightarrow>
        view k' = fold apply_peer (wc_Peers cfg) (if wc_ReplacePeers cfg then Map.empty else view k))
   \<and> (\<forall>key k k' e. kn_ConfigureDevice kn (no_config\<lparr>wc_Peers := [removal_config key]\<rparr>) k = (k', Err e) \<longrightarrow>
        no_such e \<longrightarrow> view k' = (view k)(key := None))"

fun linux_exec :: "'k kernel \<Rightarrow> wg_op \<Rightarrow> 'k linuxWG \<Rightarrow> 'k linuxWG \<times> bool" where
  "linux_exec kn (WAdd s) w = map_prod id is_ok (linux_AddPeer kn s w)"
| "linux_exec kn (WUpdate s) w = map_prod id is_ok (linux_UpdatePeer kn s w)"
| "linux_exec kn (WRemove k) w = map_prod id is_ok (linux_RemovePeer kn k w)"
| "linux_exec kn (WReconcile ss) w = map_prod id is_ok (linux_Reconcile kn ss w)"
| "linux_exec kn (WRotate g) w = map_prod id is_ok (linux_Rotate kn g w)"

definition canonical :: "'k kernel \<Rightarrow> string \<Rightarrow> bool" where
  "canonical kn k \<longleftrightarrow> (\<exists>key. kn_ParseKey kn k = Some key \<and> kn_KeyString kn key = k)"

text \<open>The kernel's peers are the keys of the book-keeping.\<close>

definition in_kernel :: "'k kernel \<Rightarrow> (string \<rightharpoonup> peer_config) \<Rightarrow> string set \<Rightarrow> bool" where
  "in_kernel kn v ks \<longleftrightarrow> (\<forall>k \<in> ks. canonical kn k) \<and> dom v = {key. \<exists>k \<in> ks. kn_ParseKey kn k = Some key}"

definition linux_good :: "'k kernel \<Rightarrow> ('k \<Rightarrow> string \<rightharpoonup> peer_config) \<Rightarrow> 'k linuxWG \<Rightarrow> bool" where
  "linux_good kn view w \<longleftrightarrow> kernel_laws kn view \<and> inverse_maps (lw_peerNodes w) (lw_nodeKeys w)
     \<and> in_kernel kn (view (lw_kernel w)) (dom (lw_peerNodes w))"

lemma law_configure:
  "kernel_laws kn view \<Longrightarrow> kn_ConfigureDevice kn cfg k = (k', Ok ()) \<Longrightarrow>
     view k' = fold apply_peer (wc_Peers cfg) (if wc_ReplacePeers cfg then Map.empty else view k)"
  unfolding kernel_laws_def by blast

lemma canonical_inj: "canonical kn k \<Longrightarrow> canonical kn k' \<Longrightarrow> kn_ParseKey kn k = kn_ParseKey kn k' \<Longrightarrow> k = k'"
  by (auto simp: canonical_def)

lemma in_kernel_add:
  "in_kernel kn v ks \<Longrightarrow> canonical kn k \<Longrightarrow> kn_ParseKey kn k = Some key \<Longrightarrow>
     in_kernel kn (v(key \<mapsto> pc)) (insert k ks)"
  unfolding in_kernel_def by auto

lemma in_kernel_remove:
  assumes "in_kernel kn v ks" and "canonical kn k" and "kn_ParseKey kn k = Some key"
  shows "in_kernel kn (v(key := None)) (ks - {k})"
proof -
  have "k' = k" if "k' \<in> ks" "kn_ParseKey kn k' = Some key" for k'
    using assms that canonical_inj [of kn k' k] unfolding in_kernel_def by simp
  then have "{x. \<exists>k' \<in> ks. kn_ParseKey kn k' = Some x} - {key} = {x. \<exists>k' \<in> ks - {k}. kn_ParseKey kn k' = Some x}"
    using assms(3) by fastforce
  then show ?thesis using assms(1) by (simp add: in_kernel_def)
qed

lemma spec_config:
  assumes "specToPeerConfig kn s = Ok pc"
  shows "kn_ParseKey kn (ps_WGPubkey s) = Some (pc_PublicKey pc)" and "\<not> pc_Remove pc"
  using assms by (auto simp: specToPeerConfig_def split: option.splits sum.splits)

text \<open>One spec added: the maps of the successful call, and the kernel's peers.\<close>

lemma linux_AddPeer_Ok:
  assumes "linux_AddPeer kn s w = (w', Ok ())" and "kernel_laws kn view"
  obtains pc where "kn_ParseKey kn (ps_WGPubkey s) = Some (pc_PublicKey pc)"
    "lw_peerNodes w' = (lw_peerNodes w)(ps_WGPubkey s \<mapsto> ps_PeerNodeID s)"
    "lw_nodeKeys w' = (lw_nodeKeys w)(ps_PeerNodeID s \<mapsto> ps_WGPubkey s)"
    "view (lw_kernel w') = (view (lw_kernel w))(pc_PublicKey pc \<mapsto> pc)"
proof -
  obtain pc where pc: "specToPeerConfig kn s = Ok pc"
    using assms(1) by (auto simp: linux_AddPeer_def split: sum.splits)
  obtain k where k: "kn_ConfigureDevice kn (no_config\<lparr>wc_Peers := [pc]\<rparr>) (lw_kernel w) = (k, Ok ())"
    using assms(1) pc by (auto simp: linux_AddPeer_def Let_def split: sum.splits prod.splits)
  have "view k = (view (lw_kernel w))(pc_PublicKey pc \<mapsto> pc)"
    using law_configure [OF assms(2) k] spec_config [OF pc] by (simp add: no_config_def apply_peer_def)
  then show thesis using that [OF spec_config(1) [OF pc]] assms(1) pc k by (auto simp: linux_AddPeer_def Let_def)
qed

lemma add_good:
  assumes "linux_AddPeer kn s w = (w', Ok ())" and "linux_good kn view w"
    and "fits (canonical kn) (WAdd s) (lw_nodeKeys w)"
  shows "linux_good kn view w' \<and> lw_nodeKeys w' = add_spec s (lw_nodeKeys w)"
proof -
  have good: "kernel_laws kn view" "inverse_maps (lw_peerNodes w) (lw_nodeKeys w)"
    "in_kernel kn (view (lw_kernel w)) (dom (lw_peerNodes w))" using assms(2) by (simp_all add: linux_good_def)
  obtain pc where w': "kn_ParseKey kn (ps_WGPubkey s) = Some (pc_PublicKey pc)"
    "lw_peerNodes w' = (lw_peerNodes w)(ps_WGPubkey s \<mapsto> ps_PeerNodeID s)"
    "lw_nodeKeys w' = (lw_nodeKeys w)(ps_PeerNodeID s \<mapsto> ps_WGPubkey s)"
    "view (lw_kernel w') = (view (lw_kernel w))(pc_PublicKey pc \<mapsto> pc)"
    by (rule linux_AddPeer_Ok [OF assms(1) good(1)])
  have "inverse_maps (lw_peerNodes w') (lw_nodeKeys w')"
    unfolding w' using good(2) assms(3) by (intro inverse_add) auto
  moreover have "in_kernel kn (view (lw_kernel w')) (dom (lw_peerNodes w'))"
    unfolding w' using in_kernel_add [OF good(3) _ w'(1)] assms(3) by simp
  ultimately show ?thesis using good(1) w'(3) by (simp add: linux_good_def add_spec_def)
qed

lemma remove_good:
  assumes "removeKeyLocked kn k w = (w', Ok ())" and "linux_good kn view w" and "canonical kn k"
  shows "linux_good kn view w' \<and> lw_nodeKeys w' = table_step (WRemove k) (lw_nodeKeys w)"
proof -
  have good: "kernel_laws kn view" "inverse_maps (lw_peerNodes w) (lw_nodeKeys w)"
    "in_kernel kn (view (lw_kernel w)) (dom (lw_peerNodes w))" using assms(2) by (simp_all add: linux_good_def)
  obtain key where key: "kn_ParseKey kn k = Some key" using assms(3) by (auto simp: canonical_def)
  obtain kk r where cfg: "kn_ConfigureDevice kn (no_config\<lparr>wc_Peers := [removal_config key]\<rparr>) (lw_kernel w) = (kk, r)"
    by fastforce
  have w': "w' = forget_key k (w\<lparr>lw_kernel := kk\<rparr>)" and r: "r = Ok () \<or> (\<exists>e. r = Err e \<and> no_such e)"
    using assms(1) key cfg by (cases r; auto simp: removeKeyLocked_def Let_def split: if_splits)+
  have "view kk = (view (lw_kernel w))(key := None)"
    using r cfg law_configure [OF good(1), of "no_config\<lparr>wc_Peers := [removal_config key]\<rparr>" "lw_kernel w" kk] good(1)
    unfolding kernel_laws_def by (auto simp: no_config_def apply_peer_def removal_config_def)
  then have kernel: "in_kernel kn (view kk) (dom (lw_peerNodes w) - {k})"
    using in_kernel_remove [OF good(3) assms(3) key] by simp
  show ?thesis
  proof (cases "lw_peerNodes w k")
    case None
    then have "dom (lw_peerNodes w) - {k} = dom (lw_peerNodes w)" by auto
    with None kernel good(1,2) table_remove [OF good(2)] show ?thesis
      unfolding w' forget_key_def by (simp add: linux_good_def del: table_step.simps)
  next
    case (Some n)
    then have nk: "lw_nodeKeys w n = Some k" using inverse_key [OF good(2)] by simp
    from Some have "inverse_maps ((lw_peerNodes w)(k := None)) ((lw_nodeKeys w)(n := None))"
      by (rule inverse_remove [OF good(2)])
    with Some nk kernel good(1) table_remove [OF good(2)] show ?thesis
      unfolding w' forget_key_def by (simp add: linux_good_def del: table_step.simps)
  qed
qed

lemma update_good:
  assumes "linux_UpdatePeer kn s w = (w', Ok ())" and "linux_good kn view w"
    and "fits (canonical kn) (WUpdate s) (lw_nodeKeys w)"
  shows "linux_good kn view w' \<and> lw_nodeKeys w' = add_spec s (lw_nodeKeys w)"
proof (cases "lw_nodeKeys w (ps_PeerNodeID s) \<in> {None, Some (ps_WGPubkey s)}")
  case True
  then have "linux_AddPeer kn s w = (w', Ok ())"
    using assms(1) by (auto simp: linux_UpdatePeer_def split: option.splits)
  then show ?thesis using True assms(3) by (intro add_good [OF _ assms(2)]) auto
next
  case False
  then obtain old where old: "lw_nodeKeys w (ps_PeerNodeID s) = Some old" "old \<noteq> ps_WGPubkey s" by auto
  obtain w1 r1 where rem: "removeKeyLocked kn old w = (w1, r1)" by fastforce
  have r1: "r1 = Ok ()" and add: "linux_AddPeer kn s w1 = (w', Ok ())"
    using assms(1) old rem by (cases r1; auto simp: linux_UpdatePeer_def)+
  have inv: "inverse_maps (lw_peerNodes w) (lw_nodeKeys w)" using assms(2) by (simp add: linux_good_def)
  then have "old \<in> dom (lw_peerNodes w)" using old(1) by (auto simp: inverse_key)
  then have "canonical kn old" using assms(2) by (auto simp: linux_good_def in_kernel_def)
  from remove_good [OF rem [unfolded r1] assms(2) this]
  have w1: "linux_good kn view w1" "lw_nodeKeys w1 = table_step (WRemove old) (lw_nodeKeys w)" by simp_all
  have fits1: "fits (canonical kn) (WAdd s) (lw_nodeKeys w1)"
    using assms(3) old(1) unfolding w1(2) by auto
  have "table_step (WRemove old) (lw_nodeKeys w) = (lw_nodeKeys w)(ps_PeerNodeID s := None)"
    using table_remove [OF inv, of old] old(1) inverse_key [OF inv] by simp
  with add_good [OF add w1(1) fits1] w1(2) show ?thesis by (simp add: add_spec_def)
qed

lemma spec_loop_Ok:
  assumes "spec_loop kn ss pcs pn nk = Ok (pcs', pn', nk')"
    and "inverse_maps pn nk" and "in_kernel kn (fold apply_peer pcs Map.empty) (dom pn)"
    and "\<forall>s \<in> set ss. canonical kn (ps_WGPubkey s)" and "distinct (map ps_PeerNodeID ss)" and "distinct (map ps_WGPubkey ss)"
    and "\<forall>s \<in> set ss. nk (ps_PeerNodeID s) = None \<and> pn (ps_WGPubkey s) = None"
  shows "inverse_maps pn' nk' \<and> in_kernel kn (fold apply_peer pcs' Map.empty) (dom pn')
    \<and> nk' = fold add_spec ss nk"
  using assms
proof (induction ss arbitrary: pcs pn nk)
  case (Cons s ss)
  let ?n = "ps_PeerNodeID s" and ?k = "ps_WGPubkey s"
  obtain pc where pc: "specToPeerConfig kn s = Ok pc" using Cons.prems(1) by (auto split: sum.splits)
  have new: "nk ?n = None" "pn ?k = None" "canonical kn ?k" using Cons.prems(4,7) by simp_all
  have "spec_loop kn ss (pcs @ [pc]) (pn(?k \<mapsto> ?n)) (nk(?n \<mapsto> ?k)) = Ok (pcs', pn', nk')"
    using Cons.prems(1) pc by simp
  moreover have "inverse_maps (pn(?k \<mapsto> ?n)) (nk(?n \<mapsto> ?k))"
    using Cons.prems(2) new inverse_key [OF Cons.prems(2)] by (intro inverse_add) auto
  moreover have "in_kernel kn (fold apply_peer (pcs @ [pc]) Map.empty) (dom (pn(?k \<mapsto> ?n)))"
    using in_kernel_add [OF Cons.prems(3) new(3) spec_config(1) [OF pc], of pc] spec_config(2) [OF pc]
    by (simp add: apply_peer_def [of pc])
  moreover have "\<forall>q \<in> set ss. (nk(?n \<mapsto> ?k)) (ps_PeerNodeID q) = None \<and> (pn(?k \<mapsto> ?n)) (ps_WGPubkey q) = None"
  proof
    fix q
    assume q: "q \<in> set ss"
    then have "ps_PeerNodeID q \<noteq> ?n" "ps_WGPubkey q \<noteq> ?k"
      using Cons.prems(5,6) by (simp_all, metis image_eqI, metis image_eqI)
    then show "(nk(?n \<mapsto> ?k)) (ps_PeerNodeID q) = None \<and> (pn(?k \<mapsto> ?n)) (ps_WGPubkey q) = None"
      using Cons.prems(7) q by simp
  qed
  moreover have "\<forall>s \<in> set ss. canonical kn (ps_WGPubkey s)" "distinct (map ps_PeerNodeID ss)" "distinct (map ps_WGPubkey ss)"
    using Cons.prems(4,5,6) by simp_all
  ultimately have "inverse_maps pn' nk' \<and> in_kernel kn (fold apply_peer pcs' Map.empty) (dom pn')
    \<and> nk' = fold add_spec ss (nk(?n \<mapsto> ?k))"
    using Cons.IH [of "pcs @ [pc]" "pn(?k \<mapsto> ?n)" "nk(?n \<mapsto> ?k)"] by blast
  moreover have "nk(?n \<mapsto> ?k) = add_spec s nk" by (simp add: add_spec_def)
  ultimately show ?case by auto
qed simp

lemma in_kernel_none [simp]: "in_kernel kn Map.empty {}"
  by (simp add: in_kernel_def)

lemma reconcile_good:
  assumes "linux_Reconcile kn ss w = (w', Ok ())" and laws: "kernel_laws kn view"
    and "fits (canonical kn) (WReconcile ss) (lw_nodeKeys w)"
  shows "linux_good kn view w' \<and> lw_nodeKeys w' = table_step (WReconcile ss) (lw_nodeKeys w)"
proof -
  obtain pcs pn nk where loop: "spec_loop kn ss [] Map.empty Map.empty = Ok (pcs, pn, nk)"
    using assms(1) by (auto simp: linux_Reconcile_def split: sum.splits)
  obtain k r where cfg: "kn_ConfigureDevice kn (no_config\<lparr>wc_ReplacePeers := True, wc_Peers := pcs\<rparr>) (lw_kernel w) = (k, r)"
    by fastforce
  have r: "r = Ok ()" and w': "w' = w\<lparr>lw_kernel := k, lw_peerNodes := pn, lw_nodeKeys := nk\<rparr>"
    using assms(1) loop cfg by (cases r; auto simp: linux_Reconcile_def Let_def)+
  have "view k = fold apply_peer pcs Map.empty"
    using law_configure [OF laws cfg [unfolded r]] by (simp add: no_config_def)
  moreover have "inverse_maps pn nk \<and> in_kernel kn (fold apply_peer pcs Map.empty) (dom pn)
      \<and> nk = fold add_spec ss Map.empty"
    using assms(3) by (intro spec_loop_Ok [OF loop]) simp_all
  ultimately show ?thesis using laws by (auto simp: linux_good_def w')
qed

lemma rotate_good:
  assumes "linux_Rotate kn g w = (w', Ok key)" and "linux_good kn view w"
  shows "linux_good kn view w' \<and> lw_nodeKeys w' = Map.empty"
proof -
  obtain priv where g: "g = Ok priv" using assms(1) by (auto simp: linux_Rotate_def split: sum.splits)
  obtain k r where cfg: "kn_ConfigureDevice kn (no_config\<lparr>wc_PrivateKey := Some priv, wc_ReplacePeers := True\<rparr>) (lw_kernel w) = (k, r)"
    by fastforce
  have r: "r = Ok ()" and w': "w' = w\<lparr>lw_kernel := k, lw_priv := priv, lw_peerNodes := Map.empty, lw_nodeKeys := Map.empty\<rparr>"
    using assms(1) g cfg by (cases r; auto simp: linux_Rotate_def Let_def)+
  have laws: "kernel_laws kn view" using assms(2) by (simp add: linux_good_def)
  have "view k = Map.empty" using law_configure [OF laws cfg [unfolded r]] by (simp add: no_config_def)
  then show ?thesis using laws by (simp add: linux_good_def w')
qed

lemma linux_step:
  assumes "linux_good kn view w" and "fits (canonical kn) c (lw_nodeKeys w)" and "snd (linux_exec kn c w)"
  shows "linux_good kn view (fst (linux_exec kn c w))
    \<and> lw_nodeKeys (fst (linux_exec kn c w)) = table_step c (lw_nodeKeys w)"
proof -
  have ok: "\<exists>x. y = Ok x" if "is_ok y" for y :: "'x result" using that by (cases y) auto
  show ?thesis
  proof (cases c)
    case (WAdd s)
    then obtain w' where "linux_AddPeer kn s w = (w', Ok ())"
      using assms(3) ok by (cases "linux_AddPeer kn s w") fastforce
    with add_good [OF this assms(1)] WAdd assms(2) show ?thesis by simp
  next
    case (WUpdate s)
    then obtain w' where "linux_UpdatePeer kn s w = (w', Ok ())"
      using assms(3) ok by (cases "linux_UpdatePeer kn s w") fastforce
    with update_good [OF this assms(1)] WUpdate assms(2) show ?thesis by simp
  next
    case (WRemove k)
    then obtain w' where "removeKeyLocked kn k w = (w', Ok ())"
      using assms(3) ok by (cases "removeKeyLocked kn k w") (fastforce simp: linux_RemovePeer_def)
    with remove_good [OF this assms(1)] WRemove assms(2) show ?thesis by (simp add: linux_RemovePeer_def)
  next
    case (WReconcile ss)
    then obtain w' where "linux_Reconcile kn ss w = (w', Ok ())"
      using assms(3) ok by (cases "linux_Reconcile kn ss w") fastforce
    with reconcile_good [OF this, of view] WReconcile assms(1,2) show ?thesis
      unfolding linux_good_def by auto
  next
    case (WRotate g)
    then obtain w' key where "linux_Rotate kn g w = (w', Ok key)"
      using assms(3) ok by (cases "linux_Rotate kn g w") fastforce
    with rotate_good [OF this assms(1)] WRotate show ?thesis by simp
  qed
qed

interpretation linux: wg_manager "linux_exec kn" lw_nodeKeys "linux_good kn view" "canonical kn" for kn view
  by unfold_locales (use linux_step in blast)+

section \<open>Properties\<close>

lemma linux_converges:
  assumes "kernel_laws kn view" and "linux_Reconcile kn ss w = (w0, Ok ())"
    and "fits_all (canonical kn) (WReconcile ss # cs) Map.empty" and "wg_run (linux_exec kn) cs w0 = Some w'"
  shows "lw_nodeKeys w' = fold table_step (WReconcile ss # cs) Map.empty"
    and "linux_good kn view w'"
    and "dom (view (lw_kernel w')) = {key. \<exists>n k. lw_nodeKeys w' n = Some k \<and> kn_ParseKey kn k = Some key}"
proof -
  have fits: "fits (canonical kn) (WReconcile ss) (lw_nodeKeys w)"
    "fits_all (canonical kn) cs (table_step (WReconcile ss) (lw_nodeKeys w))" using assms(3) by simp_all
  note w0 = reconcile_good [OF assms(2,1) fits(1)]
  have run: "linux_good kn view w' \<and> lw_nodeKeys w' = fold table_step cs (lw_nodeKeys w0)"
    using w0 fits(2) by (intro linux.run_refines [OF _ _ assms(4)]) simp_all
  then show "linux_good kn view w'" and "lw_nodeKeys w' = fold table_step (WReconcile ss # cs) Map.empty"
    using w0 by simp_all
  have good: "inverse_maps (lw_peerNodes w') (lw_nodeKeys w')" "in_kernel kn (view (lw_kernel w')) (dom (lw_peerNodes w'))"
    using run unfolding linux_good_def by auto
  have "dom (view (lw_kernel w')) = {key. \<exists>k \<in> ran (lw_nodeKeys w'). kn_ParseKey kn k = Some key}"
    using good(2) unfolding in_kernel_def inverse_dom [OF good(1)] by blast
  then show "dom (view (lw_kernel w')) = {key. \<exists>n k. lw_nodeKeys w' n = Some k \<and> kn_ParseKey kn k = Some key}"
    unfolding ran_def by blast
qed

text \<open>
  C19: the Linux manager implements the table of peers. From a successful \<open>Reconcile\<close> on, whatever
  state it found, any sequence of successful operations that keeps the hub's discipline leaves the
  book-keeping equal to the abstract table (node to key) and the kernel with exactly the keys of that
  table as peers.
\<close>

theorem linuxWG_refines_table:
  assumes "kernel_laws kn view" and "linux_Reconcile kn ss w = (w0, Ok ())"
    and "fits_all (canonical kn) (WReconcile ss # cs) Map.empty" and "wg_run (linux_exec kn) cs w0 = Some w'"
  shows "lw_nodeKeys w' = fold table_step (WReconcile ss # cs) Map.empty
    \<and> (\<forall>n k. lw_nodeKeys w' n = Some k \<longleftrightarrow> lw_peerNodes w' k = Some n)
    \<and> dom (view (lw_kernel w')) = {key. \<exists>n k. lw_nodeKeys w' n = Some k \<and> kn_ParseKey kn k = Some key}"
  using linux_converges [OF assms] by (simp add: linux_good_def inverse_maps_def)

definition demo_kernel :: "(string \<rightharpoonup> peer_config) kernel" where
  "demo_kernel = \<lparr>kn_ConfigureDevice = (\<lambda>cfg v. (fold apply_peer (wc_Peers cfg) (if wc_ReplacePeers cfg then Map.empty else v), Ok ())),
     kn_Device = (\<lambda>v. Ok \<lparr>dv_ListenPort = 51820, dv_Peers = []\<rparr>), kn_InterfaceByName = (\<lambda>v. False),
     kn_ip = (\<lambda>args v. (v, Ok ())), kn_ParseKey = Some, kn_KeyString = (\<lambda>k. k), kn_PublicKey = (\<lambda>k. k),
     kn_ResolveUDPAddr = Some, kn_ParseCIDR = Some\<rparr>"

definition demo_peer :: "string \<Rightarrow> string \<Rightarrow> peer_spec" where
  "demo_peer nid key = zero_spec\<lparr>ps_PeerNodeID := nid, ps_WGPubkey := key\<rparr>"

definition demo_wg :: "(string \<rightharpoonup> peer_config) linuxWG" where
  "demo_wg = \<lparr>lw_kernel = Map.empty, lw_priv = [], lw_port = 0, lw_peerNodes = Map.empty, lw_nodeKeys = Map.empty\<rparr>"

definition demo_stub :: stubWG where
  "demo_stub = \<lparr>sw_pub = [], sw_port = 0, sw_peerNodes = Map.empty, sw_nodeKeys = Map.empty\<rparr>"

lemma demo_kernel_laws: "kernel_laws demo_kernel (\<lambda>v. v)"
  by (simp add: kernel_laws_def demo_kernel_def no_config_def)

lemmas demo_wg_simps = linux_Reconcile_def linux_AddPeer_def linux_UpdatePeer_def removeKeyLocked_def linux_RemovePeer_def
  forget_key_def specToPeerConfig_def demo_kernel_def demo_peer_def zero_spec_def demo_wg_def no_config_def Let_def

lemma demo_reconcile:
  "\<exists>w0. linux_Reconcile demo_kernel [demo_peer ''A'' ''k1''] demo_wg = (w0, Ok ()) \<and>
     (\<exists>w'. wg_run (linux_exec demo_kernel) [WUpdate (demo_peer ''A'' ''k2'')] w0 = Some w')"
  by (simp add: demo_wg_simps)

lemma demo_fits:
  "fits_all (canonical demo_kernel) [WReconcile [demo_peer ''A'' ''k1''], WUpdate (demo_peer ''A'' ''k2'')] Map.empty"
  by (simp add: canonical_def demo_kernel_def demo_peer_def zero_spec_def add_spec_def)

theorem linuxWG_refines_table_witness:
  "\<exists>w' :: (string \<rightharpoonup> peer_config) linuxWG. lw_nodeKeys w' = [''A'' \<mapsto> ''k2''] \<and> dom (lw_kernel w') = {''k2''}"
proof -
  obtain w0 w' where run: "linux_Reconcile demo_kernel [demo_peer ''A'' ''k1''] demo_wg = (w0, Ok ())"
    "wg_run (linux_exec demo_kernel) [WUpdate (demo_peer ''A'' ''k2'')] w0 = Some w'" using demo_reconcile by blast
  note facts = linuxWG_refines_table [OF demo_kernel_laws run(1) demo_fits run(2)]
  then have nk: "lw_nodeKeys w' = [''A'' \<mapsto> ''k2'']"
    by (simp add: add_spec_def demo_peer_def zero_spec_def)
  have parse: "kn_ParseKey demo_kernel = Some" by (simp add: demo_kernel_def)
  from facts have "dom (lw_kernel w') = {key. \<exists>n k. lw_nodeKeys w' n = Some k \<and> Some k = Some key}"
    unfolding parse by blast
  then have "dom (lw_kernel w') = {''k2''}" unfolding nk by (auto split: if_splits)
  with nk show ?thesis by blast
qed

lemma inverse_unique: "inverse_maps pn nk \<Longrightarrow> inverse_maps pn' nk \<Longrightarrow> pn = pn'"
  unfolding inverse_maps_def by (intro ext) (metis option.exhaust)

lemma stub_never_fails: "\<exists>w'. wg_run stub_exec cs w = Some w'"
proof (induction cs arbitrary: w)
  case (Cons c cs)
  then show ?case by (cases c) auto
qed simp

text \<open>
  C20: the development stub is equivalent to the Linux manager. For every sequence of operations that
  begins with a reconciliation, keeps the hub's discipline and succeeds on Linux, the stub has the same
  two maps in the end.
\<close>

theorem stub_equivalent_to_linux:
  assumes "kernel_laws kn view" and "linux_Reconcile kn ss w = (w0, Ok ())"
    and "fits_all (canonical kn) (WReconcile ss # cs) Map.empty" and "wg_run (linux_exec kn) cs w0 = Some w'"
    and "sw_peerNodes v = Map.empty" and "sw_nodeKeys v = Map.empty"
  shows "\<exists>v'. wg_run stub_exec (WReconcile ss # cs) v = Some v'
    \<and> sw_nodeKeys v' = lw_nodeKeys w' \<and> sw_peerNodes v' = lw_peerNodes w'"
proof -
  have fits: "fits (canonical kn) (WReconcile ss) (lw_nodeKeys w)"
    "fits_all (canonical kn) cs (table_step (WReconcile ss) (lw_nodeKeys w))" using assms(3) by simp_all
  note w0 = reconcile_good [OF assms(2,1) fits(1)]
  have w': "linux_good kn view w' \<and> lw_nodeKeys w' = fold table_step cs (lw_nodeKeys w0)"
    using w0 fits(2) by (intro linux.run_refines [OF _ _ assms(4)]) simp_all
  obtain v' where v': "wg_run stub_exec (WReconcile ss # cs) v = Some v'" using stub_never_fails by blast
  have "fits_all (canonical kn) (WReconcile ss # cs) (sw_nodeKeys v)" "stub_good v"
    using assms(3,5,6) by (simp_all add: stub_good_def)
  then have "stub_good v' \<and> sw_nodeKeys v' = fold table_step (WReconcile ss # cs) (sw_nodeKeys v)"
    using stub.run_refines v' by blast
  with w0 w' assms(6) have nk: "sw_nodeKeys v' = lw_nodeKeys w'" and "inverse_maps (sw_peerNodes v') (sw_nodeKeys v')"
    and "inverse_maps (lw_peerNodes w') (lw_nodeKeys w')" unfolding stub_good_def linux_good_def by auto
  then have "sw_peerNodes v' = lw_peerNodes w'" using inverse_unique by metis
  with v' nk show ?thesis by blast
qed

theorem stub_equivalent_to_linux_witness:
  "\<exists>(w' :: (string \<rightharpoonup> peer_config) linuxWG) v'. wg_run stub_exec [WReconcile [demo_peer ''A'' ''k1''], WUpdate (demo_peer ''A'' ''k2'')] demo_stub = Some v'
     \<and> sw_nodeKeys v' = lw_nodeKeys w' \<and> sw_peerNodes v' = lw_peerNodes w' \<and> lw_peerNodes w' ''k1'' = None"
proof -
  obtain w0 w' where run: "linux_Reconcile demo_kernel [demo_peer ''A'' ''k1''] demo_wg = (w0, Ok ())"
    "wg_run (linux_exec demo_kernel) [WUpdate (demo_peer ''A'' ''k2'')] w0 = Some w'" using demo_reconcile by blast
  have "lw_peerNodes w' ''k1'' = None"
    using run by (auto simp: demo_wg_simps)
  moreover have "sw_peerNodes demo_stub = Map.empty" "sw_nodeKeys demo_stub = Map.empty" by (simp_all add: demo_stub_def)
  ultimately show ?thesis
    using stub_equivalent_to_linux [OF demo_kernel_laws run(1) demo_fits run(2)] by blast
qed

text \<open>
  Outside that discipline they differ: after two keys for one node, removing the first one makes the
  stub forget the second, so that a later update leaves it in place.
\<close>

lemma stub_forgets_newer_key:
  "\<exists>w' v'. wg_run (linux_exec demo_kernel) [WAdd (demo_peer ''A'' ''k1''), WAdd (demo_peer ''A'' ''k2''), WRemove ''k1'',
       WUpdate (demo_peer ''A'' ''k3'')] demo_wg = Some w'
     \<and> wg_run stub_exec [WAdd (demo_peer ''A'' ''k1''), WAdd (demo_peer ''A'' ''k2''), WRemove ''k1'',
       WUpdate (demo_peer ''A'' ''k3'')] demo_stub = Some v'
     \<and> lw_peerNodes w' ''k2'' = None \<and> sw_peerNodes v' ''k2'' = Some ''A''"
  by (simp add: demo_wg_simps stub_AddPeer_def stub_RemovePeer_def stub_UpdatePeer_def demo_stub_def)

end
