(* ===== verification/Socks.thy ===== *)
theory Socks
  imports Pki Netip
begin

text \<open>
  The agent's exit proxy, \<open>internal/agent/socks.go\<close>: the SOCKS5 handshake as a parser of the bytes the
  client sends, with the bytes the agent writes, and the controller that chooses between direct egress
  and a peer. Bytes are \<open>char\<close>s. Go's order of iteration over a map is the argument \<open>pick\<close>.
\<close>

section \<open>Addresses as text\<close>

definition chr :: "nat \<Rightarrow> char" where "chr = char_of"
definition ord :: "char \<Rightarrow> nat" where "ord = of_char"

text \<open>\<open>net.IP.String\<close>: four bytes in decimal; sixteen as IPv6, or as IPv4 when mapped.\<close>

definition ip4_text :: "string \<Rightarrow> string" where
  "ip4_text bs = dotted (map ord bs)"

fun words16 :: "string \<Rightarrow> nat list" where
  "words16 (a # b # bs) = (ord a * 256 + ord b) # words16 bs"
| "words16 bs = []"

text \<open>The first longest run of at least two zero words: its start and end, found from \<open>i\<close> on.\<close>

fun zero_run :: "nat \<Rightarrow> nat list \<Rightarrow> nat \<times> nat \<Rightarrow> nat \<times> nat" where
  "zero_run i [] best = best"
| "zero_run i (w # ws) best =
     (let l = length (takeWhile (\<lambda>w. w = 0) (w # ws)) in
      zero_run (Suc i) ws (if l \<ge> 2 \<and> l > snd best - fst best then (i, i + l) else best))"

definition colon_hex :: "nat list \<Rightarrow> string" where
  "colon_hex ws = (case map Text16 ws of [] \<Rightarrow> [] | t # ts \<Rightarrow> t @ concat (map (\<lambda>t. CHR '':'' # t) ts))"

definition ip6_text :: "string \<Rightarrow> string" where
  "ip6_text bs =
     (if take 12 bs = replicate 10 (chr 0) @ [chr 255, chr 255] then ip4_text (drop 12 bs)
      else (let ws = words16 bs; (a, b) = zero_run 0 ws (0, 0) in
            if b = 0 then colon_hex ws else colon_hex (take a ws) @ ''::'' @ colon_hex (drop b ws)))"

definition JoinHostPort :: "string \<Rightarrow> string \<Rightarrow> string" where
  "JoinHostPort host port =
     (if CHR '':'' \<in> set host then ''['' @ host @ '']:'' @ port else host @ '':'' @ port)"

section \<open>The handshake\<close>

definition ReadFull :: "nat \<Rightarrow> string \<Rightarrow> (string \<times> string) option" where
  "ReadFull n s = (if length s < n then None else Some (take n s, drop n s))"

definition EOF :: go_error where "EOF = ErrMsg ''unexpected EOF''"

definition no_auth :: string where "no_auth = [chr 5, chr 0]"

definition reply_bytes :: "nat \<Rightarrow> string" where
  "reply_bytes code = [chr 5, chr code, chr 0, chr 1] @ replicate 6 (chr 0)"

definition read_host :: "char \<Rightarrow> string \<Rightarrow> (string \<times> string) result" where
  "read_host atyp s =
     (if atyp = chr 1 then
        (case ReadFull 4 s of None \<Rightarrow> Err EOF | Some (a, s1) \<Rightarrow> Ok (ip4_text a, s1))
      else if atyp = chr 3 then
        (case ReadFull 1 s of
           None \<Rightarrow> Err EOF
         | Some (l, s1) \<Rightarrow>
             (case ReadFull (ord (l ! 0)) s1 of None \<Rightarrow> Err EOF | Some (name, s2) \<Rightarrow> Ok (name, s2)))
      else if atyp = chr 4 then
        (case ReadFull 16 s of None \<Rightarrow> Err EOF | Some (a, s1) \<Rightarrow> Ok (ip6_text a, s1))
      else Err (ErrMsg ''unsupported address type''))"

definition read_target :: "char \<Rightarrow> string \<Rightarrow> (string \<times> string) result" where
  "read_target atyp s =
     (case read_host atyp s of
        Inl e \<Rightarrow> Err e
      | Inr (host, s1) \<Rightarrow>
          (case ReadFull 2 s1 of
             None \<Rightarrow> Err EOF
           | Some (p, s2) \<Rightarrow> Ok (JoinHostPort host (itoa (ord (p ! 0) * 256 + ord (p ! 1))), s2)))"

text \<open>What the agent writes, and the target with the unread input, or the error.\<close>

definition read_request :: "string \<Rightarrow> string \<times> (string \<times> string) result" where
  "read_request s =
     (case ReadFull 4 s of
        None \<Rightarrow> (no_auth, Err EOF)
      | Some (q, s1) \<Rightarrow>
          if q ! 0 \<noteq> chr 5 then (no_auth, Err (ErrMsg ''bad request version''))
          else if q ! 1 \<noteq> chr 1 then (no_auth @ reply_bytes 7, Err (ErrMsg ''unsupported command''))
          else (no_auth, read_target (q ! 3) s1))"

definition socksHandshake :: "string \<Rightarrow> string \<times> (string \<times> string) result" where
  "socksHandshake s =
     (case ReadFull 2 s of
        None \<Rightarrow> ([], Err EOF)
      | Some (g, s1) \<Rightarrow>
          if g ! 0 \<noteq> chr 5 then ([], Err (ErrMsg ''not socks5''))
          else (case ReadFull (ord (g ! 1)) s1 of
              None \<Rightarrow> ([], Err EOF)
            | Some (methods, s2) \<Rightarrow> read_request s2))"

section \<open>The controller\<close>

record exit_controller =
  ec_up :: "string option"
  ec_override :: "string option"
  ec_exits :: "string \<rightharpoonup> string"

text \<open>\<open>ok\<close> tells whether \<open>proxy.SOCKS5\<close> of \<open>golang.org/x/net\<close> builds a dialer for an address.\<close>

definition NewExitController :: "(string \<Rightarrow> bool) \<Rightarrow> string \<Rightarrow> exit_controller result" where
  "NewExitController ok overrideAddr =
     (if overrideAddr = [] then Ok \<lparr>ec_up = None, ec_override = None, ec_exits = Map.empty\<rparr>
      else if \<not> ok overrideAddr then Err (ErrMsg ''SOCKS5'')
      else Ok \<lparr>ec_up = Some overrideAddr, ec_override = Some overrideAddr, ec_exits = Map.empty\<rparr>)"

type_synonym picker = "(string \<rightharpoonup> string) \<Rightarrow> string"

definition chosen :: "picker \<Rightarrow> (string \<rightharpoonup> string) \<Rightarrow> string" where
  "chosen pick exits = (case exits (pick exits) of None \<Rightarrow> [] | Some addr \<Rightarrow> addr)"

definition recompute :: "(string \<Rightarrow> bool) \<Rightarrow> picker \<Rightarrow> exit_controller \<Rightarrow> exit_controller" where
  "recompute ok pick ec =
     (let addr = chosen pick (ec_exits ec) in
      if addr = [] then ec\<lparr>ec_up := None\<rparr>
      else if \<not> ok addr then ec
      else ec\<lparr>ec_up := Some addr\<rparr>)"

definition ec_SetLinkExit :: "(string \<Rightarrow> bool) \<Rightarrow> picker \<Rightarrow> string \<Rightarrow> string \<Rightarrow> exit_controller \<Rightarrow> exit_controller" where
  "ec_SetLinkExit ok pick linkID exitAddr ec =
     (if ec_override ec \<noteq> None then ec
      else recompute ok pick (ec\<lparr>ec_exits := (ec_exits ec)(linkID := if exitAddr = [] then None else Some exitAddr)\<rparr>))"

definition ClearByLink :: "(string \<Rightarrow> bool) \<Rightarrow> picker \<Rightarrow> string \<Rightarrow> exit_controller \<Rightarrow> exit_controller" where
  "ClearByLink ok pick linkID ec =
     (if ec_override ec \<noteq> None then ec
      else (let ec1 = ec\<lparr>ec_exits := (ec_exits ec)(linkID := None)\<rparr> in
            if ec_exits ec linkID \<noteq> None then recompute ok pick ec1 else ec1))"

definition ec_Reconcile :: "(string \<Rightarrow> bool) \<Rightarrow> picker \<Rightarrow> (string \<rightharpoonup> string) \<Rightarrow> exit_controller \<Rightarrow> exit_controller" where
  "ec_Reconcile ok pick byLink ec =
     (if ec_override ec \<noteq> None then ec else recompute ok pick (ec\<lparr>ec_exits := byLink\<rparr>))"

datatype egress = Direct string | Via string string

definition dial :: "exit_controller \<Rightarrow> string \<Rightarrow> egress" where
  "dial ec target = (case ec_up ec of Some addr \<Rightarrow> Via addr target | None \<Rightarrow> Direct target)"

text \<open>
  One client: the bytes written to it, and the egress it is relayed over with the input that follows
  the request. \<open>dials\<close> tells whether a connection comes up.
\<close>

definition handle_client :: "exit_controller \<Rightarrow> (egress \<Rightarrow> bool) \<Rightarrow> string \<Rightarrow> string \<times> (egress \<times> string) option" where
  "handle_client ec dials s =
     (case socksHandshake s of
        (out, Inl e) \<Rightarrow> (out, None)
      | (out, Inr (target, rest)) \<Rightarrow>
          if dials (dial ec target) then (out @ reply_bytes 0, Some (dial ec target, rest))
          else (out @ reply_bytes 5, None))"

text \<open>
  The bind of \<open>Serve\<close>: up to fifty attempts, 100 ms apart, given up when the context is done.
\<close>

datatype bind = Bound nat | BindFailed | Cancelled

fun bind_loop :: "nat \<Rightarrow> (nat \<Rightarrow> bool) \<Rightarrow> (nat \<Rightarrow> bool) \<Rightarrow> nat \<Rightarrow> bind" where
  "bind_loop 0 listens ctxDone i = BindFailed"
| "bind_loop (Suc n) listens ctxDone i =
     (if listens i then Bound i else if ctxDone i then Cancelled else bind_loop n listens ctxDone (Suc i))"

definition Serve_bind :: "(nat \<Rightarrow> bool) \<Rightarrow> (nat \<Rightarrow> bool) \<Rightarrow> bind" where
  "Serve_bind listens ctxDone = bind_loop 50 listens ctxDone 0"

end
