(* ===== verification/SocksProps.thy ===== *)
theory SocksProps
  imports Socks
begin

text \<open>
  The properties of the exit proxy of \<open>internal/agent/socks.go\<close>: which requests it accepts, and where
  the accepted ones leave to.
\<close>

section \<open>The handshake\<close>

datatype socks_addr = V4 string | Domain string | V6 string

fun addr_ok :: "socks_addr \<Rightarrow> bool" where
  "addr_ok (V4 a) \<longleftrightarrow> length a = 4"
| "addr_ok (Domain n) \<longleftrightarrow> length n < 256"
| "addr_ok (V6 a) \<longleftrightarrow> length a = 16"

fun addr_bytes :: "socks_addr \<Rightarrow> string" where
  "addr_bytes (V4 a) = chr 1 # a"
| "addr_bytes (Domain n) = chr 3 # chr (length n) # n"
| "addr_bytes (V6 a) = chr 4 # a"

fun addr_host :: "socks_addr \<Rightarrow> string" where
  "addr_host (V4 a) = ip4_text a"
| "addr_host (Domain n) = n"
| "addr_host (V6 a) = ip6_text a"

definition request_bytes :: "string \<Rightarrow> char \<Rightarrow> socks_addr \<Rightarrow> nat \<Rightarrow> string" where
  "request_bytes methods rsv addr port =
     [chr 5, chr (length methods)] @ methods @ [chr 5, chr 1, rsv] @ addr_bytes addr @ [chr (port div 256), chr (port mod 256)]"

lemma ord_chr [simp]: "n < 256 \<Longrightarrow> ord (chr n) = n"
  by (simp add: ord_def chr_def)

lemma chr_ord [simp]: "chr (ord c) = c"
  by (simp add: ord_def chr_def)

lemma ord_less [simp]: "ord c < 256"
  unfolding ord_def by (rule nat_of_char_less_256)

lemma chr_inject [simp]: "m < 256 \<Longrightarrow> n < 256 \<Longrightarrow> chr m = chr n \<longleftrightarrow> m = n"
  by (metis ord_chr)

lemma ReadFull_iff: "ReadFull n s = Some (a, r) \<longleftrightarrow> s = a @ r \<and> length a = n"
  by (auto simp: ReadFull_def)

lemma length_1_iff: "length s = Suc 0 \<longleftrightarrow> (\<exists>c. s = [c])"
  by (auto simp: length_Suc_conv)

lemma length_2_iff: "length s = 2 \<longleftrightarrow> (\<exists>c d. s = [c, d])"
  by (auto simp: length_Suc_conv numeral_2_eq_2)

lemma length_4_iff: "length s = 4 \<longleftrightarrow> (\<exists>a b c d. s = [a, b, c, d])"
  by (auto simp: length_Suc_conv eval_nat_numeral)

lemma read_host_iff:
  "read_host t s = Ok (host, r) \<longleftrightarrow> (\<exists>addr. addr_ok addr \<and> host = addr_host addr \<and> t # s = addr_bytes addr @ r)"
proof
  assume ok: "read_host t s = Ok (host, r)"
  consider "t = chr 1" | "t = chr 3" | "t = chr 4"
    using ok by (auto simp: read_host_def split: if_splits)
  then show "\<exists>addr. addr_ok addr \<and> host = addr_host addr \<and> t # s = addr_bytes addr @ r"
  proof cases
    case 1
    with ok obtain a where "ReadFull 4 s = Some (a, r)" "host = ip4_text a"
      by (auto simp: read_host_def split: option.splits)
    with 1 show ?thesis by (intro exI [of _ "V4 a"]) (simp add: ReadFull_iff)
  next
    case 2
    with ok obtain l s1 where l: "ReadFull 1 s = Some (l, s1)" "ReadFull (ord (l ! 0)) s1 = Some (host, r)"
      by (auto simp: read_host_def split: option.splits)
    from l(1) obtain c where "l = [c]" "s = c # s1" by (auto simp: ReadFull_iff length_1_iff)
    with 2 l(2) show ?thesis by (intro exI [of _ "Domain host"]) (auto simp: ReadFull_iff)
  next
    case 3
    with ok obtain a where "ReadFull 16 s = Some (a, r)" "host = ip6_text a"
      by (auto simp: read_host_def split: option.splits)
    with 3 show ?thesis by (intro exI [of _ "V6 a"]) (simp add: ReadFull_iff)
  qed
next
  assume "\<exists>addr. addr_ok addr \<and> host = addr_host addr \<and> t # s = addr_bytes addr @ r"
  then obtain addr where "addr_ok addr" "host = addr_host addr" "t # s = addr_bytes addr @ r" by blast
  then show "read_host t s = Ok (host, r)"
    by (cases addr) (auto simp: read_host_def ReadFull_def)
qed

lemma read_target_iff:
  "read_target t s = Ok (target, r) \<longleftrightarrow> (\<exists>addr port. addr_ok addr \<and> port < 65536
     \<and> target = JoinHostPort (addr_host addr) (itoa port) \<and> t # s = addr_bytes addr @ [chr (port div 256), chr (port mod 256)] @ r)"
proof
  assume ok: "read_target t s = Ok (target, r)"
  then obtain host s1 p where h: "read_host t s = Ok (host, s1)" "ReadFull 2 s1 = Some (p, r)"
      "target = JoinHostPort host (itoa (ord (p ! 0) * 256 + ord (p ! 1)))"
    by (auto simp: read_target_def split: sum.splits option.splits)
  then obtain x y where p: "p = [x, y]" "s1 = [x, y] @ r" by (auto simp: ReadFull_iff length_2_iff)
  from h(1) obtain addr where addr: "addr_ok addr" "host = addr_host addr" "t # s = addr_bytes addr @ s1"
    by (auto simp: read_host_iff)
  let ?port = "ord x * 256 + ord y"
  have "?port < 65536" using ord_less [of x] ord_less [of y] by linarith
  with addr h(3) p show "\<exists>addr port. addr_ok addr \<and> port < 65536
      \<and> target = JoinHostPort (addr_host addr) (itoa port) \<and> t # s = addr_bytes addr @ [chr (port div 256), chr (port mod 256)] @ r"
    by (intro exI [of _ addr] exI [of _ ?port]) simp
next
  assume "\<exists>addr port. addr_ok addr \<and> port < 65536
     \<and> target = JoinHostPort (addr_host addr) (itoa port) \<and> t # s = addr_bytes addr @ [chr (port div 256), chr (port mod 256)] @ r"
  then obtain addr port where *: "addr_ok addr" "port < 65536" "target = JoinHostPort (addr_host addr) (itoa port)"
    "t # s = addr_bytes addr @ [chr (port div 256), chr (port mod 256)] @ r" by blast
  then have "read_host t s = Ok (addr_host addr, [chr (port div 256), chr (port mod 256)] @ r)"
    by (auto simp: read_host_iff)
  moreover have "ReadFull 2 ([chr (port div 256), chr (port mod 256)] @ r) = Some ([chr (port div 256), chr (port mod 256)], r)"
    by (simp add: ReadFull_def)
  moreover have "ord (chr (port div 256)) = port div 256" using *(2) by (intro ord_chr) linarith
  ultimately show "read_target t s = Ok (target, r)" using *(3) by (simp add: read_target_def)
qed

lemma read_request_iff:
  "read_request s = (out, Ok (target, r)) \<longleftrightarrow> out = no_auth \<and> (\<exists>rsv addr port. addr_ok addr \<and> port < 65536
     \<and> target = JoinHostPort (addr_host addr) (itoa port)
     \<and> s = [chr 5, chr 1, rsv] @ addr_bytes addr @ [chr (port div 256), chr (port mod 256)] @ r)"
proof
  assume ok: "read_request s = (out, Ok (target, r))"
  then obtain q s1 where q: "ReadFull 4 s = Some (q, s1)" by (auto simp: read_request_def split: option.splits)
  then obtain a b c d where q': "q = [a, b, c, d]" "s = [a, b, c, d] @ s1" by (auto simp: ReadFull_iff length_4_iff)
  with ok q have "a = chr 5" "b = chr 1" "out = no_auth" "read_target d s1 = Ok (target, r)"
    by (auto simp: read_request_def split: if_splits)
  with q' show "out = no_auth \<and> (\<exists>rsv addr port. addr_ok addr \<and> port < 65536
     \<and> target = JoinHostPort (addr_host addr) (itoa port)
     \<and> s = [chr 5, chr 1, rsv] @ addr_bytes addr @ [chr (port div 256), chr (port mod 256)] @ r)"
    by (auto simp: read_target_iff)
next
  assume "out = no_auth \<and> (\<exists>rsv addr port. addr_ok addr \<and> port < 65536
     \<and> target = JoinHostPort (addr_host addr) (itoa port)
     \<and> s = [chr 5, chr 1, rsv] @ addr_bytes addr @ [chr (port div 256), chr (port mod 256)] @ r)"
  then obtain rsv addr port where *: "out = no_auth" "addr_ok addr" "port < 65536"
    "target = JoinHostPort (addr_host addr) (itoa port)"
    "s = [chr 5, chr 1, rsv] @ addr_bytes addr @ [chr (port div 256), chr (port mod 256)] @ r" by blast
  obtain t ts where t: "addr_bytes addr = t # ts" by (cases addr) auto
  have "read_target t (ts @ [chr (port div 256), chr (port mod 256)] @ r) = Ok (target, r)"
    unfolding read_target_iff using *(2-4) t by (intro exI [of _ addr] exI [of _ port]) simp
  then show "read_request s = (out, Ok (target, r))"
    using *(1,5) t by (simp add: read_request_def ReadFull_def)
qed

text \<open>
  C30: the handshake accepts exactly the SOCKS5 requests it should. It succeeds if and only if the input
  begins with a greeting of any methods followed by a CONNECT request for an IPv4 address, a name or an
  IPv6 address and a port; the target is that address and port, the bytes after the request are left for
  the relay, and the only answer so far is "no authentication".
\<close>

theorem socksHandshake_exact:
  "socksHandshake s = (out, Ok (target, rest)) \<longleftrightarrow> out = no_auth \<and>
     (\<exists>methods rsv addr port. length methods < 256 \<and> addr_ok addr \<and> port < 65536
        \<and> target = JoinHostPort (addr_host addr) (itoa port) \<and> s = request_bytes methods rsv addr port @ rest)"
proof
  assume ok: "socksHandshake s = (out, Ok (target, rest))"
  then obtain g s1 where g: "ReadFull 2 s = Some (g, s1)" by (auto simp: socksHandshake_def split: option.splits)
  then obtain a b where g': "g = [a, b]" "s = [a, b] @ s1" by (auto simp: ReadFull_iff length_2_iff)
  with ok g obtain methods s2 where a: "a = chr 5" "ReadFull (ord b) s1 = Some (methods, s2)"
      "read_request s2 = (out, Ok (target, rest))"
    by (auto simp: socksHandshake_def split: if_splits option.splits)
  from a(2) have m: "s1 = methods @ s2" "length methods = ord b" by (simp_all add: ReadFull_iff)
  then have "b = chr (length methods)" "length methods < 256" by simp_all
  with a(1,3) m(1) g'(2) show "out = no_auth \<and>
     (\<exists>methods rsv addr port. length methods < 256 \<and> addr_ok addr \<and> port < 65536
        \<and> target = JoinHostPort (addr_host addr) (itoa port) \<and> s = request_bytes methods rsv addr port @ rest)"
    by (auto simp: read_request_iff request_bytes_def)
next
  assume "out = no_auth \<and>
     (\<exists>methods rsv addr port. length methods < 256 \<and> addr_ok addr \<and> port < 65536
        \<and> target = JoinHostPort (addr_host addr) (itoa port) \<and> s = request_bytes methods rsv addr port @ rest)"
  then obtain methods rsv addr port where *: "out = no_auth" "length methods < 256" "addr_ok addr" "port < 65536"
    "target = JoinHostPort (addr_host addr) (itoa port)" "s = request_bytes methods rsv addr port @ rest" by blast
  let ?s2 = "[chr 5, chr 1, rsv] @ addr_bytes addr @ [chr (port div 256), chr (port mod 256)] @ rest"
  have "read_request ?s2 = (out, Ok (target, rest))" unfolding read_request_iff using *(1,3,4,5) by blast
  moreover have "s = [chr 5, chr (length methods)] @ methods @ ?s2" using *(6) by (simp add: request_bytes_def)
  ultimately show "socksHandshake s = (out, Ok (target, rest))"
    using *(2) by (simp add: socksHandshake_def ReadFull_def)
qed

section \<open>The way out\<close>

datatype exit_op = XSet string string | XClear string | XReconcile "string \<rightharpoonup> string"

fun exit_exec :: "(string \<Rightarrow> bool) \<Rightarrow> picker \<Rightarrow> exit_op \<Rightarrow> exit_controller \<Rightarrow> exit_controller" where
  "exit_exec ok pick (XSet l a) ec = ec_SetLinkExit ok pick l a ec"
| "exit_exec ok pick (XClear l) ec = ClearByLink ok pick l ec"
| "exit_exec ok pick (XReconcile m) ec = ec_Reconcile ok pick m ec"

text \<open>What the hub has designated so far, by link.\<close>

fun exit_step :: "exit_op \<Rightarrow> (string \<rightharpoonup> string) \<Rightarrow> (string \<rightharpoonup> string)" where
  "exit_step (XSet l a) m = m(l := if a = [] then None else Some a)"
| "exit_step (XClear l) m = m(l := None)"
| "exit_step (XReconcile m') m = m'"

definition usable :: "(string \<Rightarrow> bool) \<Rightarrow> exit_op \<Rightarrow> bool" where
  "usable ok c = (case c of XSet l a \<Rightarrow> a = [] \<or> ok a | XClear l \<Rightarrow> True | XReconcile m \<Rightarrow> \<forall>a \<in> ran m. a \<noteq> [] \<and> ok a)"

text \<open>A range over a map yields some entry of it.\<close>

definition fair :: "picker \<Rightarrow> bool" where
  "fair pick \<longleftrightarrow> (\<forall>m. m \<noteq> Map.empty \<longrightarrow> pick m \<in> dom m)"

definition exit_inv :: "(string \<Rightarrow> bool) \<Rightarrow> picker \<Rightarrow> exit_controller \<Rightarrow> bool" where
  "exit_inv ok pick ec \<longleftrightarrow> fair pick \<longrightarrow>
     (case ec_override ec of
        Some a \<Rightarrow> ec_up ec = Some a
      | None \<Rightarrow> (\<forall>a \<in> ran (ec_exits ec). a \<noteq> [] \<and> ok a)
          \<and> (if ec_exits ec = Map.empty then ec_up ec = None else \<exists>a \<in> ran (ec_exits ec). ec_up ec = Some a))"

lemma chosen_fair:
  assumes "fair pick" and "\<forall>a \<in> ran m. a \<noteq> [] \<and> ok a"
  shows "if m = Map.empty then chosen pick m = [] else chosen pick m \<in> ran m \<and> chosen pick m \<noteq> [] \<and> ok (chosen pick m)"
proof (cases "m = Map.empty")
  case False
  then obtain a where "m (pick m) = Some a" using assms(1) unfolding fair_def by blast
  then show ?thesis using assms(2) False by (auto simp: chosen_def ran_def)
qed (simp add: chosen_def)

lemma recompute_inv:
  assumes "\<forall>a \<in> ran (ec_exits ec). a \<noteq> [] \<and> ok a" and "ec_override ec = None"
  shows "exit_inv ok pick (recompute ok pick ec)"
  using assms chosen_fair [of pick "ec_exits ec" ok]
  by (auto simp: exit_inv_def recompute_def Let_def split: if_splits)

lemma ran_upd: "a \<in> ran (m(l := v)) \<Longrightarrow> a \<in> ran m \<or> v = Some a"
  by (auto simp: ran_def split: if_splits)

interpretation exits: invariant_machine "exit_exec ok pick" "usable ok"
  "\<lambda>ec. exit_inv ok pick ec \<or> \<not> fair pick" for ok pick
proof
  fix c ec
  assume u: "usable ok c" and inv: "exit_inv ok pick ec \<or> \<not> fair pick"
  show "exit_inv ok pick (exit_exec ok pick c ec) \<or> \<not> fair pick"
  proof (cases "fair pick \<and> ec_override ec = None")
    case False
    then show ?thesis using inv
      by (cases c) (auto simp: ec_SetLinkExit_def ClearByLink_def ec_Reconcile_def)
  next
    case True
    then have ran: "\<forall>a \<in> ran (ec_exits ec). a \<noteq> [] \<and> ok a" using inv by (simp add: exit_inv_def)
    show ?thesis
    proof (cases c)
      case (XSet l a)
      with u ran True show ?thesis unfolding XSet exit_exec.simps ec_SetLinkExit_def
        by (auto intro!: disjI1 recompute_inv dest!: ran_upd simp: usable_def split: if_splits)
    next
      case (XClear l)
      have "\<forall>a \<in> ran ((ec_exits ec)(l := None)). a \<noteq> [] \<and> ok a" using ran by (auto dest!: ran_upd)
      moreover have "ec\<lparr>ec_exits := (ec_exits ec)(l := None)\<rparr> = ec" if "ec_exits ec l = None"
        using that by (simp add: fun_upd_idem)
      ultimately show ?thesis using True inv unfolding XClear exit_exec.simps ClearByLink_def
        by (auto intro!: recompute_inv simp: Let_def)
    next
      case (XReconcile m)
      with u True show ?thesis unfolding XReconcile exit_exec.simps ec_Reconcile_def
        by (auto intro!: disjI1 recompute_inv simp: usable_def)
    qed
  qed
qed

lemma recompute_sels [simp]:
  "ec_exits (recompute ok pick ec) = ec_exits ec" "ec_override (recompute ok pick ec) = ec_override ec"
  by (simp_all add: recompute_def Let_def)

lemma exits_step:
  assumes "ec_override ec = None"
  shows "ec_exits (exit_exec ok pick c ec) = exit_step c (ec_exits ec)" "ec_override (exit_exec ok pick c ec) = None"
  using assms by (cases c; simp add: ec_SetLinkExit_def ClearByLink_def ec_Reconcile_def Let_def)+

lemma exits_run:
  "ec_override ec = None \<Longrightarrow> ec_exits (run_ops (exit_exec ok pick) cs ec) = fold exit_step cs (ec_exits ec)
     \<and> ec_override (run_ops (exit_exec ok pick) cs ec) = None"
  by (induction cs arbitrary: ec) (simp_all add: exits_step)

lemma override_run: "ec_override ec \<noteq> None \<Longrightarrow> run_ops (exit_exec ok pick) cs ec = ec"
proof (induction cs arbitrary: ec)
  case (Cons c cs)
  then have "exit_exec ok pick c ec = ec" by (cases c) (simp_all add: ec_SetLinkExit_def ClearByLink_def ec_Reconcile_def)
  with Cons show ?case by simp
qed simp

text \<open>
  C31: traffic leaves where the hub designated. After any designations, withdrawals and reconciliations
  a connection goes through the address of a link that still has one, directly when none has, and always
  through the operator's address when one was pinned, whatever order Go ranges over the map in.
\<close>

theorem exit_follows_designation:
  assumes "fair pick" and "NewExitController ok ov = Ok ec" and "list_all (usable ok) cs"
  shows "if ov \<noteq> [] then dial (run_ops (exit_exec ok pick) cs ec) target = Via ov target
    else if fold exit_step cs Map.empty = Map.empty then dial (run_ops (exit_exec ok pick) cs ec) target = Direct target
    else \<exists>a \<in> ran (fold exit_step cs Map.empty). dial (run_ops (exit_exec ok pick) cs ec) target = Via a target"
proof (cases "ov = []")
  case True
  then have ec: "ec = \<lparr>ec_up = None, ec_override = None, ec_exits = Map.empty\<rparr>"
    using assms(2) by (simp add: NewExitController_def)
  have "exit_inv ok pick (run_ops (exit_exec ok pick) cs ec) \<or> \<not> fair pick"
    by (rule exits.run_inv [OF assms(3)]) (simp add: ec exit_inv_def)
  with exits_run [of ec ok pick cs] assms(1) True show ?thesis
    by (auto simp: ec exit_inv_def dial_def split: if_splits)
next
  case False
  then have "ec_override ec = Some ov \<and> ec_up ec = Some ov"
    using assms(2) by (auto simp: NewExitController_def split: if_splits)
  then show ?thesis using False override_run [of ec ok pick cs] by (simp add: dial_def)
qed

definition first_link :: picker where
  "first_link m = (if m ''l1'' \<noteq> None then ''l1'' else if m ''l2'' \<noteq> None then ''l2'' else SOME l. l \<in> dom m)"

theorem exit_follows_designation_witness:
  "dial (run_ops (exit_exec (\<lambda>a. True) first_link) [XSet ''l1'' ''10.0.0.9:1080'', XClear ''l1'']
     \<lparr>ec_up = None, ec_override = None, ec_exits = Map.empty\<rparr>) ''example.org:443'' = Direct ''example.org:443''"
proof -
  have "fair first_link"
    unfolding fair_def
  proof (intro allI impI)
    fix m :: "string \<rightharpoonup> string"
    assume "m \<noteq> Map.empty"
    then have "\<exists>l. l \<in> dom m" by (auto simp: dom_def fun_eq_iff)
    then have "(SOME l. l \<in> dom m) \<in> dom m" by (rule someI_ex)
    then show "first_link m \<in> dom m" by (auto simp: first_link_def)
  qed
  from exit_follows_designation [OF this, of "\<lambda>a. True" "[]" _ "[XSet ''l1'' ''10.0.0.9:1080'', XClear ''l1'']" "''example.org:443''"]
  show ?thesis by (simp add: NewExitController_def usable_def fun_upd_idem)
qed

end
