(* ===== verification/ProtoConf.thy ===== *)
theory ProtoConf
  imports Proto
begin

text \<open>
  The payloads of \<open>conf_result\<close> and \<open>svc_result\<close> in \<open>internal/proto/proto.go\<close>. Only the agent builds
  them in Go and the hub relays their JSON unread, so they are encoded here and decoded in the browser.
\<close>

definition opt_str :: "string \<Rightarrow> string \<Rightarrow> (string \<times> json) list" where
  "opt_str k s = (if s = [] then [] else [(k, JStr s)])"

definition opt_bool :: "string \<Rightarrow> bool \<Rightarrow> (string \<times> json) list" where
  "opt_bool k b = (if b then [(k, JBool True)] else [])"

record conf_file =
  cf_Tool :: string
  cf_Path :: string
  cf_ModTime :: int
  cf_Size :: int
  cf_Content :: string
  cf_Truncated :: bool
  cf_Err :: string
  cf_Registered :: bool

definition zero_conf_file :: conf_file where
  "zero_conf_file = \<lparr>cf_Tool = [], cf_Path = [], cf_ModTime = 0, cf_Size = 0, cf_Content = [],
     cf_Truncated = False, cf_Err = [], cf_Registered = False\<rparr>"

definition enc_conf_file :: "conf_file \<Rightarrow> json" where
  "enc_conf_file f = JObj ([(''tool'', JStr (cf_Tool f)), (''path'', JStr (cf_Path f)), (''mtime'', JInt (cf_ModTime f)),
     (''size'', JInt (cf_Size f))] @ opt_str ''content'' (cf_Content f) @ opt_bool ''truncated'' (cf_Truncated f)
     @ opt_str ''err'' (cf_Err f) @ opt_bool ''registered'' (cf_Registered f))"

record conf_wg =
  cw_Iface :: string
  cw_Pubkey :: string
  cw_ListenPort :: int
  cw_Peers :: "wg_peer_status list"

definition zero_conf_wg :: conf_wg where
  "zero_conf_wg = \<lparr>cw_Iface = [], cw_Pubkey = [], cw_ListenPort = 0, cw_Peers = []\<rparr>"

definition enc_conf_wg :: "conf_wg \<Rightarrow> json" where
  "enc_conf_wg w = JObj [(''iface'', JStr (cw_Iface w)), (''pubkey'', JStr (cw_Pubkey w)),
     (''listen_port'', JInt (cw_ListenPort w)), (''peers'', enc_list enc_wg_status (cw_Peers w))]"

record conf_enc =
  ce_KDF :: string
  ce_MemKiB :: nat
  ce_Time :: nat
  ce_Par :: nat
  ce_Salt :: string
  ce_Nonce :: string
  ce_CT :: string

definition enc_conf_enc :: "conf_enc \<Rightarrow> json" where
  "enc_conf_enc c = JObj [(''kdf'', JStr (ce_KDF c)), (''m_kib'', JInt (int (ce_MemKiB c))), (''t'', JInt (int (ce_Time c))),
     (''p'', JInt (int (ce_Par c))), (''salt'', JStr (ce_Salt c)), (''nonce'', JStr (ce_Nonce c)), (''ct'', JStr (ce_CT c))]"

record svc_status =
  st_Alias :: string
  st_Active :: string
  st_Enabled :: string

definition enc_svc_status :: "svc_status \<Rightarrow> json" where
  "enc_svc_status s = JObj [(''alias'', JStr (st_Alias s)), (''active'', JStr (st_Active s)), (''enabled'', JStr (st_Enabled s))]"

definition opt_services :: "svc_status list \<Rightarrow> (string \<times> json) list" where
  "opt_services ss = (if ss = [] then [] else [(''services'', JArr (map enc_svc_status ss))])"

record conf_result_data =
  cr_WG :: conf_wg
  cr_Files :: "conf_file list"
  cr_Services :: "svc_status list"
  cr_Enc :: "conf_enc option"
  cr_NoKey :: bool

definition zero_conf_result :: conf_result_data where
  "zero_conf_result = \<lparr>cr_WG = zero_conf_wg, cr_Files = [], cr_Services = [], cr_Enc = None, cr_NoKey = False\<rparr>"

definition enc_conf_result :: "conf_result_data \<Rightarrow> json" where
  "enc_conf_result d = JObj ([(''wg'', enc_conf_wg (cr_WG d)), (''files'', enc_list enc_conf_file (cr_Files d))]
     @ opt_services (cr_Services d)
     @ (case cr_Enc d of None \<Rightarrow> [] | Some e \<Rightarrow> [(''enc'', enc_conf_enc e)]) @ opt_bool ''no_key'' (cr_NoKey d))"

record svc_result_data =
  sr_OK :: bool
  sr_Err :: string
  sr_Services :: "svc_status list"

definition enc_svc_result :: "svc_result_data \<Rightarrow> json" where
  "enc_svc_result d = JObj ([(''ok'', JBool (sr_OK d))] @ opt_str ''err'' (sr_Err d) @ opt_services (sr_Services d))"

end
