(* ===== verification/Svc.thy ===== *)
theory Svc
  imports Files ProtoConf
begin

text \<open>
  The agent's service registry and service managers: \<open>internal/agent/svcreg.go\<close>, \<open>svcctl.go\<close>,
  \<open>svcctl_linux.go\<close> and \<open>svcctl_stub.go\<close>. The registry is the file \<open>services.json\<close>; \<open>marshal\<close> and
  \<open>unmarshal\<close> are the text form of JSON. The two regular expressions are written out as predicates.
  Messages in Chinese are given in English.
\<close>

section \<open>The registry\<close>

record svc_entry =
  se_Alias :: string
  se_Unit :: string
  se_Conf :: string

definition in_range :: "char \<Rightarrow> char \<Rightarrow> char \<Rightarrow> bool" where
  "in_range lo hi c \<longleftrightarrow> (of_char lo :: nat) \<le> of_char c \<and> of_char c \<le> (of_char hi :: nat)"

definition alias_start :: "char \<Rightarrow> bool" where
  "alias_start c \<longleftrightarrow> in_range CHR ''a'' CHR ''z'' c \<or> in_range CHR ''0'' CHR ''9'' c"

text \<open>\<open>^[a-z0-9][a-z0-9-]{0,31}$\<close> and \<open>^[A-Za-z0-9_.@-]+\.service$\<close>\<close>

definition aliasRE :: "string \<Rightarrow> bool" where
  "aliasRE s = (case s of [] \<Rightarrow> False
     | c # cs \<Rightarrow> alias_start c \<and> length cs \<le> 31 \<and> list_all (\<lambda>c. alias_start c \<or> c = CHR ''-'') cs)"

definition unit_char :: "char \<Rightarrow> bool" where
  "unit_char c \<longleftrightarrow> in_range CHR ''A'' CHR ''Z'' c \<or> in_range CHR ''a'' CHR ''z'' c \<or> in_range CHR ''0'' CHR ''9'' c
     \<or> c \<in> {CHR ''_'', CHR ''.'', CHR ''@'', CHR ''-''}"

definition unitRE :: "string \<Rightarrow> bool" where
  "unitRE s \<longleftrightarrow> (let n = length s - length ''.service'' in
     0 < n \<and> drop n s = ''.service'' \<and> list_all unit_char (take n s))"

definition IsAbs :: "string \<Rightarrow> bool" where
  "IsAbs p \<longleftrightarrow> take 1 p = ''/''"

definition svcRegPath :: "string \<Rightarrow> string" where
  "svcRegPath dir = Join dir ''services.json''"

definition enc_svc_entry :: "svc_entry \<Rightarrow> json" where
  "enc_svc_entry e = JObj ([(''alias'', JStr (se_Alias e)), (''unit'', JStr (se_Unit e))] @ opt_str ''conf'' (se_Conf e))"

definition zero_svc_entry :: svc_entry where
  "zero_svc_entry = \<lparr>se_Alias = [], se_Unit = [], se_Conf = []\<rparr>"

definition dec_svc_entry_onto :: "svc_entry \<Rightarrow> json \<Rightarrow> svc_entry option" where
  "dec_svc_entry_onto = dec_struct
     [fld ''alias'' dec_string se_Alias (\<lambda>x r. r\<lparr>se_Alias := x\<rparr>),
      fld ''unit'' dec_string se_Unit (\<lambda>x r. r\<lparr>se_Unit := x\<rparr>),
      fld ''conf'' dec_string se_Conf (\<lambda>x r. r\<lparr>se_Conf := x\<rparr>)]"

definition LoadSvcReg :: "(string \<Rightarrow> json option) \<Rightarrow> string \<Rightarrow> fs \<Rightarrow> svc_entry list result" where
  "LoadSvcReg unmarshal dir f =
     (case ReadFile (svcRegPath dir) f of
        Inl NotExist \<Rightarrow> Ok []
      | Inl e \<Rightarrow> Err (ErrMsg (file_error_text (svcRegPath dir) e))
      | Inr data \<Rightarrow>
          (case Option.bind (unmarshal data) (dec_list dec_svc_entry_onto zero_svc_entry []) of
             None \<Rightarrow> Err (ErrMsg ''malformed services.json'')
           | Some reg \<Rightarrow> Ok reg))"

definition saveSvcReg :: "(json \<Rightarrow> string) \<Rightarrow> string \<Rightarrow> svc_entry list \<Rightarrow> fs \<Rightarrow> fs \<times> unit result" where
  "saveSvcReg marshal dir reg f =
     (let (f', ok) = WriteFile (svcRegPath dir) (marshal (enc_list enc_svc_entry (sort_key se_Alias reg))) 384 f in
      (f', if ok then Ok () else Err (ErrMsg (file_error_text (svcRegPath dir) PermissionDenied))))"

definition AddSvc ::
  "(json \<Rightarrow> string) \<Rightarrow> (string \<Rightarrow> json option) \<Rightarrow> string \<Rightarrow> string \<Rightarrow> string \<Rightarrow> string \<Rightarrow> fs \<Rightarrow> fs \<times> unit result" where
  "AddSvc marshal unmarshal dir alias unit conf f =
     (if \<not> aliasRE alias then (f, Err (ErrMsg ''bad alias''))
      else if \<not> unitRE unit then (f, Err (ErrMsg ''bad unit''))
      else if conf \<noteq> [] \<and> \<not> IsAbs conf then (f, Err (ErrMsg ''conf path must be absolute''))
      else (case LoadSvcReg unmarshal dir f of
          Inl e \<Rightarrow> (f, Err e)
        | Inr reg \<Rightarrow>
            (case find (\<lambda>e. se_Alias e = alias \<or> se_Unit e = unit) reg of
               Some e \<Rightarrow> (f, Err (ErrMsg ''already registered''))
             | None \<Rightarrow> saveSvcReg marshal dir (reg @ [\<lparr>se_Alias = alias, se_Unit = unit, se_Conf = conf\<rparr>]) f)))"

definition DelSvc ::
  "(json \<Rightarrow> string) \<Rightarrow> (string \<Rightarrow> json option) \<Rightarrow> string \<Rightarrow> string \<Rightarrow> fs \<Rightarrow> fs \<times> unit result" where
  "DelSvc marshal unmarshal dir alias f =
     (case LoadSvcReg unmarshal dir f of
        Inl e \<Rightarrow> (f, Err e)
      | Inr reg \<Rightarrow>
          (let kept = filter (\<lambda>e. se_Alias e \<noteq> alias) reg in
           if length kept = length reg then (f, Err (ErrMsg ''not registered''))
           else saveSvcReg marshal dir kept f))"

definition lookupSvc :: "(string \<Rightarrow> json option) \<Rightarrow> string \<Rightarrow> string \<Rightarrow> fs \<Rightarrow> string result" where
  "lookupSvc unmarshal dir alias f =
     (case LoadSvcReg unmarshal dir f of
        Inl e \<Rightarrow> Err e
      | Inr reg \<Rightarrow>
          (case find (\<lambda>e. se_Alias e = alias) reg of
             None \<Rightarrow> Err (ErrMsg (''alias '' @ alias @ '' not registered''))
           | Some e \<Rightarrow> Ok (se_Unit e)))"

section \<open>The service managers\<close>

definition svcActions :: "string set" where
  "svcActions = {''start'', ''stop'', ''restart''}"

text \<open>
  \<open>SvcManager\<close>: the systemd one runs \<open>systemctl\<close>, an argument that changes the machine and gives
  standard output and outcome (\<open>None\<close>: still running after 30 seconds, and killed); the stub is a map.
\<close>

type_synonym 's systemctl = "string list \<Rightarrow> 's \<Rightarrow> 's \<times> string \<times> bool option"

record 's svc_manager =
  sm_Exists :: "string \<Rightarrow> 's \<Rightarrow> bool"
  sm_Status :: "string \<Rightarrow> 's \<Rightarrow> string \<times> string"
  sm_Do :: "string \<Rightarrow> string \<Rightarrow> 's \<Rightarrow> 's \<times> unit result"

definition not_allowed :: "string \<Rightarrow> go_error" where
  "not_allowed action = ErrMsg (''action '' @ action @ '' not allowed'')"

definition or_unknown :: "string \<Rightarrow> string" where
  "or_unknown s = (if s = [] then ''unknown'' else s)"

text \<open>\<open>trim\<close> is \<open>strings.TrimSpace\<close>.\<close>

definition systemd_Do :: "'s systemctl \<Rightarrow> string \<Rightarrow> string \<Rightarrow> 's \<Rightarrow> 's \<times> unit result" where
  "systemd_Do sc action unit s =
     (if action \<notin> svcActions then (s, Err (not_allowed action))
      else (case sc [action, ''--'', unit] s of
          (s', out, Some True) \<Rightarrow> (s', Ok ())
        | (s', out, Some False) \<Rightarrow> (s', Err (ErrMsg (''systemctl '' @ action @ '' '' @ unit)))
        | (s', out, None) \<Rightarrow> (s', Err (ErrMsg (''systemctl '' @ action @ '' '' @ unit @ '': timed out'')))))"

definition systemdSvc :: "(string \<Rightarrow> string) \<Rightarrow> 's systemctl \<Rightarrow> 's svc_manager" where
  "systemdSvc trim sc =
     \<lparr>sm_Exists = (\<lambda>unit s. case sc [''show'', ''-P'', ''LoadState'', ''--'', unit] s of
        (s', out, ok) \<Rightarrow> ok = Some True \<and> trim out = ''loaded''),
      sm_Status = (\<lambda>unit s. (or_unknown (trim (fst (snd (sc [''is-active'', ''--'', unit] s)))),
        or_unknown (trim (fst (snd (sc [''is-enabled'', ''--'', unit] s)))))),
      sm_Do = systemd_Do sc\<rparr>"

definition stub_Do :: "string \<Rightarrow> string \<Rightarrow> (string \<Rightarrow> bool) \<Rightarrow> (string \<Rightarrow> bool) \<times> unit result" where
  "stub_Do action unit active =
     (if action \<notin> svcActions then (active, Err (not_allowed action))
      else (active(unit := (action \<noteq> ''stop'')), Ok ()))"

definition stubSvc :: "(string \<Rightarrow> bool) svc_manager" where
  "stubSvc = \<lparr>sm_Exists = (\<lambda>unit active. True),
     sm_Status = (\<lambda>unit active. if active unit then (''active'', ''enabled'') else (''inactive'', ''disabled'')),
     sm_Do = stub_Do\<rparr>"

definition svcCandidateUnits :: "string list" where
  "svcCandidateUnits = [''xray.service'', ''sing-box.service'', ''v2ray.service'', ''hysteria.service'',
     ''hysteria-server.service'', ''trojan-go.service'', ''shadowsocks-rust.service'', ''ssserver.service'',
     ''mihomo.service'', ''clash.service'']"

definition DetectSvcCandidates :: "'s svc_manager \<Rightarrow> 's \<Rightarrow> string list" where
  "DetectSvcCandidates m s = filter (\<lambda>u. sm_Exists m u s) svcCandidateUnits"

definition collectSvcStatus ::
  "(string \<Rightarrow> json option) \<Rightarrow> string \<Rightarrow> 's svc_manager option \<Rightarrow> fs \<Rightarrow> 's \<Rightarrow> svc_status list" where
  "collectSvcStatus unmarshal dir svc f s =
     (case svc of
        None \<Rightarrow> []
      | Some m \<Rightarrow>
          (case LoadSvcReg unmarshal dir f of
             Inl e \<Rightarrow> []
           | Inr reg \<Rightarrow> map (\<lambda>e. \<lparr>st_Alias = se_Alias e, st_Active = fst (sm_Status m (se_Unit e) s),
               st_Enabled = snd (sm_Status m (se_Unit e) s)\<rparr>) reg))"

end
