(* ===== verification/ViewKey.thy ===== *)
theory ViewKey
  imports Base64 Svc
begin

text \<open>
  The view password of \<open>internal/agent/viewkey.go\<close>: the stored key, and how configuration contents are
  sealed with it. Argon2id, AES-256-GCM and gzip are the fields of the record \<open>sealing\<close>; random bytes
  are arguments.
\<close>

record sealing =
  sl_argon :: "string \<Rightarrow> bytes \<Rightarrow> nat \<Rightarrow> nat \<Rightarrow> nat \<Rightarrow> nat \<Rightarrow> bytes result"
  sl_Seal :: "bytes \<Rightarrow> bytes \<Rightarrow> bytes \<Rightarrow> bytes"
  sl_Open :: "bytes \<Rightarrow> bytes \<Rightarrow> bytes \<Rightarrow> string option"
  sl_gzip :: "string \<Rightarrow> bytes"

definition viewKDF :: string where "viewKDF = ''argon2id''"
definition viewMemKiB :: nat where "viewMemKiB = 64 * 1024"
definition viewTime :: nat where "viewTime = 3"
definition viewPar :: nat where "viewPar = 1"
definition viewKeyLen :: nat where "viewKeyLen = 32"
definition NonceSize :: nat where "NonceSize = 12"

record view_key =
  vk_KDF :: string
  vk_MemKiB :: nat
  vk_Time :: nat
  vk_Par :: nat
  vk_Salt :: string
  vk_Key :: string

definition viewKeyPath :: "string \<Rightarrow> string" where
  "viewKeyPath dir = Join dir ''view.key''"

definition enc_view_key :: "view_key \<Rightarrow> json" where
  "enc_view_key v = JObj [(''kdf'', JStr (vk_KDF v)), (''m_kib'', JInt (int (vk_MemKiB v))), (''t'', JInt (int (vk_Time v))),
     (''p'', JInt (int (vk_Par v))), (''salt'', JStr (vk_Salt v)), (''key'', JStr (vk_Key v))]"

text \<open>An unsigned field of the given number of bits.\<close>

definition dec_uint :: "nat \<Rightarrow> nat \<Rightarrow> json \<Rightarrow> nat option" where
  "dec_uint bits cur j = (case j of
       JInt n \<Rightarrow> if 0 \<le> n \<and> n < 2 ^ bits then Some (nat n) else None
     | JNull \<Rightarrow> Some cur | _ \<Rightarrow> None)"

definition dec_view_key :: "json \<Rightarrow> view_key option" where
  "dec_view_key = dec_struct
     [fld ''kdf'' dec_string vk_KDF (\<lambda>x r. r\<lparr>vk_KDF := x\<rparr>),
      fld ''m_kib'' (dec_uint 32) vk_MemKiB (\<lambda>x r. r\<lparr>vk_MemKiB := x\<rparr>),
      fld ''t'' (dec_uint 32) vk_Time (\<lambda>x r. r\<lparr>vk_Time := x\<rparr>),
      fld ''p'' (dec_uint 8) vk_Par (\<lambda>x r. r\<lparr>vk_Par := x\<rparr>),
      fld ''salt'' dec_string vk_Salt (\<lambda>x r. r\<lparr>vk_Salt := x\<rparr>),
      fld ''key'' dec_string vk_Key (\<lambda>x r. r\<lparr>vk_Key := x\<rparr>)]
     \<lparr>vk_KDF = [], vk_MemKiB = 0, vk_Time = 0, vk_Par = 0, vk_Salt = [], vk_Key = []\<rparr>"

definition SetViewPassword ::
  "sealing \<Rightarrow> (json \<Rightarrow> string) \<Rightarrow> string \<Rightarrow> string \<Rightarrow> bytes \<Rightarrow> fs \<Rightarrow> fs \<times> unit result" where
  "SetViewPassword sl marshal dir password salt f =
     (if password = [] then (f, Err (ErrMsg ''empty password''))
      else (case sl_argon sl password salt viewTime viewMemKiB viewPar viewKeyLen of
          Inl e \<Rightarrow> (f, Err e)
        | Inr key \<Rightarrow>
            (let vk = \<lparr>vk_KDF = viewKDF, vk_MemKiB = viewMemKiB, vk_Time = viewTime, vk_Par = viewPar,
                   vk_Salt = StdEncode salt, vk_Key = StdEncode key\<rparr>
             in if \<not> MkdirAll dir f then (f, Err (ErrMsg (file_error_text dir PermissionDenied)))
                else (let (f', ok) = WriteFile (viewKeyPath dir) (marshal (enc_view_key vk)) 384 f in
                      (f', if ok then Ok () else Err (ErrMsg (file_error_text (viewKeyPath dir) PermissionDenied)))))))"

definition HasViewKey :: "string \<Rightarrow> fs \<Rightarrow> bool" where
  "HasViewKey dir f = Stat (viewKeyPath dir) f"

definition ClearViewPassword :: "string \<Rightarrow> fs \<Rightarrow> fs \<times> unit result" where
  "ClearViewPassword dir f =
     (case Remove (viewKeyPath dir) f of
        (f', None) \<Rightarrow> (f', Ok ())
      | (f', Some NotExist) \<Rightarrow> (f', Ok ())
      | (f', Some e) \<Rightarrow> (f', Err (ErrMsg (file_error_text (viewKeyPath dir) e))))"

definition loadViewKey :: "(string \<Rightarrow> json option) \<Rightarrow> string \<Rightarrow> fs \<Rightarrow> view_key option result" where
  "loadViewKey unmarshal dir f =
     (case ReadFile (viewKeyPath dir) f of
        Inl NotExist \<Rightarrow> Ok None
      | Inl e \<Rightarrow> Err (ErrMsg (file_error_text (viewKeyPath dir) e))
      | Inr data \<Rightarrow>
          (case Option.bind (unmarshal data) dec_view_key of
             None \<Rightarrow> Err (ErrMsg ''json'')
           | Some vk \<Rightarrow>
               if vk_KDF vk \<noteq> viewKDF \<or> vk_Salt vk = [] \<or> vk_Key vk = [] then Err (ErrMsg ''malformed view.key'')
               else Ok (Some vk)))"

text \<open>The key of the file, with the check of its length.\<close>

definition view_key_bytes :: "view_key \<Rightarrow> bytes option" where
  "view_key_bytes vk =
     (case StdDecode (vk_Key vk) of
        None \<Rightarrow> None
      | Some key \<Rightarrow> if length key \<noteq> viewKeyLen then None else Some key)"

definition bad_key :: go_error where "bad_key = ErrMsg ''malformed view.key key material''"

definition seal :: "sealing \<Rightarrow> bytes \<Rightarrow> view_key \<Rightarrow> string \<Rightarrow> conf_enc result" where
  "seal sl nonce vk plainJSON =
     (case view_key_bytes vk of
        None \<Rightarrow> Err bad_key
      | Some key \<Rightarrow>
          Ok \<lparr>ce_KDF = vk_KDF vk, ce_MemKiB = vk_MemKiB vk, ce_Time = vk_Time vk, ce_Par = vk_Par vk, ce_Salt = vk_Salt vk,
            ce_Nonce = StdEncode nonce, ce_CT = StdEncode (sl_Seal sl key nonce (sl_gzip sl plainJSON))\<rparr>)"

definition err_text :: "go_error \<Rightarrow> string" where
  "err_text e = (case e of ErrMsg m \<Rightarrow> m | Panic m \<Rightarrow> m | _ \<Rightarrow> ''error'')"

definition conf_failure :: "string \<Rightarrow> string \<Rightarrow> conf_result_data" where
  "conf_failure dir msg = zero_conf_result\<lparr>cr_Files := [zero_conf_file\<lparr>cf_Tool := ''lightpn'', cf_Path := viewKeyPath dir, cf_Err := msg\<rparr>]\<rparr>"

definition metadata :: "conf_file \<Rightarrow> conf_file" where
  "metadata f = f\<lparr>cf_Content := [], cf_Truncated := False\<rparr>"

definition sealToolConf ::
  "sealing \<Rightarrow> (json \<Rightarrow> string) \<Rightarrow> (string \<Rightarrow> json option) \<Rightarrow> string \<Rightarrow> bytes \<Rightarrow> 's svc_manager option \<Rightarrow> fs \<Rightarrow> 's
    \<Rightarrow> conf_result_data \<Rightarrow> conf_result_data" where
  "sealToolConf sl marshal unmarshal dir nonce svc f s res =
     (case loadViewKey unmarshal dir f of
        Inl e \<Rightarrow> conf_failure dir (''view key unreadable: '' @ err_text e)
      | Inr None \<Rightarrow> zero_conf_result\<lparr>cr_WG := cr_WG res, cr_NoKey := True\<rparr>
      | Inr (Some vk) \<Rightarrow>
          (let res1 = res\<lparr>cr_Services := collectSvcStatus unmarshal dir svc f s\<rparr> in
           (case seal sl nonce vk (marshal (enc_conf_result res1)) of
              Inl e \<Rightarrow> conf_failure dir (''conf encryption failed: '' @ err_text e)
            | Inr enc \<Rightarrow> \<lparr>cr_WG = cr_WG res1, cr_Files = map metadata (cr_Files res1), cr_Services = cr_Services res1,
                cr_Enc = Some enc, cr_NoKey = False\<rparr>)))"

section \<open>Sealed commands: \<open>internal/agent/svccmd.go\<close>\<close>

definition svcCmdWindow :: int where "svcCmdWindow = 300"

record svc_cmd =
  sc_Action :: string
  sc_Alias :: string
  sc_TS :: int

definition dec_svc_cmd :: "json \<Rightarrow> svc_cmd option" where
  "dec_svc_cmd = dec_struct
     [fld ''action'' dec_string sc_Action (\<lambda>x r. r\<lparr>sc_Action := x\<rparr>),
      fld ''alias'' dec_string sc_Alias (\<lambda>x r. r\<lparr>sc_Alias := x\<rparr>),
      fld ''ts'' dec_int sc_TS (\<lambda>x r. r\<lparr>sc_TS := x\<rparr>)]
     \<lparr>sc_Action = [], sc_Alias = [], sc_TS = 0\<rparr>"

text \<open>The key of the view password, or why there is none.\<close>

definition command_key :: "(string \<Rightarrow> json option) \<Rightarrow> string \<Rightarrow> fs \<Rightarrow> bytes result" where
  "command_key unmarshal dir f =
     (case loadViewKey unmarshal dir f of
        Inl e \<Rightarrow> Err (ErrMsg (''view key unreadable: '' @ err_text e))
      | Inr None \<Rightarrow> Err (ErrMsg ''no view password configured'')
      | Inr (Some vk) \<Rightarrow> (case view_key_bytes vk of None \<Rightarrow> Err bad_key | Some key \<Rightarrow> Ok key))"

text \<open>Authentication: the command inside the sealed envelope.\<close>

definition unseal_cmd :: "sealing \<Rightarrow> (string \<Rightarrow> json option) \<Rightarrow> bytes \<Rightarrow> svc_action_data \<Rightarrow> svc_cmd result" where
  "unseal_cmd sl unmarshal key d =
     (case StdDecode (sa_Nonce d) of
        None \<Rightarrow> Err (ErrMsg ''bad nonce encoding'')
      | Some nonce \<Rightarrow>
          (case StdDecode (sa_CT d) of
             None \<Rightarrow> Err (ErrMsg ''bad ciphertext encoding'')
           | Some ct \<Rightarrow>
               if length nonce \<noteq> NonceSize then Err (ErrMsg ''bad nonce length'')
               else (case sl_Open sl key nonce ct of
                   None \<Rightarrow> Err (ErrMsg ''command authentication failed'')
                 | Some plain \<Rightarrow>
                     (case Option.bind (unmarshal plain) dec_svc_cmd of
                        None \<Rightarrow> Err (ErrMsg ''malformed command payload'')
                      | Some cmd \<Rightarrow> Ok cmd))))"

definition pruned :: "int \<Rightarrow> (string \<rightharpoonup> int) \<Rightarrow> (string \<rightharpoonup> int)" where
  "pruned now seen = (\<lambda>iv. case seen iv of
     None \<Rightarrow> None
   | Some ts \<Rightarrow> if ts < now - 2 * svcCmdWindow then None else Some ts)"

text \<open>\<open>seen\<close> is the replay cache \<open>svcSeen\<close>.\<close>

definition openSvcCmd ::
  "sealing \<Rightarrow> (string \<Rightarrow> json option) \<Rightarrow> string \<Rightarrow> fs \<Rightarrow> svc_action_data \<Rightarrow> int \<Rightarrow> (string \<rightharpoonup> int)
    \<Rightarrow> (string \<rightharpoonup> int) \<times> svc_cmd result" where
  "openSvcCmd sl unmarshal dir f d now seen =
     (case command_key unmarshal dir f of
        Inl e \<Rightarrow> (seen, Err e)
      | Inr key \<Rightarrow>
          (case unseal_cmd sl unmarshal key d of
             Inl e \<Rightarrow> (seen, Err e)
           | Inr cmd \<Rightarrow>
               if sc_Action cmd \<notin> svcActions then (seen, Err (not_allowed (sc_Action cmd)))
               else if sc_TS cmd < now - svcCmdWindow \<or> sc_TS cmd > now + svcCmdWindow
               then (seen, Err (ErrMsg ''command expired (check clocks)''))
               else (let seen1 = pruned now seen in
                     if seen1 (sa_Nonce d) \<noteq> None then (seen1, Err (ErrMsg ''replayed command rejected''))
                     else (seen1(sa_Nonce d \<mapsto> sc_TS cmd), Ok cmd))))"

definition handleSvcAction ::
  "sealing \<Rightarrow> (string \<Rightarrow> json option) \<Rightarrow> string \<Rightarrow> 's svc_manager option \<Rightarrow> fs \<Rightarrow> svc_action_data \<Rightarrow> int
    \<Rightarrow> (string \<rightharpoonup> int) \<times> 's \<Rightarrow> ((string \<rightharpoonup> int) \<times> 's) \<times> svc_result_data" where
  "handleSvcAction sl unmarshal dir svc f d now st =
     (let (seen, s) = st; (seen', r) = openSvcCmd sl unmarshal dir f d now seen;
          rejected = (\<lambda>e. \<lparr>sr_OK = False, sr_Err = err_text e, sr_Services = collectSvcStatus unmarshal dir svc f s\<rparr>)
      in (case r of
            Inl e \<Rightarrow> ((seen', s), rejected e)
          | Inr cmd \<Rightarrow>
              (case lookupSvc unmarshal dir (sc_Alias cmd) f of
                 Inl e \<Rightarrow> ((seen', s), rejected e)
               | Inr unit \<Rightarrow>
                   (case svc of
                      None \<Rightarrow> ((seen', s), \<lparr>sr_OK = False, sr_Err = ''service control unavailable on this build'', sr_Services = []\<rparr>)
                    | Some m \<Rightarrow>
                        (let (s', res) = sm_Do m (sc_Action cmd) unit s in
                         ((seen', s'), \<lparr>sr_OK = is_ok res, sr_Err = (case res of Inl e \<Rightarrow> err_text e | Inr u \<Rightarrow> []),
                            sr_Services = collectSvcStatus unmarshal dir svc f s'\<rparr>))))))"

end
