(* ===== verification/SvcProps.thy ===== *)
theory SvcProps
  imports ViewKey GoJson "HOL-Library.Multiset" "HOL-Library.Countable"
begin

text \<open>
  The properties of remote service control and of the view password: what the registry can hold, that a
  sealed command runs once and only on what the operator registered, and that contents leave the agent
  only inside the sealed envelope.
\<close>

section \<open>The registry\<close>

definition entry_ok :: "svc_entry \<Rightarrow> bool" where
  "entry_ok e \<longleftrightarrow> aliasRE (se_Alias e) \<and> unitRE (se_Unit e) \<and> (se_Conf e = [] \<or> IsAbs (se_Conf e))"

definition reg_ok :: "svc_entry list \<Rightarrow> bool" where
  "reg_ok reg \<longleftrightarrow> (\<forall>e \<in> set reg. entry_ok e) \<and> distinct (map se_Alias reg) \<and> distinct (map se_Unit reg)"

datatype reg_op = RegAdd string string string | RegDel string

text \<open>The two commands of the local CLI on a registry file; a refused write leaves the file.\<close>

fun reg_exec ::
  "(json \<Rightarrow> string) \<Rightarrow> (string \<Rightarrow> json option) \<Rightarrow> string \<Rightarrow> reg_op \<Rightarrow> fs \<Rightarrow> fs" where
  "reg_exec marshal unmarshal dir (RegAdd a u c) f = fst (AddSvc marshal unmarshal dir a u c f)"
| "reg_exec marshal unmarshal dir (RegDel a) f = fst (DelSvc marshal unmarshal dir a f)"

fun reg_op_ok :: "reg_op \<Rightarrow> bool" where
  "reg_op_ok (RegAdd a u c) \<longleftrightarrow> valid_utf8 c"
| "reg_op_ok (RegDel a) \<longleftrightarrow> True"

text \<open>What is used of \<open>encoding/json\<close>: a registry in UTF-8 is read back as it was written.\<close>

definition text_laws :: "(json \<Rightarrow> string) \<Rightarrow> (string \<Rightarrow> json option) \<Rightarrow> bool" where
  "text_laws marshal unmarshal \<longleftrightarrow> (\<forall>reg. (\<forall>e \<in> set reg. entry_ok e \<and> valid_utf8 (se_Conf e)) \<longrightarrow>
     unmarshal (marshal (enc_list enc_svc_entry reg)) = Some (enc_list enc_svc_entry reg))"

lemma names_ascii: "alias_start c \<Longrightarrow> (of_char c :: nat) < 128" "unit_char c \<Longrightarrow> (of_char c :: nat) < 128"
  by (auto simp: alias_start_def unit_char_def in_range_def)

lemma aliasRE_utf8: "aliasRE s \<Longrightarrow> valid_utf8 s"
  by (rule valid_utf8_ascii) (auto simp: aliasRE_def list_all_iff names_ascii split: list.splits)

lemma unitRE_utf8:
  assumes "unitRE s"
  shows "valid_utf8 s"
proof (rule valid_utf8_ascii)
  let ?n = "length s - length ''.service''"
  have n: "drop ?n s = ''.service''" "list_all unit_char (take ?n s)" using assms unfolding unitRE_def Let_def by metis+
  have "\<forall>c \<in> set (take ?n s). (of_char c :: nat) < 128" using n(2) by (simp add: list_all_iff names_ascii)
  moreover have "\<forall>c \<in> set (drop ?n s). (of_char c :: nat) < 128" unfolding n(1) by simp
  moreover have "set s = set (take ?n s) \<union> set (drop ?n s)" by (metis append_take_drop_id set_append)
  ultimately show "\<forall>c \<in> set s. (of_char c :: nat) < 128" by blast
qed

lemma keys_utf8: "valid_utf8 ''alias''" "valid_utf8 ''unit''" "valid_utf8 ''conf''"
  by (rule valid_utf8_ascii, simp)+

lemma entry_plain: "entry_ok e \<Longrightarrow> valid_utf8 (se_Conf e) \<Longrightarrow> plain (enc_svc_entry e) \<and> depth (enc_svc_entry e) = 1"
  by (simp add: enc_svc_entry_def entry_ok_def opt_str_def aliasRE_utf8 unitRE_utf8 keys_utf8)

text \<open>The printer and the parser of \<open>encoding/json\<close> have the law.\<close>

lemma go_text_laws: "text_laws (MarshalIndent ff) Unmarshal"
  unfolding text_laws_def
proof (intro allI impI Unmarshal_MarshalIndent)
  fix reg
  assume reg: "\<forall>e \<in> set reg. entry_ok e \<and> valid_utf8 (se_Conf e)"
  show "plain (enc_list enc_svc_entry reg)"
    using reg by (simp add: enc_list_def plain_elems_iff entry_plain)
  have "depth_elems (map enc_svc_entry reg) \<le> 1" using reg by (simp add: depth_elems_le entry_plain)
  then show "depth (enc_list enc_svc_entry reg) \<le> maxNestingDepth"
    by (simp add: enc_list_def maxNestingDepth_def)
qed

lemma dec_svc_entry_enc: "dec_svc_entry_onto zero_svc_entry (enc_svc_entry e) = Some e"
  by (simp add: dec_svc_entry_onto_def enc_svc_entry_def zero_svc_entry_def opt_str_def dec_defs codec_simps)

lemma dec_registry_enc: "dec_list dec_svc_entry_onto zero_svc_entry [] (enc_list enc_svc_entry reg) = Some reg"
  by (rule dec_list_enc) (rule dec_svc_entry_enc)

lemma distinct_map_sort_key: "distinct (map g (sort_key k xs)) \<longleftrightarrow> distinct (map g xs)"
proof -
  have "mset (map g (sort_key k xs)) = mset (map g xs)" by simp
  then show ?thesis by (rule mset_eq_imp_distinct_iff)
qed

lemma reg_ok_sort: "reg_ok (sort_key se_Alias reg) \<longleftrightarrow> reg_ok reg"
proof -
  have "distinct (map g (sort_key se_Alias reg)) \<longleftrightarrow> distinct (map g reg)" for g :: "svc_entry \<Rightarrow> string"
    by (auto simp: distinct_map_sort_key)
  then show ?thesis by (simp add: reg_ok_def)
qed

definition registry_inv :: "(string \<Rightarrow> json option) \<Rightarrow> string \<Rightarrow> fs \<Rightarrow> bool" where
  "registry_inv unmarshal dir f \<longleftrightarrow> svcRegPath dir \<notin> fs_hidden f
     \<and> (\<exists>reg. LoadSvcReg unmarshal dir f = Ok reg \<and> reg_ok reg \<and> (\<forall>e \<in> set reg. valid_utf8 (se_Conf e)))"

lemma save_inv:
  assumes "text_laws marshal unmarshal" and "registry_inv unmarshal dir f"
    and "reg_ok reg" and "\<forall>e \<in> set reg. valid_utf8 (se_Conf e)"
  shows "registry_inv unmarshal dir (fst (saveSvcReg marshal dir reg f))"
proof (cases "svcRegPath dir \<in> fs_denied f")
  case False
  let ?reg = "sort_key se_Alias reg"
  have "unmarshal (marshal (enc_list enc_svc_entry ?reg)) = Some (enc_list enc_svc_entry ?reg)"
    using assms(1,3,4) by (simp add: text_laws_def reg_ok_def)
  then have "LoadSvcReg unmarshal dir (fst (saveSvcReg marshal dir reg f)) = Ok ?reg"
    using False assms(2)
    by (simp add: saveSvcReg_def WriteFile_def LoadSvcReg_def ReadFile_def Let_def registry_inv_def dec_registry_enc)
  moreover have "fs_hidden (fst (saveSvcReg marshal dir reg f)) = fs_hidden f"
    by (simp add: saveSvcReg_def Let_def case_prod_beta)
  ultimately show ?thesis using assms(2-4) reg_ok_sort [of reg] by (simp add: registry_inv_def)
next
  case True
  then have "fst (saveSvcReg marshal dir reg f) = f" by (simp add: saveSvcReg_def WriteFile_def)
  with assms(2) show ?thesis by simp
qed

interpretation registry: invariant_machine "reg_exec marshal unmarshal dir" reg_op_ok
  "\<lambda>f. text_laws marshal unmarshal \<longrightarrow> registry_inv unmarshal dir f" for marshal unmarshal dir
proof
  fix c f
  assume inv: "text_laws marshal unmarshal \<longrightarrow> registry_inv unmarshal dir f" and ok: "reg_op_ok c"
  show "text_laws marshal unmarshal \<longrightarrow> registry_inv unmarshal dir (reg_exec marshal unmarshal dir c f)"
  proof
    assume laws: "text_laws marshal unmarshal"
    then have i: "registry_inv unmarshal dir f" using inv by simp
    then obtain reg where reg: "LoadSvcReg unmarshal dir f = Ok reg" "reg_ok reg" "\<forall>e \<in> set reg. valid_utf8 (se_Conf e)"
      by (auto simp: registry_inv_def)
    show "registry_inv unmarshal dir (reg_exec marshal unmarshal dir c f)"
    proof (cases c)
      case (RegAdd a u k)
      let ?new = "reg @ [\<lparr>se_Alias = a, se_Unit = u, se_Conf = k\<rparr>]"
      show ?thesis
      proof (cases "aliasRE a \<and> unitRE u \<and> (k = [] \<or> IsAbs k) \<and> find (\<lambda>e. se_Alias e = a \<or> se_Unit e = u) reg = None")
        case True
        then have "reg_ok ?new" using reg(2) by (auto simp: reg_ok_def entry_ok_def find_None_iff)
        moreover have "\<forall>e \<in> set ?new. valid_utf8 (se_Conf e)" using reg(3) ok RegAdd by simp
        moreover have "reg_exec marshal unmarshal dir c f = fst (saveSvcReg marshal dir ?new f)"
          using True reg(1) by (auto simp: RegAdd AddSvc_def)
        ultimately show ?thesis using save_inv [OF laws i] by simp
      next
        case False
        then have "reg_exec marshal unmarshal dir c f = f"
          using reg(1) by (auto simp: RegAdd AddSvc_def split: option.split)
        with i show ?thesis by simp
      qed
    next
      case (RegDel a)
      have "reg_ok (filter (\<lambda>e. se_Alias e \<noteq> a) reg)"
        using reg(2) by (auto simp: reg_ok_def distinct_map_filter)
      with save_inv [OF laws i] reg(1,3) i show ?thesis by (simp add: RegDel DelSvc_def Let_def)
    qed
  qed
qed

lemma lookupSvc_unit:
  "LoadSvcReg unmarshal dir f = Ok reg \<Longrightarrow> lookupSvc unmarshal dir al f = Ok unit \<Longrightarrow>
     \<exists>e \<in> set reg. se_Alias e = al \<and> se_Unit e = unit"
  by (auto simp: lookupSvc_def split: option.splits dest!: find_SomeD)

text \<open>
  C25: every registry the CLI can write is well-typed. After any additions and removals (with UTF-8
  configuration paths) on a machine without a registry, refused writes included, the file loads, its aliases and units are distinct and
  match their patterns, its configuration paths are absolute, and so every unit name a command can
  resolve to is a plain \<open>.service\<close> name that \<open>systemctl\<close> cannot read as an option or another word.
  (\<open>go_text_laws\<close> gives the first condition for Go's printer and parser.)
\<close>

theorem registry_well_typed:
  assumes "text_laws marshal unmarshal" and "fs_files f (svcRegPath dir) = None" and "svcRegPath dir \<notin> fs_hidden f"
    and "list_all reg_op_ok ops"
  shows "\<exists>reg. LoadSvcReg unmarshal dir (run_ops (reg_exec marshal unmarshal dir) ops f) = Ok reg \<and> reg_ok reg
    \<and> (\<forall>al unit. lookupSvc unmarshal dir al (run_ops (reg_exec marshal unmarshal dir) ops f) = Ok unit \<longrightarrow>
         unitRE unit \<and> unit \<noteq> [] \<and> CHR '' '' \<notin> set unit)"
proof -
  let ?g = "run_ops (reg_exec marshal unmarshal dir) ops f"
  have "registry_inv unmarshal dir f"
    using assms(2,3) by (simp add: registry_inv_def LoadSvcReg_def ReadFile_def reg_ok_def)
  then have "registry_inv unmarshal dir ?g"
    using registry.run_inv [where cs = ops and s = f and marshal = marshal and unmarshal = unmarshal and dir = dir] assms(1,4)
    by (simp add: list_all_iff)
  then obtain reg where reg: "LoadSvcReg unmarshal dir ?g = Ok reg" "reg_ok reg" by (auto simp: registry_inv_def)
  have "unitRE unit \<and> unit \<noteq> [] \<and> CHR '' '' \<notin> set unit" if u: "lookupSvc unmarshal dir al ?g = Ok unit" for al unit
  proof -
    have unit: "unitRE unit" using lookupSvc_unit [OF reg(1) u] reg(2) by (auto simp: reg_ok_def entry_ok_def)
    let ?n = "length unit - 8"
    have "length ''.service'' = 8" by simp
    then have n: "drop ?n unit = ''.service''" "list_all unit_char (take ?n unit)"
      using unit unfolding unitRE_def Let_def by metis+
    have "\<not> unit_char CHR '' ''" by (simp add: unit_char_def in_range_def)
    then have "CHR '' '' \<notin> set (take ?n unit @ drop ?n unit)" using n unfolding set_append by (auto simp: list_all_iff)
    then have "CHR '' '' \<notin> set unit" unfolding append_take_drop_id .
    then show ?thesis using unit n(1) by auto
  qed
  with reg show ?thesis by blast
qed

section \<open>Commands\<close>

locale svc_control =
  fixes m :: "'s svc_manager"
  assumes refuses: "action \<notin> svcActions \<Longrightarrow> sm_Do m action unit s = (s, Err (not_allowed action))"
begin

lemma acts_only_when_allowed: "fst (sm_Do m action unit s) \<noteq> s \<Longrightarrow> action \<in> {''start'', ''stop'', ''restart''}"
  using refuses by (fastforce simp: svcActions_def)

end

interpretation systemd_control: svc_control "systemdSvc trim sc" for trim sc
  by unfold_locales (simp add: systemdSvc_def systemd_Do_def)

interpretation stub_control: svc_control stubSvc
  by unfold_locales (simp add: stubSvc_def stub_Do_def)

lemma openSvcCmd_OkD:
  assumes "openSvcCmd sl unmarshal dir f d now seen = (seen', Ok cmd)"
  shows "\<exists>key. command_key unmarshal dir f = Ok key \<and> unseal_cmd sl unmarshal key d = Ok cmd"
    and "sc_Action cmd \<in> svcActions" and "now - 300 \<le> sc_TS cmd" and "sc_TS cmd \<le> now + 300"
    and "pruned now seen (sa_Nonce d) = None" and "seen' = (pruned now seen)(sa_Nonce d \<mapsto> sc_TS cmd)"
  using assms by (auto simp: openSvcCmd_def Let_def svcCmdWindow_def split: sum.splits if_splits)

text \<open>
  C10: the hub can ask only for what the operator registered. When a request changes the machine, its
  envelope was authenticated under the view key of this agent, its time stamp is within five minutes of
  the agent's clock, the action is start, stop or restart, and it ran on the unit that the local registry
  gives for the alias; without a view key nothing ever runs.
\<close>

theorem only_registered_services_act:
  assumes "handleSvcAction sl unmarshal dir svc f d now (seen, s) = ((seen', s'), res)" and "s' \<noteq> s"
  shows "\<exists>key cmd unit m. command_key unmarshal dir f = Ok key \<and> unseal_cmd sl unmarshal key d = Ok cmd
    \<and> \<bar>sc_TS cmd - now\<bar> \<le> 300 \<and> sc_Action cmd \<in> {''start'', ''stop'', ''restart''}
    \<and> lookupSvc unmarshal dir (sc_Alias cmd) f = Ok unit \<and> svc = Some m \<and> s' = fst (sm_Do m (sc_Action cmd) unit s)
    \<and> HasViewKey dir f"
proof -
  obtain seen1 r where open_r: "openSvcCmd sl unmarshal dir f d now seen = (seen1, r)" by fastforce
  obtain cmd unit m where "r = Ok cmd" "lookupSvc unmarshal dir (sc_Alias cmd) f = Ok unit" "svc = Some m"
      "s' = fst (sm_Do m (sc_Action cmd) unit s)"
    using assms open_r by (auto simp: handleSvcAction_def Let_def case_prod_beta split: sum.splits option.splits)
  moreover note cmd = openSvcCmd_OkD [OF open_r [unfolded calculation(1)]]
  moreover have "HasViewKey dir f"
    using cmd(1) by (auto simp: command_key_def loadViewKey_def HasViewKey_def Stat_def ReadFile_def
        split: sum.splits option.splits)
  moreover have "\<bar>sc_TS cmd - now\<bar> \<le> 300" using cmd(3,4) by linarith
  moreover have "sc_Action cmd \<in> {''start'', ''stop'', ''restart''}" using cmd(2) by (simp add: svcActions_def)
  ultimately show ?thesis using cmd(1) by blast
qed

subsection \<open>Replay\<close>

definition seen_after ::
  "sealing \<Rightarrow> (string \<Rightarrow> json option) \<Rightarrow> string \<Rightarrow> fs \<Rightarrow> (svc_action_data \<times> int) list \<Rightarrow> (string \<rightharpoonup> int) \<Rightarrow> (string \<rightharpoonup> int)" where
  "seen_after sl unmarshal dir f calls seen =
     fold (\<lambda>(d, now) seen. fst (openSvcCmd sl unmarshal dir f d now seen)) calls seen"

lemma openSvcCmd_seen:
  assumes "seen iv = Some ts" and "now - 600 \<le> ts"
  shows "fst (openSvcCmd sl unmarshal dir f d now seen) iv = Some ts"
proof -
  have "pruned now seen iv = Some ts" using assms by (simp add: pruned_def svcCmdWindow_def)
  then show ?thesis using assms(1) by (auto simp: openSvcCmd_def Let_def split: sum.split)
qed

lemma seen_after_keeps:
  assumes "seen iv = Some ts" and "\<forall>c \<in> set calls. snd c - 600 \<le> ts"
  shows "seen_after sl unmarshal dir f calls seen iv = Some ts"
  using assms unfolding seen_after_def
  by (induction calls arbitrary: seen) (auto simp: openSvcCmd_seen)

text \<open>
  C9: a sealed command runs once. After a command has been accepted the same envelope is refused by
  every later call, whatever commands came in between, as long as the clock does not run backwards:
  while its time stamp is fresh the replay cache still holds its nonce, and later it is expired.
\<close>

theorem command_runs_once:
  assumes "openSvcCmd sl unmarshal dir f d t0 seen = (seen', Ok cmd)"
    and "sorted (t0 # map snd calls @ [t1])"
  shows "\<not> is_ok (snd (openSvcCmd sl unmarshal dir f d t1 (seen_after sl unmarshal dir f calls seen')))"
proof
  assume "is_ok (snd (openSvcCmd sl unmarshal dir f d t1 (seen_after sl unmarshal dir f calls seen')))"
  then obtain seen2 cmd2 where again: "openSvcCmd sl unmarshal dir f d t1 (seen_after sl unmarshal dir f calls seen') = (seen2, Ok cmd2)"
    by (cases "openSvcCmd sl unmarshal dir f d t1 (seen_after sl unmarshal dir f calls seen')";
        cases "snd (openSvcCmd sl unmarshal dir f d t1 (seen_after sl unmarshal dir f calls seen'))") auto
  note first = openSvcCmd_OkD [OF assms(1)] and second = openSvcCmd_OkD [OF again]
  have "cmd2 = cmd" using first(1) second(1) by auto
  then have fresh: "t1 - 300 \<le> sc_TS cmd" using second(3) by simp
  have "\<forall>c \<in> set calls. snd c \<le> t1" using assms(2) by (auto simp: sorted_append)
  then have "\<forall>c \<in> set calls. snd c - 600 \<le> sc_TS cmd" using fresh by fastforce
  moreover have "seen' (sa_Nonce d) = Some (sc_TS cmd)" using first(6) by simp
  ultimately have "seen_after sl unmarshal dir f calls seen' (sa_Nonce d) = Some (sc_TS cmd)"
    by (intro seen_after_keeps)
  then have "pruned t1 (seen_after sl unmarshal dir f calls seen') (sa_Nonce d) = Some (sc_TS cmd)"
    using fresh by (simp add: pruned_def svcCmdWindow_def)
  with second(5) show False by simp
qed

text \<open>
  The cache is keyed by the text of the nonce, but the decoder ignores newlines: an accepted command is
  accepted again when a newline is added to the text, by a hub that never saw the key.
\<close>

lemma replay_with_newline:
  assumes "openSvcCmd sl unmarshal dir f d t0 seen = (seen', Ok cmd)"
    and "pruned t0 seen (sa_Nonce d @ [CHR 0x0A]) = None"
  shows "snd (openSvcCmd sl unmarshal dir f (d\<lparr>sa_Nonce := sa_Nonce d @ [CHR 0x0A]\<rparr>) t0 seen') = Ok cmd"
proof -
  note first = openSvcCmd_OkD [OF assms(1)]
  obtain key where key: "command_key unmarshal dir f = Ok key" "unseal_cmd sl unmarshal key d = Ok cmd" using first(1) by blast
  have "is_newline CHR 0x0A" by (simp add: is_newline_def)
  then have "StdDecode (sa_Nonce d @ [CHR 0x0A]) = StdDecode (sa_Nonce d)"
    using StdDecode_newline [of "CHR 0x0A" "sa_Nonce d" "[]"] by simp
  then have "unseal_cmd sl unmarshal key (d\<lparr>sa_Nonce := sa_Nonce d @ [CHR 0x0A]\<rparr>) = Ok cmd"
    using key(2) by (simp add: unseal_cmd_def cong: option.case_cong)
  moreover have "pruned t0 seen' (sa_Nonce d @ [CHR 0x0A]) = None"
    using assms(2) unfolding first(6) by (auto simp: pruned_def split: option.splits if_splits)
  ultimately show ?thesis using key(1) first(2,3,4)
    by (simp add: openSvcCmd_def Let_def svcCmdWindow_def)
qed

section \<open>Sealed contents\<close>

text \<open>What of a reply is outside the ciphertext.\<close>

definition outside :: "conf_result_data \<Rightarrow> conf_result_data" where
  "outside r = r\<lparr>cr_Enc := map_option (\<lambda>e. e\<lparr>ce_CT := []\<rparr>) (cr_Enc r)\<rparr>"

text \<open>
  C27: configuration contents leave the agent only sealed. Every file entry of the reply is without
  content, and two collections with the same metadata give the same reply outside the ciphertext,
  whatever their contents; the ciphertext exists only under a well-formed view key, and without one or
  with a broken one the whole reply is independent of the contents.
\<close>

theorem contents_leave_sealed:
  assumes "map metadata (cr_Files res) = map metadata (cr_Files res')" and "cr_WG res = cr_WG res'"
    and "cr_Services res = cr_Services res'" and "cr_Enc res = cr_Enc res'" and "cr_NoKey res = cr_NoKey res'"
  shows "(\<forall>x \<in> set (cr_Files (sealToolConf sl marshal unmarshal dir nonce svc f s res)). cf_Content x = [])
    \<and> outside (sealToolConf sl marshal unmarshal dir nonce svc f s res) = outside (sealToolConf sl marshal unmarshal dir nonce svc f s res')
    \<and> (\<not> is_ok (command_key unmarshal dir f) \<longrightarrow> cr_Enc (sealToolConf sl marshal unmarshal dir nonce svc f s res) = None
        \<and> sealToolConf sl marshal unmarshal dir nonce svc f s res = sealToolConf sl marshal unmarshal dir nonce svc f s res')"
  using assms
  by (auto simp: sealToolConf_def conf_failure_def zero_conf_result_def zero_conf_file_def outside_def metadata_def
      seal_def command_key_def Let_def split: sum.splits option.splits)

section \<open>Examples\<close>

instance json :: countable
  by countable_datatype

definition demo_marshal :: "json \<Rightarrow> string" where "demo_marshal j = replicate (to_nat j) CHR ''x''"
definition demo_unmarshal :: "string \<Rightarrow> json option" where "demo_unmarshal s = Some (from_nat (length s))"

definition no_files :: fs where
  "no_files = \<lparr>fs_files = Map.empty, fs_denied = {}, fs_hidden = {}\<rparr>"

theorem registry_well_typed_witness:
  "\<exists>reg. LoadSvcReg Unmarshal ''a'' (run_ops (reg_exec (MarshalIndent (\<lambda>r. [])) Unmarshal ''a'')
     [RegAdd ''xray'' ''xray.service'' [], RegAdd ''x2'' ''-Hevil'' []] no_files) = Ok reg \<and> reg_ok reg"
  using registry_well_typed [OF go_text_laws [of "\<lambda>r. []"], of no_files "''a''"
      "[RegAdd ''xray'' ''xray.service'' [], RegAdd ''x2'' ''-Hevil'' []]"]
  by (auto simp: no_files_def)

definition demo_vk :: view_key where
  "demo_vk = \<lparr>vk_KDF = ''argon2id'', vk_MemKiB = 65536, vk_Time = 3, vk_Par = 1, vk_Salt = ''c2FsdA=='',
     vk_Key = StdEncode (replicate 32 0)\<rparr>"

text \<open>The texts \<open>vk\<close>, \<open>reg\<close> and \<open>cmd\<close> stand for the view key, the registry and one command.\<close>

definition demo_json :: "string \<Rightarrow> json option" where
  "demo_json s =
     (if s = ''vk'' then Some (enc_view_key demo_vk)
      else if s = ''reg'' then Some (enc_list enc_svc_entry [\<lparr>se_Alias = ''xray'', se_Unit = ''xray.service'', se_Conf = []\<rparr>])
      else if s = ''cmd'' then Some (JObj [(''action'', JStr ''start''), (''alias'', JStr ''xray''), (''ts'', JInt 1000)])
      else None)"

definition demo_sealing :: sealing where
  "demo_sealing = \<lparr>sl_argon = (\<lambda>pw salt t m p n. Ok []), sl_Seal = (\<lambda>k n p. p),
     sl_Open = (\<lambda>k n c. if k = replicate 32 0 \<and> c = [7] then Some ''cmd'' else None), sl_gzip = (\<lambda>s. [])\<rparr>"

definition demo_data_dir :: fs where
  "demo_data_dir = \<lparr>fs_files = [''a/view.key'' \<mapsto> (''vk'', 384), ''a/services.json'' \<mapsto> (''reg'', 384)],
     fs_denied = {}, fs_hidden = {}\<rparr>"

definition demo_action :: svc_action_data where
  "demo_action = \<lparr>sa_Nonce = StdEncode (replicate 12 0), sa_CT = StdEncode [7]\<rparr>"

definition demo_cmd :: svc_cmd where
  "demo_cmd = \<lparr>sc_Action = ''start'', sc_Alias = ''xray'', sc_TS = 1000\<rparr>"

lemma dec_view_key_enc:
  "vk_MemKiB v < 2 ^ 32 \<Longrightarrow> vk_Time v < 2 ^ 32 \<Longrightarrow> vk_Par v < 2 ^ 8 \<Longrightarrow> dec_view_key (enc_view_key v) = Some v"
  by (simp add: dec_view_key_def enc_view_key_def dec_uint_def dec_defs codec_simps)

lemma demo_key: "command_key demo_json ''a'' demo_data_dir = Ok (replicate 32 0)"
proof -
  have "demo_json ''vk'' = Some (enc_view_key demo_vk)" by (simp add: demo_json_def)
  moreover have "dec_view_key (enc_view_key demo_vk) = Some demo_vk" by (rule dec_view_key_enc) (simp_all add: demo_vk_def)
  moreover have "StdEncode (replicate 32 0) \<noteq> []"
  proof
    assume "StdEncode (replicate 32 0) = []"
    then have "StdDecode [] = Some (replicate 32 0)" using StdDecode_StdEncode [of "replicate 32 0"] by simp
    then show False by (simp add: StdDecode_def)
  qed
  ultimately show ?thesis
    by (simp add: command_key_def loadViewKey_def ReadFile_def demo_data_dir_def viewKeyPath_def Join_def view_key_bytes_def
        viewKDF_def viewKeyLen_def) (simp add: demo_vk_def viewKeyLen_def)
qed

lemma demo_unseal: "unseal_cmd demo_sealing demo_json (replicate 32 0) demo_action = Ok demo_cmd"
  by (simp add: unseal_cmd_def demo_action_def NonceSize_def demo_sealing_def demo_json_def dec_svc_cmd_def demo_cmd_def
      dec_defs codec_simps in_int64_def)

lemma demo_open: "openSvcCmd demo_sealing demo_json ''a'' demo_data_dir demo_action 1000 Map.empty
    = ([sa_Nonce demo_action \<mapsto> 1000], Ok demo_cmd)"
  by (simp add: openSvcCmd_def demo_key demo_unseal Let_def pruned_def) (simp add: demo_cmd_def svcActions_def svcCmdWindow_def)

lemma demo_lookup: "lookupSvc demo_json ''a'' ''xray'' demo_data_dir = Ok ''xray.service''"
proof -
  have "demo_json ''reg'' = Some (enc_list enc_svc_entry [\<lparr>se_Alias = ''xray'', se_Unit = ''xray.service'', se_Conf = []\<rparr>])"
    by (simp add: demo_json_def)
  then show ?thesis
    by (simp add: lookupSvc_def LoadSvcReg_def svcRegPath_def Join_def ReadFile_def demo_data_dir_def dec_registry_enc)
qed

theorem only_registered_services_act_witness:
  "HasViewKey ''a'' demo_data_dir \<and> lookupSvc demo_json ''a'' ''xray'' demo_data_dir = Ok ''xray.service''
   \<and> snd (fst (handleSvcAction demo_sealing demo_json ''a'' (Some stubSvc) demo_data_dir demo_action 1000
       (Map.empty, \<lambda>u. False))) ''xray.service''"
proof -
  obtain seen' s' res where run: "handleSvcAction demo_sealing demo_json ''a'' (Some stubSvc) demo_data_dir demo_action 1000
      (Map.empty, \<lambda>u. False) = ((seen', s'), res)" by (metis prod_cases3 prod.exhaust)
  have s': "s' = (\<lambda>u. False)(''xray.service'' := True)"
    using run by (simp add: handleSvcAction_def demo_open Let_def demo_cmd_def demo_lookup stubSvc_def stub_Do_def svcActions_def)
  then have "s' \<noteq> (\<lambda>u. False)" by (auto simp: fun_eq_iff)
  from only_registered_services_act [OF run this] have "HasViewKey ''a'' demo_data_dir" by blast
  then show ?thesis using run s' demo_lookup by simp
qed

theorem command_runs_once_witness:
  "openSvcCmd demo_sealing demo_json ''a'' demo_data_dir demo_action 1000 Map.empty = ([sa_Nonce demo_action \<mapsto> 1000], Ok demo_cmd)
   \<and> \<not> is_ok (snd (openSvcCmd demo_sealing demo_json ''a'' demo_data_dir demo_action 1200
       (seen_after demo_sealing demo_json ''a'' demo_data_dir [(demo_action, 1100)] [sa_Nonce demo_action \<mapsto> 1000])))"
  using command_runs_once [OF demo_open, of "[(demo_action, 1100)]" 1200] demo_open by simp

definition demo_contents :: "string \<Rightarrow> conf_result_data" where
  "demo_contents c = zero_conf_result\<lparr>cr_Files := [zero_conf_file\<lparr>cf_Path := ''/etc/xray/config.json'', cf_Content := c\<rparr>]\<rparr>"

theorem contents_leave_sealed_witness:
  "outside (sealToolConf demo_sealing (\<lambda>j. []) demo_json ''a'' [] (Some stubSvc) demo_data_dir (\<lambda>u. False) (demo_contents ''secret''))
   = outside (sealToolConf demo_sealing (\<lambda>j. []) demo_json ''a'' [] (Some stubSvc) demo_data_dir (\<lambda>u. False) (demo_contents ''other''))"
  using contents_leave_sealed [of "demo_contents ''secret''" "demo_contents ''other''" demo_sealing "\<lambda>j. []" demo_json "''a''" "[]"
      "Some stubSvc" demo_data_dir "\<lambda>u. False"]
  by (simp add: demo_contents_def zero_conf_result_def metadata_def)

end
