(* ===== verification/ToolConf.thy ===== *)
theory ToolConf
  imports ViewKey
begin

text \<open>
  \<open>internal/agent/toolconf.go\<close>: the collection of configuration files. What \<open>os.Stat\<close> and
  \<open>os.ReadFile\<close> answer is the record \<open>tool_os\<close> (an error is its text); the loop is a recursion over
  the candidates with the bytes collected so far and the paths already emitted.
\<close>

definition confFileCap :: nat where "confFileCap = 262144"
definition confTotalCap :: nat where "confTotalCap = 786432"

record file_info =
  fi_IsDir :: bool
  fi_ModTime :: int
  fi_Size :: int

record tool_os =
  to_Stat :: "string \<Rightarrow> string + file_info"
  to_ReadFile :: "string \<Rightarrow> string + string"

record candidate =
  cd_tool :: string
  cd_path :: string
  cd_registered :: bool

definition builtin :: "string \<Rightarrow> string \<Rightarrow> candidate" where
  "builtin tool path = \<lparr>cd_tool = tool, cd_path = path, cd_registered = False\<rparr>"

definition toolConfCandidates :: "candidate list" where
  "toolConfCandidates =
    [builtin ''xray'' ''/usr/local/etc/xray/config.json'',
     builtin ''xray'' ''/etc/xray/config.json'',
     builtin ''sing-box'' ''/etc/sing-box/config.json'',
     builtin ''sing-box'' ''/usr/local/etc/sing-box/config.json'',
     builtin ''v2ray'' ''/usr/local/etc/v2ray/config.json'',
     builtin ''v2ray'' ''/etc/v2ray/config.json'',
     builtin ''hysteria'' ''/etc/hysteria/config.yaml'',
     builtin ''hysteria'' ''/etc/hysteria/config.json'',
     builtin ''trojan-go'' ''/etc/trojan-go/config.json'',
     builtin ''shadowsocks-rust'' ''/etc/shadowsocks-rust/config.json'',
     builtin ''shadowsocks-rust'' ''/usr/local/etc/shadowsocks-rust/config.json'',
     builtin ''shadowsocks'' ''/etc/shadowsocks/config.json'',
     builtin ''mihomo'' ''/etc/mihomo/config.yaml'',
     builtin ''clash'' ''/etc/clash/config.yaml'',
     builtin ''caddy'' ''/etc/caddy/Caddyfile'',
     builtin ''naiveproxy'' ''/etc/naiveproxy/config.json'']"

text \<open>The paths of the registry first; a registry that does not load is skipped.\<close>

definition candidates :: "(string \<Rightarrow> json option) \<Rightarrow> string \<Rightarrow> fs \<Rightarrow> candidate list" where
  "candidates unmarshal dir f =
     (case LoadSvcReg unmarshal dir f of
        Inl e \<Rightarrow> []
      | Inr reg \<Rightarrow> map (\<lambda>e. \<lparr>cd_tool = se_Alias e, cd_path = se_Conf e, cd_registered = True\<rparr>)
          (filter (\<lambda>e. se_Conf e \<noteq> []) reg)) @ toolConfCandidates"

text \<open>Cut to the cap of one file, then to what the total leaves.\<close>

definition capped :: "nat \<Rightarrow> string \<Rightarrow> string \<times> bool" where
  "capped used data =
     (let (d1, t1) = (if length data > confFileCap then (take confFileCap data, True) else (data, False)) in
      if used + length d1 > confTotalCap then (take (confTotalCap - used) d1, True) else (d1, t1))"

definition unusable :: "candidate \<Rightarrow> string \<Rightarrow> conf_file" where
  "unusable c msg = zero_conf_file\<lparr>cf_Tool := cd_tool c, cf_Path := cd_path c, cf_Err := msg, cf_Registered := True\<rparr>"

definition conf_entry :: "tool_os \<Rightarrow> candidate \<Rightarrow> file_info \<Rightarrow> nat \<Rightarrow> conf_file" where
  "conf_entry os c fi used =
     (let e = zero_conf_file\<lparr>cf_Tool := cd_tool c, cf_Path := cd_path c, cf_ModTime := fi_ModTime fi,
            cf_Size := fi_Size fi, cf_Registered := cd_registered c\<rparr>
      in (case to_ReadFile os (cd_path c) of
            Inl msg \<Rightarrow> e\<lparr>cf_Err := msg\<rparr>
          | Inr data \<Rightarrow> (let (d, t) = capped used data in e\<lparr>cf_Content := d, cf_Truncated := t\<rparr>)))"

fun collect_loop :: "tool_os \<Rightarrow> candidate list \<Rightarrow> nat \<Rightarrow> string set \<Rightarrow> conf_file list" where
  "collect_loop os [] used seen = []"
| "collect_loop os (c # cs) used seen =
     (if cd_path c \<in> seen then collect_loop os cs used seen
      else (let skip = (\<lambda>msg. if cd_registered c
              then unusable c msg # collect_loop os cs used (insert (cd_path c) seen)
              else collect_loop os cs used seen)
            in (case to_Stat os (cd_path c) of
                  Inl msg \<Rightarrow> skip msg
                | Inr fi \<Rightarrow>
                    if fi_IsDir fi then skip ''a directory is registered, only single files are supported''
                    else (let e = conf_entry os c fi used; used' = used + length (cf_Content e) in
                          e # (if used' \<ge> confTotalCap then []
                               else collect_loop os cs used' (insert (cd_path c) seen))))))"

text \<open>The daemon always has an identity (\<open>a.ID != nil\<close>), so its registry is always looked at. \<open>wg\<close> is what the WireGuard manager reports, \<open>None\<close> when it fails.\<close>

definition collectToolConf ::
  "tool_os \<Rightarrow> (string \<Rightarrow> json option) \<Rightarrow> string \<Rightarrow> fs \<Rightarrow> string \<Rightarrow> string \<Rightarrow> int \<Rightarrow> wg_peer_status list result
    \<Rightarrow> conf_result_data" where
  "collectToolConf os unmarshal dir f iface wgPub wgListenPort status =
     zero_conf_result\<lparr>
       cr_WG := \<lparr>cw_Iface = iface, cw_Pubkey = wgPub, cw_ListenPort = wgListenPort,
         cw_Peers = (case status of Inl e \<Rightarrow> [] | Inr peers \<Rightarrow> peers)\<rparr>,
       cr_Files := collect_loop os (candidates unmarshal dir f) 0 {}\<rparr>"

end
