(* ===== verification/ToolConfProps.thy ===== *)
theory ToolConfProps
  imports ToolConf "HOL-Library.Sublist"
begin

text \<open>
  The collection of configuration files: its size limits, which paths it can name, and that what it
  leaves out is only what the limits forbid.
\<close>

definition shown :: "tool_os \<Rightarrow> candidate \<Rightarrow> bool" where
  "shown os c \<longleftrightarrow> cd_registered c \<or> (\<exists>fi. to_Stat os (cd_path c) = Inr fi \<and> \<not> fi_IsDir fi)"

definition bytes_of :: "conf_file list \<Rightarrow> nat" where
  "bytes_of fs = sum_list (map (\<lambda>f. length (cf_Content f)) fs)"

text \<open>An entry says about a readable file what is in it: all of it, or a marked prefix.\<close>

definition entry_true :: "tool_os \<Rightarrow> conf_file \<Rightarrow> bool" where
  "entry_true os f \<longleftrightarrow> length (cf_Content f) \<le> 262144
     \<and> (\<forall>fi data. to_Stat os (cf_Path f) = Inr fi \<longrightarrow> \<not> fi_IsDir fi \<longrightarrow> to_ReadFile os (cf_Path f) = Inr data \<longrightarrow>
          prefix (cf_Content f) data \<and> (cf_Truncated f \<or> cf_Content f = data))"

lemma capped_facts:
  "length (fst (capped used data)) \<le> 262144" "used \<le> 786432 \<Longrightarrow> used + length (fst (capped used data)) \<le> 786432"
  "prefix (fst (capped used data)) data" "snd (capped used data) \<or> fst (capped used data) = data"
  by (auto simp: capped_def confFileCap_def confTotalCap_def Let_def take_is_prefix min_def split: if_splits)

lemma conf_entry_facts:
  "cf_Path (conf_entry os c fi used) = cd_path c"
  "entry_true os (conf_entry os c fi used)"
  "used \<le> 786432 \<Longrightarrow> used + length (cf_Content (conf_entry os c fi used)) \<le> 786432"
  using capped_facts
  by (auto simp: conf_entry_def zero_conf_file_def entry_true_def Let_def case_prod_beta split: sum.split)

lemma unusable_facts [simp]:
  "cf_Path (unusable c msg) = cd_path c" "cf_Content (unusable c msg) = []"
  by (simp_all add: unusable_def zero_conf_file_def)

definition collected :: "tool_os \<Rightarrow> candidate list \<Rightarrow> nat \<Rightarrow> string set \<Rightarrow> conf_file list \<Rightarrow> bool" where
  "collected os cs used seen fs \<longleftrightarrow> used + bytes_of fs \<le> 786432
     \<and> (\<forall>f \<in> set fs. entry_true os f) \<and> distinct (map cf_Path fs) \<and> cf_Path ` set fs \<subseteq> cd_path ` set cs - seen
     \<and> (used + bytes_of fs < 786432 \<longrightarrow> (\<forall>c \<in> set cs. shown os c \<longrightarrow> cd_path c \<in> seen \<union> cf_Path ` set fs))"

lemma collected_skip:
  assumes "collected os cs used seen fs" and "shown os c \<Longrightarrow> cd_path c \<in> seen"
  shows "collected os (c # cs) used seen fs"
  using assms unfolding collected_def by auto

lemma collected_Cons:
  assumes "collected os cs (used + length (cf_Content f)) (insert (cd_path c) seen) fs" and "cf_Path f = cd_path c"
    and "entry_true os f" and "cd_path c \<notin> seen"
  shows "collected os (c # cs) used seen (f # fs)"
  using assms unfolding collected_def by (auto simp: bytes_of_def)

lemma collect_loop_collected: "used \<le> 786432 \<Longrightarrow> collected os cs used seen (collect_loop os cs used seen)"
proof (induction cs arbitrary: used seen)
  case Nil
  then show ?case by (simp add: collected_def bytes_of_def)
next
  case (Cons c cs)
  show ?case
  proof (cases "cd_path c \<in> seen")
    case True
    then show ?thesis using Cons by (simp add: collected_skip)
  next
    case False
    show ?thesis
    proof (cases "\<exists>fi. to_Stat os (cd_path c) = Inr fi \<and> \<not> fi_IsDir fi")
      case True
      then obtain fi where fi: "to_Stat os (cd_path c) = Inr fi" "\<not> fi_IsDir fi" by blast
      let ?e = "conf_entry os c fi used"
      note e = conf_entry_facts(1,2) [of os c fi used] conf_entry_facts(3) [OF Cons.prems, of os c fi]
      show ?thesis
      proof (cases "used + length (cf_Content ?e) \<ge> 786432")
        case True
        then have "collected os cs (used + length (cf_Content ?e)) (insert (cd_path c) seen) []"
          using e(3) by (simp add: collected_def bytes_of_def)
        then show ?thesis using True e fi False
          by (simp add: Let_def confTotalCap_def collected_Cons)
      next
        case less: False
        then have "collected os cs (used + length (cf_Content ?e)) (insert (cd_path c) seen)
          (collect_loop os cs (used + length (cf_Content ?e)) (insert (cd_path c) seen))"
          using Cons.IH e(3) by simp
        then show ?thesis using less e fi False by (simp add: Let_def confTotalCap_def collected_Cons)
      qed
    next
      case none: False
      have skip: "collect_loop os (c # cs) used seen = (if cd_registered c
          then unusable c (case to_Stat os (cd_path c) of Inl msg \<Rightarrow> msg | Inr fi \<Rightarrow>
            ''a directory is registered, only single files are supported'') # collect_loop os cs used (insert (cd_path c) seen)
          else collect_loop os cs used seen)"
        using none False by (auto simp: Let_def split: sum.split)
      have "collected os cs used (insert (cd_path c) seen) (collect_loop os cs used (insert (cd_path c) seen))"
        using Cons by simp
      moreover have "collected os cs used seen (collect_loop os cs used seen)"
        using Cons by simp
      moreover have "entry_true os (unusable c msg)" for msg
        using none by (auto simp: entry_true_def)
      moreover have "\<not> cd_registered c \<Longrightarrow> \<not> shown os c" using none by (auto simp: shown_def)
      ultimately show ?thesis using False unfolding skip
        by (cases "cd_registered c") (simp add: collected_Cons, auto intro: collected_skip)
    qed
  qed
qed

text \<open>
  C29: a collection is bounded and honest. No entry has more than 256 KiB of content and all of them
  together not more than 768 KiB; every path is one of the operator's registrations or of the built-in
  list and is reported once; the content of a readable file is the file or a marked prefix of it; and as
  long as the limit is not reached, no registered path and no built-in file that exists is left out.
\<close>

theorem conf_contents_bounded:
  fixes os unmarshal dir f iface pub port status
  defines "fs \<equiv> cr_Files (collectToolConf os unmarshal dir f iface pub port status)"
    and "cs \<equiv> candidates unmarshal dir f"
  shows "(\<forall>x \<in> set fs. length (cf_Content x) \<le> 262144) \<and> sum_list (map (\<lambda>x. length (cf_Content x)) fs) \<le> 786432
    \<and> distinct (map cf_Path fs) \<and> cf_Path ` set fs \<subseteq> cd_path ` set cs
    \<and> (\<forall>x \<in> set fs. \<forall>fi data. to_Stat os (cf_Path x) = Inr fi \<longrightarrow> \<not> fi_IsDir fi \<longrightarrow> to_ReadFile os (cf_Path x) = Inr data \<longrightarrow>
          prefix (cf_Content x) data \<and> (cf_Truncated x \<or> cf_Content x = data))
    \<and> (sum_list (map (\<lambda>x. length (cf_Content x)) fs) < 786432 \<longrightarrow>
        (\<forall>c \<in> set cs. cd_registered c \<or> (\<exists>fi. to_Stat os (cd_path c) = Inr fi \<and> \<not> fi_IsDir fi) \<longrightarrow>
           cd_path c \<in> cf_Path ` set fs))"
proof -
  have "fs = collect_loop os cs 0 {}" by (simp add: fs_def cs_def collectToolConf_def)
  then have "collected os cs 0 {} fs" using collect_loop_collected [of 0 os cs "{}"] by simp
  then show ?thesis unfolding collected_def bytes_of_def entry_true_def shown_def by simp
qed

section \<open>One readable file\<close>

definition demo_os :: tool_os where
  "demo_os = \<lparr>to_Stat = (\<lambda>p. if p = ''/etc/xray/config.json'' then Inr \<lparr>fi_IsDir = False, fi_ModTime = 7, fi_Size = 2\<rparr>
       else Inl ''no such file''),
     to_ReadFile = (\<lambda>p. Inr ''{}'')\<rparr>"

theorem conf_contents_bounded_witness:
  "map (\<lambda>x. (cf_Path x, cf_Content x)) (cr_Files (collectToolConf demo_os (\<lambda>s. None) ''a''
      \<lparr>fs_files = Map.empty, fs_denied = {}, fs_hidden = {}\<rparr> ''lightpn0'' ''k'' 51820 (Ok [])))
     = [(''/etc/xray/config.json'', ''{}'')]"
proof -
  let ?fs = "cr_Files (collectToolConf demo_os (\<lambda>s. None) ''a'' \<lparr>fs_files = Map.empty, fs_denied = {}, fs_hidden = {}\<rparr>
    ''lightpn0'' ''k'' 51820 (Ok []))"
  let ?P = "''/etc/xray/config.json''"
  note facts = conf_contents_bounded [of demo_os "\<lambda>s. None" "''a''" "\<lparr>fs_files = Map.empty, fs_denied = {}, fs_hidden = {}\<rparr>"
      "''lightpn0''" "''k''" 51820 "Ok []"]
  have "map cf_Path ?fs = [?P] \<and> (\<forall>x \<in> set ?fs. cf_Truncated x = False)"
    by (simp add: collectToolConf_def candidates_def LoadSvcReg_def ReadFile_def toolConfCandidates_def builtin_def demo_os_def
        Let_def conf_entry_def zero_conf_file_def capped_def confFileCap_def confTotalCap_def)
  then obtain x where x: "?fs = [x]" "cf_Path x = ?P" "\<not> cf_Truncated x" by (cases ?fs) auto
  have "cf_Content x = ''{}''"
    using facts x by (simp add: demo_os_def)
  with x show ?thesis by simp
qed

end
