(* ===== verification/Agent.thy ===== *)
theory Agent
  imports Identity Socks WG ToolConf
begin

text \<open>
  The long-running agent: \<open>internal/agent/agent.go\<close>. The WireGuard manager is a value of the record
  \<open>wg_ops\<close>, the interface \<open>WGManager\<close> of \<open>wg.go\<close>; the two implementations of \<open>WG\<close> are
  \<open>linux_manager\<close> and \<open>stub_manager\<close>. One incoming frame is handled in a \<open>moment\<close>, which holds what the
  environment answers meanwhile. Log lines and deadlines are left out.
\<close>

section \<open>Parts\<close>

record 'w wg_ops =
  wo_Init :: "string result \<Rightarrow> string \<Rightarrow> string \<Rightarrow> int \<Rightarrow> 'w \<Rightarrow> 'w \<times> (string \<times> int) result"
  wo_Reconcile :: "peer_spec list \<Rightarrow> 'w \<Rightarrow> 'w \<times> unit result"
  wo_AddPeer :: "peer_spec \<Rightarrow> 'w \<Rightarrow> 'w \<times> unit result"
  wo_UpdatePeer :: "peer_spec \<Rightarrow> 'w \<Rightarrow> 'w \<times> unit result"
  wo_RemovePeer :: "string \<Rightarrow> 'w \<Rightarrow> 'w \<times> unit result"
  wo_Status :: "'w \<Rightarrow> wg_peer_status list result"
  wo_Rotate :: "string result \<Rightarrow> 'w \<Rightarrow> 'w \<times> string result"
  wo_Teardown :: "'w \<Rightarrow> 'w \<times> unit result"
  wo_iface :: string

definition linux_manager :: "'k kernel \<Rightarrow> 'k linuxWG wg_ops" where
  "linux_manager kn = \<lparr>wo_Init = linux_Init kn, wo_Reconcile = linux_Reconcile kn, wo_AddPeer = linux_AddPeer kn,
     wo_UpdatePeer = linux_UpdatePeer kn, wo_RemovePeer = linux_RemovePeer kn, wo_Status = linux_Status kn,
     wo_Rotate = linux_Rotate kn, wo_Teardown = linux_Teardown kn, wo_iface = deviceName\<rparr>"

text \<open>\<open>keys\<close> is the order in which a map is ranged over; the generated key of the stub never fails.\<close>

definition stub_key :: "string result \<Rightarrow> string" where
  "stub_key gen = (case gen of Inl e \<Rightarrow> [] | Inr k \<Rightarrow> k)"

definition stub_Status :: "((string \<rightharpoonup> string) \<Rightarrow> string list) \<Rightarrow> stubWG \<Rightarrow> wg_peer_status list result" where
  "stub_Status keys w =
     Ok (map (\<lambda>pub. zero_wg_status\<lparr>wp_PeerNodeID := (case sw_peerNodes w pub of None \<Rightarrow> [] | Some n \<Rightarrow> n)\<rparr>)
       (keys (sw_peerNodes w)))"

definition stub_manager :: "((string \<rightharpoonup> string) \<Rightarrow> string list) \<Rightarrow> stubWG wg_ops" where
  "stub_manager keys = \<lparr>wo_Init = (\<lambda>gen ip cidr port. stub_Init (stub_key gen) port),
     wo_Reconcile = (\<lambda>ss w. (stub_Reconcile ss w, Ok ())), wo_AddPeer = (\<lambda>s w. (stub_AddPeer s w, Ok ())),
     wo_UpdatePeer = (\<lambda>s w. (stub_UpdatePeer s w, Ok ())), wo_RemovePeer = (\<lambda>k w. (stub_RemovePeer k w, Ok ())),
     wo_Status = stub_Status keys,
     wo_Rotate = (\<lambda>gen w. (let (w', pub) = stub_Rotate (stub_key gen) w in (w', Ok pub))),
     wo_Teardown = (\<lambda>w. (w, Ok ())), wo_iface = ''memory-stub''\<rparr>"

record ('w, 's) agent_env =
  ae_wg :: "'w wg_ops"
  ae_svc :: "'s svc_manager option"
  ae_ok :: "string \<Rightarrow> bool"
  ae_pick :: picker
  ae_seal :: sealing
  ae_x :: crypto
  ae_marshal :: "json \<Rightarrow> string"
  ae_unmarshal :: "string \<Rightarrow> json option"
  ae_WGPort :: int
  ae_SocksPort :: int
  ae_OS :: string

record ('w, 's) agent =
  ag_ID :: identity
  ag_wg :: 'w
  ag_svc :: 's
  ag_Exit :: "exit_controller option"
  ag_svcSeen :: "string \<rightharpoonup> int"
  ag_wgPub :: string
  ag_wgListenPort :: int
  ag_fs :: fs

record moment =
  mo_now :: int
  mo_gen :: "string result"
  mo_nonce :: bytes
  mo_os :: tool_os
  mo_writes :: bool

text \<open>Why a session ends: \<open>ErrKicked\<close>, or any other error.\<close>

datatype session_error = Kicked | Failed go_error

section \<open>Replies\<close>

definition agent_write :: "('w, 's) agent_env \<Rightarrow> moment \<Rightarrow> envelope \<Rightarrow> envelope list \<times> (session_error + unit)" where
  "agent_write ae mo env =
     (case WriteFrame (ae_marshal ae) env of
        Inl e \<Rightarrow> ([], Inl (Failed e))
      | Inr bytes \<Rightarrow> if mo_writes mo then ([env], Inr ()) else ([], Inl (Failed (ErrMsg ''write''))))"

definition agent_ack ::
  "('w, 's) agent_env \<Rightarrow> moment \<Rightarrow> string \<Rightarrow> unit result \<Rightarrow> envelope list \<times> (session_error + unit)" where
  "agent_ack ae mo rid res =
     agent_write ae mo (NewEnvelope TypeAck rid (enc_ack
       \<lparr>ad_OK = is_ok res, ad_Err = (case res of Inl e \<Rightarrow> err_text e | Inr u \<Rightarrow> [])\<rparr>))"

section \<open>Dispatch\<close>

definition json_error :: go_error where "json_error = ErrMsg ''json''"

type_synonym ('w, 's) handled = "('w, 's) agent \<times> envelope list \<times> (session_error + unit)"

definition designation :: "peer_spec \<Rightarrow> string" where
  "designation spec = (if ps_Exit spec \<and> ps_ExitAddr spec \<noteq> [] then ps_ExitAddr spec else [])"

definition dispatch_peer :: "('w, 's) agent_env \<Rightarrow> moment \<Rightarrow> envelope \<Rightarrow> ('w, 's) agent \<Rightarrow> ('w, 's) handled" where
  "dispatch_peer ae mo env a =
     (case dec_spec (env_Data env) of
        None \<Rightarrow> (a, agent_ack ae mo (env_ID env) (Err json_error))
      | Some spec \<Rightarrow>
          (let (w, r) = (if env_Type env = TypePeerAdd then wo_AddPeer (ae_wg ae) spec (ag_wg a)
                         else wo_UpdatePeer (ae_wg ae) spec (ag_wg a));
               a1 = a\<lparr>ag_wg := w\<rparr>;
               a2 = (if is_ok r
                     then a1\<lparr>ag_Exit := map_option (ec_SetLinkExit (ae_ok ae) (ae_pick ae) (ps_LinkID spec) (designation spec)) (ag_Exit a1)\<rparr>
                     else a1)
           in (a2, agent_ack ae mo (env_ID env) r)))"

definition dispatch_remove :: "('w, 's) agent_env \<Rightarrow> moment \<Rightarrow> envelope \<Rightarrow> ('w, 's) agent \<Rightarrow> ('w, 's) handled" where
  "dispatch_remove ae mo env a =
     (case dec_peer_remove (env_Data env) of
        None \<Rightarrow> (a, agent_ack ae mo (env_ID env) (Err json_error))
      | Some d \<Rightarrow>
          (let (w, r) = wo_RemovePeer (ae_wg ae) (pr_WGPubkey d) (ag_wg a);
               a1 = a\<lparr>ag_wg := w, ag_Exit := map_option (ClearByLink (ae_ok ae) (ae_pick ae) (pr_LinkID d)) (ag_Exit a)\<rparr>
           in (a1, agent_ack ae mo (env_ID env) r)))"

text \<open>The outcome of writing the acknowledgement is ignored, and the session ends in any case.\<close>

definition dispatch_rotate_wg :: "('w, 's) agent_env \<Rightarrow> moment \<Rightarrow> envelope \<Rightarrow> ('w, 's) agent \<Rightarrow> ('w, 's) handled" where
  "dispatch_rotate_wg ae mo env a =
     (let sent = fst (agent_ack ae mo (env_ID env) (Ok ()));
          (w, r) = wo_Rotate (ae_wg ae) (mo_gen mo) (ag_wg a);
          a1 = a\<lparr>ag_wg := w\<rparr>
      in (case r of
            Inl e \<Rightarrow> (a1, sent, Inl (Failed (ErrMsg (''rotate_wg: '' @ err_text e))))
          | Inr pub \<Rightarrow> (a1\<lparr>ag_wgPub := pub\<rparr>, sent, Inl (Failed (ErrMsg ''rotate_wg: re-registering with fresh key'')))))"

definition dispatch_rotate_cert :: "('w, 's) agent_env \<Rightarrow> moment \<Rightarrow> envelope \<Rightarrow> ('w, 's) agent \<Rightarrow> ('w, 's) handled" where
  "dispatch_rotate_cert ae mo env a =
     (case dec_rotate_cert (env_Data env) of
        None \<Rightarrow> (a, agent_ack ae mo (env_ID env) (Err json_error))
      | Some d \<Rightarrow>
          (let (f, r) = UpdateCert (ag_ID a) (rc_CertPEM d) (ag_fs a) in
           (a\<lparr>ag_fs := f\<rparr>, agent_ack ae mo (env_ID env) r)))"

definition dispatch_conf_get :: "('w, 's) agent_env \<Rightarrow> moment \<Rightarrow> envelope \<Rightarrow> ('w, 's) agent \<Rightarrow> ('w, 's) handled" where
  "dispatch_conf_get ae mo env a =
     (let dir = id_Dir (ag_ID a);
          res = collectToolConf (mo_os mo) (ae_unmarshal ae) dir (ag_fs a) (wo_iface (ae_wg ae)) (ag_wgPub a)
            (ag_wgListenPort a) (wo_Status (ae_wg ae) (ag_wg a));
          out = sealToolConf (ae_seal ae) (ae_marshal ae) (ae_unmarshal ae) dir (mo_nonce mo) (ae_svc ae) (ag_fs a)
            (ag_svc a) res
      in (a, agent_write ae mo (NewEnvelope TypeConfResult (env_ID env) (enc_conf_result out))))"

definition dispatch_svc_action :: "('w, 's) agent_env \<Rightarrow> moment \<Rightarrow> envelope \<Rightarrow> ('w, 's) agent \<Rightarrow> ('w, 's) handled" where
  "dispatch_svc_action ae mo env a =
     (case dec_svc_action (env_Data env) of
        None \<Rightarrow> (a, agent_ack ae mo (env_ID env) (Err json_error))
      | Some d \<Rightarrow>
          (let ((seen, s), res) = handleSvcAction (ae_seal ae) (ae_unmarshal ae) (id_Dir (ag_ID a)) (ae_svc ae)
                 (ag_fs a) d (mo_now mo) (ag_svcSeen a, ag_svc a)
           in (a\<lparr>ag_svcSeen := seen, ag_svc := s\<rparr>,
               agent_write ae mo (NewEnvelope TypeSvcResult (env_ID env) (enc_svc_result res)))))"

text \<open>Both errors of the clean-up are logged only.\<close>

definition dispatch_kick :: "('w, 's) agent_env \<Rightarrow> ('w, 's) agent \<Rightarrow> ('w, 's) handled" where
  "dispatch_kick ae a =
     (a\<lparr>ag_wg := fst (wo_Teardown (ae_wg ae) (ag_wg a)), ag_fs := Destroy (ag_ID a) (ag_fs a)\<rparr>, [], Inl Kicked)"

definition dispatch :: "('w, 's) agent_env \<Rightarrow> moment \<Rightarrow> envelope \<Rightarrow> ('w, 's) agent \<Rightarrow> ('w, 's) handled" where
  "dispatch ae mo env a =
     (if env_Type env = TypePeerAdd \<or> env_Type env = TypePeerUpdate then dispatch_peer ae mo env a
      else if env_Type env = TypePeerRemove then dispatch_remove ae mo env a
      else if env_Type env = TypeRotateWG then dispatch_rotate_wg ae mo env a
      else if env_Type env = TypeRotateCert then dispatch_rotate_cert ae mo env a
      else if env_Type env = TypeConfGet then dispatch_conf_get ae mo env a
      else if env_Type env = TypeSvcAction then dispatch_svc_action ae mo env a
      else if env_Type env = TypeKick then dispatch_kick ae a
      else (a, [], Inr ()))"

section \<open>A session\<close>

definition register_frame :: "('w, 's) agent_env \<Rightarrow> string \<Rightarrow> ('w, 's) agent \<Rightarrow> envelope" where
  "register_frame ae ulid a = NewEnvelope TypeRegister ulid (enc_register
     \<lparr>rd_WGPubkey = ag_wgPub a, rd_WGPort = ag_wgListenPort a, rd_AgentVersion = ''0.1.0'', rd_OS = ae_OS ae,
      rd_SocksPort = ae_SocksPort ae\<rparr>)"

definition designated :: "peer_spec list \<Rightarrow> (string \<rightharpoonup> string)" where
  "designated specs = fold (\<lambda>s exits. if ps_Exit s \<and> ps_ExitAddr s \<noteq> [] then exits(ps_LinkID s \<mapsto> ps_ExitAddr s) else exits)
     specs Map.empty"

text \<open>What \<open>register\<close> does with the answer; \<open>resp\<close> is the frame read, or the read error.\<close>

definition register_answer ::
  "('w, 's) agent_env \<Rightarrow> envelope result \<Rightarrow> ('w, 's) agent \<Rightarrow> ('w, 's) agent \<times> (session_error + unit)" where
  "register_answer ae resp a =
     (case resp of
        Inl e \<Rightarrow> (a, Inl (Failed (ErrMsg (''read register_ack: '' @ err_text e))))
      | Inr env \<Rightarrow>
          if env_Type env = TypeError then (a, Inl (Failed (ErrMsg ''register rejected'')))
          else if env_Type env \<noteq> TypeRegisterAck then (a, Inl (Failed (ErrMsg ''unexpected register response'')))
          else (case dec_register_ack (env_Data env) of
              None \<Rightarrow> (a, Inl (Failed json_error))
            | Some ack \<Rightarrow>
                (let (w, r) = wo_Reconcile (ae_wg ae) (ra_PeersExpected ack) (ag_wg a); a1 = a\<lparr>ag_wg := w\<rparr> in
                 (case r of
                    Inl e \<Rightarrow> (a1, Inl (Failed (ErrMsg (''reconcile peers: '' @ err_text e))))
                  | Inr u \<Rightarrow>
                      (a1\<lparr>ag_Exit := map_option (ec_Reconcile (ae_ok ae) (ae_pick ae) (designated (ra_PeersExpected ack)))
                         (ag_Exit a1)\<rparr>, Inr ())))))"

definition heartbeat_frame ::
  "('w, 's) agent_env \<Rightarrow> string \<Rightarrow> int \<Rightarrow> sys_metrics \<Rightarrow> ('w, 's) agent \<Rightarrow> envelope" where
  "heartbeat_frame ae ulid now sys a = NewEnvelope TypeHeartbeat ulid (enc_heartbeat
     \<lparr>hd_TS = now, hd_Sys = sys, hd_WG = (case wo_Status (ae_wg ae) (ag_wg a) of Inl e \<Rightarrow> [] | Inr st \<Rightarrow> st)\<rparr>)"

text \<open>The frames that arrive until the connection fails.\<close>

fun read_loop :: "('w, 's) agent_env \<Rightarrow> (moment \<times> envelope) list \<Rightarrow> ('w, 's) agent \<Rightarrow> ('w, 's) handled" where
  "read_loop ae [] a = (a, [], Inl (Failed (ErrMsg ''EOF'')))"
| "read_loop ae (f # fs) a =
     (case dispatch ae (fst f) (snd f) a of
        (a1, out, Inl e) \<Rightarrow> (a1, out, Inl e)
      | (a1, out, Inr u) \<Rightarrow> (let (a2, out2, r) = read_loop ae fs a1 in (a2, out @ out2, r)))"

text \<open>One attempt to reach the hub: what the network and the hub do.\<close>

record attempt =
  at_dials :: "tls_config \<Rightarrow> bool"
  at_moment :: moment
  at_ulid :: string
  at_answer :: "envelope result"
  at_frames :: "(moment \<times> envelope) list"
  at_elapsed :: int
  at_random :: rat

definition agent_session ::
  "('w, 's) agent_env \<Rightarrow> attempt \<Rightarrow> ('w, 's) agent \<Rightarrow> ('w, 's) agent \<times> envelope list \<times> session_error" where
  "agent_session ae att a =
     (let fail = (\<lambda>e. (a, [], Failed e)) in
      (case TLSConfig (ae_x ae) (ag_ID a) (ag_fs a) of
         Inl e \<Rightarrow> fail e
       | Inr cfg \<Rightarrow>
           if \<not> at_dials att cfg then fail (ErrMsg ''dial hub'')
           else (case agent_write ae (at_moment att) (register_frame ae (at_ulid att) a) of
               (out, Inl e) \<Rightarrow> (a, out, e)
             | (out, Inr u) \<Rightarrow>
                 (case register_answer ae (at_answer att) a of
                    (a1, Inl e) \<Rightarrow> (a1, out, e)
                  | (a1, Inr u) \<Rightarrow>
                      (let (a2, out2, r) = read_loop ae (at_frames att) a1 in
                       (a2, out @ out2, case r of Inl e \<Rightarrow> e | Inr u \<Rightarrow> Failed (ErrMsg ''EOF'')))))))"

section \<open>Run\<close>

text \<open>Durations are nanoseconds.\<close>

definition Second :: int where "Second = 1000000000"
definition Minute :: int where "Minute = 60 * Second"
definition stableSession :: int where "stableSession = Minute"

definition sleep_time :: "int \<Rightarrow> rat \<Rightarrow> int" where
  "sleep_time backoff random = \<lfloor>of_int backoff * (8 / 10 + 4 / 10 * random)\<rfloor>"

definition next_backoff :: "int \<Rightarrow> int" where
  "next_backoff backoff = (if backoff * 2 > Minute then Minute else backoff * 2)"

text \<open>After a session that was not kicked: how long to sleep, and the next back-off.\<close>

definition reconnect :: "attempt \<Rightarrow> int \<Rightarrow> int \<times> int" where
  "reconnect att backoff =
     (let b = (if at_elapsed att \<ge> stableSession then Second else backoff) in
      (sleep_time b (at_random att), next_backoff b))"

text \<open>
  The endless loop, with the \<open>k\<close>-th attempt given: the agent in the end and the times it slept.
  \<open>None\<close> is a run that never returns.
\<close>

partial_function (option) run_loop ::
  "('w, 's) agent_env \<Rightarrow> (nat \<Rightarrow> attempt) \<Rightarrow> nat \<Rightarrow> int \<Rightarrow> ('w, 's) agent \<Rightarrow> (('w, 's) agent \<times> int list) option" where
  "run_loop ae ats k backoff a =
     (let (a1, out, e) = agent_session ae (ats k) a in
      if e = Kicked then Some (a1, [])
      else (let (sleep, backoff1) = reconnect (ats k) backoff in
            Option.bind (run_loop ae ats (Suc k) backoff1 a1) (\<lambda>res. Some (fst res, sleep # snd res))))"

text \<open>
  The first \<open>n\<close> rounds of the same loop, for the runs that do not return: the times slept, and the agent
  if one of these rounds ended the loop.
\<close>

fun run_rounds ::
  "('w, 's) agent_env \<Rightarrow> (nat \<Rightarrow> attempt) \<Rightarrow> nat \<Rightarrow> int \<Rightarrow> ('w, 's) agent \<Rightarrow> nat \<Rightarrow> int list \<times> ('w, 's) agent option" where
  "run_rounds ae ats k backoff a 0 = ([], None)"
| "run_rounds ae ats k backoff a (Suc n) =
     (let (a1, out, e) = agent_session ae (ats k) a in
      if e = Kicked then ([], Some a1)
      else (let (sleep, backoff1) = reconnect (ats k) backoff; (sleeps, r) = run_rounds ae ats (Suc k) backoff1 a1 n in
            (sleep # sleeps, r)))"

definition Run ::
  "('w, 's) agent_env \<Rightarrow> string result \<Rightarrow> (nat \<Rightarrow> attempt) \<Rightarrow> ('w, 's) agent
    \<Rightarrow> (('w, 's) agent \<times> int list \<times> session_error) option" where
  "Run ae gen ats a =
     (case wo_Init (ae_wg ae) gen (id_OverlayIP (ag_ID a)) (id_OverlayCIDR (ag_ID a)) (ae_WGPort ae) (ag_wg a) of
        (w, Inl e) \<Rightarrow> Some (a\<lparr>ag_wg := w\<rparr>, [], Failed (ErrMsg (''wireguard init: '' @ err_text e)))
      | (w, Inr (pubkey, port)) \<Rightarrow>
          Option.bind (run_loop ae ats 0 Second (a\<lparr>ag_wg := w, ag_wgPub := pubkey, ag_wgListenPort := port\<rparr>))
            (\<lambda>res. Some (fst res, snd res, Kicked)))"

end
