(* ===== verification/AgentProps.thy ===== *)
theory AgentProps
  imports Agent PkiProps
begin

text \<open>
  The agent as a process: when \<open>Run\<close> returns, how it paces its reconnects, what it keeps on disk, and
  that every request of the hub gets one answer.
\<close>

section \<open>What a frame can change\<close>

lemma UpdateCert_files:
  "p \<noteq> certPath (id_Dir i) \<Longrightarrow> fs_files (fst (UpdateCert i c f)) p = fs_files f p"
  "fs_denied (fst (UpdateCert i c f)) = fs_denied f"
  by (simp_all add: UpdateCert_def WriteFile_def Let_def case_prod_beta)

definition keeps_identity :: "('w, 's) agent \<Rightarrow> ('w, 's) agent \<Rightarrow> bool" where
  "keeps_identity a a' \<longleftrightarrow> ag_ID a' = ag_ID a \<and> fs_denied (ag_fs a') = fs_denied (ag_fs a)
     \<and> (\<forall>p. p \<noteq> certPath (id_Dir (ag_ID a)) \<longrightarrow> fs_files (ag_fs a') p = fs_files (ag_fs a) p)"

text \<open>After a kick: everything in the directory that may be removed is gone, and the device is torn down.\<close>

definition wiped :: "('w, 's) agent_env \<Rightarrow> ('w, 's) agent \<Rightarrow> ('w, 's) agent \<Rightarrow> bool" where
  "wiped ae a a' \<longleftrightarrow> ag_ID a' = ag_ID a
     \<and> (\<forall>p. below (id_Dir (ag_ID a)) p \<longrightarrow> p \<notin> fs_denied (ag_fs a) \<longrightarrow> fs_files (ag_fs a') p = None)
     \<and> (\<exists>w. ag_wg a' = fst (wo_Teardown (ae_wg ae) w))"

lemma keeps_refl [simp, intro]: "keeps_identity a a"
  by (simp add: keeps_identity_def)

lemma keeps_trans: "keeps_identity a b \<Longrightarrow> keeps_identity b c \<Longrightarrow> keeps_identity a c"
  by (auto simp: keeps_identity_def)

lemma keeps_wiped: "keeps_identity a b \<Longrightarrow> wiped ae b c \<Longrightarrow> wiped ae a c"
  by (auto simp: keeps_identity_def wiped_def)

lemma agent_write_cases:
  "agent_write ae mo env = ([env], Inr ()) \<or> (\<exists>e. agent_write ae mo env = ([], Inl (Failed e)))"
  by (auto simp: agent_write_def split: sum.split)

lemma agent_write_not_kicked [simp]: "snd (agent_write ae mo env) \<noteq> Inl Kicked"
  "snd (agent_ack ae mo rid r) \<noteq> Inl Kicked"
  by (auto simp: agent_ack_def agent_write_def split: sum.split)

lemma dispatch_kinds:
  assumes "dispatch ae mo env a = (a', out, r)"
  shows "if r = Inl Kicked then wiped ae a a' else keeps_identity a a'"
proof (cases "env_Type env = TypeKick")
  case True
  then have "(a', out, r) = dispatch_kick ae a"
    using assms by (simp add: dispatch_def TypeKick_def TypePeerAdd_def TypePeerUpdate_def TypePeerRemove_def
        TypeRotateWG_def TypeRotateCert_def TypeConfGet_def TypeSvcAction_def)
  then show ?thesis by (auto simp: dispatch_kick_def wiped_def Destroy_def RemoveAll_def)
next
  case False
  have "snd (snd (dispatch ae mo env a)) \<noteq> Inl Kicked \<and> keeps_identity a (fst (dispatch ae mo env a))"
    using False unfolding dispatch_def
    by (simp add: dispatch_peer_def dispatch_remove_def dispatch_rotate_wg_def dispatch_rotate_cert_def
        dispatch_conf_get_def dispatch_svc_action_def Let_def case_prod_beta keeps_identity_def UpdateCert_files
        split: option.split sum.split)
  then show ?thesis using assms by auto
qed

lemma read_loop_kinds:
  "read_loop ae fs a = (a', out, r) \<Longrightarrow> if r = Inl Kicked then wiped ae a a' else keeps_identity a a'"
proof (induction fs arbitrary: a out a' r)
  case (Cons f fs)
  obtain a1 out1 r1 where d: "dispatch ae (fst f) (snd f) a = (a1, out1, r1)" by (metis prod_cases3)
  note k = dispatch_kinds [OF d]
  show ?case
  proof (cases r1)
    case (Inl e)
    then have "r = r1" "a' = a1" using Cons.prems d by auto
    then show ?thesis using k by simp
  next
    case (Inr u)
    obtain a2 out2 r2 where rest: "read_loop ae fs a1 = (a2, out2, r2)" by (metis prod_cases3)
    then have "a' = a2" "r = r2" using Cons.prems d Inr by auto
    with Cons.IH [OF rest] k Inr show ?thesis by (auto intro: keeps_trans keeps_wiped split: if_splits)
  qed
qed auto

lemma register_answer_keeps: "keeps_identity a (fst (register_answer ae resp a))"
  and register_answer_not_kicked: "snd (register_answer ae resp a) \<noteq> Inl Kicked"
  by (simp_all add: register_answer_def Let_def case_prod_beta keeps_identity_def split: sum.split option.split)

lemma agent_session_kinds:
  assumes "agent_session ae att a = (a', out, e)"
  shows "if e = Kicked then wiped ae a a' else keeps_identity a a'"
proof (cases "TLSConfig (ae_x ae) (ag_ID a) (ag_fs a)")
  case (Inl e)
  then show ?thesis using assms by (auto simp: agent_session_def)
next
  case (Inr cfg)
  let ?w = "agent_write ae (at_moment att) (register_frame ae (at_ulid att) a)"
  obtain a1 r1 where reg: "register_answer ae (at_answer att) a = (a1, r1)" by fastforce
  have k1: "keeps_identity a a1" "r1 \<noteq> Inl Kicked"
    using register_answer_keeps [of a ae "at_answer att"] register_answer_not_kicked [of ae "at_answer att" a] reg by simp_all
  obtain a2 out2 r2 where loop: "read_loop ae (at_frames att) a1 = (a2, out2, r2)" by (metis prod_cases3)
  note k2 = read_loop_kinds [OF loop]
  consider "\<not> at_dials att cfg" | e where "at_dials att cfg" "?w = ([], Inl (Failed e))" | "at_dials att cfg" "?w = ([register_frame ae (at_ulid att) a], Inr ())"
    using agent_write_cases by blast
  then show ?thesis
  proof cases
    case 3
    then show ?thesis
      using assms Inr reg loop k1 k2 keeps_trans [OF k1(1)] keeps_wiped [OF k1(1)]
      by (cases r1; cases r2) (auto simp: agent_session_def split: if_splits)
  qed (use assms Inr in \<open>auto simp: agent_session_def\<close>)
qed

section \<open>The loop\<close>

text \<open>The agent before the \<open>n\<close>-th session, and whether that session ends with a kick.\<close>

fun agent_after :: "('w, 's) agent_env \<Rightarrow> (nat \<Rightarrow> attempt) \<Rightarrow> nat \<Rightarrow> ('w, 's) agent \<Rightarrow> ('w, 's) agent" where
  "agent_after ae ats 0 a = a"
| "agent_after ae ats (Suc n) a = agent_after ae (\<lambda>k. ats (Suc k)) n (fst (agent_session ae (ats 0) a))"

definition kicked_at :: "('w, 's) agent_env \<Rightarrow> (nat \<Rightarrow> attempt) \<Rightarrow> nat \<Rightarrow> ('w, 's) agent \<Rightarrow> bool" where
  "kicked_at ae ats n a \<longleftrightarrow> snd (snd (agent_session ae (ats n) (agent_after ae ats n a))) = Kicked"

lemma kicked_at_0: "kicked_at ae ats 0 a \<longleftrightarrow> snd (snd (agent_session ae (ats 0) a)) = Kicked"
  by (simp add: kicked_at_def)

lemma kicked_at_Suc:
  "kicked_at ae ats (Suc n) a \<longleftrightarrow> kicked_at ae (\<lambda>k. ats (Suc k)) n (fst (agent_session ae (ats 0) a))"
  by (simp add: kicked_at_def)

lemma run_loop_unfold:
  "run_loop ae ats k backoff a =
     (if snd (snd (agent_session ae (ats k) a)) = Kicked then Some (fst (agent_session ae (ats k) a), [])
      else Option.bind (run_loop ae ats (Suc k) (snd (reconnect (ats k) backoff)) (fst (agent_session ae (ats k) a)))
          (\<lambda>res. Some (fst res, fst (reconnect (ats k) backoff) # snd res)))"
  by (subst run_loop.simps) (simp add: case_prod_beta Let_def)

lemma run_loop_returns:
  "kicked_at ae (\<lambda>i. ats (k + i)) n a \<Longrightarrow> \<exists>res. run_loop ae ats k backoff a = Some res"
proof (induction n arbitrary: k backoff a)
  case 0
  then show ?case by (subst run_loop_unfold) (simp add: kicked_at_0)
next
  case (Suc n)
  show ?case
  proof (cases "snd (snd (agent_session ae (ats k) a)) = Kicked")
    case True
    then show ?thesis by (subst run_loop_unfold) simp
  next
    case False
    have "kicked_at ae (\<lambda>i. ats (Suc k + i)) n (fst (agent_session ae (ats k) a))"
      using Suc.prems by (simp add: kicked_at_Suc)
    then obtain res where "run_loop ae ats (Suc k) (snd (reconnect (ats k) backoff)) (fst (agent_session ae (ats k) a)) = Some res"
      using Suc.IH by blast
    with False show ?thesis by (subst run_loop_unfold) simp
  qed
qed

text \<open>What a run that returns has done, by induction on its unfolding.\<close>

definition run_done ::
  "('w, 's) agent_env \<Rightarrow> (nat \<Rightarrow> attempt) \<Rightarrow> nat \<Rightarrow> int \<Rightarrow> ('w, 's) agent \<Rightarrow> ('w, 's) agent \<times> int list \<Rightarrow> bool" where
  "run_done ae ats k backoff a res \<longleftrightarrow> kicked_at ae (\<lambda>i. ats (k + i)) (length (snd res)) a
    \<and> (\<forall>i < length (snd res). \<not> kicked_at ae (\<lambda>i. ats (k + i)) i a)
    \<and> wiped ae a (fst res)"

lemma run_loop_result: "run_loop ae ats k backoff a = Some res \<Longrightarrow> run_done ae ats k backoff a res"
proof (erule run_loop.raw_induct [where P = run_done, rotated])
  fix loop :: "('w, 's) agent_env \<Rightarrow> (nat \<Rightarrow> attempt) \<Rightarrow> nat \<Rightarrow> int \<Rightarrow> ('w, 's) agent
      \<Rightarrow> (('w, 's) agent \<times> int list) option"
    and ae :: "('w, 's) agent_env" and ats k backoff a res
  assume IH: "\<And>ae ats k backoff a res. loop ae ats k backoff a = Some res \<Longrightarrow> run_done ae ats k backoff a res"
    and body: "(let (a1, out, e) = agent_session ae (ats k) a in
      if e = Kicked then Some (a1, [])
      else (let (sleep, backoff1) = reconnect (ats k) backoff in
        Option.bind (loop ae ats (Suc k) backoff1 a1) (\<lambda>res. Some (fst res, sleep # snd res)))) = Some res"
  obtain a1 out e where s: "agent_session ae (ats k) a = (a1, out, e)" by (metis prod_cases3)
  note kind = agent_session_kinds [OF s]
  obtain sleep backoff1 where rc: "reconnect (ats k) backoff = (sleep, backoff1)" by fastforce
  show "run_done ae ats k backoff a res"
  proof (cases "e = Kicked")
    case True
    then have "res = (a1, [])" using body s by simp
    with True kind s show ?thesis by (simp add: run_done_def kicked_at_0)
  next
    case False
    then obtain res' where rest: "loop ae ats (Suc k) backoff1 a1 = Some res'"
      and res: "res = (fst res', sleep # snd res')"
      using body s rc by (auto simp: Let_def bind_eq_Some_conv)
    note ih = IH [OF rest, unfolded run_done_def]
    have "kicked_at ae (\<lambda>i. ats (k + i)) (Suc n) a \<longleftrightarrow> kicked_at ae (\<lambda>i. ats (Suc k + i)) n a1" for n
      by (simp add: kicked_at_Suc s)
    moreover have "\<not> kicked_at ae (\<lambda>i. ats (k + i)) 0 a" using False s by (simp add: kicked_at_0)
    moreover have "wiped ae a (fst res)" using keeps_wiped kind False ih res by (metis fst_conv)
    ultimately show ?thesis using ih unfolding run_done_def by (auto simp: res less_Suc_eq_0_disj)
  qed
qed

section \<open>Properties of Run\<close>

text \<open>The agent once its device is up.\<close>

definition init_device_of ::
  "('w, 's) agent_env \<Rightarrow> string result \<Rightarrow> ('w, 's) agent \<Rightarrow> 'w \<times> (string \<times> int) result" where
  "init_device_of ae gen a =
     wo_Init (ae_wg ae) gen (id_OverlayIP (ag_ID a)) (id_OverlayCIDR (ag_ID a)) (ae_WGPort ae) (ag_wg a)"

definition booted :: "('w, 's) agent \<Rightarrow> 'w \<Rightarrow> string \<Rightarrow> int \<Rightarrow> ('w, 's) agent" where
  "booted a w pubkey port = a\<lparr>ag_wg := w, ag_wgPub := pubkey, ag_wgListenPort := port\<rparr>"

lemma Run_eq:
  "Run ae gen ats a =
     (case init_device_of ae gen a of
        (w, Inl e) \<Rightarrow> Some (a\<lparr>ag_wg := w\<rparr>, [], Failed (ErrMsg (''wireguard init: '' @ err_text e)))
      | (w, Inr (pubkey, port)) \<Rightarrow>
          Option.bind (run_loop ae ats 0 Second (booted a w pubkey port)) (\<lambda>res. Some (fst res, snd res, Kicked)))"
  unfolding Run_def init_device_of_def booted_def ..

lemma Run_kickedD:
  assumes "Run ae gen ats a = Some (a', sleeps, Kicked)"
  obtains w pubkey port where "init_device_of ae gen a = (w, Ok (pubkey, port))"
    and "run_done ae ats 0 Second (booted a w pubkey port) (a', sleeps)"
proof -
  obtain w r where i: "init_device_of ae gen a = (w, r)" by fastforce
  obtain pubkey port where "r = Ok (pubkey, port)" using assms i by (cases r) (auto simp: Run_eq)
  moreover obtain res where "run_loop ae ats 0 Second (booted a w pubkey port) = Some res" "res = (a', sleeps)"
    using assms i calculation by (auto simp: Run_eq bind_eq_Some_conv)
  ultimately show thesis using that i run_loop_result by blast
qed

lemma booted_keeps: "keeps_identity a (booted a w pubkey port)"
  by (simp add: booted_def keeps_identity_def)

text \<open>
  C21: \<open>Run\<close> serves for ever unless the hub kicks the agent. It returns exactly when the device cannot be
  set up, or when some session of the endless sequence of attempts ends with a kick; no network failure,
  no rejected registration and no failing manager ends it, and every other history makes it run for ever.
\<close>

theorem Run_ends_iff_kicked:
  "(\<exists>res. Run ae gen ats a = Some res) \<longleftrightarrow>
     (case init_device_of ae gen a of
        (w, Inl e) \<Rightarrow> True
      | (w, Inr (pubkey, port)) \<Rightarrow> \<exists>n. kicked_at ae ats n (booted a w pubkey port))"
proof -
  obtain w r where i: "init_device_of ae gen a = (w, r)" by fastforce
  show ?thesis
  proof (cases r)
    case (Inr b)
    obtain pubkey port where b: "b = (pubkey, port)" by fastforce
    let ?a = "booted a w pubkey port"
    have "(\<exists>res. run_loop ae ats 0 Second ?a = Some res) \<longleftrightarrow> (\<exists>n. kicked_at ae ats n ?a)"
      using run_loop_returns [of ae ats 0 _ ?a Second] run_loop_result [of ae ats 0 Second ?a]
      by (auto simp: run_done_def)
    then show ?thesis using i Inr b by (auto simp: Run_eq bind_eq_Some_conv)
  qed (simp add: Run_eq i)
qed

lemma sleep_time_bounds:
  assumes "0 \<le> b" and "0 \<le> u" and "u < 1"
  shows "b * 8 \<le> sleep_time b u * 10 + 9" and "sleep_time b u * 10 \<le> b * 12"
proof -
  have "of_int b * (8 / 10) \<le> of_int b * (8 / 10 + 4 / 10 * u)" using assms by (intro mult_left_mono) auto
  then have "of_int b * (8 / 10) < of_int (sleep_time b u) + (1 :: rat)" unfolding sleep_time_def by linarith
  then have "of_int (b * 8) < (of_int (sleep_time b u * 10 + 10) :: rat)" by simp
  then show "b * 8 \<le> sleep_time b u * 10 + 9" unfolding of_int_less_iff by simp
  have "of_int b * (8 / 10 + 4 / 10 * u) \<le> of_int b * (12 / 10)" using assms by (intro mult_left_mono) auto
  then have "of_int (sleep_time b u) \<le> of_int b * (12 / 10 :: rat)" unfolding sleep_time_def by linarith
  then have "of_int (sleep_time b u * 10) \<le> (of_int (b * 12) :: rat)" by simp
  then show "sleep_time b u * 10 \<le> b * 12" unfolding of_int_le_iff .
qed

text \<open>How many sessions in a row, up to the \<open>i\<close>-th and without the very first, were not stable.\<close>

definition failures :: "(nat \<Rightarrow> attempt) \<Rightarrow> nat \<Rightarrow> nat" where
  "failures ats i = length (takeWhile (\<lambda>k. at_elapsed (ats k) < stableSession) (rev [1..<Suc i]))"

lemma failures_simps: "failures ats 0 = 0"
  "failures ats (Suc i) = (if at_elapsed (ats (Suc i)) \<ge> stableSession then 0 else Suc (failures ats i))"
  by (simp_all add: failures_def)

definition backoff_at :: "(nat \<Rightarrow> attempt) \<Rightarrow> nat \<Rightarrow> int" where
  "backoff_at ats i = min Minute (Second * 2 ^ failures ats i)"

lemma backoff_at_bounds: "Second \<le> backoff_at ats i" "backoff_at ats i \<le> Minute"
  by (simp_all add: backoff_at_def Second_def Minute_def)

lemma next_backoff_at: "next_backoff (backoff_at ats i) = min Minute (Second * 2 ^ Suc (failures ats i))"
  by (auto simp: next_backoff_def backoff_at_def min_def Minute_def Second_def)

text \<open>The back-off the loop has reached at its \<open>k\<close>-th round.\<close>

definition in_step :: "(nat \<Rightarrow> attempt) \<Rightarrow> nat \<Rightarrow> int \<Rightarrow> bool" where
  "in_step ats k backoff \<longleftrightarrow> (if at_elapsed (ats k) \<ge> stableSession then Second else backoff) = backoff_at ats k"

lemma in_step_start: "in_step ats 0 Second"
  by (simp add: in_step_def backoff_at_def failures_simps Minute_def Second_def)

lemma in_step_reconnect:
  assumes "in_step ats k backoff"
  shows "fst (reconnect (ats k) backoff) = sleep_time (backoff_at ats k) (at_random (ats k))"
    and "in_step ats (Suc k) (snd (reconnect (ats k) backoff))"
proof -
  have r: "reconnect (ats k) backoff = (sleep_time (backoff_at ats k) (at_random (ats k)), next_backoff (backoff_at ats k))"
    using assms by (simp add: in_step_def reconnect_def Let_def)
  show "fst (reconnect (ats k) backoff) = sleep_time (backoff_at ats k) (at_random (ats k))" by (simp add: r)
  show "in_step ats (Suc k) (snd (reconnect (ats k) backoff))"
    unfolding r in_step_def snd_conv next_backoff_at by (simp add: backoff_at_def failures_simps Minute_def Second_def)
qed

definition rounds_ok ::
  "('w, 's) agent_env \<Rightarrow> (nat \<Rightarrow> attempt) \<Rightarrow> nat \<Rightarrow> ('w, 's) agent \<Rightarrow> nat \<Rightarrow> int list \<times> ('w, 's) agent option \<Rightarrow> bool" where
  "rounds_ok ae ats k a n res \<longleftrightarrow>
     (\<forall>i < length (fst res). \<not> kicked_at ae (\<lambda>j. ats (k + j)) i a
        \<and> fst res ! i = sleep_time (backoff_at ats (k + i)) (at_random (ats (k + i))))
     \<and> (snd res = None \<longrightarrow> length (fst res) = n)
     \<and> (snd res \<noteq> None \<longrightarrow> kicked_at ae (\<lambda>j. ats (k + j)) (length (fst res)) a)"

lemma run_rounds_ok: "in_step ats k backoff \<Longrightarrow> rounds_ok ae ats k a n (run_rounds ae ats k backoff a n)"
proof (induction n arbitrary: k backoff a)
  case 0
  then show ?case by (simp add: rounds_ok_def)
next
  case (Suc n)
  obtain a1 out e where s: "agent_session ae (ats k) a = (a1, out, e)" by (metis prod_cases3)
  show ?case
  proof (cases "e = Kicked")
    case True
    then show ?thesis by (simp add: rounds_ok_def s kicked_at_0)
  next
    case False
    note step = in_step_reconnect [OF Suc.prems]
    obtain sleeps r where rr: "run_rounds ae ats (Suc k) (snd (reconnect (ats k) backoff)) a1 n = (sleeps, r)" by fastforce
    note ih = Suc.IH [OF step(2), of a1, unfolded rr rounds_ok_def]
    have kicked: "kicked_at ae (\<lambda>j. ats (k + j)) (Suc i) a \<longleftrightarrow> kicked_at ae (\<lambda>j. ats (Suc k + j)) i a1" for i
      by (simp add: kicked_at_Suc s)
    have first: "\<not> kicked_at ae (\<lambda>j. ats (k + j)) 0 a" using False s by (simp add: kicked_at_0)
    have "run_rounds ae ats k backoff a (Suc n) = (sleep_time (backoff_at ats k) (at_random (ats k)) # sleeps, r)"
      using False rr step(1) by (simp add: s case_prod_beta)
    then show ?thesis
      unfolding rounds_ok_def using ih first by (auto simp: less_Suc_eq_0_disj kicked)
  qed
qed

text \<open>The rounds are those of the loop: it returns exactly when one of them ends it, with the same sleeps.\<close>

lemma run_rounds_loop: "run_rounds ae ats k backoff a n = (sleeps, Some a') \<Longrightarrow> run_loop ae ats k backoff a = Some (a', sleeps)"
proof (induction n arbitrary: k backoff a sleeps)
  case (Suc n)
  let ?a1 = "fst (agent_session ae (ats k) a)" and ?r = "reconnect (ats k) backoff"
  obtain sleeps' r where rr: "run_rounds ae ats (Suc k) (snd ?r) ?a1 n = (sleeps', r)" by fastforce
  show ?case
  proof (cases "snd (snd (agent_session ae (ats k) a)) = Kicked")
    case True
    then show ?thesis using Suc.prems by (subst run_loop_unfold) (simp add: case_prod_beta)
  next
    case False
    then have "r = Some a'" "sleeps = fst ?r # sleeps'" using Suc.prems rr by (auto simp: case_prod_beta)
    then show ?thesis using False Suc.IH [of "Suc k" "snd ?r" ?a1 sleeps'] rr by (subst run_loop_unfold) simp
  qed
qed simp

lemma run_rounds_enough:
  "run_loop ae ats k backoff a = Some (a', sleeps) \<Longrightarrow> kicked_at ae (\<lambda>j. ats (k + j)) n a
     \<Longrightarrow> run_rounds ae ats k backoff a (Suc n) = (sleeps, Some a')"
proof (induction n arbitrary: k backoff a sleeps)
  case 0
  then show ?case by (subst (asm) run_loop_unfold) (simp add: kicked_at_0 case_prod_beta)
next
  case (Suc n)
  show ?case
  proof (cases "snd (snd (agent_session ae (ats k) a)) = Kicked")
    case True
    then show ?thesis using Suc.prems(1) by (subst (asm) run_loop_unfold) (simp add: case_prod_beta)
  next
    case False
    let ?a1 = "fst (agent_session ae (ats k) a)" and ?r = "reconnect (ats k) backoff"
    obtain sleeps' where rest: "run_loop ae ats (Suc k) (snd ?r) ?a1 = Some (a', sleeps')" "sleeps = fst ?r # sleeps'"
      using Suc.prems(1) False by (subst (asm) run_loop_unfold) (auto simp: bind_eq_Some_conv)
    have "kicked_at ae (\<lambda>j. ats (Suc k + j)) n ?a1" using Suc.prems(2) by (simp add: kicked_at_Suc)
    from Suc.IH [OF rest(1) this] show ?thesis using False rest(2) by (simp add: case_prod_beta)
  qed
qed

lemma run_loop_rounds:
  "run_loop ae ats 0 backoff a = Some (a', sleeps) \<longleftrightarrow> (\<exists>n. run_rounds ae ats 0 backoff a n = (sleeps, Some a'))"
proof
  assume run: "run_loop ae ats 0 backoff a = Some (a', sleeps)"
  then have "kicked_at ae (\<lambda>j. ats (0 + j)) (length sleeps) a" using run_loop_result [OF run] by (simp add: run_done_def)
  from run_rounds_enough [OF run this] show "\<exists>n. run_rounds ae ats 0 backoff a n = (sleeps, Some a')" ..
next
  assume "\<exists>n. run_rounds ae ats 0 backoff a n = (sleeps, Some a')"
  then show "run_loop ae ats 0 backoff a = Some (a', sleeps)" using run_rounds_loop by blast
qed

text \<open>
  C24: the reconnects are paced, in runs that end and in those that never do. Once the device is up, every
  finite number of rounds has slept once after each session that was not kicked, and the sleep after the
  \<open>i\<close>-th session is exactly the back-off with the jitter drawn: one second after a stable session (and
  after the first), doubled with every further session that was not stable, at most a minute; so never
  less than 0.8 and never more than 72 seconds. \<open>Run\<close> returns exactly when a round ends the loop, with
  the sleeps of that round, and a run that never returns has slept \<open>n\<close> times after \<open>n\<close> rounds, for every \<open>n\<close>.
\<close>

theorem reconnects_paced:
  assumes "init_device_of ae gen a = (w, Ok (pubkey, port))" and "\<And>k. 0 \<le> at_random (ats k) \<and> at_random (ats k) < 1"
    and "run_rounds ae ats 0 Second (booted a w pubkey port) n = (sleeps, r)"
  shows "(\<forall>i < length sleeps. \<not> kicked_at ae ats i (booted a w pubkey port)
        \<and> sleeps ! i = sleep_time (min Minute (Second * 2 ^ failures ats i)) (at_random (ats i))
        \<and> 800000000 \<le> sleeps ! i \<and> sleeps ! i \<le> 72000000000)
    \<and> (r = None \<longrightarrow> length sleeps = n)
    \<and> (r \<noteq> None \<longrightarrow> kicked_at ae ats (length sleeps) (booted a w pubkey port))
    \<and> (\<forall>a'. r = Some a' \<longrightarrow> Run ae gen ats a = Some (a', sleeps, Kicked))
    \<and> (\<forall>a' ss. Run ae gen ats a = Some (a', ss, Kicked) \<longrightarrow>
         (\<exists>m. run_rounds ae ats 0 Second (booted a w pubkey port) m = (ss, Some a')))
    \<and> (Run ae gen ats a = None \<longrightarrow> r = None)"
proof -
  have Run: "Run ae gen ats a = Some (a', ss, Kicked) \<longleftrightarrow> run_loop ae ats 0 Second (booted a w pubkey port) = Some (a', ss)" for a' ss
    by (auto simp: Run_eq assms(1) bind_eq_Some_conv)
  have ok: "rounds_ok ae ats 0 (booted a w pubkey port) n (sleeps, r)"
    using run_rounds_ok [OF in_step_start, where ats = ats and ae = ae and a = "booted a w pubkey port" and n = n] assms(3) by simp
  have "800000000 \<le> sleeps ! i \<and> sleeps ! i \<le> 72000000000" if "i < length sleeps" for i
  proof -
    have "sleeps ! i = sleep_time (backoff_at ats i) (at_random (ats i))" using ok that by (simp add: rounds_ok_def)
    then show ?thesis
      using sleep_time_bounds [of "backoff_at ats i" "at_random (ats i)"] assms(2) [of i] backoff_at_bounds [of ats i]
      by (simp add: Second_def Minute_def)
  qed
  moreover have "Run ae gen ats a = Some (a', sleeps, Kicked)" if "r = Some a'" for a'
    using that assms(3) unfolding Run run_loop_rounds by blast
  moreover have "\<exists>m. run_rounds ae ats 0 Second (booted a w pubkey port) m = (ss, Some a')"
    if "Run ae gen ats a = Some (a', ss, Kicked)" for a' ss
    using that unfolding Run run_loop_rounds .
  ultimately show ?thesis
    using ok unfolding rounds_ok_def backoff_at_def by (cases r) auto
qed

text \<open>
  C23: only a kick costs an agent its identity. Whatever a session does that does not end in a kick, the
  identity in memory and every file except the certificate is as before; after a kick, nothing that the
  operating system lets the agent remove is left in its directory, no later start finds an identity, and
  the device was torn down last.
\<close>

theorem identity_lost_only_by_kick:
  "(snd (snd (agent_session ae att a)) \<noteq> Kicked \<longrightarrow> keeps_identity a (fst (agent_session ae att a)))
   \<and> (Run ae gen ats a = Some (a', sleeps, Kicked) \<longrightarrow> wiped ae a a'
       \<and> (statePath (id_Dir (ag_ID a)) \<notin> fs_denied (ag_fs a) \<longrightarrow> id_Dir (ag_ID a) \<noteq> [] \<longrightarrow>
            \<not> is_ok (LoadIdentity unmarshal (id_Dir (ag_ID a)) (ag_fs a'))))"
proof (intro conjI impI)
  obtain a1 out e where s: "agent_session ae att a = (a1, out, e)" by (metis prod_cases3)
  show "keeps_identity a (fst (agent_session ae att a))" if "snd (snd (agent_session ae att a)) \<noteq> Kicked"
    using agent_session_kinds [OF s] that s by simp
  assume run: "Run ae gen ats a = Some (a', sleeps, Kicked)"
  obtain w pubkey port where d: "run_done ae ats 0 Second (booted a w pubkey port) (a', sleeps)"
    using Run_kickedD [OF run] by metis
  then show w: "wiped ae a a'" using booted_keeps keeps_wiped by (metis run_done_def fst_conv)
  assume "statePath (id_Dir (ag_ID a)) \<notin> fs_denied (ag_fs a)" "id_Dir (ag_ID a) \<noteq> []"
  moreover have "below (id_Dir (ag_ID a)) (statePath (id_Dir (ag_ID a)))" if "id_Dir (ag_ID a) \<noteq> []"
    using that by (simp add: below_def statePath_def Join_def)
  ultimately have "fs_files (ag_fs a') (statePath (id_Dir (ag_ID a))) = None" using w by (simp add: wiped_def)
  then show "\<not> is_ok (LoadIdentity unmarshal (id_Dir (ag_ID a)) (ag_fs a'))"
    by (simp add: LoadIdentity_def ReadFile_def)
qed

section \<open>A run\<close>

definition demo_agent_env :: "(stubWG, unit) agent_env" where
  "demo_agent_env = \<lparr>ae_wg = stub_manager (\<lambda>m. []), ae_svc = None, ae_ok = (\<lambda>addr. True), ae_pick = (\<lambda>m. []),
     ae_seal = \<lparr>sl_argon = (\<lambda>pw salt t m p n. Ok []), sl_Seal = (\<lambda>k n p. []), sl_Open = (\<lambda>k n c. None), sl_gzip = (\<lambda>s. [])\<rparr>,
     ae_x = demo_x, ae_marshal = (\<lambda>j. ''{}''), ae_unmarshal = (\<lambda>s. None), ae_WGPort = 51820, ae_SocksPort = 0,
     ae_OS = ''linux/amd64''\<rparr>"

definition demo_agent :: "(stubWG, unit) agent" where
  "demo_agent = \<lparr>ag_ID = \<lparr>id_Dir = ''a'', id_NodeID = ''N'', id_ControlAddr = [], id_OverlayIP = [], id_OverlayCIDR = [],
       id_CAFingerprint = []\<rparr>,
     ag_wg = \<lparr>sw_pub = [], sw_port = 0, sw_peerNodes = Map.empty, sw_nodeKeys = Map.empty\<rparr>, ag_svc = (), ag_Exit = None,
     ag_svcSeen = Map.empty, ag_wgPub = [], ag_wgListenPort = 0,
     ag_fs = demo_fs\<lparr>fs_files := [''a/identity.crt'' \<mapsto> (demo_pem ''CERTIFICATE'' ''crt'', 420),
       ''a/identity.key'' \<mapsto> (demo_pem ''EC PRIVATE KEY'' ''key'', 384),
       ''a/ca.crt'' \<mapsto> (demo_pem ''CERTIFICATE'' ''der'', 420), ''a/state.json'' \<mapsto> (''{}'', 384)]\<rparr>\<rparr>"

definition demo_moment :: moment where
  "demo_moment = \<lparr>mo_now = 0, mo_gen = Ok ''k2'', mo_nonce = [], mo_os = \<lparr>to_Stat = (\<lambda>p. Inl []), to_ReadFile = (\<lambda>p. Inl [])\<rparr>,
     mo_writes = True\<rparr>"

definition demo_reg_ack :: register_ack_data where
  "demo_reg_ack = \<lparr>ra_NodeID = ''N'', ra_OverlayIP = [], ra_PeersExpected = []\<rparr>"

text \<open>A failed dial, then a session that is kicked.\<close>

definition demo_attempts :: "nat \<Rightarrow> attempt" where
  "demo_attempts k = \<lparr>at_dials = (\<lambda>c. 0 < k), at_moment = demo_moment, at_ulid = ''u'',
     at_answer = Ok (NewEnvelope TypeRegisterAck ''u'' (enc_register_ack demo_reg_ack)),
     at_frames = [(demo_moment, NewEnvelope TypeKick ''k'' (enc_kick zero_kick))], at_elapsed = 0, at_random = 0\<rparr>"

definition demo_wg_up :: stubWG where
  "demo_wg_up = \<lparr>sw_pub = ''k1'', sw_port = 51820, sw_peerNodes = Map.empty, sw_nodeKeys = Map.empty\<rparr>"

lemma demo_init: "init_device_of demo_agent_env (Ok ''k1'') demo_agent = (demo_wg_up, Ok (''k1'', 51820))"
  by (simp add: init_device_of_def demo_agent_env_def demo_agent_def stub_manager_def stub_Init_def stub_key_def demo_wg_up_def)

abbreviation demo_booted :: "(stubWG, unit) agent" where "demo_booted \<equiv> booted demo_agent demo_wg_up ''k1'' 51820"

lemma demo_files:
  "ag_fs demo_booted = ag_fs demo_agent" "ag_ID demo_booted = ag_ID demo_agent" "ag_Exit demo_booted = None"
  by (simp_all add: booted_def demo_agent_def)

lemma demo_TLSConfig: "is_ok (TLSConfig demo_x (ag_ID demo_agent) (ag_fs demo_agent))"
  by (simp add: TLSConfig_def LoadX509KeyPair_def load_def readCertPEM_def ReadFile_def Join_def identityPaths
      demo_agent_def demo_fs_def demo_x_def demo_crypto_def demo_unpem_pem)

lemma demo_first:
  assumes "ag_fs a = ag_fs demo_agent" and "ag_ID a = ag_ID demo_agent"
  shows "agent_session demo_agent_env (demo_attempts 0) a = (a, [], Failed (ErrMsg ''dial hub''))"
proof -
  obtain cfg where "TLSConfig demo_x (ag_ID demo_agent) (ag_fs demo_agent) = Ok cfg"
    using demo_TLSConfig by (cases "TLSConfig demo_x (ag_ID demo_agent) (ag_fs demo_agent)") auto
  moreover have "ae_x demo_agent_env = demo_x" by (simp add: demo_agent_env_def)
  ultimately show ?thesis by (simp add: agent_session_def assms demo_attempts_def)
qed

lemma demo_second: "snd (snd (agent_session demo_agent_env (demo_attempts 1) demo_booted)) = Kicked"
proof -
  obtain cfg where "TLSConfig demo_x (ag_ID demo_agent) (ag_fs demo_agent) = Ok cfg"
    using demo_TLSConfig by (cases "TLSConfig demo_x (ag_ID demo_agent) (ag_fs demo_agent)") auto
  moreover have "ae_x demo_agent_env = demo_x" by (simp add: demo_agent_env_def)
  moreover have "agent_write demo_agent_env demo_moment env = ([env], Inr ())" for env
    by (simp add: agent_write_def WriteFrame_def frame_bytes_def MaxFrame_def demo_agent_env_def demo_moment_def)
  moreover have "wo_Reconcile (ae_wg demo_agent_env) [] w = (stub_Reconcile [] w, Ok ())" for w
    by (simp add: demo_agent_env_def stub_manager_def)
  moreover have "ra_PeersExpected demo_reg_ack = []" by (simp add: demo_reg_ack_def)
  ultimately show ?thesis
    by (simp add: agent_session_def demo_files demo_attempts_def register_answer_def NewEnvelope_def type_defs
        dispatch_def dispatch_kick_def Let_def)
qed

lemma demo_elapsed: "\<not> stableSession \<le> at_elapsed (demo_attempts k)"
  "sleep_time Second (at_random (demo_attempts k)) = 800000000"
  by (simp_all add: demo_attempts_def stableSession_def Minute_def Second_def sleep_time_def)

lemma demo_Run: "\<exists>a'. Run demo_agent_env (Ok ''k1'') demo_attempts demo_agent = Some (a', [800000000], Kicked)"
proof -
  have "snd (snd (agent_session demo_agent_env (demo_attempts (Suc 0)) demo_booted)) = Kicked" using demo_second by simp
  then obtain a' where "run_loop demo_agent_env demo_attempts (Suc 0) (next_backoff Second) demo_booted = Some (a', [])"
    by (subst (asm) run_loop_unfold) simp
  then have "run_loop demo_agent_env demo_attempts 0 Second demo_booted = Some (a', [800000000])"
    using demo_elapsed by (subst run_loop_unfold) (simp add: demo_first [OF demo_files(1,2)] Let_def reconnect_def)
  then show ?thesis by (simp add: Run_eq demo_init)
qed

text \<open>A hub that cannot be reached: the run never returns, and its eighth sleep is 48 seconds.\<close>

lemma demo_down: "run_loop demo_agent_env (\<lambda>k. demo_attempts 0) 0 Second demo_booted = None"
proof -
  have "agent_after demo_agent_env (\<lambda>k. demo_attempts 0) n demo_booted = demo_booted" for n
    by (induction n) (simp_all add: demo_first [OF demo_files(1,2)])
  then have "\<not> kicked_at demo_agent_env (\<lambda>k. demo_attempts 0) n demo_booted" for n
    by (simp add: kicked_at_def demo_first [OF demo_files(1,2)])
  then show ?thesis
    using run_loop_result [of demo_agent_env "\<lambda>k. demo_attempts 0" 0 Second demo_booted]
    by (cases "run_loop demo_agent_env (\<lambda>k. demo_attempts 0) 0 Second demo_booted") (auto simp: run_done_def)
qed

theorem reconnects_paced_witness:
  "Run demo_agent_env (Ok ''k1'') (\<lambda>k. demo_attempts 0) demo_agent = None
     \<and> length (fst (run_rounds demo_agent_env (\<lambda>k. demo_attempts 0) 0 Second demo_booted 8)) = 8
     \<and> fst (run_rounds demo_agent_env (\<lambda>k. demo_attempts 0) 0 Second demo_booted 8) ! 7 = 48000000000"
proof -
  have none: "Run demo_agent_env (Ok ''k1'') (\<lambda>k. demo_attempts 0) demo_agent = None"
    by (simp add: Run_eq demo_init demo_down)
  obtain sleeps r where rr: "run_rounds demo_agent_env (\<lambda>k. demo_attempts 0) 0 Second demo_booted 8 = (sleeps, r)" by fastforce
  have rnd: "at_random (demo_attempts 0) = 0" "at_elapsed (demo_attempts 0) = 0" by (simp_all add: demo_attempts_def)
  have paced: "length sleeps = 8" "i < length sleeps \<Longrightarrow>
      sleeps ! i = sleep_time (min Minute (Second * 2 ^ failures (\<lambda>k. demo_attempts 0) i)) 0" for i
    using reconnects_paced [OF demo_init _ rr] none by (simp_all add: rnd)
  have "failures (\<lambda>k. demo_attempts 0) i = i" for i
    by (induction i) (simp_all add: failures_simps rnd stableSession_def Minute_def Second_def)
  then have "sleeps ! 7 = 48000000000" using paced(1) paced(2) [of 7] by (simp add: sleep_time_def Minute_def Second_def)
  then show ?thesis unfolding rr using none paced(1) by simp
qed

theorem identity_lost_only_by_kick_witness:
  "\<exists>a'. Run demo_agent_env (Ok ''k1'') demo_attempts demo_agent = Some (a', [800000000], Kicked)
     \<and> fs_files (ag_fs a') ''a/identity.key'' = None \<and> \<not> is_ok (LoadIdentity (\<lambda>s. None) ''a'' (ag_fs a'))
     \<and> keeps_identity demo_agent (fst (agent_session demo_agent_env (demo_attempts 0) demo_agent))"
proof -
  obtain a' where run: "Run demo_agent_env (Ok ''k1'') demo_attempts demo_agent = Some (a', [800000000], Kicked)"
    using demo_Run by blast
  have id: "id_Dir (ag_ID demo_agent) = ''a''" "fs_denied (ag_fs demo_agent) = {}"
    by (simp_all add: demo_agent_def demo_fs_def)
  note facts = identity_lost_only_by_kick [of demo_agent_env "demo_attempts 0" demo_agent "Ok ''k1''" demo_attempts
      a' "[800000000]" "\<lambda>s. None"]
  have "wiped demo_agent_env demo_agent a' \<and> \<not> is_ok (LoadIdentity (\<lambda>s. None) ''a'' (ag_fs a'))"
    using facts run id by simp
  moreover have "below ''a'' ''a/identity.key''" by (simp add: below_def)
  ultimately have "fs_files (ag_fs a') ''a/identity.key'' = None" "\<not> is_ok (LoadIdentity (\<lambda>s. None) ''a'' (ag_fs a'))"
    using id unfolding wiped_def by auto
  moreover have "keeps_identity demo_agent (fst (agent_session demo_agent_env (demo_attempts 0) demo_agent))"
    using facts demo_first [of demo_agent] by simp
  ultimately show ?thesis using run by blast
qed

end
