(* ===== verification/Together.thy ===== *)
theory Together
  imports AgentProps AckProps WGProps
begin

text \<open>
  Hub and agent composed: what a frame of the hub does at the agent, what its answer does at the hub,
  and that a registered Linux agent ends with the kernel peers the hub asked for.
\<close>

section \<open>One push\<close>

lemma TypeAck_reply:
  "agent_ack ae mo rid r = (out, Inr ()) \<Longrightarrow> \<exists>reply. out = [reply] \<and> env_ID reply = rid \<and> env_Type reply = TypeAck
     \<and> dec_ack (env_Data reply) = Some \<lparr>ad_OK = is_ok r, ad_Err = (case r of Inl e \<Rightarrow> err_text e | Inr u \<Rightarrow> [])\<rparr>"
  by (auto simp: agent_ack_def agent_write_def NewEnvelope_def split: sum.splits if_splits)

definition push_with :: "('w, 's) agent_env \<Rightarrow> string \<Rightarrow> peer_spec \<Rightarrow> 'w \<Rightarrow> 'w \<times> unit result" where
  "push_with ae typ spec w = (if typ = TypePeerAdd then wo_AddPeer (ae_wg ae) spec w else wo_UpdatePeer (ae_wg ae) spec w)"

lemma dispatch_pushE:
  assumes "dispatch ae mo (NewEnvelope typ i (enc_spec spec)) a = (a', out, r)"
    and "typ = TypePeerAdd \<or> typ = TypePeerUpdate" and "in_int64 (ps_KeepaliveS spec)"
  obtains res where "push_with ae typ spec (ag_wg a) = (ag_wg a', res)" and "agent_ack ae mo i res = (out, r)"
    and "ag_Exit a' = (if is_ok res
      then map_option (ec_SetLinkExit (ae_ok ae) (ae_pick ae) (ps_LinkID spec) (designation spec)) (ag_Exit a) else ag_Exit a)"
proof -
  obtain w res where p: "push_with ae typ spec (ag_wg a) = (w, res)" by fastforce
  have "dispatch ae mo (NewEnvelope typ i (enc_spec spec)) a = dispatch_peer ae mo (NewEnvelope typ i (enc_spec spec)) a"
    using assms(2) by (auto simp: dispatch_def NewEnvelope_def)
  also have "\<dots> = (let a1 = a\<lparr>ag_wg := w\<rparr> in
      (if is_ok res then a1\<lparr>ag_Exit := map_option (ec_SetLinkExit (ae_ok ae) (ae_pick ae) (ps_LinkID spec) (designation spec)) (ag_Exit a)\<rparr>
       else a1, agent_ack ae mo i res))"
    using assms(3) p by (simp add: dispatch_peer_def NewEnvelope_def push_with_def Let_def)
  finally have "a' = (if is_ok res then (a\<lparr>ag_wg := w\<rparr>)\<lparr>ag_Exit := map_option (ec_SetLinkExit (ae_ok ae) (ae_pick ae)
      (ps_LinkID spec) (designation spec)) (ag_Exit a)\<rparr> else a\<lparr>ag_wg := w\<rparr>)" "agent_ack ae mo i res = (out, r)"
    using assms(1) by (auto simp: Let_def)
  with p that show thesis by simp
qed

lemma dispatch_removeE:
  assumes "dispatch ae mo (NewEnvelope TypePeerRemove i (enc_peer_remove d)) a = (a', out, r)"
  obtains res where "wo_RemovePeer (ae_wg ae) (pr_WGPubkey d) (ag_wg a) = (ag_wg a', res)"
    and "agent_ack ae mo i res = (out, r)"
proof -
  obtain w res where "wo_RemovePeer (ae_wg ae) (pr_WGPubkey d) (ag_wg a) = (w, res)" by fastforce
  with assms that show thesis
    by (auto simp: dispatch_def dispatch_remove_def NewEnvelope_def type_defs)
qed

lemma handleAck_flag:
  assumes "hb_heap h sid = Some s" and "ses_pendingAcks s (env_ID env) = Some ref" and "dec_ack (env_Data env) = Some d"
  shows "hb_links (handleAck sid env t h) =
    (if ad_OK d then hb_links (upd_link (ar_linkID ref) (set_ack (ar_side ref)) h) else hb_links h)"
  using assms
  by (simp add: handleAck_def Let_def hub_frame split: sum.split)
    (simp add: upd_link_def hub_frame split: option.split)

lemma peerSpec_keepalive: "peerSpecLocked l p w h = Ok spec \<Longrightarrow> ps_KeepaliveS spec = cfg_KeepaliveS (hb_cfg h)"
  by (auto simp: peerSpecLocked_def Let_def split: sum.splits if_splits)

text \<open>
  C6: the loop of a push closes. The frame the hub queues for a spec makes the agent apply exactly that
  spec to its WireGuard manager and, when that worked, adopt its exit designation; the agent's only reply
  is an acknowledgement of that frame; and at the hub this reply sets the flag of that side of that link
  exactly when the manager succeeded.
\<close>

theorem push_loop_closed:
  assumes "peerSpecLocked l peerID w h = Ok spec" and "in_int64 (cfg_KeepaliveS (hb_cfg h))"
    and "hb_heap h sid = Some s" and "length (ses_out s) < outCap"
    and "typ = TypePeerAdd \<or> typ = TypePeerUpdate"
    and "hb_heap (sendPeerSpecLocked sid l typ peerID w h) sid = Some s'"
    and "dispatch ae mo (last (ses_out s')) a = (a', out, Inr ())"
  shows "\<exists>r reply. out = [reply]
    \<and> (ag_wg a', r) = (if typ = TypePeerAdd then wo_AddPeer (ae_wg ae) spec (ag_wg a)
        else wo_UpdatePeer (ae_wg ae) spec (ag_wg a))
    \<and> ag_Exit a' = (if is_ok r then map_option (ec_SetLinkExit (ae_ok ae) (ae_pick ae) (link_ID l) (designation spec)) (ag_Exit a)
        else ag_Exit a)
    \<and> hb_links (handleAck sid reply t (sendPeerSpecLocked sid l typ peerID w h)) (link_ID l) =
        (if is_ok r then map_option (set_ack (peerSide l (node_ID (ses_node s)))) (hb_links h (link_ID l))
         else hb_links h (link_ID l))"
proof -
  let ?i = "hb_ulid h (hb_next h)" and ?h' = "sendPeerSpecLocked sid l typ peerID w h"
  have s': "ses_pendingAcks s' ?i = Some \<lparr>ar_linkID = link_ID l, ar_side = peerSide l (node_ID (ses_node s))\<rparr>"
    and last: "last (ses_out s') = NewEnvelope typ ?i (enc_spec spec)"
    using assms(1,3,4,6) by (auto simp: sendPeerSpecLocked_def NewULID_def heap_send heap_upd_session hub_frame enqueue_def)
  have lnk: "hb_links ?h' = hb_links h" using assms(1) by (simp add: sendPeerSpecLocked_def NewULID_def hub_frame)
  have link: "ps_LinkID spec = link_ID l" using assms(1) by (auto simp: peerSpecLocked_def Let_def split: sum.splits)
  have "in_int64 (ps_KeepaliveS spec)" using peerSpec_keepalive [OF assms(1)] assms(2) by simp
  then obtain r where r: "push_with ae typ spec (ag_wg a) = (ag_wg a', r)" "agent_ack ae mo ?i r = (out, Inr ())"
    "ag_Exit a' = (if is_ok r then map_option (ec_SetLinkExit (ae_ok ae) (ae_pick ae) (ps_LinkID spec) (designation spec)) (ag_Exit a)
      else ag_Exit a)"
    using dispatch_pushE [OF assms(7) [unfolded last] assms(5)] by metis
  obtain reply where reply: "out = [reply]" "env_ID reply = ?i"
    "dec_ack (env_Data reply) = Some \<lparr>ad_OK = is_ok r, ad_Err = (case r of Inl e \<Rightarrow> err_text e | Inr u \<Rightarrow> [])\<rparr>"
    using TypeAck_reply [OF r(2)] by blast
  have "hb_links (handleAck sid reply t ?h') (link_ID l) =
      (if is_ok r then map_option (set_ack (peerSide l (node_ID (ses_node s)))) (hb_links h (link_ID l)) else hb_links h (link_ID l))"
    using handleAck_flag [OF assms(6) _ reply(3), of _ t] s' reply(2) by (simp add: links_upd lnk)
  with r(1,3) reply(1) link show ?thesis
    by (intro exI [of _ r] exI [of _ reply]) (simp add: push_with_def)
qed

definition demo_wB :: wg_ident where
  "demo_wB = \<lparr>wi_pubkey = ''kB'', wi_port = 51820, wi_ip = ''203.0.113.2'', wi_socksPort = 0\<rparr>"

theorem push_loop_closed_witness:
  "\<exists>(a' :: (stubWG, unit) agent) reply. sw_nodeKeys (ag_wg a') ''B'' = Some ''kB''
    \<and> hb_links (handleAck 0 reply 30 (sendPeerSpecLocked 0 demo_link TypePeerUpdate ''B'' demo_wB demo_B)) ''L''
        = map_option (set_ack ''a'') (hb_links demo_B ''L'')"
proof -
  let ?s = "new_session (demo_node ''A'' ''10.0.0.2'') ''203.0.113.1'' 20"
    and ?h' = "sendPeerSpecLocked 0 demo_link TypePeerUpdate ''B'' demo_wB demo_B"
  obtain spec where spec: "peerSpecLocked demo_link ''B'' demo_wB demo_B = Ok spec"
    and key: "ps_PeerNodeID spec = ''B''" "ps_WGPubkey spec = ''kB''"
    by (auto simp: peerSpecLocked_def demo_B_db Let_def demo_link_def demo_wB_def)
  have cfg: "in_int64 (cfg_KeepaliveS (hb_cfg demo_B))"
    by (simp add: demo_B_eq hub_frame demo_up_def demo_boot_def NewHub_def runSession_start_def publish_def Let_def
        demo_node_def Defaults_def in_int64_def)
  obtain s' where s': "hb_heap ?h' 0 = Some s'" using sendSpec_pending(1) [OF spec demo_B_heap] by blast
  have out: "length (ses_out ?s) < outCap" by (simp add: new_session_def outCap_def)
  have env: "ses_out s' = [NewEnvelope TypePeerUpdate (hb_ulid demo_B (hb_next demo_B)) (enc_spec spec)]"
    using s' spec demo_B_heap by (auto simp: sendPeerSpecLocked_def NewULID_def heap_send heap_upd_session hub_frame
        enqueue_def new_session_def outCap_def)
  obtain a' out r where d: "dispatch demo_agent_env demo_moment (last (ses_out s')) demo_agent = (a', out, r)"
    by (metis prod_cases3)
  have keep: "in_int64 (ps_KeepaliveS spec)" using peerSpec_keepalive [OF spec] cfg by simp
  obtain res where res: "push_with demo_agent_env TypePeerUpdate spec (ag_wg demo_agent) = (ag_wg a', res)"
    "agent_ack demo_agent_env demo_moment (hb_ulid demo_B (hb_next demo_B)) res = (out, r)"
    using d unfolding env last.simps by (auto elim: dispatch_pushE [OF _ _ keep])
  have "r = Inr ()" using res(2)
    by (auto simp: agent_ack_def agent_write_def WriteFrame_def frame_bytes_def MaxFrame_def demo_agent_env_def demo_moment_def)
  then obtain q reply where facts:
    "(ag_wg a', q) = (if TypePeerUpdate = TypePeerAdd then wo_AddPeer (ae_wg demo_agent_env) spec (ag_wg demo_agent)
        else wo_UpdatePeer (ae_wg demo_agent_env) spec (ag_wg demo_agent))"
    "hb_links (handleAck 0 reply 30 ?h') (link_ID demo_link) =
        (if is_ok q then map_option (set_ack (peerSide demo_link (node_ID (ses_node ?s)))) (hb_links demo_B (link_ID demo_link))
         else hb_links demo_B (link_ID demo_link))"
    using push_loop_closed [OF spec cfg demo_B_heap out _ s', of demo_agent_env demo_moment demo_agent a' out 30] d by blast
  have "(ag_wg a', q) = (stub_UpdatePeer spec (ag_wg demo_agent), Ok ())"
    using facts(1) by (simp add: demo_agent_env_def stub_manager_def type_defs)
  then have "sw_nodeKeys (ag_wg a') ''B'' = Some ''kB''" "is_ok q"
    using key by (simp_all add: stub_UpdatePeer_def Let_def)
  moreover have "link_ID demo_link = ''L''" "peerSide demo_link (node_ID (ses_node ?s)) = ''a''"
    by (simp_all add: demo_link_def peerSide_def new_session_def demo_node_def)
  ultimately show ?thesis using facts(2) by auto
qed

section \<open>Convergence of a Linux agent\<close>

text \<open>The frame of an operation on the peers; \<open>i\<close> is its id and \<open>lid\<close> the link of a removal.\<close>

fun peer_frame :: "string \<Rightarrow> string \<Rightarrow> wg_op \<Rightarrow> envelope" where
  "peer_frame i lid (WAdd s) = NewEnvelope TypePeerAdd i (enc_spec s)"
| "peer_frame i lid (WUpdate s) = NewEnvelope TypePeerUpdate i (enc_spec s)"
| "peer_frame i lid (WRemove k) = NewEnvelope TypePeerRemove i (enc_peer_remove \<lparr>pr_LinkID = lid, pr_WGPubkey = k\<rparr>)"
| "peer_frame i lid c = NewEnvelope TypeError i (enc_error zero_error)"

fun pushed :: "wg_op \<Rightarrow> bool" where
  "pushed (WAdd s) \<longleftrightarrow> in_int64 (ps_KeepaliveS s)"
| "pushed (WUpdate s) \<longleftrightarrow> in_int64 (ps_KeepaliveS s)"
| "pushed (WRemove k) \<longleftrightarrow> True"
| "pushed c \<longleftrightarrow> False"

definition good_reply :: "envelope \<Rightarrow> bool" where
  "good_reply env \<longleftrightarrow> (\<exists>d. dec_ack (env_Data env) = Some d \<and> ad_OK d)"

lemma dispatch_frameE:
  assumes "pushed c" and "dispatch ae mo (peer_frame i lid c) a = (a', out, r)" and "ae_wg ae = linux_manager kn"
  obtains res where "linux_exec kn c (ag_wg a) = (ag_wg a', is_ok res)" and "agent_ack ae mo i res = (out, r)"
proof (cases c)
  case (WRemove k)
  obtain res where "wo_RemovePeer (ae_wg ae) k (ag_wg a) = (ag_wg a', res)" "agent_ack ae mo i res = (out, r)"
    using dispatch_removeE [of ae mo i "\<lparr>pr_LinkID = lid, pr_WGPubkey = k\<rparr>" a a' out r] assms(2) WRemove by auto
  then show thesis by (intro that) (simp_all add: WRemove assms(3) linux_manager_def)
next
  case (WAdd s)
  obtain res where "push_with ae TypePeerAdd s (ag_wg a) = (ag_wg a', res)" "agent_ack ae mo i res = (out, r)"
    using dispatch_pushE [of ae mo TypePeerAdd i s a a' out r] assms(1,2) WAdd by auto
  then show thesis by (intro that) (simp_all add: WAdd push_with_def assms(3) linux_manager_def)
next
  case (WUpdate s)
  obtain res where "push_with ae TypePeerUpdate s (ag_wg a) = (ag_wg a', res)" "agent_ack ae mo i res = (out, r)"
    using dispatch_pushE [of ae mo TypePeerUpdate i s a a' out r] assms(1,2) WUpdate by auto
  then show thesis by (intro that) (simp_all add: WUpdate push_with_def type_defs assms(3) linux_manager_def)
qed (use assms(1) in simp_all)

type_synonym push = "moment \<times> string \<times> string \<times> wg_op"

definition arriving :: "push \<Rightarrow> moment \<times> envelope" where
  "arriving p = (case p of (mo, i, lid, c) \<Rightarrow> (mo, peer_frame i lid c))"

definition push_op :: "push \<Rightarrow> wg_op" where "push_op p = snd (snd (snd p))"

text \<open>One frame: at most one reply, none when the session ends, and a good one only after a success.\<close>

lemma one_answer:
  assumes "pushed c" and "dispatch ae mo (peer_frame i lid c) a = (a', out, r)" and "ae_wg ae = linux_manager kn"
  shows "length out \<le> 1 \<and> (r \<noteq> Inr () \<longrightarrow> out = [])"
    and "out \<noteq> [] \<Longrightarrow> list_all good_reply out \<Longrightarrow> linux_exec kn c (ag_wg a) = (ag_wg a', True)"
proof -
  obtain res where res: "linux_exec kn c (ag_wg a) = (ag_wg a', is_ok res)" "agent_ack ae mo i res = (out, r)"
    using dispatch_frameE [OF assms] by metis
  then show one: "length out \<le> 1 \<and> (r \<noteq> Inr () \<longrightarrow> out = [])"
    by (auto simp: agent_ack_def agent_write_def split: sum.splits if_splits)
  show "linux_exec kn c (ag_wg a) = (ag_wg a', True)" if "out \<noteq> []" "list_all good_reply out"
  proof -
    have "r = Inr ()" using one that(1) by blast
    with TypeAck_reply [of ae mo i res out] res that(2) show ?thesis by (auto simp: good_reply_def)
  qed
qed

lemma read_loop_ops:
  assumes "ae_wg ae = linux_manager kn" and "\<forall>p \<in> set ps. pushed (push_op p)"
    and "read_loop ae (map arriving ps) a = (a', out, e)"
  shows "length out \<le> length ps \<and> (length out = length ps \<longrightarrow> list_all good_reply out \<longrightarrow>
      wg_run (linux_exec kn) (map push_op ps) (ag_wg a) = Some (ag_wg a'))"
  using assms(2,3)
proof (induction ps arbitrary: a out)
  case (Cons p ps)
  obtain mo i lid c where p: "p = (mo, i, lid, c)" by (metis prod_cases4)
  have c: "pushed c" "push_op p = c" using Cons.prems(1) by (simp_all add: p push_op_def)
  obtain a1 out1 r where d: "dispatch ae mo (peer_frame i lid c) a = (a1, out1, r)" by (metis prod_cases3)
  note one = one_answer [OF c(1) d assms(1)]
  show ?case
  proof (cases r)
    case (Inl x)
    then show ?thesis using Cons.prems(2) d one(1) by (auto simp: p arriving_def)
  next
    case (Inr u)
    obtain a2 out2 r2 where rest: "read_loop ae (map arriving ps) a1 = (a2, out2, r2)" by (metis prod_cases3)
    have "arriving p = (mo, peer_frame i lid c)" by (simp add: p arriving_def)
    then have out: "out = out1 @ out2" "a' = a2" "e = r2" using Cons.prems(2) d Inr rest by auto
    have ih: "length out2 \<le> length ps \<and> (length out2 = length ps \<longrightarrow> list_all good_reply out2 \<longrightarrow>
        wg_run (linux_exec kn) (map push_op ps) (ag_wg a1) = Some (ag_wg a'))"
      using Cons.IH [of a1 out2] Cons.prems(1) rest out by simp
    have "wg_run (linux_exec kn) (map push_op (p # ps)) (ag_wg a) = Some (ag_wg a')"
      if len: "length out = length (p # ps)" and good: "list_all good_reply out"
    proof -
      have "length out2 = length ps" "out1 \<noteq> []" using len ih one(1) unfolding out by auto
      moreover have "list_all good_reply out1" "list_all good_reply out2" using good unfolding out by simp_all
      ultimately show ?thesis using ih one(2) c(2) by simp
    qed
    then show ?thesis using ih one(1) unfolding out by auto
  qed
qed simp

text \<open>
  C5: a Linux agent converges to what the hub told it. After a registration answered by a list of peers
  and any sequence of additions, updates and removals, all acknowledged without error and within the
  hub's discipline, the manager knows exactly the nodes and keys of that history and the kernel has
  exactly those keys as peers, whatever the device held before.
\<close>

theorem agent_converges:
  assumes "kernel_laws kn view" and "ae_wg ae = linux_manager kn"
    and "register_answer ae (Ok (NewEnvelope TypeRegisterAck i (enc_register_ack ack))) a = (a0, Inr ())"
    and "\<forall>s \<in> set (ra_PeersExpected ack). in_int64 (ps_KeepaliveS s)" and "\<forall>p \<in> set ps. pushed (push_op p)"
    and "read_loop ae (map arriving ps) a0 = (a', out, e)" and "length out = length ps" and "list_all good_reply out"
    and "fits_all (canonical kn) (WReconcile (ra_PeersExpected ack) # map push_op ps) Map.empty"
  shows "lw_nodeKeys (ag_wg a') = fold table_step (WReconcile (ra_PeersExpected ack) # map push_op ps) Map.empty
    \<and> dom (view (lw_kernel (ag_wg a'))) =
        {key. \<exists>n k. lw_nodeKeys (ag_wg a') n = Some k \<and> kn_ParseKey kn k = Some key}"
proof -
  have "linux_Reconcile kn (ra_PeersExpected ack) (ag_wg a) = (ag_wg a0, Ok ())"
    using assms(3,4) by (auto simp: register_answer_def NewEnvelope_def type_defs assms(2) linux_manager_def Let_def
        case_prod_beta prod_eq_iff split: sum.splits)
  moreover have "wg_run (linux_exec kn) (map push_op ps) (ag_wg a0) = Some (ag_wg a')"
    using read_loop_ops [OF assms(2,5,6)] assms(7,8) by simp
  ultimately show ?thesis using linux_converges [OF assms(1) _ assms(9)] by blast
qed

text \<open>One peer from the registration, then a new key for it.\<close>

definition demo_linux_env :: "((string \<rightharpoonup> peer_config) linuxWG, unit) agent_env" where
  "demo_linux_env = \<lparr>ae_wg = linux_manager demo_kernel, ae_svc = None, ae_ok = (\<lambda>addr. True), ae_pick = (\<lambda>m. []),
     ae_seal = ae_seal demo_agent_env, ae_x = demo_x, ae_marshal = (\<lambda>j. ''{}''), ae_unmarshal = (\<lambda>s. None),
     ae_WGPort = 51820, ae_SocksPort = 0, ae_OS = ''linux/amd64''\<rparr>"

definition demo_linux_agent :: "((string \<rightharpoonup> peer_config) linuxWG, unit) agent" where
  "demo_linux_agent = \<lparr>ag_ID = ag_ID demo_agent, ag_wg = demo_wg, ag_svc = (), ag_Exit = None, ag_svcSeen = Map.empty,
     ag_wgPub = [], ag_wgListenPort = 0, ag_fs = demo_fs\<rparr>"

definition demo_peers_ack :: register_ack_data where
  "demo_peers_ack = \<lparr>ra_NodeID = ''N'', ra_OverlayIP = [], ra_PeersExpected = [demo_peer ''A'' ''k1'']\<rparr>"

definition demo_push :: push where
  "demo_push = (demo_moment, ''i'', [], WUpdate (demo_peer ''A'' ''k2''))"

lemma demo_linux_env_sels:
  "ae_wg demo_linux_env = linux_manager demo_kernel" "ag_wg demo_linux_agent = demo_wg"
  "ra_PeersExpected demo_peers_ack = [demo_peer ''A'' ''k1'']" "in_int64 (ps_KeepaliveS (demo_peer n k))"
  "push_op demo_push = WUpdate (demo_peer ''A'' ''k2'')"
  by (simp_all add: demo_linux_env_def demo_linux_agent_def demo_peers_ack_def demo_peer_def zero_spec_def in_int64_def
      demo_push_def push_op_def)

theorem agent_converges_witness:
  "\<exists>a' :: ((string \<rightharpoonup> peer_config) linuxWG, unit) agent.
     lw_nodeKeys (ag_wg a') = [''A'' \<mapsto> ''k2''] \<and> dom (lw_kernel (ag_wg a')) = {''k2''}"
proof -
  obtain w0 w' where run: "linux_Reconcile demo_kernel [demo_peer ''A'' ''k1''] demo_wg = (w0, Ok ())"
    "wg_run (linux_exec demo_kernel) [WUpdate (demo_peer ''A'' ''k2'')] w0 = Some w'" using demo_reconcile by blast
  let ?ack = "NewEnvelope TypeRegisterAck ''u'' (enc_register_ack demo_peers_ack)"
  let ?a0 = "demo_linux_agent\<lparr>ag_wg := w0\<rparr>"
  have reg: "register_answer demo_linux_env (Ok ?ack) demo_linux_agent = (?a0, Inr ())"
    using run(1) by (simp add: register_answer_def NewEnvelope_def type_defs demo_linux_env_sels linux_manager_def Let_def)
      (simp add: demo_linux_agent_def)
  obtain a1 out r where d: "dispatch demo_linux_env demo_moment (peer_frame ''i'' [] (WUpdate (demo_peer ''A'' ''k2''))) ?a0 = (a1, out, r)"
    by (metis prod_cases3)
  obtain res where res: "linux_exec demo_kernel (WUpdate (demo_peer ''A'' ''k2'')) w0 = (ag_wg a1, is_ok res)"
    "agent_ack demo_linux_env demo_moment ''i'' res = (out, r)"
    using dispatch_frameE [OF _ d demo_linux_env_sels(1)] demo_linux_env_sels(4) by auto
  have "is_ok res" using run(2) res(1) by (cases "is_ok res") simp_all
  moreover have "r = Inr ()" using res(2)
    by (auto simp: agent_ack_def agent_write_def WriteFrame_def frame_bytes_def MaxFrame_def demo_linux_env_def demo_moment_def)
  moreover obtain reply where "out = [reply]" "dec_ack (env_Data reply) = Some \<lparr>ad_OK = is_ok res,
      ad_Err = (case res of Inl e \<Rightarrow> err_text e | Inr u \<Rightarrow> [])\<rparr>"
    using TypeAck_reply [of demo_linux_env demo_moment "''i''" res out] res(2) calculation(2) by blast
  ultimately have loop: "read_loop demo_linux_env (map arriving [demo_push]) ?a0 = (a1, out, Inl (Failed (ErrMsg ''EOF'')))"
    and good: "length out = length [demo_push]" "list_all good_reply out"
    using d by (simp_all add: demo_push_def arriving_def good_reply_def)
  have keep: "\<forall>s \<in> set (ra_PeersExpected demo_peers_ack). in_int64 (ps_KeepaliveS s)" "\<forall>p \<in> set [demo_push]. pushed (push_op p)"
    by (simp_all add: demo_linux_env_sels)
  have fits: "fits_all (canonical demo_kernel) (WReconcile (ra_PeersExpected demo_peers_ack) # map push_op [demo_push]) Map.empty"
    using demo_fits by (simp add: demo_linux_env_sels)
  note facts = agent_converges [OF demo_kernel_laws demo_linux_env_sels(1) reg keep loop good fits]
  then have nk: "lw_nodeKeys (ag_wg a1) = [''A'' \<mapsto> ''k2'']"
    by (simp add: demo_linux_env_sels add_spec_def demo_peer_def zero_spec_def)
  have parse: "kn_ParseKey demo_kernel = Some" by (simp add: demo_kernel_def)
  from facts have "dom (lw_kernel (ag_wg a1)) = {key. \<exists>n k. lw_nodeKeys (ag_wg a1) n = Some k \<and> Some k = Some key}"
    unfolding parse by blast
  then have "dom (lw_kernel (ag_wg a1)) = {''k2''}" unfolding nk by (auto split: if_splits)
  with nk show ?thesis by blast
qed

section \<open>A restart of the hub\<close>

text \<open>
  The list of a registration holds only peers that are online and registered. After a restart the hub
  knows no key, so the first agent that comes back is told that it has no peers, and its reconciliation
  removes every tunnel from the kernel, also those that carry traffic.
\<close>

lemma restart_drops_tunnels:
  assumes "kernel_laws kn view" and "ae_wg ae = linux_manager kn"
    and "h = runSession_start sid node remote now (NewHub cfg db ulid)"
    and "register_answer ae (Ok (NewEnvelope TypeRegisterAck i (enc_register_ack \<lparr>ra_NodeID = node_ID node, ra_OverlayIP = ip,
        ra_PeersExpected = peers_expected (node_ID node) h (LinksOfNode (node_ID node) (hb_db h))\<rparr>))) a = (a0, Inr ())"
  shows "lw_nodeKeys (ag_wg a0) = Map.empty \<and> view (lw_kernel (ag_wg a0)) = Map.empty"
proof -
  have "hb_lastWG h = Map.empty"
    by (simp add: assms(3) runSession_start_def NewHub_def publish_def Let_def hub_frame split: option.split)
  then have none: "peers_expected (node_ID node) h links = []" for links
    by (simp add: peers_expected_def ready_spec_def split: option.split)
  have "linux_Reconcile kn [] (ag_wg a) = (ag_wg a0, Ok ())"
    using assms(4) by (auto simp: none register_answer_def NewEnvelope_def type_defs assms(2) linux_manager_def Let_def
        case_prod_beta prod_eq_iff split: sum.splits)
  from linux_converges [OF assms(1) this, of "[]" "ag_wg a0"]
  have "lw_nodeKeys (ag_wg a0) = Map.empty" "dom (view (lw_kernel (ag_wg a0))) = {}" by simp_all
  then show ?thesis by simp
qed

end
