(* ===== verification/EndToEnd.thy ===== *)
theory EndToEnd
  imports Together SvcProps Api
begin

text \<open>
  Whole journeys through hub and agents: a request of the panel that an agent answers, and a new key that
  reaches the kernels of the peers.
\<close>

section \<open>A request and its answer\<close>

lemma request_queued:
  assumes "hb_sessions h nid = Some sid" and "hb_heap h sid = Some s" and "length (ses_out s) < outCap"
    and "request_start ch nid typ payload h = (h1, Ok rid)" and "hb_heap h1 sid = Some s1"
  shows "last (ses_out s1) = NewEnvelope typ rid payload" and "ses_node s1 = ses_node s"
  using assms by (auto simp: request_start_def NewULID_def heap_send enqueue_def)

text \<open>The first frame of the asked session with the id of the request is what the panel gets.\<close>

lemma request_answered:
  assumes "hub_inv h" and "fresh_chan ch h" and "request_start ch nid typ payload h = (h1, Ok rid)"
    and "owner sid h1 = Some nid" and "env_ID reply = rid" and "\<forall>r \<in> set forged. owner (fst r) h1 \<noteq> Some nid"
  shows "snd (request_finish rid ch (replies (forged @ (sid, reply) # later) h1)) = Ok (env_Data reply)"
proof -
  have "find (genuine rid nid h1) forged = None"
    using assms(6) by (auto simp: find_None_iff genuine_def)
  then have "find (genuine rid nid h1) (forged @ (sid, reply) # later) = Some (sid, reply)"
    using assms(4,5) by (induction forged) (auto simp: genuine_def split: if_splits)
  with replies_waits [OF request_start_waits [OF assms(1-3)], of "forged @ (sid, reply) # later"]
  show ?thesis by (simp add: request_finish_def answered_def Let_def)
qed

lemma agent_write_Ok: "agent_write ae mo env = (out, Inr ()) \<Longrightarrow> out = [env]"
  by (auto simp: agent_write_def split: sum.splits if_splits)

section \<open>Service actions\<close>

text \<open>
  The reference: the action and the unit a command stands for at an agent, when the command opens under
  the local view key, is allowed, is at most 300 seconds away, has not been seen and names a registered
  alias.
\<close>

definition commanded :: "('w, 's) agent_env \<Rightarrow> ('w, 's) agent \<Rightarrow> int \<Rightarrow> svc_action_data \<Rightarrow> (string \<times> string) option" where
  "commanded ae a now d =
     (let dir = id_Dir (ag_ID a) in
      case command_key (ae_unmarshal ae) dir (ag_fs a) of
        Inl e \<Rightarrow> None
      | Inr key \<Rightarrow>
          (case unseal_cmd (ae_seal ae) (ae_unmarshal ae) key d of
             Inl e \<Rightarrow> None
           | Inr cmd \<Rightarrow>
               if sc_Action cmd \<in> svcActions \<and> \<bar>sc_TS cmd - now\<bar> \<le> 300 \<and> pruned now (ag_svcSeen a) (sa_Nonce d) = None
               then (case lookupSvc (ae_unmarshal ae) dir (sc_Alias cmd) (ag_fs a) of
                   Inl e \<Rightarrow> None
                 | Inr unit \<Rightarrow> Some (sc_Action cmd, unit))
               else None))"

lemma openSvcCmd_commanded:
  "commanded ae a now d =
     (case snd (openSvcCmd (ae_seal ae) (ae_unmarshal ae) (id_Dir (ag_ID a)) (ag_fs a) d now (ag_svcSeen a)) of
        Inl e \<Rightarrow> None
      | Inr cmd \<Rightarrow> (case lookupSvc (ae_unmarshal ae) (id_Dir (ag_ID a)) (sc_Alias cmd) (ag_fs a) of
            Inl e \<Rightarrow> None
          | Inr unit \<Rightarrow> Some (sc_Action cmd, unit)))"
proof (cases "command_key (ae_unmarshal ae) (id_Dir (ag_ID a)) (ag_fs a)")
  case (Inl e)
  then show ?thesis by (simp add: commanded_def openSvcCmd_def)
next
  case (Inr key)
  note key = Inr
  show ?thesis
  proof (cases "unseal_cmd (ae_seal ae) (ae_unmarshal ae) key d")
    case (Inl e)
    with key show ?thesis by (simp add: commanded_def openSvcCmd_def)
  next
    case (Inr cmd)
    have "\<bar>sc_TS cmd - now\<bar> \<le> 300 \<longleftrightarrow> \<not> (sc_TS cmd < now - svcCmdWindow \<or> sc_TS cmd > now + svcCmdWindow)"
      by (auto simp: svcCmdWindow_def)
    with key Inr show ?thesis by (auto simp: commanded_def openSvcCmd_def Let_def)
  qed
qed

lemma handleSvcAction_commanded:
  assumes "handleSvcAction (ae_seal ae) (ae_unmarshal ae) (id_Dir (ag_ID a)) (Some m) (ag_fs a) d now
      (ag_svcSeen a, ag_svc a) = ((seen', s'), res)"
  shows "case commanded ae a now d of
      None \<Rightarrow> s' = ag_svc a \<and> \<not> sr_OK res
    | Some (action, unit) \<Rightarrow> s' = fst (sm_Do m action unit (ag_svc a)) \<and> sr_OK res = is_ok (snd (sm_Do m action unit (ag_svc a)))"
proof -
  obtain seen1 r where o: "openSvcCmd (ae_seal ae) (ae_unmarshal ae) (id_Dir (ag_ID a)) (ag_fs a) d now (ag_svcSeen a) = (seen1, r)"
    by fastforce
  show ?thesis
  proof (cases r)
    case (Inl e)
    with o assms show ?thesis by (auto simp: handleSvcAction_def openSvcCmd_commanded)
  next
    case (Inr cmd)
    with o assms show ?thesis
      by (auto simp: handleSvcAction_def openSvcCmd_commanded Let_def case_prod_beta split: sum.splits)
  qed
qed

lemma dispatch_svcE:
  assumes "dispatch ae mo (NewEnvelope TypeSvcAction rid (enc_svc_action d)) a = (a', out, Inr ())" and "ae_svc ae = Some m"
  obtains res where "handleSvcAction (ae_seal ae) (ae_unmarshal ae) (id_Dir (ag_ID a)) (Some m) (ag_fs a) d (mo_now mo)
      (ag_svcSeen a, ag_svc a) = ((ag_svcSeen a', ag_svc a'), res)"
    and "out = [NewEnvelope TypeSvcResult rid (enc_svc_result res)]"
    and "ag_fs a' = ag_fs a" and "ag_wg a' = ag_wg a" and "ag_Exit a' = ag_Exit a"
proof -
  obtain seen s res where r: "handleSvcAction (ae_seal ae) (ae_unmarshal ae) (id_Dir (ag_ID a)) (Some m) (ag_fs a) d (mo_now mo)
      (ag_svcSeen a, ag_svc a) = ((seen, s), res)" by (metis prod.exhaust)
  have "dispatch_svc_action ae mo (NewEnvelope TypeSvcAction rid (enc_svc_action d)) a = (a', out, Inr ())"
    using assms(1) by (simp add: dispatch_def NewEnvelope_def type_defs)
  with r assms(2) have a': "a' = a\<lparr>ag_svcSeen := seen, ag_svc := s\<rparr>"
    and w: "agent_write ae mo (NewEnvelope TypeSvcResult rid (enc_svc_result res)) = (out, Inr ())"
    by (simp_all add: dispatch_svc_action_def NewEnvelope_def)
  show thesis by (rule that [of res]) (use r a' agent_write_Ok [OF w] in simp_all)
qed

text \<open>
  C7: a service action goes through. The panel's request is queued for the node's session; when the agent
  has handled that frame and its reply arrives, whatever frames other nodes have sent with the same id
  before, the panel is answered with the agent's result. The action has then run, on the registered unit
  and with the reported success, if the command was authentic, allowed, fresh and new to the agent;
  otherwise nothing has run and the result says so. Files, tunnels and exits of the agent are untouched.
\<close>

theorem svc_action_end_to_end:
  assumes "reachable sha (h, fl)" and "fresh_chan ch h"
    and "hb_sessions h nid = Some sid" and "hb_heap h sid = Some s" and "length (ses_out s) < outCap"
    and "RequestSvcAction ch nid d h = (h1, Ok rid)" and "hb_heap h1 sid = Some s1"
    and "ae_svc ae = Some m" and "dispatch ae mo (last (ses_out s1)) a = (a', out, Inr ())"
    and "\<forall>r \<in> set forged. owner (fst r) h1 \<noteq> Some nid"
  shows "\<exists>reply res. out = [reply] \<and> session_frame sid reply now h1 = (handleConfResult sid reply h1, Ok LoopOn)
    \<and> snd (agent_reply rid ch (replies (forged @ (sid, reply) # later) h1)) = writeJSON (enc_svc_result res)
    \<and> (case commanded ae a (mo_now mo) d of
         None \<Rightarrow> ag_svc a' = ag_svc a \<and> \<not> sr_OK res
       | Some (action, unit) \<Rightarrow> ag_svc a' = fst (sm_Do m action unit (ag_svc a))
           \<and> sr_OK res = is_ok (snd (sm_Do m action unit (ag_svc a))))
    \<and> (ag_fs a', ag_wg a', ag_Exit a') = (ag_fs a, ag_wg a, ag_Exit a)"
proof -
  note start = assms(6) [unfolded RequestSvcAction_def]
  have inv: "hub_inv h" by (rule reachable_hub_inv [OF assms(1)])
  have "node_ID (ses_node s) = nid" using inv assms(3,4) by (fastforce simp: hub_inv_def sessions_ok_def)
  then have own: "owner sid h1 = Some nid"
    using request_queued(2) [OF assms(3-5) start assms(7)] assms(7) by (simp add: owner_def)
  obtain res where res: "handleSvcAction (ae_seal ae) (ae_unmarshal ae) (id_Dir (ag_ID a)) (Some m) (ag_fs a) d (mo_now mo)
      (ag_svcSeen a, ag_svc a) = ((ag_svcSeen a', ag_svc a'), res)"
    and out: "out = [NewEnvelope TypeSvcResult rid (enc_svc_result res)]"
    and same: "ag_fs a' = ag_fs a" "ag_wg a' = ag_wg a" "ag_Exit a' = ag_Exit a"
    using dispatch_svcE [OF assms(9) [unfolded request_queued(1) [OF assms(3-5) start assms(7)]] assms(8)] by metis
  let ?reply = "NewEnvelope TypeSvcResult rid (enc_svc_result res)"
  have "snd (request_finish rid ch (replies (forged @ (sid, ?reply) # later) h1)) = Ok (enc_svc_result res)"
    using request_answered [OF inv assms(2) start own _ assms(10), of ?reply] by (simp add: NewEnvelope_def)
  then have "snd (agent_reply rid ch (replies (forged @ (sid, ?reply) # later) h1)) = writeJSON (enc_svc_result res)"
    by (simp add: agent_reply_def case_prod_beta Let_def)
  moreover have "session_frame sid ?reply now h1 = (handleConfResult sid ?reply h1, Ok LoopOn)"
    by (simp add: session_frame_def NewEnvelope_def type_defs)
  ultimately show ?thesis
    using out same handleSvcAction_commanded [OF res] by (intro exI [of _ ?reply] exI [of _ res]) simp
qed

definition demo_svc_env :: "(stubWG, string \<Rightarrow> bool) agent_env" where
  "demo_svc_env = \<lparr>ae_wg = stub_manager (\<lambda>m. []), ae_svc = Some stubSvc, ae_ok = (\<lambda>addr. True), ae_pick = (\<lambda>m. []),
     ae_seal = demo_sealing, ae_x = demo_x, ae_marshal = (\<lambda>j. ''{}''), ae_unmarshal = demo_json, ae_WGPort = 51820,
     ae_SocksPort = 0, ae_OS = ''linux/amd64''\<rparr>"

definition demo_svc_agent :: "(stubWG, string \<Rightarrow> bool) agent" where
  "demo_svc_agent = \<lparr>ag_ID = ag_ID demo_agent, ag_wg = demo_wg_up, ag_svc = (\<lambda>u. False), ag_Exit = None,
     ag_svcSeen = Map.empty, ag_wgPub = [], ag_wgListenPort = 0, ag_fs = demo_data_dir\<rparr>"

lemma demo_svc_sels [simp]:
  "ae_svc demo_svc_env = Some stubSvc" "ae_seal demo_svc_env = demo_sealing" "ae_unmarshal demo_svc_env = demo_json"
  "id_Dir (ag_ID demo_svc_agent) = ''a''" "ag_svc demo_svc_agent = (\<lambda>u. False)" "ag_svcSeen demo_svc_agent = Map.empty"
  "ag_fs demo_svc_agent = demo_data_dir"
  by (simp_all add: demo_svc_env_def demo_svc_agent_def demo_agent_def)

lemma demo_commanded: "commanded demo_svc_env demo_svc_agent 1000 demo_action = Some (''start'', ''xray.service'')"
  by (simp add: openSvcCmd_commanded demo_open) (simp add: demo_cmd_def demo_lookup)

theorem svc_action_end_to_end_witness:
  "\<exists>(a' :: (stubWG, string \<Rightarrow> bool) agent) reply res. ag_svc a' ''xray.service'' \<and> sr_OK res
    \<and> snd (agent_reply ''u0'' 7 (replies [(1, NewEnvelope TypeSvcResult ''u0'' (JStr ''forged'')), (0, reply)]
        (fst (RequestSvcAction 7 ''A'' demo_action demo_up)))) = writeJSON (enc_svc_result res)"
proof -
  let ?s = "new_session (demo_node ''A'' ''10.0.0.2'') ''203.0.113.1'' 20" and ?mo = "demo_moment\<lparr>mo_now := 1000\<rparr>"
  let ?h1 = "fst (RequestSvcAction 7 ''A'' demo_action demo_up)"
  have fresh: "fresh_chan 7 demo_up"
    by (simp add: fresh_chan_def demo_up_def demo_boot_def NewHub_def runSession_start_def publish_def
        Let_def demo_node_def)
  have "hb_ulid demo_up 0 = ''u0''" "hb_next demo_up = 0"
    by (simp_all add: demo_up_def demo_boot_def NewHub_def runSession_start_def publish_def
        Let_def demo_node_def demo_ulid_def itoa_small demo_zero)
  then have start: "RequestSvcAction 7 ''A'' demo_action demo_up = (?h1, Ok ''u0'')"
    by (simp add: RequestSvcAction_def request_start_def NewULID_def demo_up_sels)
  have heap: "hb_sessions demo_up ''A'' = Some 0" "hb_heap demo_up 0 = Some ?s" "length (ses_out ?s) < outCap"
    by (simp_all add: demo_up_sels new_session_def outCap_def)
  obtain s1 where s1: "hb_heap ?h1 0 = Some s1"
    using heap by (simp add: RequestSvcAction_def request_start_def NewULID_def heap_send)
  have other: "owner 1 ?h1 = Some ''B''"
    by (simp add: RequestSvcAction_def request_start_def NewULID_def demo_up_sels owner_def send_def upd_session_def
        enqueue_def outCap_def new_session_def demo_node_def)
  have last: "last (ses_out s1) = NewEnvelope TypeSvcAction ''u0'' (enc_svc_action demo_action)"
    using request_queued(1) [OF heap start [unfolded RequestSvcAction_def]] s1 by (simp add: RequestSvcAction_def)
  have "agent_write demo_svc_env ?mo env = ([env], Inr ())" for env
    by (simp add: agent_write_def WriteFrame_def frame_bytes_def MaxFrame_def demo_svc_env_def demo_moment_def)
  then obtain a' out where d: "dispatch demo_svc_env ?mo (last (ses_out s1)) demo_svc_agent = (a', out, Inr ())"
    unfolding last by (simp add: dispatch_def NewEnvelope_def type_defs dispatch_svc_action_def case_prod_beta)
  let ?forged = "[(1, NewEnvelope TypeSvcResult ''u0'' (JStr ''forged''))]"
  have forged: "\<forall>r \<in> set ?forged. owner (fst r) ?h1 \<noteq> Some ''A''" using other by simp
  obtain reply res where panel: "snd (agent_reply ''u0'' 7 (replies (?forged @ (0, reply) # []) ?h1)) = writeJSON (enc_svc_result res)"
    and ran: "case commanded demo_svc_env demo_svc_agent (mo_now ?mo) demo_action of
         None \<Rightarrow> ag_svc a' = ag_svc demo_svc_agent \<and> \<not> sr_OK res
       | Some (action, unit) \<Rightarrow> ag_svc a' = fst (sm_Do stubSvc action unit (ag_svc demo_svc_agent))
           \<and> sr_OK res = is_ok (snd (sm_Do stubSvc action unit (ag_svc demo_svc_agent)))"
    using svc_action_end_to_end [OF demo_up_reachable fresh heap start s1 demo_svc_sels(1) d forged, where later = "[]" and now = 0]
    by (elim exE conjE) (rule that)
  have "ag_svc a' ''xray.service'' \<and> sr_OK res"
    using ran demo_commanded by (simp add: stubSvc_def stub_Do_def svcActions_def)
  with panel show ?thesis by (intro exI [of _ a'] exI [of _ reply] exI [of _ res]) simp
qed

section \<open>A new key\<close>

lemma dispatch_rotated:
  assumes "dispatch ae mo (NewEnvelope TypeRotateWG i (JObj [])) a = (a', out, r)"
    and "wo_Rotate (ae_wg ae) (mo_gen mo) (ag_wg a) = (w, Ok pub)"
  shows "a' = a\<lparr>ag_wg := w, ag_wgPub := pub\<rparr>" and "r \<noteq> Inr ()"
  using assms by (auto simp: dispatch_def dispatch_rotate_wg_def NewEnvelope_def type_defs)

lemma rotate_queued:
  assumes "RotateWG nid h = (h', Ok ())" and "hb_sessions h nid = Some sid" and "hb_heap h sid = Some s"
    and "length (ses_out s) < outCap" and "hb_heap h' sid = Some s'"
  shows "\<exists>i. last (ses_out s') = NewEnvelope TypeRotateWG i (JObj [])"
  using assms by (auto simp: RotateWG_def NewULID_def heap_send enqueue_def) (rule exI, rule refl)

lemma linux_good_peers:
  assumes "linux_good kn view w"
  shows "dom (view (lw_kernel w)) = {key. \<exists>n k. lw_nodeKeys w n = Some k \<and> kn_ParseKey kn k = Some key}"
  using assms inverse_dom [of "lw_peerNodes w" "lw_nodeKeys w"]
  by (auto simp: linux_good_def in_kernel_def ran_def)

text \<open>An acknowledged update at a Linux agent.\<close>

lemma linux_updated:
  assumes "dispatch be mo (NewEnvelope TypePeerUpdate i (enc_spec spec)) b = (b', out, Inr ())" and "list_all good_reply out"
    and "ae_wg be = linux_manager kn" and "linux_good kn view (ag_wg b)" and "in_int64 (ps_KeepaliveS spec)"
    and "canonical kn (ps_WGPubkey spec)" and "\<And>n. n \<noteq> ps_PeerNodeID spec \<Longrightarrow> lw_nodeKeys (ag_wg b) n \<noteq> Some (ps_WGPubkey spec)"
  shows "lw_nodeKeys (ag_wg b') = (lw_nodeKeys (ag_wg b))(ps_PeerNodeID spec \<mapsto> ps_WGPubkey spec)
    \<and> dom (view (lw_kernel (ag_wg b'))) = {key. \<exists>n k. lw_nodeKeys (ag_wg b') n = Some k \<and> kn_ParseKey kn k = Some key}"
proof -
  obtain res where res: "linux_exec kn (WUpdate spec) (ag_wg b) = (ag_wg b', is_ok res)" "agent_ack be mo i res = (out, Inr ())"
    using dispatch_frameE [of "WUpdate spec" be mo i "[]" b b' out "Inr ()" kn] assms(1,3,5) by auto
  with TypeAck_reply [OF res(2)] assms(2) have ok: "snd (linux_exec kn (WUpdate spec) (ag_wg b))"
    by (auto simp: good_reply_def)
  have fit: "fits (canonical kn) (WUpdate spec) (lw_nodeKeys (ag_wg b))" using assms(6,7) by auto
  show ?thesis
    using linux.step_table [OF assms(4) fit ok] linux_good_peers [OF linux.step_good [OF assms(4) fit ok]]
    unfolding res(1) by (simp add: add_spec_def)
qed

lemma own_spec:
  assumes "store_wf (hb_db h)" and "l \<in> set (LinksOfNode me (hb_db h))"
  shows "\<exists>spec. peerSpecLocked l me w h = Ok spec \<and> ps_PeerNodeID spec = me \<and> ps_WGPubkey spec = wi_pubkey w
     \<and> ps_Endpoint spec = wg_endpoint w \<and> ps_KeepaliveS spec = cfg_KeepaliveS (hb_cfg h)"
proof -
  have "l \<in> set (st_links (hb_db h))" "link_A l = me \<or> link_B l = me"
    using assms(2) by (auto simp: LinksOfNode_def touches_def)
  then have "me \<in> node_ID ` set (st_nodes (hb_db h))" using assms(1) by (auto simp: store_wf_def link_ok_def)
  then obtain n where "GetNode me (hb_db h) = Ok n" by (fastforce simp: GetNode_def find_None_iff split: option.splits)
  then show ?thesis by (auto simp: peerSpecLocked_def Let_def)
qed

text \<open>
  C8: a new key reaches the peers. The panel's request to rotate is queued for the node's session; the agent
  that handles the frame takes the new key and ends its session. When it registers again, the session of
  the other end of every ready link is told that key with the node's observed address, and once a Linux
  agent has acknowledged the update its table has the new key for the node and its kernel exactly the keys
  of the table, the old one gone.
\<close>

theorem rotation_reaches_peers:
  assumes "RotateWG me h0 = (h0', Ok ())" and "hb_sessions h0 me = Some sid0" and "hb_heap h0 sid0 = Some s0"
    and "length (ses_out s0) < outCap" and "hb_heap h0' sid0 = Some s0'"
    and "dispatch ae mo (last (ses_out s0')) a = (a', out0, r)"
    and "wo_Rotate (ae_wg ae) (mo_gen mo) (ag_wg a) = (w, Ok pub)" and "pub \<noteq> []"
    and "0 < ag_wgListenPort a" "ag_wgListenPort a \<le> 65535" "in_int64 (ae_SocksPort ae)"
    and "reachable sha (h, fl)" and "hb_heap h sid = Some s" and "node_ID (ses_node s) = me"
    and "in_int64 (cfg_KeepaliveS (hb_cfg h))"
    and "l \<in> set (LinksOfNode me (hb_db h))" and "ready_spec me h l \<noteq> []" and "hb_sessions h (Other l me) = Some os"
    and "ae_wg be = linux_manager kn" and "linux_good kn view (ag_wg b)" and "canonical kn pub"
    and "\<And>n. n \<noteq> me \<Longrightarrow> lw_nodeKeys (ag_wg b) n \<noteq> Some pub"
  shows "r \<noteq> Inr () \<and> ag_wgPub a' = pub
    \<and> (\<exists>spec. told os TypePeerUpdate (enc_spec spec) (handleRegister sid (register_frame ae u a') now h)
        \<and> ps_KeepaliveS spec = cfg_KeepaliveS (hb_cfg h) \<and> ps_Endpoint spec = ses_remote s @ CHR '':'' # itoa_int (ag_wgListenPort a)
        \<and> (\<forall>i mo' b' out. dispatch be mo' (NewEnvelope TypePeerUpdate i (enc_spec spec)) b = (b', out, Inr ())
            \<longrightarrow> list_all good_reply out \<longrightarrow> lw_nodeKeys (ag_wg b') = (lw_nodeKeys (ag_wg b))(me \<mapsto> pub)
              \<and> dom (view (lw_kernel (ag_wg b'))) = {key. \<exists>n k. lw_nodeKeys (ag_wg b') n = Some k \<and> kn_ParseKey kn k = Some key}))"
proof -
  obtain i where "last (ses_out s0') = NewEnvelope TypeRotateWG i (JObj [])" using rotate_queued [OF assms(1-5)] by blast
  then have a': "a' = a\<lparr>ag_wg := w, ag_wgPub := pub\<rparr>" "r \<noteq> Inr ()" using dispatch_rotated [OF _ assms(7)] assms(6) by metis+
  have inv: "sessions_ok h" "store_wf (hb_db h)"
    using reachable_hub_inv [OF assms(12)] by (simp_all add: hub_inv_def)
  let ?d = "\<lparr>rd_WGPubkey = pub, rd_WGPort = ag_wgListenPort a, rd_AgentVersion = ''0.1.0'', rd_OS = ae_OS ae,
      rd_SocksPort = ae_SocksPort ae\<rparr>"
  have d: "dec_register (env_Data (register_frame ae u a')) = Some ?d" "\<not> bad_register ?d"
    using assms(8-11) by (simp_all add: register_frame_def NewEnvelope_def a' in_int64_def bad_register_def)
  obtain spec where spec: "peerSpecLocked l me (register_ident s ?d) h = Ok spec" "ps_PeerNodeID spec = me"
    "ps_WGPubkey spec = pub" "ps_Endpoint spec = wg_endpoint (register_ident s ?d)" "ps_KeepaliveS spec = cfg_KeepaliveS (hb_cfg h)"
    using own_spec [OF inv(2) assms(16), of "register_ident s ?d"] by (auto simp: register_ident_def)
  have "told os TypePeerUpdate (enc_spec spec) (handleRegister sid (register_frame ae u a') now h)"
    by (rule handleRegister_tells [OF inv assms(13,14) d assms(16-18) spec(1)])
  moreover have "lw_nodeKeys (ag_wg b') = (lw_nodeKeys (ag_wg b))(me \<mapsto> pub)
      \<and> dom (view (lw_kernel (ag_wg b'))) = {key. \<exists>n k. lw_nodeKeys (ag_wg b') n = Some k \<and> kn_ParseKey kn k = Some key}"
    if "dispatch be mo' (NewEnvelope TypePeerUpdate i (enc_spec spec)) b = (b', out, Inr ())" "list_all good_reply out" for i mo' b' out
    using linux_updated [OF that assms(19,20)] spec(2,3,5) assms(15,21,22) by simp
  ultimately show ?thesis
    using a' spec(4,5) by (intro conjI exI [of _ spec]) (simp_all add: register_ident_def wg_endpoint_def)
qed

definition demo_rotator :: "(stubWG, unit) agent" where
  "demo_rotator = demo_agent\<lparr>ag_wg := demo_wg_up, ag_wgListenPort := 51820\<rparr>"

lemma demo_linux_good: "linux_good demo_kernel (\<lambda>v. v) (ag_wg demo_linux_agent)"
  using demo_kernel_laws by (simp add: linux_good_def demo_linux_agent_def demo_wg_def in_kernel_def inverse_maps_def)

lemma demo_allowed: "is_ok (parse_allowed demo_kernel cidrs)"
  by (induction cidrs) (auto simp: demo_kernel_def split: sum.split)

lemma demo_update_acked:
  assumes "in_int64 (ps_KeepaliveS spec)"
  shows "\<exists>b' out. dispatch demo_linux_env demo_moment (NewEnvelope TypePeerUpdate ''i'' (enc_spec spec)) demo_linux_agent
      = (b', out, Inr ()) \<and> list_all good_reply out"
proof -
  obtain b' out r where d: "dispatch demo_linux_env demo_moment (NewEnvelope TypePeerUpdate ''i'' (enc_spec spec)) demo_linux_agent
      = (b', out, r)" by (metis prod_cases3)
  obtain res where res: "linux_exec demo_kernel (WUpdate spec) demo_wg = (ag_wg b', is_ok res)"
    "agent_ack demo_linux_env demo_moment ''i'' res = (out, r)"
    using dispatch_frameE [OF _ d [folded peer_frame.simps(2) [of _ "[]"]] demo_linux_env_sels(1)] assms
    by (auto simp: demo_linux_env_sels(2))
  have "is_ok res" using res(1) demo_allowed [of "ps_AllowedIPs spec"]
    by (auto simp: demo_wg_simps split: sum.splits prod.splits)
  moreover have "r = Inr ()" using res(2)
    by (auto simp: agent_ack_def agent_write_def WriteFrame_def frame_bytes_def MaxFrame_def demo_linux_env_def demo_moment_def)
  ultimately show ?thesis
    using d res(2) TypeAck_reply [of demo_linux_env demo_moment "''i''" res out] by (auto simp: good_reply_def)
qed

theorem rotation_reaches_peers_witness:
  "\<exists>(a' :: (stubWG, unit) agent) spec (b' :: ((string \<rightharpoonup> peer_config) linuxWG, unit) agent). ag_wgPub a' = ''k2''
     \<and> told 1 TypePeerUpdate (enc_spec spec) (handleRegister 0 (register_frame demo_agent_env ''u'' a') 22 demo_B)
     \<and> lw_nodeKeys (ag_wg b') = [''A'' \<mapsto> ''k2'']"
proof -
  let ?s = "new_session (demo_node ''A'' ''10.0.0.2'') ''203.0.113.1'' 20"
  obtain h0' where rot: "RotateWG ''A'' demo_up = (h0', Ok ())" by (auto simp: RotateWG_def demo_up_sels NewULID_def)
  have heap: "hb_sessions demo_up ''A'' = Some 0" "hb_heap demo_up 0 = Some ?s" "length (ses_out ?s) < outCap"
    by (simp_all add: demo_up_sels new_session_def outCap_def)
  obtain s0' where s0': "hb_heap h0' 0 = Some s0'"
    using rot heap by (auto simp: RotateWG_def NewULID_def heap_send)
  obtain a' out r where d: "dispatch demo_agent_env demo_moment (last (ses_out s0')) demo_rotator = (a', out, r)"
    by (metis prod_cases3)
  have pub: "wo_Rotate (ae_wg demo_agent_env) (mo_gen demo_moment) (ag_wg demo_rotator)
      = (fst (stub_Rotate ''k2'' demo_wg_up), Ok ''k2'')"
    by (simp add: demo_agent_env_def stub_manager_def demo_moment_def stub_key_def stub_Rotate_def demo_rotator_def)
  have ports: "0 < ag_wgListenPort demo_rotator" "ag_wgListenPort demo_rotator \<le> 65535" "in_int64 (ae_SocksPort demo_agent_env)"
    by (simp_all add: demo_rotator_def demo_agent_env_def in_int64_def)
  have me: "node_ID (ses_node ?s) = ''A''" by (simp add: new_session_def demo_node_def)
  have cfg: "in_int64 (cfg_KeepaliveS (hb_cfg demo_B))"
    by (simp add: demo_B_eq hub_frame demo_up_def demo_boot_def NewHub_def runSession_start_def publish_def Let_def
        demo_node_def Defaults_def in_int64_def)
  have other: "Other demo_link ''A'' = ''B''" by (simp add: demo_link_def Other_def)
  have ready: "ready_spec ''A'' demo_B demo_link \<noteq> []"
    unfolding ready_spec_def other by (simp add: demo_B_sels(1,3,4) peerSpecLocked_def demo_B_db Let_def)
  have l: "demo_link \<in> set (LinksOfNode ''A'' (hb_db demo_B))" "hb_sessions demo_B (Other demo_link ''A'') = Some 1"
    by (simp add: demo_B_db, simp add: other demo_B_sels)
  have key: "canonical demo_kernel ''k2''" by (simp add: canonical_def demo_kernel_def)
  have free: "lw_nodeKeys (ag_wg demo_linux_agent) n \<noteq> Some ''k2''" for n by (simp add: demo_linux_agent_def demo_wg_def)
  obtain spec where spec: "told 1 TypePeerUpdate (enc_spec spec) (handleRegister 0 (register_frame demo_agent_env ''u'' a') 22 demo_B)"
    "ag_wgPub a' = ''k2''" "ps_KeepaliveS spec = cfg_KeepaliveS (hb_cfg demo_B)"
    and applied: "\<And>i mo' b' out. dispatch demo_linux_env mo' (NewEnvelope TypePeerUpdate i (enc_spec spec)) demo_linux_agent
        = (b', out, Inr ()) \<Longrightarrow> list_all good_reply out \<Longrightarrow> lw_nodeKeys (ag_wg b') = (lw_nodeKeys (ag_wg demo_linux_agent))(''A'' \<mapsto> ''k2'')"
    using rotation_reaches_peers [OF rot heap s0' d pub _ ports demo_B_reachable demo_B_heap me cfg l(1) ready l(2)
        demo_linux_env_sels(1) demo_linux_good key free, of "''u''" 22] by blast
  have "in_int64 (ps_KeepaliveS spec)" using spec(3) cfg by simp
  then obtain b' out' where "dispatch demo_linux_env demo_moment (NewEnvelope TypePeerUpdate ''i'' (enc_spec spec)) demo_linux_agent
      = (b', out', Inr ())" "list_all good_reply out'" using demo_update_acked by blast
  with applied [of demo_moment "''i''"] have "lw_nodeKeys (ag_wg b') = [''A'' \<mapsto> ''k2'']"
    by (simp add: demo_linux_agent_def demo_wg_def)
  with spec(1,2) show ?thesis by blast
qed

section \<open>Addresses of version 6\<close>

text \<open>
  The endpoint is the address and the port with a colon between them, without brackets. A node whose session
  comes from an IPv6 address has an endpoint that \<open>ResolveUDPAddr\<close>, which splits it with \<open>SplitHostPort\<close>,
  refuses; so every push of that node fails at the peers.
\<close>

lemma ipv6_endpoint_refused:
  assumes "CHR '':'' \<in> set (wi_ip w)" and "hd (wi_ip w) \<noteq> CHR ''[''"
  shows "SplitHostPort (wg_endpoint w) = None"
proof -
  have "CHR '':'' \<notin> set (itoa_int (wi_port w))" by (auto simp: itoa_int_def dest: itoa_plain split: if_splits)
  moreover have "hd (wg_endpoint w) \<noteq> CHR ''[''" using assms by (cases "wi_ip w") (auto simp: wg_endpoint_def)
  ultimately show ?thesis using assms(1) by (simp add: SplitHostPort_def wg_endpoint_def last_index_split)
qed

end
