(* ===== verification/Flags.thy ===== *)
theory Flags
  imports GoText
begin

text \<open>
  Command lines: package \<open>flag\<close> as both programs use it, with \<open>ExitOnError\<close>, and how a command ends. A
  flag set is the map from the declared names to their values, which are the defaults before parsing.
\<close>

section \<open>How a command ends\<close>

datatype ending = Returned | Fatal string | Exited nat

definition exit_code :: "ending \<Rightarrow> nat" where
  "exit_code e = (case e of Returned \<Rightarrow> 0 | Fatal m \<Rightarrow> 1 | Exited n \<Rightarrow> n)"

text \<open>A command changes a state, prints lines on the standard output, and ends.\<close>

type_synonym 's command = "'s \<Rightarrow> 's \<times> string list \<times> ending"

definition fatal :: "string \<Rightarrow> 's command" where
  "fatal m s = (s, [], Fatal m)"

section \<open>Flags\<close>

datatype flag_value = FStr string | FInt int

type_synonym flags = "string \<rightharpoonup> flag_value"

datatype parsed = Parsed flags | HelpAsked | FlagError string

text \<open>The kind of one argument: the name of a flag and the value after an equals sign that is not its first character.\<close>

datatype arg = NotFlag | BadSyntax | FlagArg string "string option"

definition flag_arg :: "string \<Rightarrow> arg" where
  "flag_arg name =
     (if name = [] \<or> hd name = CHR ''-'' \<or> hd name = CHR ''='' then BadSyntax
      else (case index_of CHR ''='' name of
          None \<Rightarrow> FlagArg name None
        | Some i \<Rightarrow> FlagArg (take i name) (Some (drop (Suc i) name))))"

definition classify :: "string \<Rightarrow> arg" where
  "classify s =
     (if length s < 2 \<or> hd s \<noteq> CHR ''-'' then NotFlag
      else if s = ''--'' then NotFlag
      else if s ! 1 = CHR ''-'' then flag_arg (drop 2 s)
      else flag_arg (drop 1 s))"

definition set_flag :: "flag_value \<Rightarrow> string \<Rightarrow> flag_value option" where
  "set_flag cur v = (case cur of FStr s \<Rightarrow> Some (FStr v) | FInt n \<Rightarrow> map_option FInt (ParseInt0 v))"

text \<open>Parsing stops at the first argument that is not a flag, and at two minus signs alone.\<close>

fun parse_flags :: "flags \<Rightarrow> string list \<Rightarrow> parsed" where
  "parse_flags fs [] = Parsed fs"
| "parse_flags fs (a # args) =
     (case classify a of
        NotFlag \<Rightarrow> Parsed fs
      | BadSyntax \<Rightarrow> FlagError (''bad flag syntax: '' @ a)
      | FlagArg name val \<Rightarrow>
          (case fs name of
             None \<Rightarrow> if name = ''help'' \<or> name = ''h'' then HelpAsked
                     else FlagError (''flag provided but not defined: -'' @ name)
           | Some cur \<Rightarrow>
               (case val of
                  Some v \<Rightarrow>
                    (case set_flag cur v of
                       None \<Rightarrow> FlagError (''invalid value for flag -'' @ name)
                     | Some new \<Rightarrow> parse_flags (fs(name \<mapsto> new)) args)
                | None \<Rightarrow>
                    (case args of
                       [] \<Rightarrow> FlagError (''flag needs an argument: -'' @ name)
                     | v # rest \<Rightarrow>
                         (case set_flag cur v of
                            None \<Rightarrow> FlagError (''invalid value for flag -'' @ name)
                          | Some new \<Rightarrow> parse_flags (fs(name \<mapsto> new)) rest)))))"

definition str_flag :: "flags \<Rightarrow> string \<Rightarrow> string" where
  "str_flag fs name = (case fs name of Some (FStr s) \<Rightarrow> s | _ \<Rightarrow> [])"

definition int_flag :: "flags \<Rightarrow> string \<Rightarrow> int" where
  "int_flag fs name = (case fs name of Some (FInt n) \<Rightarrow> n | _ \<Rightarrow> 0)"

text \<open>\<open>ExitOnError\<close>: help leaves with status 0 and an error with status 2, before the command does anything.\<close>

definition with_flags :: "flags \<Rightarrow> string list \<Rightarrow> (flags \<Rightarrow> 's command) \<Rightarrow> 's command" where
  "with_flags defs args body s =
     (case parse_flags defs args of
        Parsed fs \<Rightarrow> body fs s
      | HelpAsked \<Rightarrow> (s, [], Exited 0)
      | FlagError m \<Rightarrow> (s, [], Exited 2))"

section \<open>Facts\<close>

lemma exit_code_simps [simp]:
  "exit_code Returned = 0" "exit_code (Fatal m) = 1" "exit_code (Exited n) = n"
  by (simp_all add: exit_code_def)

text \<open>What a command line of well-formed pairs parses to: the last value of every flag.\<close>

definition plain_name :: "string \<Rightarrow> bool" where
  "plain_name name \<longleftrightarrow> name \<noteq> [] \<and> hd name \<noteq> CHR ''-'' \<and> CHR ''='' \<notin> set name"

lemma classify_plain: "plain_name name \<Longrightarrow> classify (''--'' @ name) = FlagArg name None"
  by (auto simp: plain_name_def classify_def flag_arg_def neq_Nil_conv index_of_def)

definition written :: "(string \<times> string) list \<Rightarrow> string list" where
  "written kvs = concat (map (\<lambda>(k, v). [''--'' @ k, v]) kvs)"

lemma parse_written:
  assumes "list_all (\<lambda>(k, v). plain_name k \<and> (\<exists>s. fs k = Some (FStr s))) kvs"
  shows "parse_flags fs (written kvs) = Parsed (fs ++ map_of (rev (map (\<lambda>(k, v). (k, FStr v)) kvs)))"
  using assms
proof (induction kvs arbitrary: fs)
  case Nil
  then show ?case by (simp add: written_def)
next
  case (Cons kv kvs)
  obtain k v s where kv: "kv = (k, v)" "plain_name k" "fs k = Some (FStr s)" using Cons.prems by (cases kv) auto
  have "list_all (\<lambda>(k, v). plain_name k \<and> (\<exists>s. (fs(k := Some (FStr x))) k = Some (FStr s))) kvs" for k x
    using Cons.prems by (auto simp: list_all_iff)
  then have "parse_flags (fs(k \<mapsto> FStr v)) (written kvs) =
      Parsed (fs(k \<mapsto> FStr v) ++ map_of (rev (map (\<lambda>(k, v). (k, FStr v)) kvs)))"
    using Cons.prems by (intro Cons.IH) (auto simp: list_all_iff kv)
  then show ?case using kv classify_plain [OF kv(2)]
    by (simp add: written_def set_flag_def map_add_def fun_eq_iff split: option.splits)
qed

end
