(* ===== verification/AgentIO.thy ===== *)
theory AgentIO
  imports Agent
begin

text \<open>
  The loops of the agent beside its sessions: the collectors of \<open>internal/agent/metrics.go\<close>, the
  heartbeat loop of \<open>agent.go\<close>, and the accept loop and the relay of \<open>socks.go\<close>. \<open>gopsutil\<close> is the
  record \<open>probes\<close>; what arrives on a channel, a listener or a connection is a list of events in order.
\<close>

section \<open>System metrics\<close>

text \<open>What the collectors answer: each may fail, and two give lists.\<close>

record probes =
  pb_cpu :: "rat list result"
  pb_load :: "rat result"
  pb_memory :: "(64 word \<times> 64 word) result"
  pb_disk :: "string \<Rightarrow> (64 word \<times> 64 word) result"
  pb_counters :: "(64 word \<times> 64 word) list result"
  pb_uptime :: "64 word result"

definition root_dir :: "string \<Rightarrow> string" where
  "root_dir goos = (if goos = ''windows'' then [CHR ''C'', CHR '':'', CHR 0x5C] else ''/'')"

definition collectSys :: "string \<Rightarrow> probes \<Rightarrow> sys_metrics" where
  "collectSys goos pb =
     (let m0 = zero_sys;
          m1 = (case pb_cpu pb of Inr (pct # rest) \<Rightarrow> m0\<lparr>sm_CPUPct := pct\<rparr> | _ \<Rightarrow> m0);
          m2 = (case pb_load pb of Inr load1 \<Rightarrow> m1\<lparr>sm_Load1 := load1\<rparr> | Inl e \<Rightarrow> m1);
          m3 = (case pb_memory pb of Inr (used, cap) \<Rightarrow> m2\<lparr>sm_MemUsed := used, sm_MemTotal := cap\<rparr> | Inl e \<Rightarrow> m2);
          m4 = (case pb_disk pb (root_dir goos) of
                  Inr (used, cap) \<Rightarrow> m3\<lparr>sm_DiskUsed := used, sm_DiskTotal := cap\<rparr> | Inl e \<Rightarrow> m3);
          m5 = (case pb_counters pb of
                  Inr ((rx, tx) # rest) \<Rightarrow> m4\<lparr>sm_NetRx := rx, sm_NetTx := tx\<rparr> | _ \<Rightarrow> m4)
      in (case pb_uptime pb of Inr up \<Rightarrow> m5\<lparr>sm_UptimeS := up\<rparr> | Inl e \<Rightarrow> m5))"

section \<open>Heartbeats\<close>

text \<open>One turn of the loop: what the environment answers, and the agent as it is then.\<close>

record ('w, 's) beat =
  bt_moment :: moment
  bt_ulid :: string
  bt_probes :: probes
  bt_agent :: "('w, 's) agent"

definition beat_frame :: "('w, 's) agent_env \<Rightarrow> string \<Rightarrow> ('w, 's) beat \<Rightarrow> envelope" where
  "beat_frame ae goos b =
     heartbeat_frame ae (bt_ulid b) (mo_now (bt_moment b)) (collectSys goos (bt_probes b)) (bt_agent b)"

text \<open>
  The frames written until the session stops, and whether the loop closed the connection. A failed
  write closes it; the loop goes on, but nothing is written to a closed connection.
\<close>

fun beats_loop ::
  "('w, 's) agent_env \<Rightarrow> string \<Rightarrow> ('w, 's) beat list \<Rightarrow> bool \<Rightarrow> envelope list \<times> bool" where
  "beats_loop ae goos [] shut = ([], shut)"
| "beats_loop ae goos (b # bs) shut =
     (case agent_write ae ((bt_moment b)\<lparr>mo_writes := mo_writes (bt_moment b) \<and> \<not> shut\<rparr>) (beat_frame ae goos b) of
        (out, Inl e) \<Rightarrow> (let (rest, c) = beats_loop ae goos bs True in (out @ rest, c))
      | (out, Inr u) \<Rightarrow> (let (rest, c) = beats_loop ae goos bs shut in (out @ rest, c)))"

text \<open>\<open>time.NewTicker\<close> panics on a period that is not positive. The first beat does not wait for a tick.\<close>

definition heartbeatLoop ::
  "('w, 's) agent_env \<Rightarrow> string \<Rightarrow> int \<Rightarrow> ('w, 's) beat \<Rightarrow> ('w, 's) beat list \<Rightarrow> (envelope list \<times> bool) result" where
  "heartbeatLoop ae goos period first ticks =
     (if period \<le> 0 then Err (Panic ''non-positive interval for NewTicker'')
      else Ok (beats_loop ae goos (first # ticks) False))"

section \<open>The listener of the exit proxy\<close>

text \<open>\<open>Run\<close> starts it when there is a controller and an address to listen on.\<close>

definition starts_listener :: "exit_controller option \<Rightarrow> string \<Rightarrow> bool" where
  "starts_listener exit listen \<longleftrightarrow> exit \<noteq> None \<and> listen \<noteq> []"

text \<open>\<open>Accept\<close> gives a connection, or an error while the context is done or not.\<close>

datatype 'c accepted = Client 'c | AcceptError bool

text \<open>The connections handed to \<open>handle\<close>, and the result of \<open>Serve\<close> (\<open>None\<close>: still accepting).\<close>

fun accept_loop :: "'c accepted list \<Rightarrow> 'c list \<times> unit result option" where
  "accept_loop [] = ([], None)"
| "accept_loop (Client c # rest) = (let (cs, r) = accept_loop rest in (c # cs, r))"
| "accept_loop (AcceptError ctxDone # rest) = ([], Some (if ctxDone then Ok () else Err (ErrMsg ''accept'')))"

definition exit_Serve :: "(nat \<Rightarrow> bool) \<Rightarrow> (nat \<Rightarrow> bool) \<Rightarrow> 'c accepted list \<Rightarrow> 'c list \<times> unit result option" where
  "exit_Serve listens ctxDone events =
     (case Serve_bind listens ctxDone of
        Bound i \<Rightarrow> accept_loop events
      | BindFailed \<Rightarrow> ([], Some (Err (ErrMsg ''listen'')))
      | Cancelled \<Rightarrow> ([], Some (Err (ErrMsg ''context canceled''))))"

text \<open>
  \<open>relay\<close>: the bytes that arrive on either side until one of the two copies ends; then both
  connections are closed. The result is what the remote and the client have been sent.
\<close>

datatype relay_event = FromClient string | FromRemote string | CopyDone

fun relay :: "relay_event list \<Rightarrow> string \<times> string" where
  "relay [] = ([], [])"
| "relay (FromClient bs # rest) = (let (r, c) = relay rest in (bs @ r, c))"
| "relay (FromRemote bs # rest) = (let (r, c) = relay rest in (r, bs @ c))"
| "relay (CopyDone # rest) = ([], [])"

section \<open>The data directory\<close>

definition DefaultDataDir :: "string \<Rightarrow> string \<Rightarrow> string" where
  "DefaultDataDir goos programData =
     (if goos = ''windows''
      then programData @ [CHR 0x5C] @ ''lightpn'' @ [CHR 0x5C] @ ''identity''
      else ''/var/lib/lightpn/identity'')"

section \<open>Facts\<close>

text \<open>A failing collector leaves its fields zero and the others as they are.\<close>

lemma collectSys_degrades:
  "sm_CPUPct (collectSys goos pb) = (case pb_cpu pb of Inr (pct # rest) \<Rightarrow> pct | _ \<Rightarrow> 0)
   \<and> sm_Load1 (collectSys goos pb) = (case pb_load pb of Inr l \<Rightarrow> l | Inl e \<Rightarrow> 0)
   \<and> (sm_MemUsed (collectSys goos pb), sm_MemTotal (collectSys goos pb))
      = (case pb_memory pb of Inr m \<Rightarrow> m | Inl e \<Rightarrow> (0, 0))
   \<and> (sm_DiskUsed (collectSys goos pb), sm_DiskTotal (collectSys goos pb))
      = (case pb_disk pb (root_dir goos) of Inr d \<Rightarrow> d | Inl e \<Rightarrow> (0, 0))
   \<and> (sm_NetRx (collectSys goos pb), sm_NetTx (collectSys goos pb))
      = (case pb_counters pb of Inr (n # rest) \<Rightarrow> n | _ \<Rightarrow> (0, 0))
   \<and> sm_UptimeS (collectSys goos pb) = (case pb_uptime pb of Inr u \<Rightarrow> u | Inl e \<Rightarrow> 0)"
  unfolding collectSys_def zero_sys_def Let_def
  by (intro conjI) (simp_all split: sum.split list.split prod.split)

lemma beats_closed: "fst (beats_loop ae goos bs True) = []"
  by (induction bs) (auto simp: agent_write_def split: sum.splits prod.splits)

text \<open>As long as every write succeeds each beat is one frame, in order.\<close>

lemma beats_all_written:
  assumes "\<And>b. b \<in> set bs \<Longrightarrow> mo_writes (bt_moment b)"
    and "\<And>b. b \<in> set bs \<Longrightarrow> is_ok (WriteFrame (ae_marshal ae) (beat_frame ae goos b))"
  shows "beats_loop ae goos bs False = (map (beat_frame ae goos) bs, False)"
  using assms
proof (induction bs)
  case (Cons b bs)
  then obtain bytes where "WriteFrame (ae_marshal ae) (beat_frame ae goos b) = Ok bytes"
    by (metis is_ok.elims(2) list.set_intros(1))
  with Cons show ?case by (simp add: agent_write_def)
qed simp

text \<open>After the first beat that could not be written nothing more is, and the connection is closed.\<close>

lemma beats_stop_at_failure:
  assumes "\<And>b. b \<in> set bs \<Longrightarrow> mo_writes (bt_moment b)"
    and "\<And>b. b \<in> set bs \<Longrightarrow> is_ok (WriteFrame (ae_marshal ae) (beat_frame ae goos b))"
    and "\<not> mo_writes (bt_moment b)"
  shows "fst (beats_loop ae goos (bs @ b # rest) False) = map (beat_frame ae goos) bs"
  using assms(1,2)
proof (induction bs)
  case Nil
  then show ?case using assms(3) beats_closed [of ae goos rest]
    by (auto simp: agent_write_def split: sum.splits prod.splits)
next
  case (Cons c bs)
  then obtain bytes where "WriteFrame (ae_marshal ae) (beat_frame ae goos c) = Ok bytes"
    by (metis is_ok.elims(2) list.set_intros(1))
  with Cons show ?case by (auto simp: agent_write_def split: prod.splits)
qed

text \<open>A heartbeat period that is not positive ends the process as soon as the first session is registered.\<close>

lemma heartbeat_zero_panics: "period \<le> 0 \<Longrightarrow> \<not> is_ok (heartbeatLoop ae goos period b bs)"
  by (simp add: heartbeatLoop_def)

text \<open>The relay is cut at the first end: what the other side sends after it is lost.\<close>

lemma relay_cut: "relay (evs @ CopyDone # rest) = relay (evs @ [CopyDone])"
  by (induction evs rule: relay.induct) auto

lemma accept_loop_serves:
  "accept_loop (map Client cs @ AcceptError True # rest) = (cs, Some (Ok ()))"
  by (induction cs) auto

end
