(* ===== verification/AgentCmd.thy ===== *)
theory AgentCmd
  imports Flags AgentIO Config
begin

text \<open>
  The program \<open>cmd/lightpn-agent/main.go\<close>: its sub-commands as functions on the files of the machine,
  with the lines they print (in English) and how they end, and the wiring of the daemon. The record
  \<open>cli_env\<close> holds what the environment provides: platform, service manager, standard input, the two
  answers of the terminal, randomness, and the enrollment connection.
\<close>

section \<open>The environment\<close>

record 's cli_env =
  cl_goos :: string
  cl_ProgramData :: string
  cl_svc :: "'s svc_manager"
  cl_machine :: 's
  cl_marshal :: "json \<Rightarrow> string"
  cl_unmarshal :: "string \<Rightarrow> json option"
  cl_stdin :: string
  cl_isDir :: "string \<Rightarrow> bool"
  cl_pass1 :: "string result"
  cl_pass2 :: "string result"
  cl_sealing :: sealing
  cl_salt :: bytes
  cl_x :: crypto
  cl_entropy :: entropy
  cl_hostname :: string
  cl_ulid :: string
  cl_exchange :: "string \<Rightarrow> envelope \<Rightarrow> envelope result"

definition default_dir :: "'s cli_env \<Rightarrow> string" where
  "default_dir ce = DefaultDataDir (cl_goos ce) (cl_ProgramData ce)"

definition isLoopback :: "string \<Rightarrow> bool" where
  "isLoopback host = (case ParseIP host of None \<Rightarrow> False | Some ip \<Rightarrow> IsLoopback ip)"

section \<open>Services\<close>

text \<open>A prompt is answered with one line of the standard input.\<close>

definition ask :: "string \<Rightarrow> string \<times> string" where
  "ask stdin = (let (line, rest) = read_line stdin in (TrimSpace line, rest))"

text \<open>The answer to the menu: the number of a candidate, or else the name of a unit.\<close>

definition pick_unit :: "string list \<Rightarrow> string \<Rightarrow> string" where
  "pick_unit found line =
     (let (n, ok) = Atoi line in
      if ok \<and> 1 \<le> n \<and> n \<le> int (length found) then found ! (nat n - 1) else line)"

definition ask_unit :: "'s cli_env \<Rightarrow> string \<Rightarrow> string \<Rightarrow> string \<times> string" where
  "ask_unit ce unit stdin =
     (if unit \<noteq> [] then (unit, stdin)
      else (let found = DetectSvcCandidates (cl_svc ce) (cl_machine ce); (line, rest) = ask stdin in
            (if found \<noteq> [] then pick_unit found line else line, rest)))"

definition ask_default :: "string \<Rightarrow> string \<Rightarrow> string \<times> string" where
  "ask_default cur stdin = (if cur \<noteq> [] then (cur, stdin) else ask stdin)"

text \<open>What is printed after a registration.\<close>

definition conf_hint :: "'s cli_env \<Rightarrow> string \<Rightarrow> fs \<Rightarrow> string list" where
  "conf_hint ce conf f =
     (if conf = [] then []
      else if cl_isDir ce conf then [''note: the path is a directory'']
      else if \<not> Stat conf f then [''note: the path cannot be read'']
      else [])"

definition view_key_hint :: "string \<Rightarrow> fs \<Rightarrow> string list" where
  "view_key_hint dir f = (if HasViewKey dir f then [] else [''note: no view password is set''])"

definition svc_added :: "string \<Rightarrow> string \<Rightarrow> string \<Rightarrow> string" where
  "svc_added alias unit conf =
     ''registered '' @ alias @ '' -> '' @ unit @ (if conf = [] then [] else '' (config: '' @ conf @ '')'')"

definition svcAdd :: "'s cli_env \<Rightarrow> string list \<Rightarrow> fs command" where
  "svcAdd ce args = with_flags
     [''data-dir'' \<mapsto> FStr (default_dir ce), ''unit'' \<mapsto> FStr [], ''alias'' \<mapsto> FStr [], ''conf'' \<mapsto> FStr []] args
     (\<lambda>fl f.
       let dir = str_flag fl ''data-dir'';
           (unit, in1) = ask_unit ce (str_flag fl ''unit'') (cl_stdin ce);
           (alias, in2) = ask_default (str_flag fl ''alias'') in1;
           (conf, in3) = ask_default (str_flag fl ''conf'') in2
       in if \<not> sm_Exists (cl_svc ce) unit (cl_machine ce) then fatal (''unknown unit '' @ unit) f
          else (case AddSvc (cl_marshal ce) (cl_unmarshal ce) dir alias unit conf f of
              (f', Inl e) \<Rightarrow> (f', [], Fatal (err_text e))
            | (f', Inr u) \<Rightarrow>
                (f', svc_added alias unit conf # conf_hint ce conf f' @ view_key_hint dir f', Returned)))"

definition svcDel :: "'s cli_env \<Rightarrow> string list \<Rightarrow> fs command" where
  "svcDel ce args = with_flags [''data-dir'' \<mapsto> FStr (default_dir ce), ''alias'' \<mapsto> FStr []] args
     (\<lambda>fl f.
       let alias = str_flag fl ''alias'' in
       if alias = [] then fatal ''usage: lightpn-agent svc-del --alias <name>'' f
       else (case DelSvc (cl_marshal ce) (cl_unmarshal ce) (str_flag fl ''data-dir'') alias f of
           (f', Inl e) \<Rightarrow> (f', [], Fatal (err_text e))
         | (f', Inr u) \<Rightarrow> (f', [''deleted alias '' @ alias], Returned)))"

text \<open>\<open>%-20s\<close> of a text that is valid UTF-8: the width counts characters, not their continuation bytes.\<close>

definition rune_count :: "string \<Rightarrow> nat" where
  "rune_count s = length (filter (\<lambda>c. (of_char c :: nat) < 128 \<or> 192 \<le> (of_char c :: nat)) s)"

definition pad_right :: "nat \<Rightarrow> string \<Rightarrow> string" where
  "pad_right n s = s @ replicate (n - rune_count s) CHR '' ''"

definition svc_row :: "'s cli_env \<Rightarrow> svc_entry \<Rightarrow> string" where
  "svc_row ce e =
     (let (active, enabled) = sm_Status (cl_svc ce) (se_Unit e) (cl_machine ce) in
      pad_right 20 (se_Alias e) @ '' '' @ pad_right 30 (se_Unit e) @ '' ''
        @ pad_right 10 (active @ ''/'' @ enabled) @ '' '' @ (if se_Conf e = [] then ''-'' else se_Conf e))"

definition svcList :: "'s cli_env \<Rightarrow> string list \<Rightarrow> fs command" where
  "svcList ce args = with_flags [''data-dir'' \<mapsto> FStr (default_dir ce)] args
     (\<lambda>fl f.
       case LoadSvcReg (cl_unmarshal ce) (str_flag fl ''data-dir'') f of
         Inl e \<Rightarrow> fatal (err_text e) f
       | Inr reg \<Rightarrow>
           if reg = [] then (f, [''no service registered''], Returned)
           else (f, map (svc_row ce) reg, Returned))"

section \<open>The view password\<close>

definition setViewPass :: "'s cli_env \<Rightarrow> string list \<Rightarrow> fs command" where
  "setViewPass ce args = with_flags [''data-dir'' \<mapsto> FStr (default_dir ce)] args
     (\<lambda>fl f.
       case cl_pass1 ce of
         Inl e \<Rightarrow> fatal (''read password: '' @ err_text e) f
       | Inr p1 \<Rightarrow>
           (case cl_pass2 ce of
              Inl e \<Rightarrow> fatal (''read password: '' @ err_text e) f
            | Inr p2 \<Rightarrow>
                if p1 \<noteq> p2 then fatal ''the two entries differ'' f
                else if p1 = [] then fatal ''empty password'' f
                else (case SetViewPassword (cl_sealing ce) (cl_marshal ce) (str_flag fl ''data-dir'') p1 (cl_salt ce) f of
                    (f', Inl e) \<Rightarrow> (f', [], Fatal (err_text e))
                  | (f', Inr u) \<Rightarrow> (f', [''view password set''], Returned))))"

definition clearViewPass :: "'s cli_env \<Rightarrow> string list \<Rightarrow> fs command" where
  "clearViewPass ce args = with_flags [''data-dir'' \<mapsto> FStr (default_dir ce)] args
     (\<lambda>fl f.
       case ClearViewPassword (str_flag fl ''data-dir'') f of
         (f', Inl e) \<Rightarrow> (f', [], Fatal (err_text e))
       | (f', Inr u) \<Rightarrow> (f', [''view password cleared''], Returned))"

section \<open>Enrollment\<close>

text \<open>
  \<open>agent.Enroll\<close>: \<open>cl_exchange\<close> dials the given address, writes one frame and reads one; its error is that
  of the dial, of the write or of the read.
\<close>

definition agent_Enroll :: "'s cli_env \<Rightarrow> string \<Rightarrow> string \<Rightarrow> string \<Rightarrow> fs \<Rightarrow> fs \<times> identity result" where
  "agent_Enroll ce hubAddr tok dir f =
     (case enroll_request (cl_x ce) (cl_entropy ce) (cl_hostname ce) tok (cl_ulid ce) of
        Inl e \<Rightarrow> (f, Err e)
      | Inr (keyPEM, req) \<Rightarrow>
          (case cl_exchange ce hubAddr req of
             Inl e \<Rightarrow> (f, Err (ErrMsg (''read enroll response: '' @ err_text e)))
           | Inr reply \<Rightarrow> enroll_answer (cl_x ce) (cl_marshal ce) dir keyPEM reply f))"

definition enroll :: "'s cli_env \<Rightarrow> string list \<Rightarrow> fs command" where
  "enroll ce args = with_flags
     [''hub'' \<mapsto> FStr [], ''token'' \<mapsto> FStr [], ''data-dir'' \<mapsto> FStr (default_dir ce)] args
     (\<lambda>fl f.
       let hub = str_flag fl ''hub''; tok = str_flag fl ''token''; dir = str_flag fl ''data-dir'' in
       if hub = [] \<or> tok = [] then fatal ''usage: lightpn-agent enroll --hub <ip>:7440 --token <token>'' f
       else if is_ok (LoadIdentity (cl_unmarshal ce) dir f)
       then fatal (''identity already exists in '' @ dir) f
       else (case agent_Enroll ce hub tok dir f of
           (f', Inl e) \<Rightarrow> (f', [], Fatal (err_text e))
         | (f', Inr i) \<Rightarrow>
             (f', [''enrolled: node '' @ id_NodeID i @ '', overlay '' @ id_OverlayIP i,
                   ''start the agent with: lightpn-agent --data-dir '' @ dir], Returned)))"

section \<open>The daemon\<close>

definition linux_NewWGManager :: "unit result \<Rightarrow> 'k \<Rightarrow> 'k linuxWG result" where
  "linux_NewWGManager client k =
     (case client of
        Inl e \<Rightarrow> Err (ErrMsg (''wgctrl (is the wireguard kernel module loaded?): '' @ err_text e))
      | Inr u \<Rightarrow> Ok \<lparr>lw_kernel = k, lw_priv = [], lw_port = 0, lw_peerNodes = Map.empty, lw_nodeKeys = Map.empty\<rparr>)"

definition stub_NewWGManager :: "stubWG result" where
  "stub_NewWGManager = Ok \<lparr>sw_pub = [], sw_port = 0, sw_peerNodes = Map.empty, sw_nodeKeys = Map.empty\<rparr>"

text \<open>
  The exit proxy: the controller, the address to listen on, and the port told to the hub (0 for none).
\<close>

definition exit_bind :: "int \<Rightarrow> string \<Rightarrow> string \<Rightarrow> string \<times> int" where
  "exit_bind socksPort socksListen overlayIP =
     (if socksListen = [] then
        (let port = (if socksPort = 0 then 1080 else socksPort) in
         (JoinHostPort (takeWhile (\<lambda>c. c \<noteq> CHR ''/'') overlayIP) (itoa_int port), port))
      else if socksPort = 0 then
        (case SplitHostPort socksListen of None \<Rightarrow> (socksListen, 0) | Some (h, p) \<Rightarrow> (socksListen, fst (Atoi p)))
      else (socksListen, socksPort))"

definition advertised :: "string \<Rightarrow> int \<Rightarrow> int" where
  "advertised bind port =
     (case SplitHostPort bind of None \<Rightarrow> 0 | Some (host, p) \<Rightarrow> if isLoopback host then 0 else port)"

definition exit_settings ::
  "(string \<Rightarrow> bool) \<Rightarrow> int \<Rightarrow> string \<Rightarrow> string \<Rightarrow> string \<Rightarrow> (exit_controller option \<times> string \<times> int) result" where
  "exit_settings ok socksPort socksListen exitVia overlayIP =
     (if socksPort > 0 \<or> socksListen \<noteq> [] \<or> exitVia \<noteq> [] then
        (case NewExitController ok exitVia of
           Inl e \<Rightarrow> Err (ErrMsg (''exit controller: '' @ err_text e))
         | Inr ec \<Rightarrow>
             (let (bind, port) = exit_bind socksPort socksListen overlayIP in
              Ok (Some ec, bind, advertised bind port)))
      else Ok (None, [], 0))"

text \<open>What the daemon gets from the machine, beside the environment of the commands.\<close>

record ('w, 's) daemon_env =
  dm_cli :: "'s cli_env"
  dm_newWG :: "'w result"
  dm_wg :: "'w wg_ops"
  dm_ok :: "string \<Rightarrow> bool"
  dm_pick :: picker
  dm_OS :: string
  dm_gen :: "string result"
  dm_attempts :: "nat \<Rightarrow> attempt"

definition daemon_flags :: "'s cli_env \<Rightarrow> flags" where
  "daemon_flags ce = [''data-dir'' \<mapsto> FStr (default_dir ce), ''wg-port'' \<mapsto> FInt 51820, ''heartbeat-s'' \<mapsto> FInt 15,
     ''socks-port'' \<mapsto> FInt 0, ''socks-listen'' \<mapsto> FStr [], ''exit-via'' \<mapsto> FStr []]"

text \<open>The fields of the \<open>Agent\<close> that are set before \<open>Run\<close>, in the two records of the model.\<close>

definition daemon_agent_env :: "('w, 's) daemon_env \<Rightarrow> flags \<Rightarrow> int \<Rightarrow> ('w, 's) agent_env" where
  "daemon_agent_env de fl socksPort =
     \<lparr>ae_wg = dm_wg de, ae_svc = Some (cl_svc (dm_cli de)), ae_ok = dm_ok de, ae_pick = dm_pick de,
      ae_seal = cl_sealing (dm_cli de), ae_x = cl_x (dm_cli de), ae_marshal = cl_marshal (dm_cli de),
      ae_unmarshal = cl_unmarshal (dm_cli de), ae_WGPort = int_flag fl ''wg-port'', ae_SocksPort = socksPort,
      ae_OS = dm_OS de\<rparr>"

definition daemon_agent ::
  "('w, 's) daemon_env \<Rightarrow> identity \<Rightarrow> 'w \<Rightarrow> exit_controller option \<Rightarrow> fs \<Rightarrow> ('w, 's) agent" where
  "daemon_agent de i w ec f =
     \<lparr>ag_ID = i, ag_wg = w, ag_svc = cl_machine (dm_cli de), ag_Exit = ec, ag_svcSeen = Map.empty, ag_wgPub = [],
      ag_wgListenPort = 0, ag_fs = f\<rparr>"

definition heartbeat_period :: "flags \<Rightarrow> int" where
  "heartbeat_period fl = seconds (int_flag fl ''heartbeat-s'')"

definition daemon_ending :: "session_error \<Rightarrow> ending" where
  "daemon_ending e = (case e of Kicked \<Rightarrow> Exited 0 | Failed err \<Rightarrow> Fatal (err_text err))"

text \<open>The files in the end, and how the process ends; \<open>None\<close> is a daemon that runs for ever.\<close>

definition run_daemon :: "('w, 's) daemon_env \<Rightarrow> flags \<Rightarrow> fs \<Rightarrow> (fs \<times> ending) option" where
  "run_daemon de fl f =
     (case LoadIdentity (cl_unmarshal (dm_cli de)) (str_flag fl ''data-dir'') f of
        Inl e \<Rightarrow> Some (f, Fatal (''no identity in '' @ str_flag fl ''data-dir''))
      | Inr i \<Rightarrow>
          (case dm_newWG de of
             Inl e \<Rightarrow> Some (f, Fatal (err_text e))
           | Inr w \<Rightarrow>
               (case exit_settings (dm_ok de) (int_flag fl ''socks-port'') (str_flag fl ''socks-listen'')
                       (str_flag fl ''exit-via'') (id_OverlayIP i) of
                  Inl e \<Rightarrow> Some (f, Fatal (err_text e))
                | Inr (ec, listen, port) \<Rightarrow>
                    map_option (\<lambda>(a, sleeps, e).
                        (ag_fs a, daemon_ending e))
                      (Run (daemon_agent_env de fl port) (dm_gen de) (dm_attempts de) (daemon_agent de i w ec f)))))"

definition run :: "('w, 's) daemon_env \<Rightarrow> string list \<Rightarrow> fs \<Rightarrow> (fs \<times> ending) option" where
  "run de args f =
     (case parse_flags (daemon_flags (dm_cli de)) args of
        Parsed fl \<Rightarrow> run_daemon de fl f
      | HelpAsked \<Rightarrow> Some (f, Exited 0)
      | FlagError m \<Rightarrow> Some (f, Exited 2))"

section \<open>The program\<close>

definition subcommand :: "'s cli_env \<Rightarrow> string \<Rightarrow> (string list \<Rightarrow> fs command) option" where
  "subcommand ce name =
     (if name = ''enroll'' then Some (enroll ce)
      else if name = ''set-view-pass'' then Some (setViewPass ce)
      else if name = ''clear-view-pass'' then Some (clearViewPass ce)
      else if name = ''svc-add'' then Some (svcAdd ce)
      else if name = ''svc-del'' then Some (svcDel ce)
      else if name = ''svc-list'' then Some (svcList ce)
      else None)"

text \<open>\<open>main\<close> on the arguments after the program's name; anything but a sub-command runs the daemon.\<close>

definition agent_main :: "('w, 's) daemon_env \<Rightarrow> string list \<Rightarrow> fs \<Rightarrow> (fs \<times> string list \<times> ending) option" where
  "agent_main de args f =
     (case (case args of [] \<Rightarrow> None | name # rest \<Rightarrow> map_option (\<lambda>c. c rest) (subcommand (dm_cli de) name)) of
        Some c \<Rightarrow> Some (c f)
      | None \<Rightarrow> map_option (\<lambda>(f', e). (f', [], e)) (run de args f))"

end
