(* ===== verification/AgentCmdProps.thy ===== *)
theory AgentCmdProps
  imports AgentCmd SvcProps AgentProps EnrollProps
begin

text \<open>
  What the commands of the agent guarantee: an identity is obtained once, a kicked daemon stays down, a
  registered service exists, the view password is the one that was typed twice, and where the exit proxy
  listens and what the hub is told.
\<close>

section \<open>Enrollment\<close>

lemma enroll_parsed:
  assumes "parse_flags [''hub'' \<mapsto> FStr [], ''token'' \<mapsto> FStr [], ''data-dir'' \<mapsto> FStr (default_dir ce)] args = Parsed fl"
  shows "enroll ce args f =
     (let hub = str_flag fl ''hub''; tok = str_flag fl ''token''; dir = str_flag fl ''data-dir'' in
       if hub = [] \<or> tok = [] then fatal ''usage: lightpn-agent enroll --hub <ip>:7440 --token <token>'' f
       else if is_ok (LoadIdentity (cl_unmarshal ce) dir f)
       then fatal (''identity already exists in '' @ dir) f
       else (case agent_Enroll ce hub tok dir f of
           (f', Inl e) \<Rightarrow> (f', [], Fatal (err_text e))
         | (f', Inr i) \<Rightarrow>
             (f', [''enrolled: node '' @ id_NodeID i @ '', overlay '' @ id_OverlayIP i,
                   ''start the agent with: lightpn-agent --data-dir '' @ dir], Returned)))"
  using assms by (simp add: enroll_def with_flags_def Let_def)

lemma agent_Enroll_OkD:
  assumes "agent_Enroll ce hub tok dir f = (f', Ok i)"
  obtains keyPEM req reply where "enroll_request (cl_x ce) (cl_entropy ce) (cl_hostname ce) tok (cl_ulid ce) = Ok (keyPEM, req)"
    and "cl_exchange ce hub req = Ok reply"
    and "enroll_answer (cl_x ce) (cl_marshal ce) dir keyPEM reply f = (f', Ok i)"
  using assms by (auto simp: agent_Enroll_def split: sum.splits prod.splits)

lemma agent_Enroll_loads:
  assumes "agent_Enroll ce hub tok dir f = (f', Ok i)" and "fs_hidden f = {}"
    and "cl_unmarshal ce (cl_marshal ce (enc_identity i)) = Some (enc_identity i)"
  shows "LoadIdentity (cl_unmarshal ce) dir f' = Ok i \<and> id_Dir i = dir"
proof -
  obtain keyPEM req reply where a: "enroll_answer (cl_x ce) (cl_marshal ce) dir keyPEM reply f = (f', Ok i)"
    using assms(1) by (rule agent_Enroll_OkD)
  then obtain ack where ack: "dec_enroll_ack (env_Data reply) = Some ack"
    by (auto simp: enroll_answer_def split: if_splits option.splits)
  note i = enroll_answer_Ok [OF a ack]
  have "ReadFile (statePath dir) f' = Inr (cl_marshal ce (enc_identity i))"
    using Save_read(4) [OF i(6)] assms(2) i(1) by simp
  then show ?thesis using assms(3) i(1) by (simp add: LoadIdentity_def dec_identity_enc)
qed

text \<open>
  C13: an identity is obtained once. After a successful enrollment the data directory loads as the node of
  the hub's answer, and no later enrollment there, with any token, hub and answer, changes a file or ends
  with success; it never overwrites a working identity.
\<close>

theorem enrolled_once:
  assumes first: "enroll ce args f = (f1, out, Returned)" and vis: "fs_hidden f = {}"
    and codec: "\<And>i. agent_Enroll ce (str_flag fl ''hub'') (str_flag fl ''token'') (str_flag fl ''data-dir'') f = (f1, Ok i) \<Longrightarrow>
      cl_unmarshal ce (cl_marshal ce (enc_identity i)) = Some (enc_identity i)"
    and fl: "parse_flags [''hub'' \<mapsto> FStr [], ''token'' \<mapsto> FStr [], ''data-dir'' \<mapsto> FStr (default_dir ce)] args = Parsed fl"
    and later: "parse_flags [''hub'' \<mapsto> FStr [], ''token'' \<mapsto> FStr [], ''data-dir'' \<mapsto> FStr (default_dir ce')] args' = Parsed fl'"
    and same: "str_flag fl' ''data-dir'' = str_flag fl ''data-dir''" "cl_unmarshal ce' = cl_unmarshal ce"
  shows "(\<exists>i. LoadIdentity (cl_unmarshal ce) (str_flag fl ''data-dir'') f1 = Ok i \<and> id_Dir i = str_flag fl ''data-dir''
      \<and> hd out = ''enrolled: node '' @ id_NodeID i @ '', overlay '' @ id_OverlayIP i)
    \<and> fst (enroll ce' args' f1) = f1 \<and> exit_code (snd (snd (enroll ce' args' f1))) = 1"
proof -
  let ?dir = "str_flag fl ''data-dir''"
  obtain i where i: "agent_Enroll ce (str_flag fl ''hub'') (str_flag fl ''token'') ?dir f = (f1, Ok i)"
    and out: "hd out = ''enrolled: node '' @ id_NodeID i @ '', overlay '' @ id_OverlayIP i"
    using first by (auto simp: enroll_parsed [OF fl] Let_def fatal_def split: if_splits prod.splits sum.splits)
  have l: "LoadIdentity (cl_unmarshal ce) ?dir f1 = Ok i \<and> id_Dir i = ?dir"
    by (rule agent_Enroll_loads [OF i vis codec [OF i]])
  then have "fst (enroll ce' args' f1) = f1 \<and> exit_code (snd (snd (enroll ce' args' f1))) = 1"
    using same by (simp add: enroll_parsed [OF later] Let_def fatal_def)
  with l out show ?thesis by blast
qed

section \<open>The daemon\<close>

lemma run_parsed:
  "parse_flags (daemon_flags (dm_cli de)) args = Parsed fl \<Longrightarrow> run de args f = run_daemon de fl f"
  by (simp add: run_def)

lemma run_daemon_no_identity:
  "\<not> is_ok (LoadIdentity (cl_unmarshal (dm_cli de)) (str_flag fl ''data-dir'') f) \<Longrightarrow>
     run_daemon de fl f = Some (f, Fatal (''no identity in '' @ str_flag fl ''data-dir''))"
  by (cases "LoadIdentity (cl_unmarshal (dm_cli de)) (str_flag fl ''data-dir'') f") (simp_all add: run_daemon_def)

lemma daemon_ending_zero: "exit_code (daemon_ending e) = 0 \<longleftrightarrow> e = Kicked"
  by (cases e) (simp_all add: daemon_ending_def)

lemma run_daemon_ends:
  assumes "run_daemon de fl f = Some (f', e)" and "exit_code e = 0"
  obtains i w ec listen port a sleeps where "LoadIdentity (cl_unmarshal (dm_cli de)) (str_flag fl ''data-dir'') f = Ok i"
    and "Run (daemon_agent_env de fl port) (dm_gen de) (dm_attempts de) (daemon_agent de i w ec f) = Some (a, sleeps, Kicked)"
    and "f' = ag_fs a"
  using assms by (auto simp: run_daemon_def daemon_ending_zero split: sum.splits)

lemma wiped_no_identity:
  assumes "wiped ae a a'" and "statePath (id_Dir (ag_ID a)) \<notin> fs_denied (ag_fs a)" and "id_Dir (ag_ID a) \<noteq> []"
  shows "\<not> is_ok (LoadIdentity unmarshal (id_Dir (ag_ID a)) (ag_fs a'))"
proof -
  have "below (id_Dir (ag_ID a)) (statePath (id_Dir (ag_ID a)))"
    using assms(3) by (simp add: below_def statePath_def Join_def)
  then have "fs_files (ag_fs a') (statePath (id_Dir (ag_ID a))) = None" using assms(1,2) by (simp add: wiped_def)
  then show ?thesis by (simp add: LoadIdentity_def ReadFile_def)
qed

text \<open>
  C22: a kicked daemon stays down. The daemon ends with status 0, the one status on which the service unit
  does not restart it, only after a kick; then its identity is gone, and any later start on the same data
  directory ends at once with status 1, without touching a file.
\<close>

theorem kicked_daemon_stays_down:
  assumes run: "run de args f = Some (f', e)" and fl: "parse_flags (daemon_flags (dm_cli de)) args = Parsed fl"
    and own: "\<And>i. LoadIdentity (cl_unmarshal (dm_cli de)) (str_flag fl ''data-dir'') f = Ok i \<Longrightarrow> id_Dir i = str_flag fl ''data-dir''"
    and dir: "str_flag fl ''data-dir'' \<noteq> []" "statePath (str_flag fl ''data-dir'') \<notin> fs_denied f"
    and zero: "exit_code e = 0"
    and later: "parse_flags (daemon_flags (dm_cli de')) args' = Parsed fl'"
    and same: "str_flag fl' ''data-dir'' = str_flag fl ''data-dir''"
  shows "(\<exists>i w ec port a sleeps. f' = ag_fs a
      \<and> Run (daemon_agent_env de fl port) (dm_gen de) (dm_attempts de) (daemon_agent de i w ec f) = Some (a, sleeps, Kicked))
    \<and> (\<exists>m. run de' args' f' = Some (f', Fatal m))"
proof -
  obtain i w ec listen port a sleeps
    where l: "LoadIdentity (cl_unmarshal (dm_cli de)) (str_flag fl ''data-dir'') f = Ok i"
      and r: "Run (daemon_agent_env de fl port) (dm_gen de) (dm_attempts de) (daemon_agent de i w ec f) = Some (a, sleeps, Kicked)"
      and f': "f' = ag_fs a"
    using run zero unfolding run_parsed [OF fl] by (rule run_daemon_ends)
  have id: "id_Dir i = str_flag fl ''data-dir''" by (rule own [OF l])
  obtain w' pubkey p where "run_done (daemon_agent_env de fl port) (dm_attempts de) 0 Second
      (booted (daemon_agent de i w ec f) w' pubkey p) (a, sleeps)"
    using Run_kickedD [OF r] by metis
  then have "wiped (daemon_agent_env de fl port) (daemon_agent de i w ec f) a"
    using booted_keeps keeps_wiped by (metis run_done_def fst_conv)
  from wiped_no_identity [OF this, of "cl_unmarshal (dm_cli de')"]
  have "\<not> is_ok (LoadIdentity (cl_unmarshal (dm_cli de')) (str_flag fl' ''data-dir'') f')"
    using dir same id by (simp add: daemon_agent_def f')
  then have "\<exists>m. run de' args' f' = Some (f', Fatal m)"
    unfolding run_parsed [OF later] by (simp add: run_daemon_no_identity)
  with r f' show ?thesis by blast
qed

section \<open>The exit proxy\<close>

definition is_127 :: "ipv4 \<Rightarrow> bool" where
  "is_127 a \<longleftrightarrow> As4 a ! 0 = 127"

lemma isLoopback_v4: "isLoopback (addr_String a) \<longleftrightarrow> is_127 a"
proof -
  have "unat (As4 a ! 0) = unat (127 :: 8 word) \<longleftrightarrow> As4 a ! 0 = 127" by (simp only: word_unat_eq_iff)
  moreover have "unat (127 :: 8 word) = 127" by simp
  ultimately have "unat (As4 a ! 0) = 127 \<longleftrightarrow> As4 a ! 0 = 127" by metis
  then show ?thesis by (simp add: isLoopback_def ParseIP_v4 IsLoopback_def is_127_def As4_def nth_append)
qed

lemma itoa_int_plain: "c \<in> set (itoa_int n) \<Longrightarrow> c \<noteq> CHR '':'' \<and> c \<noteq> CHR ''['' \<and> c \<noteq> CHR '']''"
  using itoa_plain by (auto simp: itoa_int_def split: if_splits)

lemma SplitHostPort_v4: "SplitHostPort (addr_String a @ CHR '':'' # itoa_int n) = Some (addr_String a, itoa_int n)"
  by (rule SplitHostPort_plain) (auto dest: itoa_int_plain dotted_plain simp: addr_String_def)

text \<open>Without an address of its own the proxy listens on the overlay address, and that port is told to the hub.\<close>

lemma exit_on_overlay:
  assumes "exit_settings ok socksPort [] exitVia (addr_String a @ ''/'' @ bits) = Ok (Some ec, bind, port)"
  shows "bind = addr_String a @ CHR '':'' # itoa_int (if socksPort = 0 then 1080 else socksPort)
    \<and> port = (if is_127 a then 0 else if socksPort = 0 then 1080 else socksPort)"
proof -
  have t: "takeWhile (\<lambda>c. c \<noteq> CHR ''/'') (addr_String a @ CHR ''/'' # bits) = addr_String a"
    using takeWhile_until [of "CHR ''/''" "addr_String a" bits] dotted_plain [of "CHR ''/''"]
    by (auto simp: addr_String_def)
  have j: "JoinHostPort (addr_String a) p = addr_String a @ CHR '':'' # p" for p
    using dotted_plain [of _ "map unat (As4 a)"] by (auto simp: JoinHostPort_def addr_String_def)
  show ?thesis using assms
    by (auto simp: exit_settings_def exit_bind_def t j advertised_def SplitHostPort_v4 isLoopback_v4 Let_def
        split: if_splits sum.splits)
qed

text \<open>
  Two settings where the port told to the hub is not one that other nodes can reach: the name
  \<open>localhost\<close> is not recognised as loopback, and a port given beside an address of its own wins over the
  port that is bound.
\<close>

lemma localhost_is_advertised:
  "exit_settings ok 0 ''localhost:1080'' [] overlayIP
     = Ok (Some \<lparr>ec_up = None, ec_override = None, ec_exits = Map.empty\<rparr>, ''localhost:1080'', 1080)"
proof -
  have "SplitHostPort ''localhost:1080'' = Some (''localhost'', ''1080'')"
    using SplitHostPort_plain [of "''localhost''" "''1080''"] by simp
  moreover have "Atoi ''1080'' = (1080, True)" by code_simp
  moreover have "isLoopback ''localhost'' = False" by code_simp
  ultimately show ?thesis
    by (simp add: exit_settings_def NewExitController_def exit_bind_def advertised_def)
qed

lemma wrong_port_is_advertised:
  "exit_settings ok 2000 ''0.0.0.0:1080'' [] overlayIP
     = Ok (Some \<lparr>ec_up = None, ec_override = None, ec_exits = Map.empty\<rparr>, ''0.0.0.0:1080'', 2000)"
proof -
  have "SplitHostPort ''0.0.0.0:1080'' = Some (''0.0.0.0'', ''1080'')"
    using SplitHostPort_plain [of "''0.0.0.0''" "''1080''"] by simp
  moreover have "isLoopback ''0.0.0.0'' = False" by code_simp
  ultimately show ?thesis
    by (simp add: exit_settings_def NewExitController_def exit_bind_def advertised_def)
qed

text \<open>The period of the heartbeat is not checked: zero reaches the ticker, which panics.\<close>

lemma heartbeat_flag_unchecked:
  "int_flag fl ''heartbeat-s'' = 0 \<Longrightarrow> \<not> is_ok (heartbeatLoop ae goos (heartbeat_period fl) b bs)"
  by (rule heartbeat_zero_panics) (simp add: heartbeat_period_def seconds_id)

section \<open>Registering a service\<close>

lemma find_key_same_set:
  assumes "set xs = set ys" and "distinct (map k xs)" and "distinct (map k ys)"
  shows "find (\<lambda>q. k q = a) xs = find (\<lambda>q. k q = a) ys"
proof (cases "find (\<lambda>q. k q = a) xs")
  case None
  then have "find (\<lambda>q. k q = a) ys = None" using assms(1) by (auto simp: find_None_iff)
  with None show ?thesis by simp
next
  case (Some r)
  then have "r \<in> set ys" "k r = a" using assms(1) find_SomeD [OF Some] by auto
  with Some find_key_Some [OF assms(3)] show ?thesis by metis
qed

lemma saved_registry:
  assumes "text_laws marshal unmarshal" and "svcRegPath dir \<notin> fs_hidden f"
    and "reg_ok reg" and "\<forall>e \<in> set reg. valid_utf8 (se_Conf e)" and "saveSvcReg marshal dir reg f = (f', Ok u)"
  shows "LoadSvcReg unmarshal dir f' = Ok (sort_key se_Alias reg)"
proof -
  have "unmarshal (marshal (enc_list enc_svc_entry (sort_key se_Alias reg))) = Some (enc_list enc_svc_entry (sort_key se_Alias reg))"
    using assms(1,3,4) by (simp add: text_laws_def reg_ok_def)
  then show ?thesis using assms(2,5)
    by (auto simp: saveSvcReg_def LoadSvcReg_def ReadFile_def WriteFile_def dec_registry_enc split: if_splits)
qed

lemma save_refused: "saveSvcReg marshal dir reg f = (f', Err e) \<Longrightarrow> f' = f"
  by (auto simp: saveSvcReg_def WriteFile_def split: if_splits)

lemma AddSvc_refused: "AddSvc marshal unmarshal dir al unit conf f = (f', Err e) \<Longrightarrow> f' = f"
  by (auto simp: AddSvc_def split: if_splits sum.splits option.splits dest: save_refused)

lemma AddSvc_lookup:
  assumes "AddSvc marshal unmarshal dir al unit conf f = (f', Ok u)" and "text_laws marshal unmarshal"
    and "registry_inv unmarshal dir f" and "valid_utf8 conf"
  shows "lookupSvc unmarshal dir al' f' = (if al' = al then Ok unit else lookupSvc unmarshal dir al' f)"
proof -
  obtain reg where reg: "LoadSvcReg unmarshal dir f = Ok reg" "reg_ok reg" "\<forall>e \<in> set reg. valid_utf8 (se_Conf e)"
    and vis: "svcRegPath dir \<notin> fs_hidden f"
    using assms(3) by (auto simp: registry_inv_def)
  let ?e = "\<lparr>se_Alias = al, se_Unit = unit, se_Conf = conf\<rparr>"
  have new: "find (\<lambda>e. se_Alias e = al \<or> se_Unit e = unit) reg = None" "entry_ok ?e"
    and save: "saveSvcReg marshal dir (reg @ [?e]) f = (f', Ok u)"
    using assms(1) reg(1) by (auto simp: AddSvc_def entry_ok_def split: if_splits option.splits)
  have ok: "reg_ok (reg @ [?e])" using reg(2) new by (auto simp: reg_ok_def find_None_iff)
  have "LoadSvcReg unmarshal dir f' = Ok (sort_key se_Alias (reg @ [?e]))"
    using reg(3) assms(4) by (intro saved_registry [OF assms(2) vis ok _ save]) auto
  moreover have "find (\<lambda>e. se_Alias e = al') (sort_key se_Alias (reg @ [?e])) = find (\<lambda>e. se_Alias e = al') (reg @ [?e])"
    using ok reg_ok_sort [of "reg @ [?e]"] by (intro find_key_same_set) (auto simp: reg_ok_def)
  moreover have "find (\<lambda>e. se_Alias e = al') (reg @ [?e])
      = (if al' = al then Some ?e else find (\<lambda>e. se_Alias e = al') reg)"
    using new(1) by (induction reg) (auto split: if_splits)
  ultimately show ?thesis using reg(1) by (auto simp: lookupSvc_def split: option.split)
qed

text \<open>
  C26: \<open>svc-add\<close> registers what was asked for or nothing. With the unit, alias and path taken from the
  flags or the answers to the prompts, it either ends with an error and changes no file, or the service
  manager knows the unit, the alias now stands for it, and every other alias for what it did before.
\<close>

theorem svc_add_registers:
  assumes run: "svcAdd ce args f = (f', out, e)"
    and fl: "parse_flags [''data-dir'' \<mapsto> FStr (default_dir ce), ''unit'' \<mapsto> FStr [], ''alias'' \<mapsto> FStr [], ''conf'' \<mapsto> FStr []]
      args = Parsed fl"
    and unit: "ask_unit ce (str_flag fl ''unit'') (cl_stdin ce) = (unit, in1)"
    and al: "ask_default (str_flag fl ''alias'') in1 = (al, in2)"
    and conf: "ask_default (str_flag fl ''conf'') in2 = (conf, in3)" "valid_utf8 conf"
    and laws: "text_laws (cl_marshal ce) (cl_unmarshal ce)"
    and inv: "registry_inv (cl_unmarshal ce) (str_flag fl ''data-dir'') f"
  shows "(exit_code e \<noteq> 0 \<longrightarrow> f' = f)
    \<and> (exit_code e = 0 \<longrightarrow> sm_Exists (cl_svc ce) unit (cl_machine ce)
        \<and> (\<forall>al'. lookupSvc (cl_unmarshal ce) (str_flag fl ''data-dir'') al' f' =
              (if al' = al then Ok unit else lookupSvc (cl_unmarshal ce) (str_flag fl ''data-dir'') al' f)))"
proof (cases "sm_Exists (cl_svc ce) unit (cl_machine ce)")
  case False
  then show ?thesis using run by (auto simp: svcAdd_def with_flags_def fl unit al conf(1) fatal_def)
next
  case True
  obtain g r where add: "AddSvc (cl_marshal ce) (cl_unmarshal ce) (str_flag fl ''data-dir'') al unit conf f = (g, r)"
    by fastforce
  show ?thesis
  proof (cases r)
    case (Inl err)
    then show ?thesis using run True add AddSvc_refused [of _ _ _ _ _ _ f g]
      by (auto simp: svcAdd_def with_flags_def fl unit al conf(1))
  next
    case (Inr u)
    then show ?thesis using run True add AddSvc_lookup [OF add [unfolded Inr] laws inv conf(2)]
      by (auto simp: svcAdd_def with_flags_def fl unit al conf(1))
  qed
qed

section \<open>The view password\<close>

lemma StdEncode_not_Nil: "bs \<noteq> [] \<Longrightarrow> StdEncode bs \<noteq> []"
proof
  assume bs: "bs \<noteq> []" and "StdEncode bs = []"
  then have "StdDecode [] = Some bs" using StdDecode_StdEncode [of bs] by simp
  with bs show False by (simp add: StdDecode_def)
qed

text \<open>What is used of the libraries: the text of a view key reads back, and a derived key has the length asked for.\<close>

definition view_laws :: "(json \<Rightarrow> string) \<Rightarrow> (string \<Rightarrow> json option) \<Rightarrow> sealing \<Rightarrow> bool" where
  "view_laws marshal unmarshal sl \<longleftrightarrow>
     (\<forall>v. vk_MemKiB v < 2 ^ 32 \<and> vk_Time v < 2 ^ 32 \<and> vk_Par v < 2 ^ 8
        \<and> valid_utf8 (vk_KDF v) \<and> valid_utf8 (vk_Salt v) \<and> valid_utf8 (vk_Key v) \<longrightarrow>
        unmarshal (marshal (enc_view_key v)) = Some (enc_view_key v))
     \<and> (\<forall>p s t m q n key. sl_argon sl p s t m q n = Ok key \<longrightarrow> length key = n)"

lemma sextet_char_ascii: "v < 64 \<Longrightarrow> (of_char (sextet_char v) :: nat) < 128"
  by (simp add: sextet_char_def of_char_of) arith

lemma StdEncode_utf8: "valid_utf8 (StdEncode bs)"
  by (rule valid_utf8_ascii) (auto simp: StdEncode_def RawEncode_def pad_of_def sextet_char_ascii dest: sextets_bound)

lemma view_key_names_utf8: "valid_utf8 ''kdf''" "valid_utf8 ''m_kib''" "valid_utf8 ''t''" "valid_utf8 ''p''" "valid_utf8 ''salt''"
  "valid_utf8 ''key''" "valid_utf8 viewKDF"
  by (rule valid_utf8_ascii, simp add: viewKDF_def)+

lemma go_view_laws:
  "(\<And>p s t m q n key. sl_argon sl p s t m q n = Ok key \<Longrightarrow> length key = n) \<Longrightarrow> view_laws (MarshalIndent ff) Unmarshal sl"
  by (auto simp: view_laws_def enc_view_key_def view_key_names_utf8 maxNestingDepth_def intro!: Unmarshal_MarshalIndent)

lemma SetViewPassword_loads:
  assumes laws: "view_laws marshal unmarshal sl" and set: "SetViewPassword sl marshal dir p salt f = (f', Ok u)"
    and vis: "viewKeyPath dir \<notin> fs_hidden f" and salt: "salt \<noteq> []"
  obtains key where "sl_argon sl p salt viewTime viewMemKiB viewPar viewKeyLen = Ok key" and "length key = viewKeyLen"
    and "loadViewKey unmarshal dir f' = Ok (Some \<lparr>vk_KDF = viewKDF, vk_MemKiB = viewMemKiB, vk_Time = viewTime,
          vk_Par = viewPar, vk_Salt = StdEncode salt, vk_Key = StdEncode key\<rparr>)"
proof -
  obtain key where key: "sl_argon sl p salt viewTime viewMemKiB viewPar viewKeyLen = Ok key"
    using set by (auto simp: SetViewPassword_def split: if_splits sum.splits)
  let ?vk = "\<lparr>vk_KDF = viewKDF, vk_MemKiB = viewMemKiB, vk_Time = viewTime, vk_Par = viewPar,
    vk_Salt = StdEncode salt, vk_Key = StdEncode key\<rparr>"
  have len: "length key = viewKeyLen" using laws key by (auto simp: view_laws_def)
  have nonempty: "key \<noteq> []" using len by (auto simp: viewKeyLen_def)
  have "unmarshal (marshal (enc_view_key ?vk)) = Some (enc_view_key ?vk)" "dec_view_key (enc_view_key ?vk) = Some ?vk"
    using laws dec_view_key_enc [of ?vk] by (simp_all add: view_laws_def viewMemKiB_def viewTime_def viewPar_def StdEncode_utf8 view_key_names_utf8)
  moreover have "ReadFile (viewKeyPath dir) f' = Inr (marshal (enc_view_key ?vk))"
    using set key vis by (auto simp: SetViewPassword_def WriteFile_def ReadFile_def Let_def split: if_splits)
  ultimately have "loadViewKey unmarshal dir f' = Ok (Some ?vk)"
    using StdEncode_not_Nil [OF salt] StdEncode_not_Nil [OF nonempty] by (simp add: loadViewKey_def)
  with that key len show thesis by blast
qed

lemma SetViewPassword_refused: "SetViewPassword sl marshal dir p salt f = (f', Err e) \<Longrightarrow> f' = f"
  by (auto simp: SetViewPassword_def WriteFile_def Let_def split: if_splits sum.splits)

text \<open>The result of a collection seals under the stored key, with the parameters it was derived with.\<close>

lemma sealed_with:
  assumes "loadViewKey unmarshal dir f = Ok (Some vk)" and "view_key_bytes vk = Some key"
  shows "\<exists>plain. cr_Enc (sealToolConf sl marshal unmarshal dir nonce svc f s res) =
    Some \<lparr>ce_KDF = vk_KDF vk, ce_MemKiB = vk_MemKiB vk, ce_Time = vk_Time vk, ce_Par = vk_Par vk, ce_Salt = vk_Salt vk,
      ce_Nonce = StdEncode nonce, ce_CT = StdEncode (sl_Seal sl key nonce (sl_gzip sl plain))\<rparr>"
  using assms by (auto simp: sealToolConf_def seal_def Let_def)

text \<open>
  C28: \<open>set-view-pass\<close> stores the password that was typed, and the browser needs nothing else. The command
  ends with an error and changes nothing, or both entries were the same non-empty password; then commands
  are authenticated under the key derived from it, and every collection leaves the agent with a
  ciphertext under that same key and with the salt and parameters from which the password gives the key.
\<close>

theorem view_pass_is_the_typed_one:
  assumes run: "setViewPass ce args f = (f', out, e)"
    and fl: "parse_flags [''data-dir'' \<mapsto> FStr (default_dir ce)] args = Parsed fl"
    and laws: "view_laws (cl_marshal ce) (cl_unmarshal ce) (cl_sealing ce)" and salt: "cl_salt ce \<noteq> []"
    and vis: "viewKeyPath (str_flag fl ''data-dir'') \<notin> fs_hidden f"
  shows "(exit_code e \<noteq> 0 \<longrightarrow> f' = f)
    \<and> (exit_code e = 0 \<longrightarrow> (\<exists>p key. cl_pass1 ce = Ok p \<and> cl_pass2 ce = Ok p \<and> p \<noteq> []
        \<and> command_key (cl_unmarshal ce) (str_flag fl ''data-dir'') f' = Ok key
        \<and> (\<forall>nonce svc s res. \<exists>enc plain. cr_Enc (sealToolConf (cl_sealing ce) (cl_marshal ce) (cl_unmarshal ce)
              (str_flag fl ''data-dir'') nonce svc f' s res) = Some enc
            \<and> ce_CT enc = StdEncode (sl_Seal (cl_sealing ce) key nonce (sl_gzip (cl_sealing ce) plain))
            \<and> (\<exists>bytes. StdDecode (ce_Salt enc) = Some bytes
                \<and> sl_argon (cl_sealing ce) p bytes (ce_Time enc) (ce_MemKiB enc) (ce_Par enc) 32 = Ok key))))"
proof (cases "exit_code e = 0")
  case True
  let ?sl = "cl_sealing ce" and ?dir = "str_flag fl ''data-dir''"
  obtain p where p: "cl_pass1 ce = Ok p" "cl_pass2 ce = Ok p" "p \<noteq> []"
    and set: "SetViewPassword ?sl (cl_marshal ce) ?dir p (cl_salt ce) f = (f', Ok ())"
    using run True by (auto simp: setViewPass_def with_flags_def fl fatal_def split: sum.splits if_splits prod.splits)
  obtain key where key: "sl_argon ?sl p (cl_salt ce) viewTime viewMemKiB viewPar viewKeyLen = Ok key"
    "length key = viewKeyLen"
    and vk: "loadViewKey (cl_unmarshal ce) ?dir f' = Ok (Some \<lparr>vk_KDF = viewKDF, vk_MemKiB = viewMemKiB, vk_Time = viewTime,
          vk_Par = viewPar, vk_Salt = StdEncode (cl_salt ce), vk_Key = StdEncode key\<rparr>)"
    by (rule SetViewPassword_loads [OF laws set vis salt])
  let ?vk = "\<lparr>vk_KDF = viewKDF, vk_MemKiB = viewMemKiB, vk_Time = viewTime, vk_Par = viewPar,
    vk_Salt = StdEncode (cl_salt ce), vk_Key = StdEncode key\<rparr>"
  have bytes: "view_key_bytes ?vk = Some key" using key(2) by (simp add: view_key_bytes_def)
  have "command_key (cl_unmarshal ce) ?dir f' = Ok key" using vk bytes by (simp add: command_key_def)
  moreover have "\<exists>enc plain. cr_Enc (sealToolConf ?sl (cl_marshal ce) (cl_unmarshal ce) ?dir nonce svc f' s res) = Some enc
            \<and> ce_CT enc = StdEncode (sl_Seal ?sl key nonce (sl_gzip ?sl plain))
            \<and> (\<exists>bytes. StdDecode (ce_Salt enc) = Some bytes
                \<and> sl_argon ?sl p bytes (ce_Time enc) (ce_MemKiB enc) (ce_Par enc) 32 = Ok key)" for nonce svc s res
    using sealed_with [OF vk bytes, of ?sl "cl_marshal ce" nonce svc s res] key(1) by (auto simp: viewKeyLen_def)
  ultimately show ?thesis using p True by blast
next
  case False
  then show ?thesis using run
    by (auto simp: setViewPass_def with_flags_def fl fatal_def split: sum.splits if_splits prod.splits
        dest: SetViewPassword_refused)
qed

text \<open>\<open>clear-view-pass\<close> ends both uses: no command runs and no content is sent any more.\<close>

lemma cleared_disables:
  assumes "clearViewPass ce args f = (f', out, Returned)"
    and "parse_flags [''data-dir'' \<mapsto> FStr (default_dir ce)] args = Parsed fl"
  shows "snd (fst (handleSvcAction sl unmarshal (str_flag fl ''data-dir'') svc f' d now (seen, s))) = s"
    and "\<not> sr_OK (snd (handleSvcAction sl unmarshal (str_flag fl ''data-dir'') svc f' d now (seen, s)))"
    and "cr_Files (sealToolConf sl marshal unmarshal (str_flag fl ''data-dir'') nonce svc f' s res) = []"
    and "cr_NoKey (sealToolConf sl marshal unmarshal (str_flag fl ''data-dir'') nonce svc f' s res)"
proof -
  let ?p = "viewKeyPath (str_flag fl ''data-dir'')"
  have "fs_files f' ?p = None"
    using assms by (auto simp: clearViewPass_def with_flags_def ClearViewPassword_def Remove_def
        split: sum.splits if_splits option.splits file_error.splits prod.splits)
  then have none: "loadViewKey unmarshal (str_flag fl ''data-dir'') f' = Ok None"
    by (simp add: loadViewKey_def ReadFile_def)
  then show "snd (fst (handleSvcAction sl unmarshal (str_flag fl ''data-dir'') svc f' d now (seen, s))) = s"
    and "\<not> sr_OK (snd (handleSvcAction sl unmarshal (str_flag fl ''data-dir'') svc f' d now (seen, s)))"
    and "cr_Files (sealToolConf sl marshal unmarshal (str_flag fl ''data-dir'') nonce svc f' s res) = []"
    and "cr_NoKey (sealToolConf sl marshal unmarshal (str_flag fl ''data-dir'') nonce svc f' s res)"
    by (simp_all add: handleSvcAction_def openSvcCmd_def command_key_def Let_def sealToolConf_def zero_conf_result_def)
qed

section \<open>On a machine\<close>

lemma demo_text [simp]: "demo_unmarshal (demo_marshal j) = Some j"
  by (simp add: demo_marshal_def demo_unmarshal_def)

definition demo_view_sealing :: sealing where
  "demo_view_sealing = \<lparr>sl_argon = (\<lambda>pw salt t m p n. Ok (replicate n 0)), sl_Seal = (\<lambda>k n p. p),
     sl_Open = (\<lambda>k n c. None), sl_gzip = (\<lambda>s. [])\<rparr>"

definition demo_cli :: "(string \<Rightarrow> bool) cli_env" where
  "demo_cli = \<lparr>cl_goos = ''linux'', cl_ProgramData = [], cl_svc = stubSvc, cl_machine = (\<lambda>u. False),
     cl_marshal = demo_marshal, cl_unmarshal = demo_unmarshal, cl_stdin = ''2'' @ [newline],
     cl_isDir = (\<lambda>p. False), cl_pass1 = Ok ''pw'', cl_pass2 = Ok ''pw'', cl_sealing = demo_view_sealing, cl_salt = [1],
     cl_x = demo_x, cl_entropy = demo_entropy, cl_hostname = ''h'', cl_ulid = ''e'',
     cl_exchange = (\<lambda>addr req. Ok (NewEnvelope TypeEnrollAck ''e'' (enc_enroll_ack demo_ack)))\<rparr>"

lemma demo_cli_sels [simp]:
  "cl_svc demo_cli = stubSvc" "cl_machine demo_cli = (\<lambda>u. False)" "cl_marshal demo_cli = demo_marshal"
  "cl_unmarshal demo_cli = demo_unmarshal" "cl_pass1 demo_cli = Ok ''pw''" "cl_pass2 demo_cli = Ok ''pw''"
  "cl_sealing demo_cli = demo_view_sealing" "cl_salt demo_cli = [1]" "cl_stdin demo_cli = ''2'' @ [newline]"
  by (simp_all add: demo_cli_def)

definition demo_enroll_args :: "string list" where
  "demo_enroll_args = written [(''hub'', ''h:7440''), (''token'', ''lp_tok''), (''data-dir'', ''a'')]"

lemma demo_enroll_flags:
  "parse_flags [''hub'' \<mapsto> FStr [], ''token'' \<mapsto> FStr [], ''data-dir'' \<mapsto> FStr (default_dir ce)] demo_enroll_args
    = Parsed [''hub'' \<mapsto> FStr ''h:7440'', ''token'' \<mapsto> FStr ''lp_tok'', ''data-dir'' \<mapsto> FStr ''a'']"
  unfolding demo_enroll_args_def by (subst parse_written) (auto simp: plain_name_def fun_eq_iff)

lemma demo_cli_enroll: "\<exists>f1 out. enroll demo_cli demo_enroll_args demo_fs = (f1, out, Returned)"
proof -
  have "\<not> is_ok (LoadIdentity demo_unmarshal ''a'' demo_fs)"
    by (simp add: LoadIdentity_def ReadFile_def demo_fs_def)
  moreover obtain f1 i where "enroll_answer demo_x demo_marshal ''a'' (demo_pem ''EC PRIVATE KEY'' ''key'')
      (NewEnvelope TypeEnrollAck ''e'' (enc_enroll_ack demo_ack)) demo_fs = (f1, Ok i)"
    by (simp add: enroll_answer_def demo_ack_def CAFingerprintOf_def demo_x_def demo_crypto_def demo_unpem_pem type_defs
      Save_def MkdirAll_def WriteFile_def demo_fs_def Let_def)
  ultimately show ?thesis
    by (simp add: enroll_parsed [OF demo_enroll_flags] str_flag_def demo_cli_def agent_Enroll_def demo_request
        demo_request_def)
qed

theorem enrolled_once_witness:
  "\<exists>f1 out i. enroll demo_cli demo_enroll_args demo_fs = (f1, out, Returned) \<and> LoadIdentity demo_unmarshal ''a'' f1 = Ok i
     \<and> fst (enroll demo_cli demo_enroll_args f1) = f1"
proof -
  obtain f1 out where e: "enroll demo_cli demo_enroll_args demo_fs = (f1, out, Returned)" using demo_cli_enroll by blast
  have "fs_hidden demo_fs = {}" by (simp add: demo_fs_def)
  from enrolled_once [OF e this _ demo_enroll_flags demo_enroll_flags]
  show ?thesis using e by (fastforce simp: demo_cli_def str_flag_def)
qed

text \<open>A daemon whose first session ends with a kick.\<close>

definition demo_daemon :: "(stubWG, string \<Rightarrow> bool) daemon_env" where
  "demo_daemon = \<lparr>dm_cli = demo_cli\<lparr>cl_marshal := (\<lambda>j. ''{}''), cl_unmarshal := (\<lambda>s. Some (enc_identity (ag_ID demo_agent)))\<rparr>,
     dm_newWG = stub_NewWGManager, dm_wg = stub_manager (\<lambda>m. []), dm_ok = (\<lambda>addr. True),
     dm_pick = (\<lambda>m. []), dm_OS = ''linux/amd64'', dm_gen = Ok ''k1'', dm_attempts = (\<lambda>k. demo_attempts 1)\<rparr>"

abbreviation demo_flags :: flags where
  "demo_flags \<equiv> (daemon_flags (dm_cli demo_daemon))(''data-dir'' \<mapsto> FStr ''a'')"

lemma demo_daemon_flags: "parse_flags (daemon_flags (dm_cli demo_daemon)) (written [(''data-dir'', ''a'')]) = Parsed demo_flags"
  by (subst parse_written) (auto simp: plain_name_def daemon_flags_def fun_eq_iff)

lemma demo_daemon_identity:
  "LoadIdentity (cl_unmarshal (dm_cli demo_daemon)) ''a'' (ag_fs demo_agent) = Ok (ag_ID demo_agent)"
  by (simp add: LoadIdentity_def ReadFile_def demo_daemon_def dec_identity_enc statePath_def Join_def demo_agent_def demo_fs_def)

lemma kicked_at_once:
  fixes ae :: "(stubWG, 's) agent_env"
  assumes "ae_x ae = demo_x" "ae_marshal ae = (\<lambda>j. ''{}'')" "ae_wg ae = stub_manager (\<lambda>m. [])"
    and "ag_ID a = ag_ID demo_agent" "ag_fs a = ag_fs demo_agent"
  shows "snd (snd (agent_session ae (demo_attempts 1) a)) = Kicked"
proof -
  obtain cfg where "TLSConfig demo_x (ag_ID demo_agent) (ag_fs demo_agent) = Ok cfg"
    using demo_TLSConfig by (cases "TLSConfig demo_x (ag_ID demo_agent) (ag_fs demo_agent)") auto
  moreover have "agent_write ae demo_moment env = ([env], Inr ())" for env
    by (simp add: agent_write_def WriteFrame_def frame_bytes_def MaxFrame_def assms(2) demo_moment_def)
  moreover have "wo_Reconcile (ae_wg ae) [] w = (stub_Reconcile [] w, Ok ())" for w
    by (simp add: assms(3) stub_manager_def)
  moreover have "ra_PeersExpected demo_reg_ack = []" by (simp add: demo_reg_ack_def)
  ultimately show ?thesis
    by (simp add: agent_session_def assms(1,4,5) demo_attempts_def register_answer_def NewEnvelope_def type_defs
        dispatch_def dispatch_kick_def Let_def)
qed

lemma demo_daemon_run: "\<exists>f'. run demo_daemon (written [(''data-dir'', ''a'')]) (ag_fs demo_agent) = Some (f', Exited 0)"
proof -
  let ?w = "\<lparr>sw_pub = [], sw_port = 0, sw_peerNodes = Map.empty, sw_nodeKeys = Map.empty\<rparr>"
  let ?ae = "daemon_agent_env demo_daemon demo_flags 0"
  let ?a = "daemon_agent demo_daemon (ag_ID demo_agent) ?w None (ag_fs demo_agent)"
  have init: "init_device_of ?ae (Ok ''k1'') ?a = (?w\<lparr>sw_pub := ''k1'', sw_port := 51820\<rparr>, Ok (''k1'', 51820))"
    by (simp add: init_device_of_def daemon_agent_env_def daemon_agent_def demo_daemon_def stub_manager_def stub_Init_def
        stub_key_def int_flag_def daemon_flags_def)
  let ?b = "booted ?a (?w\<lparr>sw_pub := ''k1'', sw_port := 51820\<rparr>) ''k1'' 51820"
  have "snd (snd (agent_session ?ae (demo_attempts 1) ?b)) = Kicked"
    by (rule kicked_at_once) (simp_all add: daemon_agent_env_def demo_daemon_def demo_cli_def booted_def daemon_agent_def)
  then obtain a' where "run_loop ?ae (\<lambda>k. demo_attempts 1) 0 Second ?b = Some (a', [])"
    by (subst (asm) run_loop_unfold) simp
  then have "Run ?ae (Ok ''k1'') (\<lambda>k. demo_attempts 1) ?a = Some (a', [], Kicked)"
    by (simp add: Run_eq init)
  moreover have "dm_gen demo_daemon = Ok ''k1''" "dm_attempts demo_daemon = (\<lambda>k. demo_attempts 1)"
    "dm_newWG demo_daemon = Ok ?w" by (simp_all add: demo_daemon_def stub_NewWGManager_def)
  moreover have "exit_settings ok 0 [] [] ip = Ok (None, [], 0)" for ok ip by (simp add: exit_settings_def)
  ultimately show ?thesis
    by (simp add: run_parsed [OF demo_daemon_flags] run_daemon_def str_flag_def int_flag_def daemon_flags_def
        demo_daemon_identity daemon_ending_def)
qed

theorem kicked_daemon_stays_down_witness:
  "\<exists>f' m. run demo_daemon (written [(''data-dir'', ''a'')]) (ag_fs demo_agent) = Some (f', Exited 0)
     \<and> run demo_daemon (written [(''data-dir'', ''a'')]) f' = Some (f', Fatal m)"
proof -
  obtain f' where r: "run demo_daemon (written [(''data-dir'', ''a'')]) (ag_fs demo_agent) = Some (f', Exited 0)"
    using demo_daemon_run by blast
  have "id_Dir i = ''a''" if "LoadIdentity (cl_unmarshal (dm_cli demo_daemon)) ''a'' (ag_fs demo_agent) = Ok i" for i
    using that demo_daemon_identity by (simp add: demo_agent_def)
  with kicked_daemon_stays_down [OF r demo_daemon_flags _ _ _ _ demo_daemon_flags refl]
  have "\<exists>m. run demo_daemon (written [(''data-dir'', ''a'')]) f' = Some (f', Fatal m)"
    by (simp add: str_flag_def demo_agent_def demo_fs_def)
  with r show ?thesis by blast
qed

text \<open>The second candidate of the menu is chosen by its number; the alias and no configuration file follow.\<close>

definition demo_add_args :: "string list" where
  "demo_add_args = written [(''data-dir'', ''a''), (''alias'', ''box'')]"

lemma demo_add_flags:
  "parse_flags [''data-dir'' \<mapsto> FStr (default_dir ce), ''unit'' \<mapsto> FStr [], ''alias'' \<mapsto> FStr [], ''conf'' \<mapsto> FStr []] demo_add_args
    = Parsed [''data-dir'' \<mapsto> FStr ''a'', ''unit'' \<mapsto> FStr [], ''alias'' \<mapsto> FStr ''box'', ''conf'' \<mapsto> FStr []]"
  unfolding demo_add_args_def by (subst parse_written) (auto simp: plain_name_def fun_eq_iff)

theorem svc_add_registers_witness:
  "\<exists>f' out. svcAdd demo_cli demo_add_args no_files = (f', out, Returned)
     \<and> lookupSvc demo_unmarshal ''a'' ''box'' f' = Ok ''sing-box.service''"
proof -
  have unit: "ask_unit demo_cli [] (cl_stdin demo_cli) = (''sing-box.service'', [])"
  proof -
    have "ask (''2'' @ [newline]) = (''2'', [])" by code_simp
    moreover have "pick_unit svcCandidateUnits ''2'' = ''sing-box.service''" by code_simp
    ultimately show ?thesis
      by (simp add: ask_unit_def DetectSvcCandidates_def stubSvc_def) (simp add: svcCandidateUnits_def)
  qed
  have conf: "ask_default [] [] = ([], [])" by code_simp
  have al: "ask_default ''box'' [] = (''box'', [])" by (simp add: ask_default_def)
  have inv: "registry_inv demo_unmarshal ''a'' no_files"
    by (simp add: registry_inv_def no_files_def LoadSvcReg_def ReadFile_def reg_ok_def)
  have shapes: "aliasRE ''box''" "unitRE ''sing-box.service''" by code_simp+
  have "LoadSvcReg demo_unmarshal ''a'' no_files = Ok []" by (simp add: no_files_def LoadSvcReg_def ReadFile_def)
  then have run: "\<exists>f' out. svcAdd demo_cli demo_add_args no_files = (f', out, Returned)"
    using unit conf al shapes
    by (simp add: svcAdd_def with_flags_def demo_add_flags str_flag_def AddSvc_def saveSvcReg_def WriteFile_def stubSvc_def)
      (simp add: no_files_def Let_def)
  then obtain f' out where r: "svcAdd demo_cli demo_add_args no_files = (f', out, Returned)" by blast
  have "text_laws (cl_marshal demo_cli) (cl_unmarshal demo_cli)" by (simp add: text_laws_def)
  with svc_add_registers [OF r demo_add_flags] unit conf al inv
  have "lookupSvc (cl_unmarshal demo_cli) ''a'' ''box'' f' = Ok ''sing-box.service''"
    by (auto simp: str_flag_def)
  with r show ?thesis by auto
qed

theorem view_pass_is_the_typed_one_witness:
  "\<exists>f' out. setViewPass demo_cli (written [(''data-dir'', ''a'')]) no_files = (f', out, Returned)
     \<and> command_key demo_unmarshal ''a'' f' = Ok (replicate 32 0)"
proof -
  let ?fl = "[''data-dir'' \<mapsto> FStr ''a'']"
  have fl: "parse_flags [''data-dir'' \<mapsto> FStr (default_dir demo_cli)] (written [(''data-dir'', ''a'')]) = Parsed ?fl"
    by (subst parse_written) (auto simp: plain_name_def fun_eq_iff)
  obtain f' out where r: "setViewPass demo_cli (written [(''data-dir'', ''a'')]) no_files = (f', out, Returned)"
    by (simp add: setViewPass_def with_flags_def fl SetViewPassword_def demo_view_sealing_def MkdirAll_def
        WriteFile_def no_files_def Let_def)
  have "view_laws (cl_marshal demo_cli) (cl_unmarshal demo_cli) (cl_sealing demo_cli)"
    by (simp add: view_laws_def demo_view_sealing_def)
  with view_pass_is_the_typed_one [OF r fl]
  obtain p key where "cl_pass1 demo_cli = Ok p" "command_key (cl_unmarshal demo_cli) ''a'' f' = Ok key"
    and "\<exists>enc bytes. sl_argon (cl_sealing demo_cli) p bytes (ce_Time (enc :: conf_enc)) (ce_MemKiB enc) (ce_Par enc) 32 = Ok key"
    by (fastforce simp: str_flag_def no_files_def)
  then show ?thesis using r by (auto simp: demo_view_sealing_def)
qed

end
