(* ===== verification/Migrate.thy ===== *)
theory Migrate
  imports StoreWf
begin

text \<open>
  Opening the database, \<open>OpenStore\<close>, \<open>migrate\<close> and \<open>hasColumn\<close> of \<open>internal/hub/store.go\<close>. A database file
  is its catalog (the columns of its tables) and its rows; a link row of a table without the column
  \<open>exit_node\<close> has a meaningless \<open>link_ExitNode\<close>. SQLite itself is the record \<open>sqlite\<close> of the outcomes of
  the four statements; what the statements do when they succeed is modelled.
\<close>

record database =
  db_columns :: "string \<rightharpoonup> string list"
  db_rows :: store

definition new_database :: database where
  "new_database = \<lparr>db_columns = Map.empty, db_rows = empty_store\<rparr>"

record sqlite =
  sq_open :: "unit result"
  sq_schema :: "unit result"
  sq_query :: "unit result"
  sq_alter :: "unit result"

section \<open>The statements\<close>

text \<open>The tables of the constant \<open>schema\<close>, each made only when it is missing.\<close>

definition schema :: "(string \<times> string list) list" where
  "schema =
     [(''nodes'', [''id'', ''name'', ''overlay_ip'', ''cert_serial'', ''created_at'', ''last_seen'', ''revoked'']),
      (''links'', [''id'', ''a'', ''b'', ''created_at'', ''exit_node'']),
      (''tokens'', [''id'', ''hash'', ''note'', ''expires_at'', ''used_at'']),
      (''admins'', [''id'', ''username'', ''pw_hash'']),
      (''ip_cooldown'', [''overlay_ip'', ''freed_at'']),
      (''svc_names'', [''node_id'', ''alias'', ''display''])]"

definition create_if_missing :: "string \<times> string list \<Rightarrow> (string \<rightharpoonup> string list) \<Rightarrow> (string \<rightharpoonup> string list)" where
  "create_if_missing t cat = (case cat (fst t) of None \<Rightarrow> cat(fst t \<mapsto> snd t) | Some cols \<Rightarrow> cat)"

definition create_tables :: "database \<Rightarrow> database" where
  "create_tables d = d\<lparr>db_columns := fold create_if_missing schema (db_columns d)\<rparr>"

definition hasColumn :: "sqlite \<Rightarrow> string \<Rightarrow> string \<Rightarrow> database \<Rightarrow> bool" where
  "hasColumn sq table col d =
     (if \<not> is_ok (sq_query sq) then False
      else (case db_columns d table of None \<Rightarrow> False | Some cols \<Rightarrow> col \<in> set cols))"

text \<open>
  \<open>ALTER TABLE links ADD COLUMN exit_node TEXT NOT NULL DEFAULT ''\<close>: an error on a column that exists,
  and the default in every row.
\<close>

definition add_exit_node :: "sqlite \<Rightarrow> database \<Rightarrow> database \<times> unit result" where
  "add_exit_node sq d =
     (case db_columns d ''links'' of
        None \<Rightarrow> (d, Err (ErrMsg ''no such table: links''))
      | Some cols \<Rightarrow>
          if ''exit_node'' \<in> set cols then (d, Err (ErrMsg ''duplicate column name: exit_node''))
          else (case sq_alter sq of
              Inl e \<Rightarrow> (d, Err e)
            | Inr u \<Rightarrow>
                (d\<lparr>db_columns := (db_columns d)(''links'' \<mapsto> cols @ [''exit_node'']),
                   db_rows := (db_rows d)\<lparr>st_links := map (\<lambda>l. l\<lparr>link_ExitNode := []\<rparr>) (st_links (db_rows d))\<rparr>\<rparr>, Ok ())))"

definition migrate :: "sqlite \<Rightarrow> database \<Rightarrow> database \<times> unit result" where
  "migrate sq d = (if \<not> hasColumn sq ''links'' ''exit_node'' d then add_exit_node sq d else (d, Ok ()))"

definition OpenStore :: "sqlite \<Rightarrow> database \<Rightarrow> database \<times> store result" where
  "OpenStore sq d =
     (case sq_open sq of
        Inl e \<Rightarrow> (d, Err e)
      | Inr u \<Rightarrow>
          (case sq_schema sq of
             Inl e \<Rightarrow> (d, Err e)
           | Inr u \<Rightarrow>
               (case migrate sq (create_tables d) of
                  (d', Inl e) \<Rightarrow> (d', Err e)
                | (d', Inr u) \<Rightarrow> (d', Ok (db_rows d')))))"

section \<open>What opening gives\<close>

definition all_ok :: sqlite where
  "all_ok = \<lparr>sq_open = Ok (), sq_schema = Ok (), sq_query = Ok (), sq_alter = Ok ()\<rparr>"

text \<open>An older table has the columns of this version, but perhaps not the exit node.\<close>

definition older :: "(string \<rightharpoonup> string list) \<Rightarrow> bool" where
  "older cat \<longleftrightarrow> (\<forall>(t, cols) \<in> set schema. \<forall>cs. cat t = Some cs \<longrightarrow>
     set cols - {''exit_node''} \<subseteq> set cs)"

text \<open>Every column that the methods of the store name is there.\<close>

definition current :: "(string \<rightharpoonup> string list) \<Rightarrow> bool" where
  "current cat \<longleftrightarrow> (\<forall>(t, cols) \<in> set schema. \<exists>cs. cat t = Some cs \<and> set cols \<subseteq> set cs)"

lemma create_fold:
  "distinct (map fst ts) \<Longrightarrow> fold create_if_missing ts cat t =
     (case cat t of Some cs \<Rightarrow> Some cs | None \<Rightarrow> map_of ts t)"
proof (induction ts arbitrary: cat)
  case (Cons c ts)
  then show ?case
    by (auto simp: create_if_missing_def map_of_eq_None_iff split: option.split)
qed (simp split: option.split)

lemma created_tables:
  "db_columns (create_tables d) t = (case db_columns d t of Some cs \<Rightarrow> Some cs | None \<Rightarrow> map_of schema t)"
proof -
  have "distinct (map fst schema)" by (simp add: schema_def)
  then show ?thesis by (simp add: create_tables_def create_fold)
qed

lemma create_tables_rows [simp]: "db_rows (create_tables d) = db_rows d"
  by (simp add: create_tables_def)

lemma create_tables_current: "current (db_columns d) \<Longrightarrow> create_tables d = d"
  by (auto simp: create_tables_def current_def schema_def create_if_missing_def intro!: database.equality)

definition without_exits :: "store \<Rightarrow> store" where
  "without_exits s = s\<lparr>st_links := map (\<lambda>l. l\<lparr>link_ExitNode := []\<rparr>) (st_links s)\<rparr>"

definition has_exits :: "database \<Rightarrow> bool" where
  "has_exits d \<longleftrightarrow> (case db_columns d ''links'' of None \<Rightarrow> True | Some cs \<Rightarrow> ''exit_node'' \<in> set cs)"

lemma created_links:
  "\<exists>cs. db_columns (create_tables d) ''links'' = Some cs \<and> (''exit_node'' \<in> set cs \<longleftrightarrow> has_exits d)"
  by (auto simp: created_tables has_exits_def schema_def split: option.split)

lemma migrate_cases:
  assumes "migrate sq (create_tables d) = (d', Ok u)"
  shows "has_exits d \<and> d' = create_tables d
    \<or> (\<exists>cs. \<not> has_exits d \<and> db_columns (create_tables d) ''links'' = Some cs
        \<and> d' = (create_tables d)\<lparr>db_columns := (db_columns (create_tables d))(''links'' \<mapsto> cs @ [''exit_node'']),
              db_rows := without_exits (db_rows d)\<rparr>)"
  using assms created_links [of d]
  by (auto simp: migrate_def hasColumn_def add_exit_node_def without_exits_def split: if_splits sum.splits option.splits)

lemma OpenStore_cases:
  assumes "OpenStore sq d = (d', Ok s)"
  obtains u where "migrate sq (create_tables d) = (d', Ok u)" and "s = db_rows d'"
  using assms by (auto simp: OpenStore_def split: sum.splits prod.splits)

lemma OpenStore_rows:
  assumes "OpenStore sq d = (d', Ok s)"
  shows "s = db_rows d'" and "db_rows d' = (if has_exits d then db_rows d else without_exits (db_rows d))"
  using assms by (auto elim!: OpenStore_cases dest!: migrate_cases)

lemma OpenStore_failed: "OpenStore sq d = (d', Err e) \<Longrightarrow> db_rows d' = db_rows d"
  by (auto simp: OpenStore_def migrate_def add_exit_node_def split: sum.splits prod.splits if_splits option.splits)

lemma OpenStore_current:
  assumes "OpenStore sq d = (d', Ok s)" and "older (db_columns d)"
  shows "current (db_columns d')"
proof -
  obtain u where m: "migrate sq (create_tables d) = (d', Ok u)" using assms(1) by (rule OpenStore_cases)
  have c: "\<exists>cs. db_columns (create_tables d) t = Some cs \<and> set cols - {''exit_node''} \<subseteq> set cs"
    if "(t, cols) \<in> set schema" for t cols
  proof (cases "db_columns d t")
    case None
    have "map_of schema t = Some cols" using that by (auto simp: schema_def)
    with None show ?thesis by (auto simp: created_tables)
  next
    case (Some cs)
    with that assms(2) have "set cols - {''exit_node''} \<subseteq> set cs" by (fastforce simp: older_def)
    with Some show ?thesis by (simp add: created_tables)
  qed
  show ?thesis unfolding current_def
  proof (intro ballI, clarify)
    fix t cols
    assume t: "(t, cols) \<in> set schema"
    have only: "''exit_node'' \<in> set cols \<longrightarrow> t = ''links''" using t by (auto simp: schema_def)
    show "\<exists>cs. db_columns d' t = Some cs \<and> set cols \<subseteq> set cs"
      using migrate_cases [OF m] c [OF t] only created_links [of d] by (auto split: if_splits; blast)
  qed
qed

lemma OpenStore_again:
  assumes "current (db_columns d)" and "is_ok (sq_open sq)" "is_ok (sq_schema sq)" "is_ok (sq_query sq)"
  shows "OpenStore sq d = (d, Ok (db_rows d))"
proof -
  have "hasColumn sq ''links'' ''exit_node'' d"
    using assms by (auto simp: hasColumn_def current_def schema_def split: option.split)
  then show ?thesis
    using assms create_tables_current [OF assms(1)]
    by (auto simp: OpenStore_def migrate_def split: sum.splits)
qed

lemma store_wf_without_exits: "store_wf s \<Longrightarrow> store_wf (without_exits s)"
proof -
  have "link_pair \<circ> (\<lambda>l. l\<lparr>link_ExitNode := []\<rparr>) = link_pair" by (simp add: fun_eq_iff link_pair_def)
  then show "store_wf s \<Longrightarrow> store_wf (without_exits s)"
    by (auto simp: store_wf_def without_exits_def o_def link_ok_def)
qed

text \<open>
  C36: opening upgrades a database and loses nothing. A database of this version or of the one before has
  every column afterwards; its rows are as they were, with no exit on links that had no such column; a
  well-formed store stays one; and every later opening changes nothing. An opening that fails leaves the
  rows alone.
\<close>

theorem open_store_migrates:
  assumes "OpenStore sq d = (d', r)" and "older (db_columns d)"
    and "is_ok (sq_open sq')" "is_ok (sq_schema sq')" "is_ok (sq_query sq')"
  shows "(is_ok r \<longrightarrow> current (db_columns d') \<and> r = Ok (if has_exits d then db_rows d else without_exits (db_rows d))
      \<and> (store_wf (db_rows d) \<longrightarrow> store_wf (db_rows d')) \<and> OpenStore sq' d' = (d', r))
    \<and> (\<not> is_ok r \<longrightarrow> db_rows d' = db_rows d)"
proof (cases r)
  case (Inl e)
  then show ?thesis using OpenStore_failed assms(1) by auto
next
  case (Inr s)
  note o = assms(1) [unfolded Inr]
  have "OpenStore sq' d' = (d', Ok (db_rows d'))"
    by (rule OpenStore_again [OF OpenStore_current [OF o assms(2)] assms(3-5)])
  then show ?thesis
    using OpenStore_rows [OF o] OpenStore_current [OF o assms(2)] store_wf_without_exits Inr by simp
qed

text \<open>A database of the version before exit nodes, with one link.\<close>

definition old_database :: database where
  "old_database = \<lparr>db_columns = [''nodes'' \<mapsto> [''id'', ''name'', ''overlay_ip'', ''cert_serial'', ''created_at'', ''last_seen'', ''revoked''],
       ''links'' \<mapsto> [''id'', ''a'', ''b'', ''created_at'']],
     db_rows = empty_store\<lparr>st_links := [\<lparr>link_ID = ''L'', link_A = ''A'', link_B = ''B'', link_CreatedAt = 1,
       link_ExitNode = ''?''\<rparr>]\<rparr>\<rparr>"

theorem open_store_migrates_witness:
  "\<exists>d'. OpenStore all_ok old_database = (d', Ok (empty_store\<lparr>st_links := [\<lparr>link_ID = ''L'', link_A = ''A'', link_B = ''B'',
       link_CreatedAt = 1, link_ExitNode = []\<rparr>]\<rparr>)) \<and> OpenStore all_ok d' = (d', Ok (db_rows d'))"
proof -
  obtain d' r where o: "OpenStore all_ok old_database = (d', r)" by fastforce
  have ok: "is_ok r"
    using o by (auto simp: OpenStore_def all_ok_def migrate_def hasColumn_def created_tables add_exit_node_def
        old_database_def split: if_splits option.splits)
  have old: "older (db_columns old_database)" by (auto simp: older_def old_database_def schema_def)
  have "\<not> has_exits old_database" by (simp add: has_exits_def old_database_def)
  moreover have "is_ok (sq_open all_ok)" "is_ok (sq_schema all_ok)" "is_ok (sq_query all_ok)" by (simp_all add: all_ok_def)
  moreover note open_store_migrates [OF o old this]
  ultimately have r: "r = Ok (without_exits (db_rows old_database))" and again: "OpenStore all_ok d' = (d', r)"
    using ok by auto
  have "r = Ok (db_rows d')" using OpenStore_rows(1) [OF again [unfolded r]] r by simp
  with o r again show ?thesis by (auto simp: without_exits_def old_database_def)
qed

end
