(* ===== verification/HubIO.thy ===== *)
theory HubIO
  imports Enroll Identity Serve
begin

text \<open>
  The loops of the hub around its handlers: the control listener and the dispatch of a connection
  (\<open>ServeControl\<close>, \<open>handleConn\<close> of \<open>internal/hub/control.go\<close>), the writer loop of the web socket
  (\<open>ws\<close> of \<open>api.go\<close>) and the background loop (\<open>Run\<close> of \<open>hub.go\<close>). What arrives is a list of events.
\<close>

section \<open>The control listener\<close>

text \<open>The TLS configuration: the certificate shown, the authority of client certificates, which are verified when given.\<close>

record control_config =
  cc_Certificate :: certificate
  cc_ClientCA :: certificate

text \<open>\<open>bound\<close> is the outcome of \<open>tls.Listen\<close> on an address: the address that was bound.\<close>

definition start_control ::
  "crypto \<Rightarrow> ca \<Rightarrow> config \<Rightarrow> entropy \<Rightarrow> int \<Rightarrow> (string \<Rightarrow> string result) \<Rightarrow> fs
    \<Rightarrow> fs \<times> (control_config \<times> string) result" where
  "start_control x c cfg en now bound f =
     (case IssueServer x c (cfg_DataDir cfg) (serverHosts cfg) en now f of
        (f1, Inl e) \<Rightarrow> (f1, Err e)
      | (f1, Inr (cp, kp)) \<Rightarrow>
          (case LoadX509KeyPair x cp kp f1 of
             Inl e \<Rightarrow> (f1, Err e)
           | Inr cert \<Rightarrow>
               (case bound (cfg_ControlAddr cfg) of
                  Inl e \<Rightarrow> (f1, Err e)
                | Inr addr \<Rightarrow> (f1, Ok (\<lparr>cc_Certificate = cert, cc_ClientCA = ca_Cert c\<rparr>, addr)))))"

text \<open>\<open>Accept\<close> gives a connection, or an error while the hub is stopping or not; only the first kind ends the loop.\<close>

datatype 'c control_event = Connection 'c | ControlError bool

fun control_loop :: "'c control_event list \<Rightarrow> 'c list \<times> bool" where
  "control_loop [] = ([], False)"
| "control_loop (Connection c # evs) = (let (cs, stopped) = control_loop evs in (c # cs, stopped))"
| "control_loop (ControlError stopping # evs) = (if stopping then ([], True) else control_loop evs)"

section \<open>One connection\<close>

text \<open>
  After the handshake a connection has the verified certificate of its client, or none. \<open>frame\<close> is what
  \<open>handleEnroll\<close> reads from a connection without one.
\<close>

record tls_conn =
  tl_handshake :: bool
  tl_peer :: "certificate option"
  tl_frame :: "envelope result"

datatype conn_end = Dropped | Enrolled "envelope option" | Presented admission

definition handleConn :: "enroll_env \<Rightarrow> tls_conn \<Rightarrow> enroll_state \<Rightarrow> enroll_state \<times> conn_end" where
  "handleConn ev conn st =
     (if \<not> tl_handshake conn then (st, Dropped)
      else (case tl_peer conn of
          None \<Rightarrow> (let (st', reply) = handleEnroll ev (tl_frame conn) st in (st', Enrolled reply))
        | Some cert \<Rightarrow> (st, Presented (handleConn_cert (ct_CN cert) (Text16 (ct_Serial cert)) (snd st)))))"

section \<open>The web socket\<close>

text \<open>
  After the subscription: the reader notices that the client is gone, an event is taken from the channel
  (\<open>WsReady\<close>, with the outcome of writing it). The end of the handler cancels the subscription.
\<close>

datatype ws_event = WsGone | WsReady bool

fun ws_loop :: "nat \<Rightarrow> ws_event list \<Rightarrow> hub \<Rightarrow> event list \<times> hub" where
  "ws_loop ch [] h = ([], h)"
| "ws_loop ch (WsGone # evs) h = ([], Unsubscribe ch h)"
| "ws_loop ch (WsReady written # evs) h =
     (case hb_subs h ch of
        Some (ev # q) \<Rightarrow>
          (if \<not> written then ([], Unsubscribe ch h)
           else (let (out, h') = ws_loop ch evs (h\<lparr>hb_subs := (hb_subs h)(ch \<mapsto> q)\<rparr>) in (ev # out, h')))
      | _ \<Rightarrow> ws_loop ch evs h)"

text \<open>Without interference the panel gets the queued events in order.\<close>

lemma ws_loop_in_order:
  assumes "hb_subs h ch = Some q" and "n \<le> length q"
  shows "fst (ws_loop ch (replicate n (WsReady True)) h) = take n q"
  using assms
proof (induction n arbitrary: h q)
  case (Suc n)
  then obtain ev rest where q: "q = ev # rest" by (cases q) auto
  have "fst (ws_loop ch (replicate n (WsReady True)) (h\<lparr>hb_subs := (hb_subs h)(ch \<mapsto> rest)\<rparr>)) = take n rest"
    using Suc q by (intro Suc.IH) simp_all
  then show ?case using Suc.prems q by (auto simp: case_prod_beta)
qed simp

lemma ws_loop_cancels: "hb_subs (snd (ws_loop ch (evs @ [WsGone]) h)) ch = None"
  by (induction ch evs h rule: ws_loop.induct)
    (auto simp: Unsubscribe_def case_prod_beta split: option.split list.split)

section \<open>The background loop\<close>

text \<open>The times of the ticks until the hub stops.\<close>

datatype tick = Tick int | Stopped

fun hub_Run :: "tick list \<Rightarrow> hub \<Rightarrow> hub" where
  "hub_Run [] h = h"
| "hub_Run (Tick now # ticks) h = hub_Run ticks (gcOfflinePeers now h)"
| "hub_Run (Stopped # ticks) h = h"

text \<open>A connection that cannot be accepted does not end the listener; only the end of the hub does.\<close>

lemma control_loop_survives:
  "control_loop (evs @ ControlError False # evs') = control_loop (evs @ evs')"
  by (induction evs rule: control_loop.induct) auto

end
