(* ===== verification/HubCmd.thy ===== *)
theory HubCmd
  imports Flags Migrate HubIO
begin

text \<open>
  The program \<open>cmd/lightpn-hub/main.go\<close>: reading the configuration with the flags over it, opening the
  store, the start of the hub, and the command that sets the administrator's password. The state is the
  machine's disk: its files, and the database behind each path. The record \<open>hub_machine\<close> holds what the
  environment provides.
\<close>

section \<open>The machine\<close>

record hub_disk =
  hd_fs :: fs
  hd_dbs :: "string \<Rightarrow> database"

text \<open>Standard input is a terminal, with the outcome of reading a password there, or a stream of bytes.\<close>

datatype input = Terminal "string result" | Piped string

record hub_machine =
  hm_config :: "string \<Rightarrow> file_read"
  hm_sqlite :: sqlite
  hm_argon :: argon2
  hm_salt :: bytes
  hm_ulid :: string
  hm_input :: input
  hm_x :: crypto
  hm_entropy :: entropy
  hm_now :: int
  hm_ulids :: "nat \<Rightarrow> string"

section \<open>Configuration and store\<close>

definition override :: "string \<Rightarrow> (string \<Rightarrow> config \<Rightarrow> config) \<Rightarrow> config \<Rightarrow> config" where
  "override v upd cfg = (if v = [] then cfg else upd v cfg)"

definition hub_flags :: flags where
  "hub_flags = [''config'' \<mapsto> FStr [], ''data-dir'' \<mapsto> FStr [], ''control-addr'' \<mapsto> FStr [], ''api-addr'' \<mapsto> FStr [],
     ''public-addr'' \<mapsto> FStr [], ''overlay-cidr'' \<mapsto> FStr []]"

definition read_config :: "hub_machine \<Rightarrow> flags \<Rightarrow> config result" where
  "read_config hm fl = LoadConfig (str_flag fl ''config'') (hm_config hm (str_flag fl ''config''))"

definition loadConfig :: "hub_machine \<Rightarrow> flags \<Rightarrow> config result" where
  "loadConfig hm fl =
     (case read_config hm fl of
        Inl e \<Rightarrow> Err e
      | Inr cfg \<Rightarrow>
          Ok (override (str_flag fl ''overlay-cidr'') (\<lambda>v c. c\<lparr>cfg_OverlayCIDR := v\<rparr>)
             (override (str_flag fl ''public-addr'') (\<lambda>v c. c\<lparr>cfg_PublicAddr := v\<rparr>)
             (override (str_flag fl ''api-addr'') (\<lambda>v c. c\<lparr>cfg_APIAddr := v\<rparr>)
             (override (str_flag fl ''control-addr'') (\<lambda>v c. c\<lparr>cfg_ControlAddr := v\<rparr>)
             (override (str_flag fl ''data-dir'') (\<lambda>v c. c\<lparr>cfg_DataDir := v\<rparr>) cfg))))))"

definition db_path :: "config \<Rightarrow> string" where
  "db_path cfg = Join (cfg_DataDir cfg) ''hub.db''"

definition openStore :: "hub_machine \<Rightarrow> config \<Rightarrow> hub_disk \<Rightarrow> hub_disk \<times> store result" where
  "openStore hm cfg d =
     (if \<not> MkdirAll (cfg_DataDir cfg) (hd_fs d) then (d, Err (ErrMsg ''data dir''))
      else (let (db, r) = OpenStore (hm_sqlite hm) (hd_dbs d (db_path cfg)) in
            (d\<lparr>hd_dbs := (hd_dbs d)(db_path cfg := db)\<rparr>, r)))"

text \<open>A change of the rows of the open store.\<close>

definition save_rows :: "config \<Rightarrow> store \<Rightarrow> hub_disk \<Rightarrow> hub_disk" where
  "save_rows cfg s d =
     d\<lparr>hd_dbs := (hd_dbs d)(db_path cfg := (hd_dbs d (db_path cfg))\<lparr>db_rows := s\<rparr>)\<rparr>"

section \<open>The administrator's password\<close>

text \<open>
  \<open>Scan\<close> and \<open>Text\<close> of \<open>bufio.Scanner\<close>: the first line without its end and without one carriage return
  before it; nothing when there is no input or the line does not fit the buffer of 64 KiB.
\<close>

definition scan_line :: "string \<Rightarrow> string option" where
  "scan_line s =
     (let l = takeWhile (\<lambda>c. c \<noteq> newline) s in
      if s = [] \<or> length l \<ge> 65536 then None
      else Some (if l \<noteq> [] \<and> last l = CHR 0x0D then butlast l else l))"

definition read_password :: "input \<Rightarrow> string result" where
  "read_password i =
     (case i of
        Terminal r \<Rightarrow> (case r of Inl e \<Rightarrow> Err (ErrMsg ''read password'') | Inr p \<Rightarrow> Ok p)
      | Piped s \<Rightarrow> Ok (case scan_line s of None \<Rightarrow> [] | Some l \<Rightarrow> TrimSpace l))"

definition password_flags :: flags where
  "password_flags = [''config'' \<mapsto> FStr [], ''data-dir'' \<mapsto> FStr [], ''username'' \<mapsto> FStr ''admin'']"

definition store_password :: "hub_machine \<Rightarrow> config \<Rightarrow> string \<Rightarrow> string \<Rightarrow> store \<Rightarrow> hub_disk command" where
  "store_password hm cfg username password s d =
     (if length password < 8 then (d, [], Fatal ''password must be at least 8 characters'')
      else (case HashPassword (hm_argon hm) (hm_salt hm) password of
          Inl e \<Rightarrow> (d, [], Fatal ''hash'')
        | Inr hash \<Rightarrow>
            (case SetAdmin (hm_ulid hm) username hash s of
               (s', Inl e) \<Rightarrow> (save_rows cfg s' d, [], Fatal ''save admin'')
             | (s', Inr u) \<Rightarrow> (save_rows cfg s' d, [''admin '' @ username @ '' password set''], Returned))))"

definition setPassword :: "hub_machine \<Rightarrow> string list \<Rightarrow> hub_disk command" where
  "setPassword hm args = with_flags password_flags args
     (\<lambda>fl d.
       case read_config hm fl of
         Inl e \<Rightarrow> fatal ''load config'' d
       | Inr cfg0 \<Rightarrow>
           (let cfg = override (str_flag fl ''data-dir'') (\<lambda>v c. c\<lparr>cfg_DataDir := v\<rparr>) cfg0 in
            case openStore hm cfg d of
              (d1, Inl e) \<Rightarrow> (d1, [], Fatal ''open store'')
            | (d1, Inr s) \<Rightarrow>
                (case read_password (hm_input hm) of
                   Inl e \<Rightarrow> (d1, [], Fatal ''read password'')
                 | Inr password \<Rightarrow> store_password hm cfg (str_flag fl ''username'') password s d1)))"

section \<open>The hub\<close>

text \<open>The start: warnings, and the authority and the hub that serve, or how it ends.\<close>

definition start_hub :: "hub_machine \<Rightarrow> flags \<Rightarrow> hub_disk \<Rightarrow> hub_disk \<times> string list \<times> (ending + ca \<times> hub)" where
  "start_hub hm fl d =
     (case loadConfig hm fl of
        Inl e \<Rightarrow> (d, [], Inl (Fatal ''load config''))
      | Inr cfg \<Rightarrow>
          (case openStore hm cfg d of
             (d1, Inl e) \<Rightarrow> (d1, [], Inl (Fatal ''open store''))
           | (d1, Inr s) \<Rightarrow>
               (let warns = (if HasAdmin s then [] else [''no admin account yet'']);
                    (f, r) = LoadOrCreate (hm_x hm) (cfg_DataDir cfg) (hm_entropy hm) (hm_now hm) (hd_fs d1);
                    d2 = d1\<lparr>hd_fs := f\<rparr>
                in (case r of
                      Inl e \<Rightarrow> (d2, warns, Inl (Fatal ''CA''))
                    | Inr c \<Rightarrow> (d2, warns, Inr (c, NewHub cfg s (hm_ulids hm)))))))"

text \<open>
  The end: the first result of the two servers decides; an error is fatal, otherwise the signal is awaited.
  \<open>None\<close> is a hub that is still running.
\<close>

datatype main_event = ServerEnds "unit result" | Signal

fun serve_end :: "bool \<Rightarrow> main_event list \<Rightarrow> ending option" where
  "serve_end stopped [] = None"
| "serve_end stopped (Signal # evs) = serve_end True evs"
| "serve_end stopped (ServerEnds (Inl e) # evs) = Some (Fatal ''server'')"
| "serve_end stopped (ServerEnds (Inr u) # evs) = (if stopped \<or> Signal \<in> set evs then Some Returned else None)"

definition serve_hub :: "hub_machine \<Rightarrow> main_event list \<Rightarrow> string list \<Rightarrow> hub_disk \<Rightarrow> hub_disk \<times> ending option" where
  "serve_hub hm evs args d =
     (case parse_flags hub_flags args of
        HelpAsked \<Rightarrow> (d, Some (Exited 0))
      | FlagError m \<Rightarrow> (d, Some (Exited 2))
      | Parsed fl \<Rightarrow>
          (case start_hub hm fl d of
             (d', warns, Inl e) \<Rightarrow> (d', Some e)
           | (d', warns, Inr (c, h)) \<Rightarrow> (d', serve_end False evs)))"

text \<open>\<open>main\<close> on the arguments after the program's name.\<close>

definition hub_main :: "hub_machine \<Rightarrow> main_event list \<Rightarrow> string list \<Rightarrow> hub_disk \<Rightarrow> hub_disk \<times> ending option" where
  "hub_main hm evs args d =
     (if take 2 args = [''admin'', ''set-password'']
      then (case setPassword hm (drop 2 args) d of (d', out, e) \<Rightarrow> (d', Some e))
      else serve_hub hm evs args d)"

end
