(* ===== verification/HubCmdProps.thy ===== *)
theory HubCmdProps
  imports HubCmd PkiProps
begin

text \<open>
  What the hub's program guarantees around a start: the password set on the command line is the one the
  panel accepts, and a restart finds the same authority, registry and revocations.
\<close>

section \<open>The store behind a start\<close>

lemma openStore_Ok:
  assumes "openStore hm cfg d = (d', Ok s)"
  obtains db where "OpenStore (hm_sqlite hm) (hd_dbs d (db_path cfg)) = (db, Ok s)"
    and "d' = d\<lparr>hd_dbs := (hd_dbs d)(db_path cfg := db)\<rparr>" and "MkdirAll (cfg_DataDir cfg) (hd_fs d)"
  using assms by (auto simp: openStore_def Let_def case_prod_beta split: if_splits) (metis prod.collapse)

lemma OpenStore_has_exits: "OpenStore sq d = (d', Ok s) \<Longrightarrow> has_exits d'"
  by (erule OpenStore_cases) (auto dest!: migrate_cases simp: has_exits_def created_tables schema_def split: option.splits if_splits)

lemma db_path_dir: "cfg_DataDir cfg' = cfg_DataDir cfg \<Longrightarrow> db_path cfg' = db_path cfg"
  by (simp add: db_path_def)

lemma start_hub_Ok:
  assumes "start_hub hm fl d = (d', warns, Inr (c, h))"
  obtains cfg s d1 f where "loadConfig hm fl = Ok cfg" and "openStore hm cfg d = (d1, Ok s)"
    and "LoadOrCreate (hm_x hm) (cfg_DataDir cfg) (hm_entropy hm) (hm_now hm) (hd_fs d1) = (f, Ok c)"
    and "d' = d1\<lparr>hd_fs := f\<rparr>" and "warns = (if HasAdmin s then [] else [''no admin account yet''])"
    and "h = NewHub cfg s (hm_ulids hm)"
  using assms by (auto simp: start_hub_def Let_def case_prod_beta split: sum.splits prod.splits) (metis prod.collapse)

section \<open>The password\<close>

lemma SetAdmin_stored:
  assumes "SetAdmin ulid username hash s = (s', Ok u)"
  shows "GetAdminHash username s' = Ok hash" and "HasAdmin s'"
proof -
  have "find (\<lambda>r. adm_username r = username) (st_admins s') = Some r \<Longrightarrow> r \<in> set (st_admins s')" for r
    by (auto dest: find_SomeD)
  moreover have "\<exists>r. find (\<lambda>r. adm_username r = username) (st_admins s') = Some r \<and> adm_pw_hash r = hash"
  proof (cases "\<exists>r \<in> set (st_admins s). adm_username r = username")
    case True
    then obtain r where "find (\<lambda>r. adm_username r = username) (st_admins s) = Some r"
      by (cases "find (\<lambda>r. adm_username r = username) (st_admins s)") (auto simp: find_None_iff)
    from find_upd_where_same [OF this, of "\<lambda>r. r\<lparr>adm_pw_hash := hash\<rparr>"] True assms
    show ?thesis by (auto simp: SetAdmin_def)
  next
    case False
    then have "find (\<lambda>r. adm_username r = username) (st_admins s @ [\<lparr>adm_id = ulid, adm_username = username, adm_pw_hash = hash\<rparr>])
        = Some \<lparr>adm_id = ulid, adm_username = username, adm_pw_hash = hash\<rparr>"
      by (induction "st_admins s") (auto simp: find_skip)
    with False assms show ?thesis by (auto simp: SetAdmin_def split: if_splits)
  qed
  ultimately show "GetAdminHash username s' = Ok hash" "HasAdmin s'"
    by (auto simp: GetAdminHash_def HasAdmin_def)
qed

lemma store_password_Returned:
  assumes "store_password hm cfg username p s d = (d', out, Returned)"
  obtains hash s' where "8 \<le> length p" and "HashPassword (hm_argon hm) (hm_salt hm) p = Ok hash"
    and "SetAdmin (hm_ulid hm) username hash s = (s', Ok ())" and "d' = save_rows cfg s' d"
  using assms by (auto simp: store_password_def split: if_splits sum.splits prod.splits)

lemma setPassword_Returned:
  assumes "setPassword hm args d = (d', out, Returned)" and "parse_flags password_flags args = Parsed fl"
  obtains cfg0 cfg d1 s p where "read_config hm fl = Ok cfg0"
    and "cfg = override (str_flag fl ''data-dir'') (\<lambda>v c. c\<lparr>cfg_DataDir := v\<rparr>) cfg0"
    and "openStore hm cfg d = (d1, Ok s)" and "read_password (hm_input hm) = Ok p"
    and "store_password hm cfg (str_flag fl ''username'') p s d1 = (d', out, Returned)"
  using assms by (auto simp: setPassword_def with_flags_def fatal_def Let_def split: sum.splits prod.splits)

text \<open>
  C18: the password set on the command line opens the panel. After \<open>admin set-password\<close> has succeeded, a
  hub started on the same data directory has an administrator, its login accepts the user name with that
  password, and with another one exactly when it gives the same argon2id key; shorter passwords than
  eight bytes were refused.
\<close>

theorem password_set_logs_in:
  assumes set: "setPassword hm args d = (d1, out, Returned)" and fl: "parse_flags password_flags args = Parsed fl"
    and start: "start_hub hm' fl' d1 = (d2, warns, Inr (c, h))"
    and dir: "\<And>cfg0 cfg'. read_config hm fl = Ok cfg0 \<Longrightarrow> loadConfig hm' fl' = Ok cfg' \<Longrightarrow> cfg_DataDir cfg' =
      cfg_DataDir (override (str_flag fl ''data-dir'') (\<lambda>v c. c\<lparr>cfg_DataDir := v\<rparr>) cfg0)"
    and key: "\<And>p. read_password (hm_input hm) = Ok p \<Longrightarrow> \<exists>k. hm_argon hm p (hm_salt hm) 3 65536 2 32 = Ok k \<and> length k = 32"
  shows "warns = [] \<and> (\<exists>p k. read_password (hm_input hm) = Ok p \<and> 8 \<le> length p
    \<and> hm_argon hm p (hm_salt hm) 3 65536 2 32 = Ok k
    \<and> (\<forall>q ip body tok now. Option.bind body dec_login = Some (str_flag fl ''username'', q) \<longrightarrow>
        snd (login (hm_argon hm) ip body tok now (hb_db h) new_panel) =
          map_sum id (\<lambda>k'. if k' = k then ok_true\<lparr>rs_cookie := Some (tok, sessionTTL div 1000000000)\<rparr>
            else httpErr 401 ''invalid credentials'') (hm_argon hm q (hm_salt hm) 3 65536 2 32)))"
proof -
  obtain cfg0 cfg d0 s p where rd: "read_config hm fl = Ok cfg0"
    and cfg: "cfg = override (str_flag fl ''data-dir'') (\<lambda>v c. c\<lparr>cfg_DataDir := v\<rparr>) cfg0"
    and o: "openStore hm cfg d = (d0, Ok s)" and p: "read_password (hm_input hm) = Ok p"
    and st: "store_password hm cfg (str_flag fl ''username'') p s d0 = (d1, out, Returned)"
    by (rule setPassword_Returned [OF set fl])
  obtain hash s' where len: "8 \<le> length p" and hash: "HashPassword (hm_argon hm) (hm_salt hm) p = Ok hash"
    and adm: "SetAdmin (hm_ulid hm) (str_flag fl ''username'') hash s = (s', Ok ())" and d1: "d1 = save_rows cfg s' d0"
    by (rule store_password_Returned [OF st])
  obtain k where k: "hm_argon hm p (hm_salt hm) 3 65536 2 32 = Ok k" "length k = 32" using key [OF p] by blast
  obtain cfg' t d3 f where lc: "loadConfig hm' fl' = Ok cfg'" and o': "openStore hm' cfg' d1 = (d3, Ok t)"
    and warns: "warns = (if HasAdmin t then [] else [''no admin account yet''])" and h: "h = NewHub cfg' t (hm_ulids hm')"
    using start by (rule start_hub_Ok)
  have path: "db_path cfg' = db_path cfg" using dir [OF rd lc] cfg by (intro db_path_dir) simp
  obtain db where db: "OpenStore (hm_sqlite hm) (hd_dbs d (db_path cfg)) = (db, Ok s)" and d0: "d0 = d\<lparr>hd_dbs := (hd_dbs d)(db_path cfg := db)\<rparr>"
    using o by (rule openStore_Ok)
  obtain db' where db': "OpenStore (hm_sqlite hm') (hd_dbs d1 (db_path cfg')) = (db', Ok t)"
    using o' by (rule openStore_Ok)
  have "hd_dbs d1 (db_path cfg') = db\<lparr>db_rows := s'\<rparr>" using path d1 d0 by (simp add: save_rows_def)
  moreover have "has_exits (db\<lparr>db_rows := s'\<rparr>)" using OpenStore_has_exits [OF db] by (simp add: has_exits_def)
  ultimately have t: "t = s'" using OpenStore_rows [OF db'] by simp
  note stored = SetAdmin_stored [OF adm]
  obtain phc where phc: "HashPassword (hm_argon hm) (hm_salt hm) p = Ok phc"
    "\<forall>q. VerifyPassword (hm_argon hm) q phc = map_sum id (\<lambda>got. got = k) (hm_argon hm q (hm_salt hm) 3 65536 2 32)"
    using VerifyPassword_HashPassword [where argon = "hm_argon hm" and pw = p and salt = "hm_salt hm", OF k] by blast
  have db_h: "hb_db h = s'" using h t by (simp add: NewHub_def)
  have "snd (login (hm_argon hm) ip body tok now (hb_db h) new_panel) =
          map_sum id (\<lambda>k'. if k' = k then ok_true\<lparr>rs_cookie := Some (tok, sessionTTL div 1000000000)\<rparr>
            else httpErr 401 ''invalid credentials'') (hm_argon hm q (hm_salt hm) 3 65536 2 32)"
    if "Option.bind body dec_login = Some (str_flag fl ''username'', q)" for q ip body tok now
    using that stored(1) phc hash
    by (cases "hm_argon hm q (hm_salt hm) 3 65536 2 32")
      (auto simp: login_def new_panel_def loginAllowed_def no_tries_def check_credentials_def db_h Let_def split: bool.splits)
  then show ?thesis using p len k(1) warns stored(2) t by auto
qed

section \<open>A restart\<close>

lemma writePEM_denied: "fs_denied (fst (writePEM x path ty der mode f)) = fs_denied f"
  by (simp add: writePEM_def WriteFile_def Let_def case_prod_beta split: sum.split)

lemma LoadOrCreate_denied: "LoadOrCreate x dir en now f = (f', r) \<Longrightarrow> fs_denied f' = fs_denied f"
  by (auto simp: LoadOrCreate_def create_ca_def writePEM_def WriteFile_def Let_def case_prod_beta
      split: sum.splits if_splits)

text \<open>
  C17: a restart is the same hub. Once the hub has started, any later start with the same configuration,
  whatever rows the hub left in its database and whatever the clock and the random source say, changes
  nothing on the disk and has the same authority, so every certificate it issued still verifies, with a
  hub built from exactly the rows that were left: what only memory held is gone, nothing else.
\<close>

theorem restart_same_hub:
  assumes start: "start_hub hm fl d = (d1, warns, Inr (c, h))"
    and cfg: "loadConfig hm fl = Ok cfg" "loadConfig hm' fl' = Ok cfg"
    and laws: "crypto_laws (hm_x hm)" "hm_x hm' = hm_x hm"
    and sql: "is_ok (sq_open (hm_sqlite hm'))" "is_ok (sq_schema (hm_sqlite hm'))" "is_ok (sq_query (hm_sqlite hm'))"
    and old: "older (db_columns (hd_dbs d (db_path cfg)))" and vis: "fs_hidden (hd_fs d) = {}"
  shows "start_hub hm' fl' (save_rows cfg s d1) = (save_rows cfg s d1,
    if HasAdmin s then [] else [''no admin account yet''], Inr (c, NewHub cfg s (hm_ulids hm')))"
proof -
  obtain t d0 f where o: "openStore hm cfg d = (d0, Ok t)"
    and ca: "LoadOrCreate (hm_x hm) (cfg_DataDir cfg) (hm_entropy hm) (hm_now hm) (hd_fs d0) = (f, Ok c)"
    and d1: "d1 = d0\<lparr>hd_fs := f\<rparr>"
    using start cfg(1) by (auto elim!: start_hub_Ok)
  obtain db where db: "OpenStore (hm_sqlite hm) (hd_dbs d (db_path cfg)) = (db, Ok t)"
    and d0: "d0 = d\<lparr>hd_dbs := (hd_dbs d)(db_path cfg := db)\<rparr>" and dir: "MkdirAll (cfg_DataDir cfg) (hd_fs d)"
    using o by (rule openStore_Ok)
  let ?db = "db\<lparr>db_rows := s\<rparr>" and ?d = "save_rows cfg s d1"
  have "current (db_columns ?db)" using OpenStore_current [OF db old] by simp
  from OpenStore_again [OF this sql] have again: "OpenStore (hm_sqlite hm') ?db = (?db, Ok s)" by simp
  have at: "hd_dbs ?d (db_path cfg) = ?db" and fs: "hd_fs ?d = f" by (simp_all add: save_rows_def d1 d0)
  have "fs_denied f = fs_denied (hd_fs d)" using LoadOrCreate_denied [OF ca] d0 by simp
  then have mk: "MkdirAll (cfg_DataDir cfg) (hd_fs ?d)" using dir fs by (simp add: MkdirAll_def)
  have "?d\<lparr>hd_dbs := (hd_dbs ?d)(db_path cfg := ?db)\<rparr> = ?d" using at by (simp add: fun_upd_idem)
  then have op: "openStore hm' cfg ?d = (?d, Ok s)" using mk by (simp add: openStore_def at again)
  have "hd_fs d0 = hd_fs d" by (simp add: d0)
  then have "LoadOrCreate (hm_x hm') (cfg_DataDir cfg) (hm_entropy hm') (hm_now hm') f = (f, Ok c)"
    using LoadOrCreate_again [OF laws(1) ca] vis laws(2) by simp
  moreover have "?d\<lparr>hd_fs := f\<rparr> = ?d" by (simp add: save_rows_def d1)
  ultimately show ?thesis by (simp add: start_hub_def cfg(2) op fs)
qed

section \<open>A first start\<close>

definition demo_hm :: hub_machine where
  "demo_hm = \<lparr>hm_config = (\<lambda>p. FileMissing), hm_sqlite = all_ok, hm_argon = demo_argon, hm_salt = [1, 2], hm_ulid = ''U'',
     hm_input = Piped (''secretpw'' @ [newline]), hm_x = demo_crypto [((demo_ca_tpl, ''pub''), ''der'')],
     hm_entropy = demo_entropy, hm_now = 10000, hm_ulids = (\<lambda>k. ''N'')\<rparr>"

definition demo_disk :: hub_disk where
  "demo_disk = \<lparr>hd_fs = demo_fs, hd_dbs = (\<lambda>p. new_database)\<rparr>"

definition demo_config :: config where
  "demo_config = Defaults\<lparr>cfg_DataDir := ''d''\<rparr>"

lemma demo_password_flags:
  "parse_flags password_flags (written [(''data-dir'', ''d'')]) = Parsed (password_flags(''data-dir'' \<mapsto> FStr ''d''))"
  by (subst parse_written) (auto simp: plain_name_def password_flags_def fun_eq_iff)

lemma demo_password: "read_password (hm_input demo_hm) = Ok ''secretpw''"
proof -
  have "scan_line (''secretpw'' @ [newline]) = Some ''secretpw''" by (simp add: scan_line_def newline_def)
  moreover have "TrimSpace ''secretpw'' = ''secretpw''" by code_simp
  ultimately show ?thesis by (simp add: demo_hm_def read_password_def)
qed

lemma demo_read_config: "read_config demo_hm fl = Ok Defaults"
  by (simp add: read_config_def LoadConfig_def demo_hm_def)

lemma demo_loadConfig: "loadConfig demo_hm (hub_flags(''data-dir'' \<mapsto> FStr ''d'')) = Ok demo_config"
  by (simp add: loadConfig_def demo_read_config str_flag_def hub_flags_def override_def demo_config_def)

lemma opens_new:
  assumes "current (db_columns db) \<or> db = new_database"
  shows "\<exists>db'. OpenStore all_ok db = (db', Ok (db_rows db)) \<and> current (db_columns db')"
proof (cases "db = new_database")
  case True
  have "older (db_columns new_database)" by (auto simp: older_def new_database_def)
  moreover have "has_exits new_database" by (simp add: has_exits_def new_database_def)
  moreover obtain db' r where o: "OpenStore all_ok new_database = (db', r)" by fastforce
  moreover have "is_ok r"
    using o created_links [of new_database] calculation(2)
    by (auto simp: OpenStore_def all_ok_def migrate_def hasColumn_def split: if_splits option.splits)
  ultimately obtain s where "OpenStore all_ok new_database = (db', Ok s)" "older (db_columns new_database)"
    "has_exits new_database" by (cases r) auto
  then show ?thesis using True OpenStore_rows [of all_ok new_database db' s] OpenStore_current [of all_ok new_database db' s]
    by auto
next
  case False
  then have "current (db_columns db)" using assms by simp
  moreover have "OpenStore all_ok db = (db, Ok (db_rows db))"
    by (rule OpenStore_again [OF calculation]) (simp_all add: all_ok_def)
  ultimately show ?thesis by blast
qed

lemma demo_hm_sels [simp]:
  "hm_sqlite demo_hm = all_ok" "hm_argon demo_hm = demo_argon" "hm_salt demo_hm = [1, 2]"
  "hm_x demo_hm = demo_crypto [((demo_ca_tpl, ''pub''), ''der'')]" "hm_entropy demo_hm = demo_entropy" "hm_now demo_hm = 10000"
  by (simp_all add: demo_hm_def)

lemma demo_hub_open:
  assumes "hd_fs d = demo_fs" and "current (db_columns (hd_dbs d ''d/hub.db'')) \<or> hd_dbs d ''d/hub.db'' = new_database"
  shows "\<exists>db. openStore demo_hm demo_config d = (d\<lparr>hd_dbs := (hd_dbs d)(''d/hub.db'' := db)\<rparr>, Ok (db_rows (hd_dbs d ''d/hub.db'')))
    \<and> current (db_columns db)"
  using opens_new [OF assms(2)] assms(1)
  by (auto simp: openStore_def demo_config_def db_path_def Join_def MkdirAll_def demo_fs_def)

lemma demo_started:
  assumes "hd_fs d = demo_fs" and "current (db_columns (hd_dbs d ''d/hub.db'')) \<or> hd_dbs d ''d/hub.db'' = new_database"
  shows "\<exists>d' warns. start_hub demo_hm (hub_flags(''data-dir'' \<mapsto> FStr ''d'')) d
    = (d', warns, Inr (demo_ca, NewHub demo_config (db_rows (hd_dbs d ''d/hub.db'')) (hm_ulids demo_hm)))"
proof -
  obtain f where "LoadOrCreate (demo_crypto [((demo_ca_tpl, ''pub''), ''der'')]) ''d'' demo_entropy 10000 demo_fs = (f, Ok demo_ca)"
    using demo_ca_created by (metis prod.collapse)
  moreover have "cfg_DataDir demo_config = ''d''" by (simp add: demo_config_def)
  ultimately show ?thesis using demo_hub_open [OF assms] assms(1)
    by (auto simp: start_hub_def demo_loadConfig)
qed

theorem password_set_logs_in_witness:
  "\<exists>d1 d2 out h. setPassword demo_hm (written [(''data-dir'', ''d'')]) demo_disk = (d1, out, Returned)
    \<and> start_hub demo_hm (hub_flags(''data-dir'' \<mapsto> FStr ''d'')) d1 = (d2, [], Inr (demo_ca, h))
    \<and> snd (login demo_argon ''ip'' (Some (JObj [(''username'', JStr ''admin''), (''password'', JStr ''secretpw'')])) ''t'' 0 (hb_db h) new_panel)
        = Ok (ok_true\<lparr>rs_cookie := Some (''t'', sessionTTL div 1000000000)\<rparr>)"
proof -
  obtain db where o: "openStore demo_hm demo_config demo_disk = (demo_disk\<lparr>hd_dbs := (hd_dbs demo_disk)(''d/hub.db'' := db)\<rparr>, Ok empty_store)"
    and cur: "current (db_columns db)"
    using demo_hub_open [of demo_disk] by (auto simp: demo_disk_def new_database_def)
  let ?d0 = "demo_disk\<lparr>hd_dbs := (hd_dbs demo_disk)(''d/hub.db'' := db)\<rparr>"
  have cfg: "override ''d'' (\<lambda>v c. c\<lparr>cfg_DataDir := v\<rparr>) Defaults = demo_config" by (simp add: override_def demo_config_def)
  have sf: "str_flag (password_flags(''data-dir'' \<mapsto> FStr ''d'')) ''data-dir'' = ''d''"
    "str_flag (password_flags(''data-dir'' \<mapsto> FStr ''d'')) ''username'' = ''admin''"
    by (simp_all add: str_flag_def password_flags_def)
  obtain hash where hash: "HashPassword demo_argon [1, 2] ''secretpw'' = Ok hash" by (simp add: HashPassword_def demo_argon_def)
  define s where "s = empty_store\<lparr>st_admins := [\<lparr>adm_id = hm_ulid demo_hm, adm_username = ''admin'', adm_pw_hash = hash\<rparr>]\<rparr>"
  have set: "setPassword demo_hm (written [(''data-dir'', ''d'')]) demo_disk
      = (save_rows demo_config s ?d0, [''admin admin password set''], Returned)"
    using o by (simp add: setPassword_def with_flags_def demo_password_flags demo_read_config sf cfg demo_password
        store_password_def hash SetAdmin_def empty_store_def s_def Let_def)
  let ?d1 = "save_rows demo_config s ?d0"
  have "hd_fs ?d1 = demo_fs" "current (db_columns (hd_dbs ?d1 ''d/hub.db''))"
    using cur by (simp_all add: save_rows_def demo_disk_def db_path_def demo_config_def Join_def)
  then obtain d2 warns h where st: "start_hub demo_hm (hub_flags(''data-dir'' \<mapsto> FStr ''d'')) ?d1 = (d2, warns, Inr (demo_ca, h))"
    using demo_started by blast
  have dir: "cfg_DataDir cfg' = cfg_DataDir (override (str_flag (password_flags(''data-dir'' \<mapsto> FStr ''d'')) ''data-dir'')
      (\<lambda>v c. c\<lparr>cfg_DataDir := v\<rparr>) cfg0)"
    if "read_config demo_hm (password_flags(''data-dir'' \<mapsto> FStr ''d'')) = Ok cfg0"
      and "loadConfig demo_hm (hub_flags(''data-dir'' \<mapsto> FStr ''d'')) = Ok cfg'" for cfg0 cfg'
    using that by (simp add: demo_read_config demo_loadConfig sf override_def demo_config_def)
  have key: "\<exists>k. hm_argon demo_hm p (hm_salt demo_hm) 3 65536 2 32 = Ok k \<and> length k = 32" for p
    by (simp add: demo_argon_def)
  note main = password_set_logs_in [OF set demo_password_flags st dir key]
  then obtain p k where w: "warns = []" and p: "read_password (hm_input demo_hm) = Ok p"
    and k: "demo_argon p [1, 2] 3 65536 2 32 = Ok k"
    and all: "\<And>q ip body tok now. Option.bind body dec_login = Some (''admin'', q) \<Longrightarrow>
        snd (login demo_argon ip body tok now (hb_db h) new_panel) =
          map_sum id (\<lambda>k'. if k' = k then ok_true\<lparr>rs_cookie := Some (tok, sessionTTL div 1000000000)\<rparr>
            else httpErr 401 ''invalid credentials'') (demo_argon q [1, 2] 3 65536 2 32)"
    unfolding demo_hm_sels sf by blast
  have "p = ''secretpw''" using p demo_password by simp
  moreover have "Option.bind (Some (JObj [(''username'', JStr ''admin''), (''password'', JStr ''secretpw'')])) dec_login = Some (''admin'', ''secretpw'')"
    by (simp add: dec_login_def dec_defs codec_simps)
  note all [OF this]
  ultimately have "snd (login demo_argon ''ip'' (Some (JObj [(''username'', JStr ''admin''), (''password'', JStr ''secretpw'')])) ''t'' 0 (hb_db h) new_panel)
        = Ok (ok_true\<lparr>rs_cookie := Some (''t'', sessionTTL div 1000000000)\<rparr>)"
    using k by simp
  with set st w show ?thesis by blast
qed

theorem restart_same_hub_witness:
  "\<exists>d1 h. start_hub demo_hm (hub_flags(''data-dir'' \<mapsto> FStr ''d'')) demo_disk = (d1, [''no admin account yet''], Inr (demo_ca, h))
    \<and> start_hub (demo_hm\<lparr>hm_now := 20000\<rparr>) (hub_flags(''data-dir'' \<mapsto> FStr ''d'')) (save_rows demo_config empty_store d1)
        = (save_rows demo_config empty_store d1, [''no admin account yet''], Inr (demo_ca, NewHub demo_config empty_store (hm_ulids demo_hm)))"
proof -
  obtain d1 warns h where st: "start_hub demo_hm (hub_flags(''data-dir'' \<mapsto> FStr ''d'')) demo_disk = (d1, warns, Inr (demo_ca, h))"
    using demo_started [of demo_disk] by (auto simp: demo_disk_def)
  have cfg: "loadConfig (demo_hm\<lparr>hm_now := 20000\<rparr>) (hub_flags(''data-dir'' \<mapsto> FStr ''d'')) = Ok demo_config"
    using demo_loadConfig by (simp add: loadConfig_def read_config_def)
  have old: "older (db_columns (hd_dbs demo_disk (db_path demo_config)))"
    by (auto simp: older_def new_database_def demo_disk_def)
  have "crypto_laws (hm_x demo_hm)" using demo_crypto_laws by simp
  from restart_same_hub [OF st demo_loadConfig cfg this _ _ _ _ old, of empty_store]
  have again: "start_hub (demo_hm\<lparr>hm_now := 20000\<rparr>) (hub_flags(''data-dir'' \<mapsto> FStr ''d'')) (save_rows demo_config empty_store d1)
        = (save_rows demo_config empty_store d1, [''no admin account yet''], Inr (demo_ca, NewHub demo_config empty_store (hm_ulids demo_hm)))"
    by (simp add: all_ok_def HasAdmin_def empty_store_def demo_disk_def demo_fs_def demo_hm_def)
  obtain s where "warns = (if HasAdmin s then [] else [''no admin account yet''])"
    and "\<exists>d0. openStore demo_hm demo_config demo_disk = (d0, Ok s)"
    using st by (auto elim!: start_hub_Ok simp: demo_loadConfig)
  moreover have "\<exists>d0. openStore demo_hm demo_config demo_disk = (d0, Ok empty_store)"
    using demo_hub_open [of demo_disk] by (auto simp: demo_disk_def new_database_def)
  ultimately have "warns = [''no admin account yet'']" by (auto simp: HasAdmin_def empty_store_def)
  with st again show ?thesis by blast
qed

end
