(* ===== verification/Spec2Isabelle.thy ===== *)
theory Spec2Isabelle
  imports StoreProps RingProps ProtoProps AckProps Races Serve EnrollProps WGProps SocksProps SvcProps ToolConfProps
    AgentProps EndToEnd AgentCmdProps HubCmdProps
begin

text \<open>
  A model of LightPN, a WireGuard orchestrator in Go: one hub that admits nodes, hands out overlay
  addresses and keys and watches links, and an agent on every node that drives the kernel.

  Parts and how they interact. An agent enrolls once with a token (\<open>internal/agent/enroll.go\<close> against
  \<open>handleEnroll\<close> in \<open>internal/hub/control.go\<close>); the hub consumes the token, allocates an address,
  signs the certificate request (\<open>internal/pki\<close>) and stores the node (\<open>internal/hub/store.go\<close>). From
  then on the agent keeps a session (\<open>internal/agent/agent.go\<close> against \<open>runSession\<close>): it registers its
  ephemeral key, reconciles the peers of the answer, and applies and acknowledges the peer frames the hub
  pushes when links are created, changed or removed (\<open>internal/hub/hub.go\<close>). Heartbeats fill the
  metrics ring (\<open>internal/hub/ring.go\<close>). An administrator works through the HTTP interface
  (\<open>internal/hub/api.go\<close>), which can also ask an agent for its tool configuration or for a service
  action; both travel sealed under a key that only the browser and the agent have.

  Theories and what they model, in the order of their imports.
  \<^item> \<open>Prelude\<close>: Go errors as values (\<open>go_error\<close>, \<open>result\<close>), tables as lists of rows, decimal
    text, the collections \<open>row_simps\<close>, \<open>wf_intros\<close>, \<open>frame_simps\<close>, and the locale
    \<open>invariant_machine\<close> of sequences of operations that keep an invariant.
  \<^item> \<open>Netip\<close>, \<open>Ipam\<close>: the parts of \<open>net/netip\<close> in use on 32-bit words, and \<open>AllocateIP\<close>. The
    search ends because the address grows up to its maximum (a \<open>termination\<close> proof).
  \<^item> \<open>Store\<close>, \<open>StoreWf\<close>, \<open>StoreRun\<close>, \<open>StoreProps\<close>: every method of \<open>store.go\<close> that touches rows, the
    schema invariant, and runs of store operations.
  \<^item> \<open>Json\<close>, \<open>Proto\<close>, \<open>ProtoConf\<close>, \<open>ProtoProps\<close>: JSON values, the payload codecs, envelope and
    framing of \<open>internal/proto/proto.go\<close>; frame lengths are 32-bit words.
  \<^item> \<open>GoJson\<close>: the text form of \<open>encoding/json\<close>: strings rune by rune with their escapes, a lexer and a
    parser for values, the two printers, and the proof that what was printed is read back.
  \<^item> \<open>Config\<close>, \<open>Ring\<close>, \<open>RingProps\<close>: configuration and metrics ring.
  \<^item> \<open>Hub\<close>, \<open>HubHandlers\<close>: \<open>hub.go\<close> and the session part of \<open>control.go\<close>, one definition per
    handler on the record \<open>hub\<close>; sessions live in a heap, so a session that was replaced is still an
    object. \<open>HubFrame\<close> holds what each operation leaves alone, \<open>HubRun\<close> the hub as an inductive step
    relation, with connections and registrations in flight between two sections under the lock, and
    its reachable states; \<open>HubProps\<close>, \<open>LinkProps\<close>, \<open>AckProps\<close> the properties; \<open>Races\<close> two
    interleavings the code does not repair.
  \<^item> \<open>GoText\<close>: the text functions of the Go library in use (\<open>TrimSpace\<close>, \<open>Atoi\<close>, \<open>SplitHostPort\<close>,
    \<open>ParseIP\<close>).
  \<^item> \<open>RateLimit\<close>, \<open>Base64\<close>, \<open>Auth\<close>, \<open>Api\<close>, \<open>Serve\<close>: the rate limiters, password hashes and login
    sessions, the handlers of the panel and its router. \<open>HubIO\<close>: the loops around them (control
    listener, web socket, background), as functions on the list of what arrives.
  \<^item> \<open>Migrate\<close>: opening and upgrading the database, on its catalog and rows.
  \<^item> \<open>Files\<close>, \<open>Pki\<close>, \<open>PkiProps\<close>: files with refusals, the certificate authority. \<open>Enroll\<close>,
    \<open>Identity\<close>, \<open>EnrollProps\<close>: both ends of the enrollment.
  \<^item> \<open>WG\<close>, \<open>WGProps\<close>: the two WireGuard managers (\<open>wg_linux.go\<close>, \<open>wg_stub.go\<close>) and the interface they
    share, the locale \<open>wg_manager\<close> over the abstract table from node to key, interpreted for both.
  \<^item> \<open>Socks\<close>, \<open>SocksProps\<close>: the exit proxy of \<open>socks.go\<close>.
  \<^item> \<open>Svc\<close>, \<open>ViewKey\<close>, \<open>SvcProps\<close>: service registry and managers, the view key, sealed commands and
    their replay cache; the locale \<open>svc_control\<close> is interpreted for both managers.
  \<^item> \<open>ToolConf\<close>, \<open>ToolConfProps\<close>: the collection of configuration files.
  \<^item> \<open>Agent\<close>, \<open>AgentProps\<close>: the agent as a process: registration, dispatch of every frame type,
    sessions, and \<open>Run\<close>, whose endless loop is a \<open>partial_function\<close> with \<open>None\<close> for a run that never
    returns; \<open>run_rounds\<close> is its first \<open>n\<close> rounds, for what holds of endless runs. \<open>AgentIO\<close>: its collectors, heartbeats, accept loop and relay. \<open>Together\<close>, \<open>EndToEnd\<close>: hub
    and agent composed, up to requests of the panel and new keys that reach the kernels of the peers.
  \<^item> \<open>Flags\<close>, \<open>AgentCmd\<close>, \<open>AgentCmdProps\<close>, \<open>HubCmd\<close>, \<open>HubCmdProps\<close>: package \<open>flag\<close>, and the two programs
    under \<open>cmd\<close> with every sub-command: functions of the arguments and the disk to the disk, the lines
    printed and the exit status.

  What the lemmas show. Invariants over all reachable states of the hub (one open session per node,
  endpoints observed and never self-reported, deleted nodes stay out); the functional behaviour of
  registration, pushes, acknowledgements, deletion, enrollment, allocation and framing, errors
  included; refinement of the table of peers by the Linux manager and by a whole agent session, and its
  equivalence with the stub; round trips of frames, payloads and password hashes; bounds of rates,
  back-off and sizes; when \<open>Run\<close> returns; what leaves the agent only sealed, and that a sealed command
  runs once; and what the commands leave behind: an identity that is obtained once, a kicked daemon that
  stays down, a hub that comes back as itself, a password that opens the panel. Some lemmas show where the
  code does not do what it means to: \<open>Ingest_panics_iff\<close>, \<open>stale_acks_confirm\<close>, \<open>ipv6_endpoint_refused\<close>, \<open>replay_with_newline\<close>, \<open>half_created_ca\<close>, \<open>dir_is_persisted\<close>, \<open>stub_forgets_newer_key\<close>,
  \<open>restart_drops_tunnels\<close>, \<open>localhost_is_advertised\<close>, \<open>wrong_port_is_advertised\<close>,
  \<open>heartbeat_flag_unchecked\<close> and the theory \<open>Races\<close>.

  Conventions and bounds. Strings are byte strings. Times are \<open>int\<close>; Go's 64-bit integers are
  \<open>int\<close> with \<open>in_int64\<close> or \<open>wrap64\<close> where a value is read from outside or multiplied, byte counters are
  \<open>64 word\<close>, \<open>float64\<close> is \<open>rat\<close>. Libraries are arguments or records of functions (\<open>crypto\<close>, \<open>kernel\<close>,
  \<open>sealing\<close>, \<open>tool_os\<close>, \<open>argon2\<close>, \<open>marshal\<close>, \<open>unmarshal\<close>); what is assumed of them is stated in
  \<open>crypto_laws\<close>, \<open>kernel_laws\<close>, \<open>text_laws\<close> and \<open>view_laws\<close>, each with a concrete instance in an example;
  the last two hold of the printer and parser of \<open>GoJson\<close> (\<open>go_text_laws\<close>, \<open>go_view_laws\<close>). Random
  inputs, clocks and the answers of the network are arguments. The only fuel is the counter of
  \<open>bind_loop\<close>, the fifty attempts of the source; the number of rounds of \<open>run_rounds\<close> is quantified over. The order in which Go ranges over a map is an argument
  where it matters.

  Not modelled: TLS itself (a connection has the outcome of its handshake), dialing, deadlines and the
  time a copy takes, SQLite beyond the effect of the statements, the start of the HTTP listener and the
  embedded static files, log lines, and \<open>warmupCPU\<close>, whose result is discarded. A goroutine is not an
  object: what it hands to the code is an event in a list. Locks are not objects: a definition is one
  section under its lock, and \<open>HubRun\<close> interleaves the sections. A failing schema statement leaves the
  whole catalog as it was, one reading of the clock serves a whole login request, the answers of the SOCKS
  server to its client are always written, and an IPv6 overlay network is an error of \<open>AllocateIP\<close> where
  the code panics.
\<close>

end
